(* ===== verification/Prelude.thy ===== *)
theory Prelude
  imports Main "HOL-Library.State_Monad" "HOL-Library.Finite_Map"
begin

text \<open>
  What every component of the model shares: Go error values, the effect monad in which the
  operator's handlers run, and the rules by which effects are reasoned about.

  A handler of the operator talks to the Kubernetes API, to Aerospike nodes, to cloud storage
  and to the clock. All of these live outside the repository. A run is therefore a function
  of the \<^emph>\<open>history\<close> of the calls made so far: the state is the list of calls (oldest
  first), and the answer to a call is a parameter that may depend on the whole history. This
  makes the environment arbitrary: it may fail, change under the handler's feet, or serve
  stale caches.
\<close>

section \<open>Collections of facts\<close>

named_theorems emits_intro \<open>which calls a piece of code may make\<close>
named_theorems post_intro \<open>what holds of the result and the history after a piece of code\<close>
named_theorems avoids_intro \<open>which error a piece of code never returns\<close>
named_theorems go_defs \<open>definitions of the Go standard library functions\<close>

section \<open>Go error values\<close>

text \<open>
  An error of the Kubernetes API is told apart by \<open>IsNotFound\<close> and \<open>IsAlreadyExists\<close>
  only. \<open>Errorf\<close> carries the format string and its arguments instead of the rendered text.
  The two sentinels are those of \<^verbatim>\<open>pkg/errors/reconciler.go\<close>. A nil dereference is
  not an error value in Go but a run-time panic; it is the value \<open>NilPanic\<close> here, which no
  handler of the code intercepts.
\<close>

datatype api_err = NotFound | AlreadyExists | OtherApi string

datatype farg = AStr string | AInt int

datatype gerr =
    ApiErr api_err
  | ClientErr string
  | Errorf string "farg list"
  | PodUpgradeFailed
  | ClusterBackupFailed
  | NilPanic

fun IsNotFound :: "gerr \<Rightarrow> bool" where
  "IsNotFound (ApiErr e) = (e = NotFound)"
| "IsNotFound _ = False"

fun IsAlreadyExists :: "gerr \<Rightarrow> bool" where
  "IsAlreadyExists (ApiErr e) = (e = AlreadyExists)"
| "IsAlreadyExists _ = False"

section \<open>The effect monad\<close>

text \<open>
  \<open>('e, 'a) io\<close> is a computation with history of calls of type \<open>'e\<close>.
  \<open>bindE\<close> is the idiom \<open>x, err := m; if err != nil { return err }; f(x)\<close>.
\<close>

type_synonym ('e, 'a) io = "('e list, 'a) state"

abbreviation ret :: "'a \<Rightarrow> ('e, 'a) io" where
  "ret \<equiv> State_Monad.return"

abbreviation ok :: "'a \<Rightarrow> ('e, 'x + 'a) io" where
  "ok x \<equiv> State_Monad.return (Inr x)"

abbreviation fail :: "'x \<Rightarrow> ('e, 'x + 'a) io" where
  "fail e \<equiv> State_Monad.return (Inl e)"

definition bindE :: "('e, 'x + 'a) io \<Rightarrow> ('a \<Rightarrow> ('e, 'x + 'b) io) \<Rightarrow> ('e, 'x + 'b) io" where
  "bindE m f = State_Monad.bind m (\<lambda>r. case r of Inl e \<Rightarrow> fail e | Inr x \<Rightarrow> f x)"

text \<open>A pure step that may fail (\<open>x, err := f(); if err != nil { return err }\<close>).\<close>

definition liftE :: "'x + 'a \<Rightarrow> ('a \<Rightarrow> ('e, 'x + 'b) io) \<Rightarrow> ('e, 'x + 'b) io" where
  "liftE r f = (case r of Inl e \<Rightarrow> fail e | Inr x \<Rightarrow> f x)"

text \<open>One call: the answer depends on the history, the call is appended to it.\<close>

definition call :: "('a \<Rightarrow> 'e) \<Rightarrow> ('e list \<Rightarrow> 'a) \<Rightarrow> ('e, 'a) io" where
  "call ev f = State (\<lambda>tr. (f tr, tr @ [ev (f tr)]))"

text \<open>\<open>for _, x := range xs { if err := f(x); err != nil { return err } }\<close>\<close>

fun forE :: "'a list \<Rightarrow> ('a \<Rightarrow> ('e, 'x + unit) io) \<Rightarrow> ('e, 'x + unit) io" where
  "forE [] f = ok ()"
| "forE (x # xs) f = bindE (f x) (\<lambda>_. forE xs f)"

lemma run_call [simp]: "run_state (call ev f) tr = (f tr, tr @ [ev (f tr)])"
  by (simp add: call_def)

lemma run_bindE [simp]:
  "run_state (bindE m f) tr =
     (case run_state m tr of (Inl e, tr') \<Rightarrow> (Inl e, tr') | (Inr x, tr') \<Rightarrow> run_state (f x) tr')"
  by (simp add: bindE_def split: prod.splits sum.splits)

lemma run_liftE [simp]:
  "run_state (liftE r f) tr = (case r of Inl e \<Rightarrow> (Inl e, tr) | Inr x \<Rightarrow> run_state (f x) tr)"
  by (simp add: liftE_def split: sum.splits)

section \<open>Which calls a computation makes\<close>

text \<open>
  \<open>emits P m\<close>: whatever the environment answers, \<open>m\<close> only appends calls that
  satisfy \<open>P\<close> to the history.
\<close>

definition emits :: "('e \<Rightarrow> bool) \<Rightarrow> ('e, 'a) io \<Rightarrow> bool" where
  "emits P m \<longleftrightarrow> (\<forall>tr. \<exists>es. snd (run_state m tr) = tr @ es \<and> list_all P es)"

lemma emitsI:
  "(\<And>tr. \<exists>es. snd (run_state m tr) = tr @ es \<and> list_all P es) \<Longrightarrow> emits P m"
  by (simp add: emits_def)

lemma emitsD:
  assumes "emits P m" and "run_state m tr = (r, tr')"
  obtains es where "tr' = tr @ es" and "list_all P es"
  using assms by (metis emits_def snd_conv)

lemma emits_return [emits_intro]: "emits P (ret x)"
  by (simp add: emits_def)

lemma emits_call [emits_intro]: "(\<And>x. P (ev x)) \<Longrightarrow> emits P (call ev f)"
  by (simp add: emits_def)

lemma emits_bind [emits_intro]:
  assumes "emits P m" and "\<And>x. emits P (f x)"
  shows "emits P (State_Monad.bind m f)"
proof (rule emitsI)
  fix tr
  obtain r tr1 where 1: "run_state m tr = (r, tr1)" by fastforce
  from assms(1) 1 obtain es where es: "tr1 = tr @ es" "list_all P es" by (rule emitsD)
  obtain r' tr2 where 2: "run_state (f r) tr1 = (r', tr2)" by fastforce
  from assms(2) 2 obtain es' where "tr2 = tr1 @ es'" "list_all P es'" by (rule emitsD)
  with es 2 show "\<exists>es. snd (run_state (State_Monad.bind m f) tr) = tr @ es \<and> list_all P es"
    by (intro exI [of _ "es @ es'"]) (simp add: 1)
qed

lemma emits_bindE [emits_intro]:
  "emits P m \<Longrightarrow> (\<And>x. emits P (f x)) \<Longrightarrow> emits P (bindE m f)"
  unfolding bindE_def by (auto intro!: emits_intro split: sum.splits)

lemma emits_liftE [emits_intro]:
  "(\<And>x. r = Inr x \<Longrightarrow> emits P (f x)) \<Longrightarrow> emits P (liftE r f)"
  unfolding liftE_def by (auto intro!: emits_intro split: sum.splits)

lemma emits_if [emits_intro]:
  "(b \<Longrightarrow> emits P m) \<Longrightarrow> (\<not> b \<Longrightarrow> emits P m') \<Longrightarrow> emits P (if b then m else m')"
  by simp

lemma emits_option [emits_intro]:
  "(x = None \<Longrightarrow> emits P m) \<Longrightarrow> (\<And>y. x = Some y \<Longrightarrow> emits P (f y)) \<Longrightarrow>
     emits P (case x of None \<Rightarrow> m | Some y \<Rightarrow> f y)"
  by (cases x) simp_all

lemma emits_sum [emits_intro]:
  "(\<And>e. x = Inl e \<Longrightarrow> emits P (g e)) \<Longrightarrow> (\<And>y. x = Inr y \<Longrightarrow> emits P (f y)) \<Longrightarrow>
     emits P (case x of Inl e \<Rightarrow> g e | Inr y \<Rightarrow> f y)"
  by (cases x) simp_all

lemma emits_prod [emits_intro]:
  "(\<And>a b. x = (a, b) \<Longrightarrow> emits P (f a b)) \<Longrightarrow> emits P (case x of (a, b) \<Rightarrow> f a b)"
  by (cases x) simp

lemma emits_Let [emits_intro]: "(\<And>y. y = x \<Longrightarrow> emits P (f y)) \<Longrightarrow> emits P (let y = x in f y)"
  by simp

lemma emits_forE [emits_intro]:
  "(\<And>x. x \<in> set xs \<Longrightarrow> emits P (f x)) \<Longrightarrow> emits P (forE xs f)"
  by (induction xs) (auto intro!: emits_intro)

lemma emits_weaken: "emits P m \<Longrightarrow> (\<And>e. P e \<Longrightarrow> Q e) \<Longrightarrow> emits Q m"
  unfolding emits_def by (metis list.pred_mono_strong)

section \<open>Pre- and postconditions over the history\<close>

text \<open>
  \<open>post A m Q\<close>: started with a history in \<open>A\<close>, \<open>m\<close> ends with a result and a
  history related by \<open>Q\<close>. There is no failing or looping computation to exclude: this
  is total correctness.
\<close>

definition post :: "('e list \<Rightarrow> bool) \<Rightarrow> ('e, 'a) io \<Rightarrow> ('a \<Rightarrow> 'e list \<Rightarrow> bool) \<Rightarrow> bool" where
  "post A m Q \<longleftrightarrow> (\<forall>tr. A tr \<longrightarrow> (case run_state m tr of (r, tr') \<Rightarrow> Q r tr'))"

lemma postI: "(\<And>tr r tr'. A tr \<Longrightarrow> run_state m tr = (r, tr') \<Longrightarrow> Q r tr') \<Longrightarrow> post A m Q"
  by (auto simp: post_def split: prod.splits)

lemma postD: "post A m Q \<Longrightarrow> A tr \<Longrightarrow> run_state m tr = (r, tr') \<Longrightarrow> Q r tr'"
  by (auto simp: post_def split: prod.splits)

lemma post_weaken:
  "post A m Q \<Longrightarrow> (\<And>tr. B tr \<Longrightarrow> A tr) \<Longrightarrow> (\<And>r tr. Q r tr \<Longrightarrow> R r tr) \<Longrightarrow> post B m R"
  by (fastforce simp: post_def split: prod.splits)

lemma post_return: "(\<And>tr. A tr \<Longrightarrow> Q x tr) \<Longrightarrow> post A (ret x) Q"
  by (simp add: post_def)

lemma post_call: "(\<And>tr. A tr \<Longrightarrow> Q (f tr) (tr @ [ev (f tr)])) \<Longrightarrow> post A (call ev f) Q"
  by (simp add: post_def)

lemma post_bind:
  "post A m B \<Longrightarrow> (\<And>x. post (B x) (f x) Q) \<Longrightarrow> post A (State_Monad.bind m f) Q"
  by (fastforce simp: post_def split: prod.splits)

lemma post_bindE:
  assumes "post A m B"
    and "\<And>x. post (B (Inr x)) (f x) Q"
    and "\<And>e tr. B (Inl e) tr \<Longrightarrow> Q (Inl e) tr"
  shows "post A (bindE m f) Q"
  unfolding bindE_def
  by (rule post_bind [OF assms(1)]) (auto intro: assms(2,3) post_return split: sum.splits)

lemma post_liftE:
  assumes "\<And>x. r = Inr x \<Longrightarrow> post A (f x) Q"
    and "\<And>e tr. r = Inl e \<Longrightarrow> A tr \<Longrightarrow> Q (Inl e) tr"
  shows "post A (liftE r f) Q"
  using assms by (cases r) (auto simp: liftE_def intro: post_return)

lemma post_if:
  "(b \<Longrightarrow> post A m Q) \<Longrightarrow> (\<not> b \<Longrightarrow> post A m' Q) \<Longrightarrow> post A (if b then m else m') Q"
  by simp

lemma post_forE:
  assumes step: "\<And>x. x \<in> set xs \<Longrightarrow> post I (f x) (\<lambda>r tr. I tr)"
  shows "post I (forE xs f) (\<lambda>r tr. I tr)"
  using step
proof (induction xs)
  case Nil
  then show ?case by (simp add: post_return)
next
  case (Cons x xs)
  have "post I (f x) (\<lambda>r tr. I tr)" using Cons.prems by simp
  moreover have "post I (forE xs f) (\<lambda>r tr. I tr)" using Cons by simp
  ultimately show ?case by (auto intro: post_bindE)
qed

text \<open>
  An invariant of the history that every call keeps is kept by the computation: from
  \<open>emits\<close> to \<open>post\<close>.
\<close>

lemma post_emits:
  assumes "emits P m" and "\<And>tr e. I tr \<Longrightarrow> P e \<Longrightarrow> I (tr @ [e])"
  shows "post I m (\<lambda>_. I)"
proof (rule postI)
  fix tr r tr'
  assume I: "I tr" and run: "run_state m tr = (r, tr')"
  from assms(1) run obtain es where es: "tr' = tr @ es" "list_all P es" by (rule emitsD)
  have "list_all P es \<Longrightarrow> I (tr @ es)"
  proof (induction es rule: rev_induct)
    case Nil
    then show ?case using I by simp
  next
    case (snoc e es)
    then show ?case using assms(2) [of "tr @ es" e] by simp
  qed
  with es show "I tr'" by simp
qed

text \<open>The calls a run appends.\<close>

definition new_calls :: "('e, 'a) io \<Rightarrow> 'e list \<Rightarrow> 'e list" where
  "new_calls m tr = drop (length tr) (snd (run_state m tr))"

lemma emits_new_calls: "emits P m \<Longrightarrow> list_all P (new_calls m tr)"
  unfolding emits_def new_calls_def by (metis append_eq_conv_conj)

lemma new_calls_eq: "run_state m tr = (r, tr @ es) \<Longrightarrow> new_calls m tr = es"
  by (simp add: new_calls_def)

section \<open>Parts of a run\<close>

text \<open>A part that succeeded, seen inside a longer run.\<close>

lemma bindE_ok:
  assumes "run_state (bindE m f) h = (Inr y, h')"
  obtains x h1 where "run_state m h = (Inr x, h1)" and "run_state (f x) h1 = (Inr y, h')"
  using assms by (auto split: prod.splits sum.splits)

lemma emits_extends: "emits P m \<Longrightarrow> run_state m h = (r, h') \<Longrightarrow> \<exists>es. h' = h @ es \<and> list_all P es"
  by (blast elim: emitsD)

lemma forE_ok:
  assumes "\<And>x. emits (\<lambda>_. True) (f x)"
    and "run_state (forE xs f) h = (Inr u, h')" and "x \<in> set xs"
  shows "\<exists>es es1 es2. run_state (f x) (h @ es) = (Inr (), h @ es @ es1) \<and> h' = h @ es @ es1 @ es2"
  using assms(2,3)
proof (induction xs arbitrary: h)
  case (Cons y ys)
  from Cons.prems(1) obtain h1 where
    1: "run_state (f y) h = (Inr (), h1)" and 2: "run_state (forE ys f) h1 = (Inr u, h')"
    by (auto split: prod.splits sum.splits)
  obtain es1 where es1: "h1 = h @ es1" using emits_extends [OF assms(1) 1] by blast
  have "emits (\<lambda>_. True) (forE ys f)" by (rule emits_forE [OF assms(1)])
  from emits_extends [OF this 2] obtain es2 where es2: "h' = h1 @ es2" by blast
  show ?case
  proof (cases "x = y")
    case True
    then have "run_state (f x) (h @ []) = (Inr (), h @ [] @ es1) \<and> h' = h @ [] @ es1 @ es2"
      using 1 es1 es2 by simp
    then show ?thesis by blast
  next
    case False
    then obtain es es' es2 where
      "run_state (f x) (h1 @ es) = (Inr (), h1 @ es @ es') \<and> h' = h1 @ es @ es' @ es2"
      using Cons.IH [OF 2] Cons.prems(2) by auto
    then have "run_state (f x) (h @ (es1 @ es)) = (Inr (), h @ (es1 @ es) @ es') \<and>
        h' = h @ (es1 @ es) @ es' @ es2"
      by (simp add: es1)
    then show ?thesis by blast
  qed
qed simp

text \<open>When what follows a step is only reached with a result the step can give.\<close>

lemma emits_bind_run:
  assumes m: "emits P m" and f: "\<And>x h h'. run_state m h = (x, h') \<Longrightarrow> emits P (f x)"
  shows "emits P (State_Monad.bind m f)"
proof (rule emitsI)
  fix tr
  obtain r tr1 where 1: "run_state m tr = (r, tr1)" by fastforce
  from emits_extends [OF m 1] obtain es where es: "tr1 = tr @ es" "list_all P es" by blast
  obtain r' tr2 where 2: "run_state (f r) tr1 = (r', tr2)" by fastforce
  from emits_extends [OF f [OF 1] 2] obtain es' where "tr2 = tr1 @ es'" "list_all P es'" by blast
  with es 2 show "\<exists>es. snd (run_state (State_Monad.bind m f) tr) = tr @ es \<and> list_all P es"
    by (intro exI [of _ "es @ es'"]) (simp add: 1)
qed

lemma emits_bindE_run:
  assumes m: "emits P m" and f: "\<And>x h h'. run_state m h = (Inr x, h') \<Longrightarrow> emits P (f x)"
  shows "emits P (bindE m f)"
  unfolding bindE_def
  by (rule emits_bind_run [OF m]) (auto intro!: emits_intro dest: f split: sum.splits)

section \<open>Computations that succeed\<close>

text \<open>Started in \<open>A\<close>, the computation returns a value, with no error, and ends in \<open>Q\<close>.\<close>

definition returns :: "('e list \<Rightarrow> bool) \<Rightarrow> ('e, 'x + 'a) io \<Rightarrow> ('a \<Rightarrow> 'e list \<Rightarrow> bool) \<Rightarrow> bool" where
  "returns A m Q \<longleftrightarrow> (\<forall>h. A h \<longrightarrow> (\<exists>x h'. run_state m h = (Inr x, h') \<and> Q x h'))"

lemma returnsD:
  assumes "returns A m Q" and "A h"
  obtains x h' where "run_state m h = (Inr x, h')" and "Q x h'"
  using assms by (auto simp: returns_def)

lemma returns_ok: "(\<And>h. A h \<Longrightarrow> Q x h) \<Longrightarrow> returns A (ok x) Q"
  by (simp add: returns_def)

lemma returns_call: "(\<And>h. A h \<Longrightarrow> \<exists>x. f h = Inr x \<and> Q x (h @ [ev (Inr x)])) \<Longrightarrow> returns A (call ev f) Q"
  unfolding returns_def by (auto simp: call_def) metis

lemma returns_bindE:
  "returns A m B \<Longrightarrow> (\<And>x. returns (B x) (f x) Q) \<Longrightarrow> returns A (bindE m f) Q"
  unfolding returns_def by fastforce

lemma returns_bind:
  "post A m B \<Longrightarrow> (\<And>x. returns (B x) (f x) Q) \<Longrightarrow> returns A (State_Monad.bind m f) Q"
  unfolding returns_def post_def by (fastforce split: prod.splits)

text \<open>Binding a step whose error is looked at.\<close>

lemma returns_bind_ok:
  "returns A m B \<Longrightarrow> (\<And>x. returns (B x) (f (Inr x)) Q) \<Longrightarrow> returns A (State_Monad.bind m f) Q"
  unfolding returns_def by fastforce

lemma returns_liftE: "r = Inr x \<Longrightarrow> returns A (f x) Q \<Longrightarrow> returns A (liftE r f) Q"
  by (simp add: liftE_def)

lemma returns_weaken:
  "returns A m Q \<Longrightarrow> (\<And>h. B h \<Longrightarrow> A h) \<Longrightarrow> (\<And>x h. Q x h \<Longrightarrow> R x h) \<Longrightarrow> returns B m R"
  unfolding returns_def by blast

lemma returns_pre: "(b \<Longrightarrow> returns A m Q) \<Longrightarrow> returns (\<lambda>h. b \<and> A h) m Q"
  unfolding returns_def by blast

lemma returns_forE:
  assumes "\<And>x. x \<in> set xs \<Longrightarrow> returns I (f x) (\<lambda>_. I)"
  shows "returns I (forE xs f) (\<lambda>_. I)"
  using assms by (induction xs) (auto intro!: returns_ok returns_bindE)

text \<open>What the calls a computation may make leave true is still true after it.\<close>

lemma returns_frame:
  assumes "returns A m Q" and "emits P m" and "\<And>h es. R h \<Longrightarrow> list_all P es \<Longrightarrow> R (h @ es)"
  shows "returns (\<lambda>h. A h \<and> R h) m (\<lambda>x h. Q x h \<and> R h)"
  unfolding returns_def
proof (intro allI impI, elim conjE)
  fix h
  assume "A h" and R: "R h"
  from assms(1) \<open>A h\<close> obtain x h' where run: "run_state m h = (Inr x, h')" "Q x h'" by (rule returnsD)
  from emits_extends [OF assms(2) run(1)] have "R h'" using assms(3) [OF R] by blast
  with run show "\<exists>x h'. run_state m h = (Inr x, h') \<and> Q x h' \<and> R h'" by blast
qed

text \<open>A loop whose state is a value that each round advances.\<close>

lemma returns_forE_fold:
  assumes "\<And>x s. x \<in> set xs \<Longrightarrow> returns (I s) (f x) (\<lambda>_. I (g x s))"
  shows "returns (I s) (forE xs f) (\<lambda>_. I (fold g xs s))"
  using assms by (induction xs arbitrary: s) (fastforce intro!: returns_ok returns_bindE)+

text \<open>A loop each of whose rounds relates what is observed of the history before and after it.\<close>

fun steps :: "('x \<Rightarrow> 's \<Rightarrow> 's \<Rightarrow> bool) \<Rightarrow> 'x list \<Rightarrow> 's \<Rightarrow> 's \<Rightarrow> bool" where
  "steps R [] s s' = (s' = s)"
| "steps R (x # xs) s s' = (\<exists>m. R x s m \<and> steps R xs m s')"

lemma returns_forE_steps:
  assumes "\<And>x s. x \<in> set xs \<Longrightarrow> I s \<Longrightarrow> returns (\<lambda>h. g h = s) (f x) (\<lambda>_ h. R x s (g h))"
    and "\<And>x s s'. x \<in> set xs \<Longrightarrow> I s \<Longrightarrow> R x s s' \<Longrightarrow> I s'" and "I s"
  shows "returns (\<lambda>h. g h = s) (forE xs f) (\<lambda>_ h. steps R xs s (g h))"
  using assms
proof (induction xs arbitrary: s)
  case (Cons x xs)
  have 1: "returns (\<lambda>h. g h = s) (f x) (\<lambda>_ h. R x s (g h))" using Cons.prems(1,3) by simp
  have 2: "returns (\<lambda>h. g h = m) (forE xs f) (\<lambda>_ h. steps R xs m (g h))" if "R x s m" for m
  proof (rule Cons.IH)
    show "I m" using Cons.prems(2) [of x s m] Cons.prems(3) that by simp
  qed (simp_all add: Cons.prems(1), metis Cons.prems(2) list.set_intros(2))
  have "returns (\<lambda>h. R x s (g h)) (forE xs f) (\<lambda>_ h. steps R (x # xs) s (g h))"
    unfolding returns_def
  proof (intro allI impI)
    fix h
    assume R: "R x s (g h)"
    obtain u h' where "run_state (forE xs f) h = (Inr u, h')" "steps R xs (g h) (g h')"
      by (rule returnsD [OF 2 [OF R]]) auto
    then show "\<exists>u h'. run_state (forE xs f) h = (Inr u, h') \<and> steps R (x # xs) s (g h')" using R by auto
  qed
  with 1 show ?case by (auto intro: returns_bindE)
qed (simp add: returns_def)

section \<open>Errors that are never returned\<close>

definition avoids :: "'x \<Rightarrow> ('e, 'x + 'a) io \<Rightarrow> bool" where
  "avoids err m \<longleftrightarrow> (\<forall>tr. fst (run_state m tr) \<noteq> Inl err)"

lemma avoidsD: "avoids err m \<Longrightarrow> run_state m tr = (r, tr') \<Longrightarrow> r \<noteq> Inl err"
  by (metis avoids_def fst_conv)

lemma avoids_return [avoids_intro]: "r \<noteq> Inl err \<Longrightarrow> avoids err (ret r)"
  by (simp add: avoids_def)

lemma avoids_call [avoids_intro]: "(\<And>tr. f tr \<noteq> Inl err) \<Longrightarrow> avoids err (call ev f)"
  by (simp add: avoids_def)

lemma avoids_bind [avoids_intro]: "(\<And>x. avoids err (f x)) \<Longrightarrow> avoids err (State_Monad.bind m f)"
  by (simp add: avoids_def split: prod.splits)

lemma avoids_bindE [avoids_intro]:
  "avoids err m \<Longrightarrow> (\<And>x. avoids err (f x)) \<Longrightarrow> avoids err (bindE m f)"
  unfolding avoids_def run_bindE by (metis (mono_tags, lifting) fst_conv old.sum.exhaust prod.case prod.exhaust_sel sum.case sum.inject(1))

lemma avoids_liftE [avoids_intro]:
  "r \<noteq> Inl err \<Longrightarrow> (\<And>x. avoids err (f x)) \<Longrightarrow> avoids err (liftE r f)"
  by (cases r) (auto simp: avoids_def)

lemma avoids_if [avoids_intro]:
  "(b \<Longrightarrow> avoids err m) \<Longrightarrow> (\<not> b \<Longrightarrow> avoids err m') \<Longrightarrow> avoids err (if b then m else m')"
  by simp

lemma avoids_option [avoids_intro]:
  "(x = None \<Longrightarrow> avoids err m) \<Longrightarrow> (\<And>y. x = Some y \<Longrightarrow> avoids err (f y)) \<Longrightarrow>
     avoids err (case x of None \<Rightarrow> m | Some y \<Rightarrow> f y)"
  by (cases x) simp_all

lemma avoids_sum [avoids_intro]:
  "(\<And>e. x = Inl e \<Longrightarrow> avoids err (g e)) \<Longrightarrow> (\<And>y. x = Inr y \<Longrightarrow> avoids err (f y)) \<Longrightarrow>
     avoids err (case x of Inl e \<Rightarrow> g e | Inr y \<Rightarrow> f y)"
  by (cases x) simp_all

lemma avoids_prod [avoids_intro]:
  "(\<And>a b. x = (a, b) \<Longrightarrow> avoids err (f a b)) \<Longrightarrow> avoids err (case x of (a, b) \<Rightarrow> f a b)"
  by (cases x) simp

lemma avoids_Let [avoids_intro]: "(\<And>y. y = x \<Longrightarrow> avoids err (f y)) \<Longrightarrow> avoids err (let y = x in f y)"
  by simp

lemma avoids_forE [avoids_intro]:
  "(\<And>x. x \<in> set xs \<Longrightarrow> avoids err (f x)) \<Longrightarrow> avoids err (forE xs f)"
  by (induction xs) (auto intro!: avoids_intro)

section \<open>One call before another\<close>

text \<open>
  \<open>guarded D G es\<close>: in the calls \<open>es\<close>, whatever satisfies \<open>D\<close> has something satisfying
  \<open>G\<close> before it.
\<close>

definition guarded :: "('e \<Rightarrow> bool) \<Rightarrow> ('e \<Rightarrow> bool) \<Rightarrow> 'e list \<Rightarrow> bool" where
  "guarded D G es \<longleftrightarrow> (\<forall>pre e post. es = pre @ e # post \<longrightarrow> D e \<longrightarrow> (\<exists>g \<in> set pre. G g))"

lemma guarded_none: "list_all (\<lambda>e. \<not> D e) es \<Longrightarrow> guarded D G es"
  by (auto simp: guarded_def)

lemma split_after:
  assumes none: "list_all (\<lambda>e. \<not> D e) es" and split: "es @ es' = pre @ e # rest" and D: "D e"
  obtains us where "pre = es @ us"
proof -
  from split consider us where "es = pre @ us" "us \<noteq> []" "hd us = e"
    | us where "pre = es @ us"
    by (auto simp: append_eq_append_conv2 Cons_eq_append_conv append_eq_Cons_conv)
  then show ?thesis
  proof cases
    case 1
    then have "e \<in> set es" using hd_in_set by fastforce
    then show ?thesis using none D by (auto simp: list_all_iff)
  next
    case 2
    then show ?thesis by (rule that)
  qed
qed

lemma guarded_after: "list_all (\<lambda>e. \<not> D e) es \<Longrightarrow> \<exists>g \<in> set es. G g \<Longrightarrow> guarded D G (es @ es')"
  unfolding guarded_def by (auto elim!: split_after)

text \<open>A computation all of whose runs are guarded.\<close>

definition guarded_run :: "('e \<Rightarrow> bool) \<Rightarrow> ('e \<Rightarrow> bool) \<Rightarrow> ('e, 'a) io \<Rightarrow> bool" where
  "guarded_run D G m \<longleftrightarrow> (\<forall>h r es. run_state m h = (r, h @ es) \<longrightarrow> guarded D G es)"

lemma guarded_runD: "guarded_run D G m \<Longrightarrow> run_state m h = (r, h @ es) \<Longrightarrow> guarded D G es"
  by (auto simp: guarded_run_def)

lemma guarded_run_emits: "emits (\<lambda>e. \<not> D e) m \<Longrightarrow> guarded_run D G m"
  unfolding guarded_run_def by (auto intro!: guarded_none elim: emitsD)

lemma guarded_append: "list_all (\<lambda>e. \<not> D e) es \<Longrightarrow> guarded D G es' \<Longrightarrow> guarded D G (es @ es')"
  unfolding guarded_def
proof (intro allI impI)
  fix pre e post
  assume none: "list_all (\<lambda>e. \<not> D e) es" and "es @ es' = pre @ e # post" and "D e"
    and g: "\<forall>pre e post. es' = pre @ e # post \<longrightarrow> D e \<longrightarrow> (\<exists>g \<in> set pre. G g)"
  moreover from this obtain us where "pre = es @ us" by (auto elim: split_after)
  ultimately show "\<exists>g \<in> set pre. G g" by fastforce
qed

text \<open>After each step either the guard has been seen or the rest is guarded by itself.\<close>

lemma guarded_run_bindE:
  assumes m: "emits (\<lambda>e. \<not> D e) m" and f: "\<And>x. emits (\<lambda>_. True) (f x)"
    and step: "\<And>h x es. run_state m h = (Inr x, h @ es) \<Longrightarrow>
      (\<exists>g \<in> set es. G g) \<or> guarded_run D G (f x)"
  shows "guarded_run D G (bindE m f)"
  unfolding guarded_run_def
proof (intro allI impI)
  fix h r es
  assume run: "run_state (bindE m f) h = (r, h @ es)"
  obtain p h1 where p: "run_state m h = (p, h1)" by fastforce
  from emits_extends [OF m p] obtain es1 where
    es1: "h1 = h @ es1" "list_all (\<lambda>e. \<not> D e) es1" by blast
  show "guarded D G es"
  proof (cases p)
    case (Inl err)
    then show ?thesis using run p es1 by (auto intro: guarded_none)
  next
    case (Inr x)
    then have fx: "run_state (f x) h1 = (r, h @ es)" using run p by simp
    from emits_extends [OF f this] obtain es2 where es: "h @ es = h1 @ es2" by blast
    then have "es = es1 @ es2" using es1(1) by simp
    moreover have "guarded_run D G (f x) \<Longrightarrow> guarded D G es2"
      using fx es by (auto elim: guarded_runD)
    ultimately show ?thesis
      using step [of h x es1] p Inr es1 guarded_after guarded_append by blast
  qed
qed

section \<open>Go maps\<close>

text \<open>
  A Go map may be nil: reading a nil map finds nothing, deleting from it does nothing and
  writing to it panics (the code always makes the map first).
\<close>

type_synonym ('k, 'v) gomap = "('k, 'v) fmap option"

definition gm_get :: "('k, 'v) gomap \<Rightarrow> 'k \<Rightarrow> 'v option" where
  "gm_get m k = (case m of None \<Rightarrow> None | Some f \<Rightarrow> fmlookup f k)"

definition gm_make :: "('k, 'v) gomap \<Rightarrow> ('k, 'v) fmap" where
  "gm_make m = (case m of None \<Rightarrow> fmempty | Some f \<Rightarrow> f)"

definition gm_delete :: "'k \<Rightarrow> ('k, 'v) gomap \<Rightarrow> ('k, 'v) gomap" where
  "gm_delete k m = map_option (fmdrop k) m"

lemma gm_get_simps [simp]:
  "gm_get None k = None"
  "gm_get (Some f) k = fmlookup f k"
  by (simp_all add: gm_get_def)

lemma gm_get_delete [simp]: "gm_get (gm_delete k m) k' = (if k = k' then None else gm_get m k')"
  by (cases m) (simp_all add: gm_delete_def)

lemma fmlookup_gm_make [simp]: "fmlookup (gm_make m) k = gm_get m k"
  by (cases m) (simp_all add: gm_make_def)

section \<open>Sorting\<close>

text \<open>
  \<open>sort.Sort\<close> with a \<open>Less\<close> that compares a key. Go's sort is not specified to be
  stable; the facts used are that the result is a sorted permutation.
\<close>

lemma sort_key_hd_min:
  assumes "x \<in> set xs"
  shows "f (hd (sort_key f xs)) \<le> f x"
proof -
  have "x \<in> set (sort_key f xs)" using assms by simp
  then obtain y ys where "sort_key f xs = y # ys" by (cases "sort_key f xs") auto
  moreover have "sorted (map f (sort_key f xs))" by (rule sorted_sort_key)
  ultimately show ?thesis using \<open>x \<in> set (sort_key f xs)\<close> by auto
qed

end
