(* ===== verification/GoStd.thy ===== *)
theory GoStd
  imports Prelude
begin

text \<open>
  The functions of Go's \<^verbatim>\<open>strings\<close> and \<^verbatim>\<open>strconv\<close> packages that the operator calls,
  on byte strings (a Go string is a sequence of bytes, a \<open>char\<close> is a byte).
\<close>

section \<open>strings\<close>

text \<open>\<open>strings.Split(s, sep)\<close> and \<open>strings.FieldsFunc\<close> for a one-byte separator.\<close>

fun split_on :: "char \<Rightarrow> string \<Rightarrow> string list" where
  "split_on c [] = [[]]"
| "split_on c (x # xs) =
     (if x = c then [] # split_on c xs
      else case split_on c xs of [] \<Rightarrow> [[x]] | y # ys \<Rightarrow> (x # y) # ys)"

definition fields_func :: "char \<Rightarrow> string \<Rightarrow> string list" where
  "fields_func c s = filter (\<lambda>f. f \<noteq> []) (split_on c s)"

text \<open>\<open>strings.Join(xs, sep)\<close>\<close>

fun join :: "string \<Rightarrow> string list \<Rightarrow> string" where
  "join sep [] = []"
| "join sep [x] = x"
| "join sep (x # y # ys) = x @ sep @ join sep (y # ys)"

text \<open>\<open>strings.TrimPrefix\<close> and \<open>strings.TrimSuffix\<close>\<close>

fun strip_prefix :: "string \<Rightarrow> string \<Rightarrow> string option" where
  "strip_prefix [] s = Some s"
| "strip_prefix (p # ps) [] = None"
| "strip_prefix (p # ps) (x # xs) = (if p = x then strip_prefix ps xs else None)"

definition trim_prefix :: "string \<Rightarrow> string \<Rightarrow> string" where
  "trim_prefix p s = (case strip_prefix p s of None \<Rightarrow> s | Some r \<Rightarrow> r)"

definition trim_suffix :: "string \<Rightarrow> string \<Rightarrow> string" where
  "trim_suffix p s = (case strip_prefix (rev p) (rev s) of None \<Rightarrow> s | Some r \<Rightarrow> rev r)"

text \<open>
  \<open>strings.Replace(s, old, new, -1)\<close>: every non-overlapping occurrence from the left. The
  code only calls it with a constant, non-empty \<open>old\<close>.
\<close>

function replace_all :: "string \<Rightarrow> string \<Rightarrow> string \<Rightarrow> string" where
  "replace_all old new s =
     (case s of
        [] \<Rightarrow> []
      | x # xs \<Rightarrow>
          (case strip_prefix old s of
             Some r \<Rightarrow> if old = [] then s else new @ replace_all old new r
           | None \<Rightarrow> x # replace_all old new xs))"
  by pat_completeness auto

lemma strip_prefix_Some: "strip_prefix p s = Some r \<longleftrightarrow> s = p @ r"
  by (induction p s rule: strip_prefix.induct) auto

termination replace_all
  by (relation "measure (\<lambda>(_, _, s). length s)") (auto simp: strip_prefix_Some)

declare replace_all.simps [simp del]

text \<open>\<open>strings.Replace(s, old, new, 1)\<close>: the first occurrence only.\<close>

fun replace_first :: "string \<Rightarrow> string \<Rightarrow> string \<Rightarrow> string" where
  "replace_first old new [] = (if old = [] then new else [])"
| "replace_first old new (x # xs) =
     (case strip_prefix old (x # xs) of
        Some r \<Rightarrow> new @ r
      | None \<Rightarrow> x # replace_first old new xs)"

text \<open>\<open>strings.TrimSpace\<close> on the ASCII white space bytes.\<close>

definition is_space :: "char \<Rightarrow> bool" where
  "is_space c \<longleftrightarrow> of_char c \<in> {9, 10, 11, 12, 13, 32 :: nat}"

definition trim_space :: "string \<Rightarrow> string" where
  "trim_space s = rev (dropWhile is_space (rev (dropWhile is_space s)))"

text \<open>\<open>strings.EqualFold\<close>, with the case folding of the ASCII letters.\<close>

definition lower :: "char \<Rightarrow> char" where
  "lower c = (let n = of_char c :: nat in if 65 \<le> n \<and> n \<le> 90 then char_of (n + 32) else c)"

definition equal_fold :: "string \<Rightarrow> string \<Rightarrow> bool" where
  "equal_fold s t \<longleftrightarrow> map lower s = map lower t"

section \<open>strconv\<close>

definition digit_of :: "nat \<Rightarrow> char" where
  "digit_of d = char_of (48 + d)"

definition is_digit :: "char \<Rightarrow> bool" where
  "is_digit c \<longleftrightarrow> 48 \<le> (of_char c :: nat) \<and> (of_char c :: nat) \<le> 57"

definition digit_val :: "char \<Rightarrow> nat" where
  "digit_val c = of_char c - 48"

fun nat_digits :: "nat \<Rightarrow> string" where
  "nat_digits n = (if n < 10 then [digit_of n] else nat_digits (n div 10) @ [digit_of (n mod 10)])"

declare nat_digits.simps [simp del]

text \<open>\<open>strconv.Itoa\<close>, and \<open>%d\<close>\<close>

definition itoa :: "int \<Rightarrow> string" where
  "itoa i = (if i < 0 then CHR ''-'' # nat_digits (nat (- i)) else nat_digits (nat i))"

definition digits_val :: "string \<Rightarrow> nat" where
  "digits_val s = foldl (\<lambda>n c. 10 * n + digit_val c) 0 s"

text \<open>\<open>strconv.Atoi\<close> on a 64-bit platform: optional sign, decimal digits, range check.\<close>

definition parse_digits :: "int \<Rightarrow> string \<Rightarrow> gerr + int" where
  "parse_digits sg s =
     (if s = [] \<or> \<not> list_all is_digit s then Inl (ClientErr ''invalid syntax'')
      else let i = sg * int (digits_val s)
           in if - (2 ^ 63) \<le> i \<and> i < 2 ^ 63 then Inr i else Inl (ClientErr ''value out of range''))"

definition atoi :: "string \<Rightarrow> gerr + int" where
  "atoi s = (case s of
     [] \<Rightarrow> Inl (ClientErr ''invalid syntax'')
   | c # cs \<Rightarrow> if c = CHR ''-'' then parse_digits (- 1) cs
               else if c = CHR ''+'' then parse_digits 1 cs
               else parse_digits 1 s)"

section \<open>Facts\<close>

lemma split_on_ne [simp]: "split_on c s \<noteq> []"
  by (induction s) (auto split: list.splits)

lemma split_on_append_sep: "split_on c (x @ c # ys) = split_on c x @ split_on c ys"
  by (induction x) (auto split: list.splits)

lemma split_on_no_sep: "c \<notin> set x \<Longrightarrow> split_on c x = [x]"
  by (induction x) auto

lemma split_on_append: "c \<notin> set x \<Longrightarrow> split_on c (x @ c # ys) = x # split_on c ys"
  by (simp add: split_on_append_sep split_on_no_sep)

lemma split_on_join:
  "xs \<noteq> [] \<Longrightarrow> (\<And>x. x \<in> set xs \<Longrightarrow> c \<notin> set x) \<Longrightarrow> split_on c (join [c] xs) = xs"
proof (induction "[c]" xs rule: join.induct)
  case (3 x y ys)
  then show ?case by (simp add: split_on_append)
qed (simp_all add: split_on_no_sep)

text \<open>Joining and splitting by fields gives back the non-empty parts.\<close>

lemma fields_join:
  assumes "\<And>x. x \<in> set xs \<Longrightarrow> c \<notin> set x"
  shows "fields_func c (join [c] xs) = filter (\<lambda>f. f \<noteq> []) xs"
proof (cases "xs = []")
  case False
  then show ?thesis using assms by (simp add: fields_func_def split_on_join)
qed (simp add: fields_func_def)

lemma trim_prefix_append [simp]: "trim_prefix p (p @ s) = s"
proof -
  have "strip_prefix p (p @ s) = Some s" by (simp add: strip_prefix_Some)
  then show ?thesis by (simp add: trim_prefix_def)
qed

lemma trim_suffix_append [simp]: "trim_suffix p (s @ p) = s"
proof -
  have "strip_prefix (rev p) (rev p @ rev s) = Some (rev s)" by (simp add: strip_prefix_Some)
  then show ?thesis by (simp add: trim_suffix_def)
qed

lemma digit_of_val [simp]: "d < 10 \<Longrightarrow> digit_val (digit_of d) = d"
  by (simp add: digit_val_def digit_of_def of_char_of)

lemma digit_of_simps [simp]:
  "digit_of 0 = CHR ''0''" "digit_of (Suc 0) = CHR ''1''" "digit_of 1 = CHR ''1''"
  "digit_of 2 = CHR ''2''" "digit_of 3 = CHR ''3''" "digit_of 4 = CHR ''4''"
  "digit_of 5 = CHR ''5''" "digit_of 6 = CHR ''6''" "digit_of 7 = CHR ''7''"
  "digit_of 8 = CHR ''8''" "digit_of 9 = CHR ''9''"
  by code_simp+

lemma is_digit_digit_of [simp]: "d < 10 \<Longrightarrow> is_digit (digit_of d)"
  by (simp add: is_digit_def digit_of_def of_char_of)

lemma nat_digits_ne [simp]: "nat_digits n \<noteq> []"
  by (subst nat_digits.simps) simp

lemma nat_digits_digits: "list_all is_digit (nat_digits n)"
proof (induction n rule: nat_digits.induct)
  case (1 n)
  then show ?case by (subst nat_digits.simps) auto
qed

lemma digits_val_snoc: "digits_val (s @ [c]) = 10 * digits_val s + digit_val c"
  by (simp add: digits_val_def)

lemma digits_val_nat_digits [simp]: "digits_val (nat_digits n) = n"
proof (induction n rule: nat_digits.induct)
  case (1 n)
  show ?case
  proof (cases "n < 10")
    case True
    then show ?thesis by (simp add: nat_digits.simps [of n] digits_val_def)
  next
    case False
    with 1 have "digits_val (nat_digits (n div 10)) = n div 10" by simp
    with False show ?thesis by (simp add: nat_digits.simps [of n] digits_val_snoc)
  qed
qed

lemma nat_digits_inj: "nat_digits m = nat_digits n \<Longrightarrow> m = n"
  by (metis digits_val_nat_digits)

lemma set_nat_digits: "c \<in> set (nat_digits n) \<Longrightarrow> is_digit c"
  using nat_digits_digits by (auto simp: list_all_iff)

lemma not_digit [simp]: "\<not> is_digit CHR ''-''" "\<not> is_digit CHR ''+''" "\<not> is_digit CHR ''.''"
  by (simp_all add: is_digit_def)

lemma parse_digits_nat_digits:
  "- (2 ^ 63) \<le> s * int n \<Longrightarrow> s * int n < 2 ^ 63 \<Longrightarrow> parse_digits s (nat_digits n) = Inr (s * int n)"
  by (simp add: parse_digits_def nat_digits_digits)

text \<open>\<open>Atoi(Itoa(i)) = i\<close> for every 64-bit \<open>i\<close>.\<close>

lemma atoi_itoa:
  assumes "- (2 ^ 63) \<le> i" and "i < 2 ^ 63"
  shows "atoi (itoa i) = Inr i"
proof (cases "i < 0")
  case True
  with assms parse_digits_nat_digits [of "-1" "nat (- i)"] show ?thesis
    by (simp add: itoa_def atoi_def)
next
  case False
  obtain c cs where d: "nat_digits (nat i) = c # cs" by (cases "nat_digits (nat i)") auto
  have "is_digit c" using set_nat_digits [of c "nat i"] d by simp
  then have "c \<noteq> CHR ''-''" "c \<noteq> CHR ''+''" by auto
  moreover have "parse_digits 1 (nat_digits (nat i)) = Inr i"
    using parse_digits_nat_digits [of 1 "nat i"] assms False by simp
  ultimately show ?thesis using False d by (simp add: itoa_def atoi_def)
qed

lemma itoa_no_dot: "CHR ''.'' \<notin> set (itoa i)"
  using set_nat_digits [of "CHR ''.''"] by (auto simp: itoa_def)

lemma itoa_inj: "itoa i = itoa j \<Longrightarrow> i = j"
proof -
  assume eq: "itoa i = itoa j"
  have nd: "\<And>n. hd (nat_digits n) \<noteq> CHR ''-''"
    by (metis hd_in_set nat_digits_ne not_digit(1) set_nat_digits)
  have nd': "\<And>n xs. nat_digits n \<noteq> CHR ''-'' # xs" using nd by (metis list.sel(1))
  show "i = j"
    using eq nat_digits_inj [of "nat (- i)" "nat (- j)"] nat_digits_inj [of "nat i" "nat j"]
      nd' nd' [symmetric]
    by (auto simp: itoa_def split: if_splits)
qed

lemma length_nat_digits_1: "n < 10 \<Longrightarrow> length (nat_digits n) = 1"
  by (simp add: nat_digits.simps)

lemma replace_all_Nil [simp]: "replace_all old new [] = []"
  by (simp add: replace_all.simps)

text \<open>Replacing one byte by the empty string drops it.\<close>

lemma replace_all_byte: "replace_all [c] [] s = filter (\<lambda>x. x \<noteq> c) s"
proof (induction s)
  case (Cons x xs)
  then show ?case by (subst replace_all.simps) auto
qed simp

text \<open>Evaluation goes through binary integers instead of unary naturals.\<close>

function int_digits :: "int \<Rightarrow> string" where
  "int_digits n = (if n < 10 then [digit_of (nat n)] else int_digits (n div 10) @ [digit_of (nat (n mod 10))])"
  by pat_completeness auto

termination int_digits
  by (relation "measure nat") auto

declare int_digits.simps [simp del]

lemma int_digits_nat: "int_digits (int n) = nat_digits n"
proof (induction n rule: nat_digits.induct)
  case (1 n)
  then show ?case
    by (subst int_digits.simps, subst nat_digits.simps)
      (simp add: zdiv_int nat_mod_distrib)
qed

lemma itoa_code [code]: "itoa i = (if i < 0 then CHR ''-'' # int_digits (- i) else int_digits i)"
  using int_digits_nat [of "nat i"] int_digits_nat [of "nat (- i)"] by (auto simp: itoa_def split: if_splits)

definition int_digits_val :: "string \<Rightarrow> int" where
  "int_digits_val s = foldl (\<lambda>n c. 10 * n + int (digit_val c)) 0 s"

lemma int_digits_val: "int (digits_val s) = int_digits_val s"
  by (induction s rule: rev_induct) (simp_all add: digits_val_def int_digits_val_def)

lemma parse_digits_code [code]:
  "parse_digits sg s =
     (if s = [] \<or> \<not> list_all is_digit s then Inl (ClientErr ''invalid syntax'')
      else let i = sg * int_digits_val s
           in if - (2 ^ 63) \<le> i \<and> i < 2 ^ 63 then Inr i else Inl (ClientErr ''value out of range''))"
  by (simp add: parse_digits_def int_digits_val)

lemmas [code] = replace_all.simps nat_digits.simps int_digits.simps

end
