(* ===== verification/KubeTypes.thy ===== *)
theory KubeTypes
  imports GoStd
begin

text \<open>
  The Kubernetes objects the operator builds or reads, with the fields the repository sets or
  inspects. Their Go types live in the Kubernetes API packages; only the shape is modelled.
  A resource quantity is an integer number of thousandths of its unit. A Go slice, nil or
  empty, is a list; a Go map is a \<open>gomap\<close>, which keeps nil apart.
\<close>

type_synonym labels = "(string, string) fmap"
type_synonym quantity = int

text \<open>A map literal of the source.\<close>

abbreviation map_lit :: "(string \<times> 'v) list \<Rightarrow> (string, 'v) fmap" where
  "map_lit kvs \<equiv> fmap_of_list kvs"

section \<open>Metadata\<close>

record OwnerReference =
  or_APIVersion :: string
  or_Kind :: string
  or_Name :: string
  or_UID :: string
  or_Controller :: "bool option"
  or_BlockOwnerDeletion :: "bool option"

record ObjectMeta =
  om_Name :: string
  om_GenerateName :: string
  om_Namespace :: string
  om_UID :: string
  om_ResourceVersion :: string
  om_CreationTimestamp :: int
  om_Labels :: "(string, string) gomap"
  om_Annotations :: "(string, string) gomap"
  om_OwnerReferences :: "OwnerReference list"

text \<open>The zero value, from which the literals of the source are built.\<close>

definition zero_meta :: ObjectMeta where
  "zero_meta = \<lparr>om_Name = [], om_GenerateName = [], om_Namespace = [], om_UID = [],
     om_ResourceVersion = [], om_CreationTimestamp = 0, om_Labels = None, om_Annotations = None,
     om_OwnerReferences = []\<rparr>"

section \<open>Pods\<close>

record Toleration =
  to_Key :: string
  to_Operator :: string
  to_Value :: string
  to_Effect :: string
  to_Seconds :: "int option"

record ResourceRequirements =
  rr_Requests :: "(string, quantity) gomap"
  rr_Limits :: "(string, quantity) gomap"

datatype ProbeHandler = TCPSocket int | HTTPGet string int

record Probe =
  pr_Handler :: ProbeHandler
  pr_InitialDelaySeconds :: int
  pr_TimeoutSeconds :: int
  pr_PeriodSeconds :: int
  pr_FailureThreshold :: int

record VolumeMount =
  vm_Name :: string
  vm_MountPath :: string
  vm_ReadOnly :: bool

record VolumeDevice =
  vd_Name :: string
  vd_DevicePath :: string

record Container =
  ct_Name :: string
  ct_Image :: string
  ct_ImagePullPolicy :: string
  ct_Command :: "string list"
  ct_Ports :: "(string \<times> int) list"
  ct_VolumeMounts :: "VolumeMount list"
  ct_VolumeDevices :: "VolumeDevice list"
  ct_ReadinessProbe :: "Probe option"
  ct_LivenessProbe :: "Probe option"
  ct_Resources :: ResourceRequirements

datatype VolumeSource =
  ConfigMapVolume string | EmptyDirVolume | PersistentVolumeClaimVolume string | SecretVolume string

record Volume =
  vol_Name :: string
  vol_Source :: VolumeSource

record LabelSelectorRequirement =
  ls_Key :: string
  ls_Operator :: string
  ls_Values :: "string list"

record PodAffinityTerm =
  pa_MatchExpressions :: "LabelSelectorRequirement list"
  pa_TopologyKey :: string

record PodSpec =
  ps_InitContainers :: "Container list"
  ps_Containers :: "Container list"
  ps_Volumes :: "Volume list"
  ps_RestartPolicy :: string
  ps_Hostname :: string
  ps_Subdomain :: string
  ps_NodeSelector :: "(string, string) gomap"
  ps_Tolerations :: "Toleration list"
  ps_PodAntiAffinity :: "PodAffinityTerm list option"

record ContainerState =
  cs_Terminated :: "int option"
  cs_Waiting :: "string option"

record PodStatus =
  pt_Phase :: string
  pt_PodIP :: string
  pt_InitContainerStatuses :: "ContainerState list"
  pt_ContainerStatuses :: "ContainerState list"

record Pod =
  pod_Meta :: ObjectMeta
  pod_Spec :: PodSpec
  pod_Status :: PodStatus

abbreviation pod_Name :: "Pod \<Rightarrow> string" where
  "pod_Name p \<equiv> om_Name (pod_Meta p)"

abbreviation pod_Namespace :: "Pod \<Rightarrow> string" where
  "pod_Namespace p \<equiv> om_Namespace (pod_Meta p)"

definition zero_status :: PodStatus where
  "zero_status = \<lparr>pt_Phase = [], pt_PodIP = [], pt_InitContainerStatuses = [],
     pt_ContainerStatuses = []\<rparr>"

definition zero_container :: Container where
  "zero_container = \<lparr>ct_Name = [], ct_Image = [], ct_ImagePullPolicy = [], ct_Command = [],
     ct_Ports = [], ct_VolumeMounts = [], ct_VolumeDevices = [], ct_ReadinessProbe = None,
     ct_LivenessProbe = None, ct_Resources = \<lparr>rr_Requests = None, rr_Limits = None\<rparr>\<rparr>"

text \<open>Watch events. \<open>WatchError\<close> carries no object.\<close>

datatype 'o watch_event = WatchAdded 'o | WatchModified 'o | WatchDeleted 'o | WatchError

section \<open>Other objects\<close>

text \<open>\<open>m[k]\<close> on a map of strings: the empty string when the key is absent.\<close>

definition str_at :: "(string, string) gomap \<Rightarrow> string \<Rightarrow> string" where
  "str_at m k = (case gm_get m k of None \<Rightarrow> [] | Some v \<Rightarrow> v)"

record PersistentVolumeClaim =
  pvc_Meta :: ObjectMeta
  pvc_AccessModes :: "string list"
  pvc_StorageRequest :: quantity
  pvc_VolumeMode :: string
  pvc_StorageClassName :: "string option"

abbreviation pvc_Name :: "PersistentVolumeClaim \<Rightarrow> string" where
  "pvc_Name c \<equiv> om_Name (pvc_Meta c)"

abbreviation pvc_Annotation :: "PersistentVolumeClaim \<Rightarrow> string \<Rightarrow> string option" where
  "pvc_Annotation c k \<equiv> gm_get (om_Annotations (pvc_Meta c)) k"

record ConfigMap =
  cm_Meta :: ObjectMeta
  cm_Data :: "(string, string) gomap"

text \<open>\<open>intstr.IntOrString\<close>: which of the two values counts is told by the type.\<close>

datatype IntOrStringType = IntType | StringType

record IntOrString =
  ios_Type :: IntOrStringType
  ios_IntVal :: int
  ios_StrVal :: string

record ServicePort =
  sp_Name :: string
  sp_Port :: int
  sp_TargetPort :: IntOrString

record Service =
  svc_Meta :: ObjectMeta
  svc_Selector :: labels
  svc_Ports :: "ServicePort list"
  svc_ClusterIP :: string

text \<open>A rule without peers applies to every peer.\<close>

record NetworkPolicyRule =
  np_Peers :: "labels list"
  np_Ports :: "(string \<times> int) list"

record NetworkPolicy =
  np_Meta :: ObjectMeta
  np_PodSelector :: labels
  np_PolicyTypes :: "string list"
  np_Ingress :: "NetworkPolicyRule list"
  np_Egress :: "NetworkPolicyRule list"

record Secret =
  sec_Meta :: ObjectMeta
  sec_Data :: "(string, string) gomap"
  sec_Type :: string

abbreviation sec_Name :: "Secret \<Rightarrow> string" where
  "sec_Name s \<equiv> om_Name (sec_Meta s)"

record JobCondition =
  jc_Type :: string
  jc_Status :: string

record Job =
  job_Meta :: ObjectMeta
  job_TemplateMeta :: ObjectMeta
  job_Containers :: "Container list"
  job_RestartPolicy :: string
  job_Volumes :: "Volume list"
  job_BackoffLimit :: int
  job_Conditions :: "JobCondition list"
  job_Failed :: int

end
