(* ===== verification/ApiTypes.thy ===== *)
theory ApiTypes
  imports KubeTypes
begin

text \<open>
  \<^verbatim>\<open>pkg/apis/aerospike/common\<close> and \<^verbatim>\<open>pkg/apis/aerospike/v1alpha2\<close>: the custom
  resources and their methods. An embedded struct (\<open>AerospikeClusterStatus\<close> embeds the spec)
  is a field.
\<close>

section \<open>common/types.go\<close>

definition StorageTypeFile :: string where "StorageTypeFile = ''file''"
definition StorageTypeDevice :: string where "StorageTypeDevice = ''device''"
definition StorageTypeGCS :: string where "StorageTypeGCS = ''gcs''"

definition ConditionBackupFailed :: string where "ConditionBackupFailed = ''BackupFailed''"
definition ConditionBackupFinished :: string where "ConditionBackupFinished = ''BackupFinished''"
definition ConditionBackupStarted :: string where "ConditionBackupStarted = ''BackupStarted''"
definition ConditionRestoreFailed :: string where "ConditionRestoreFailed = ''RestoreFailed''"
definition ConditionRestoreFinished :: string where "ConditionRestoreFinished = ''RestoreFinished''"
definition ConditionRestoreStarted :: string where "ConditionRestoreStarted = ''RestoreStarted''"
definition ConditionUpgradeStarted :: string where "ConditionUpgradeStarted = ''UpgradeStarted''"
definition ConditionUpgradeFinished :: string where "ConditionUpgradeFinished = ''UpgradeFinished''"
definition ConditionUpgradeFailed :: string where "ConditionUpgradeFailed = ''UpgradeFailed''"
definition ConditionAutoBackupStarted :: string where
  "ConditionAutoBackupStarted = ''AutoBackupStarted''"
definition ConditionAutoBackupFinished :: string where
  "ConditionAutoBackupFinished = ''AutoBackupFinished''"
definition ConditionAutoBackupFailed :: string where
  "ConditionAutoBackupFailed = ''AutoBackupFailed''"
definition DefaultSecretFilename :: string where "DefaultSecretFilename = ''key.json''"

datatype OperationType = OperationTypeBackup | OperationTypeRestore

text \<open>\<open>string(op)\<close>\<close>

fun op_string :: "OperationType \<Rightarrow> string" where
  "op_string OperationTypeBackup = ''backup''"
| "op_string OperationTypeRestore = ''restore''"

definition AerospikeClusterKind :: string where "AerospikeClusterKind = ''AerospikeCluster''"
definition AerospikeNamespaceBackupKind :: string where
  "AerospikeNamespaceBackupKind = ''AerospikeNamespaceBackup''"
definition AerospikeNamespaceRestoreKind :: string where
  "AerospikeNamespaceRestoreKind = ''AerospikeNamespaceRestore''"

lemmas condition_types = ConditionBackupFailed_def ConditionBackupFinished_def
  ConditionBackupStarted_def ConditionRestoreFailed_def ConditionRestoreFinished_def
  ConditionRestoreStarted_def ConditionUpgradeStarted_def ConditionUpgradeFinished_def
  ConditionUpgradeFailed_def ConditionAutoBackupStarted_def ConditionAutoBackupFinished_def
  ConditionAutoBackupFailed_def

lemmas storage_types = StorageTypeFile_def StorageTypeDevice_def StorageTypeGCS_def

text \<open>\<open>SchemeGroupVersion.String()\<close> of v1alpha2 (register.go)\<close>

definition SchemeGroupVersion :: string where
  "SchemeGroupVersion = ''aerospike.travelaudience.com/v1alpha2''"

section \<open>Conditions\<close>

text \<open>\<open>apiextensions.CustomResourceDefinitionCondition\<close>\<close>

record Condition =
  c_Type :: string
  c_Status :: string
  c_Reason :: string
  c_Message :: string
  c_LastTransitionTime :: int

definition ConditionTrue :: string where "ConditionTrue = ''True''"

section \<open>v1alpha2/cluster.go\<close>

record StorageSpec =
  st_Type :: string
  st_Size :: string
  st_StorageClassName :: "string option"
  st_PersistentVolumeClaimTTL :: "string option"
  st_DataInMemory :: "bool option"

record AerospikeNamespaceSpec =
  ns_Name :: string
  ns_ReplicationFactor :: "int option"
  ns_MemorySize :: "string option"
  ns_DefaultTTL :: "string option"
  ns_Storage :: StorageSpec

record BackupStorageSpec =
  bs_Type :: string
  bs_Bucket :: string
  bs_Secret :: string
  bs_SecretNamespace :: "string option"
  bs_SecretKey :: "string option"

record AerospikeClusterBackupSpec =
  cb_TTL :: "string option"
  cb_Storage :: BackupStorageSpec

record AerospikeClusterSpec =
  spec_NodeCount :: int
  spec_Version :: string
  spec_Namespaces :: "AerospikeNamespaceSpec list"
  spec_BackupSpec :: "AerospikeClusterBackupSpec option"
  spec_Resources :: "ResourceRequirements option"
  spec_NodeSelector :: "(string, string) gomap"
  spec_Tolerations :: "Toleration list"

record AerospikeClusterStatus =
  status_Spec :: AerospikeClusterSpec
  status_Conditions :: "Condition list"

record AerospikeCluster =
  asc_Meta :: ObjectMeta
  asc_Spec :: AerospikeClusterSpec
  asc_Status :: AerospikeClusterStatus

abbreviation asc_Name :: "AerospikeCluster \<Rightarrow> string" where
  "asc_Name c \<equiv> om_Name (asc_Meta c)"

abbreviation asc_Namespace :: "AerospikeCluster \<Rightarrow> string" where
  "asc_Namespace c \<equiv> om_Namespace (asc_Meta c)"

section \<open>v1alpha2/backup.go and restore.go\<close>

text \<open>
  \<open>SyncStatusWithSpec\<close> compares the TTL \<^emph>\<open>pointers\<close> of a backup, so such a pointer is
  kept with its address: \<open>p != q\<close> compares addresses, \<open>reflect.DeepEqual\<close> the strings.
\<close>

datatype strptr = StrPtr (address: nat) (deref: string)

record TargetNamespace =
  tn_Cluster :: string
  tn_Namespace :: string

record AerospikeNamespaceBackupSpec =
  bk_Target :: TargetNamespace
  bk_Storage :: "BackupStorageSpec option"
  bk_TTL :: "strptr option"

record AerospikeNamespaceBackupStatus =
  bks_Spec :: AerospikeNamespaceBackupSpec
  bks_Conditions :: "Condition list"

record AerospikeNamespaceBackup =
  asnb_Meta :: ObjectMeta
  asnb_Spec :: AerospikeNamespaceBackupSpec
  asnb_Status :: AerospikeNamespaceBackupStatus

record AerospikeNamespaceRestoreSpec =
  re_Target :: TargetNamespace
  re_Storage :: "BackupStorageSpec option"

record AerospikeNamespaceRestoreStatus =
  res_Spec :: AerospikeNamespaceRestoreSpec
  res_Conditions :: "Condition list"

record AerospikeNamespaceRestore =
  asnr_Meta :: ObjectMeta
  asnr_Spec :: AerospikeNamespaceRestoreSpec
  asnr_Status :: AerospikeNamespaceRestoreStatus

text \<open>\<open>reflect.DeepEqual\<close> of two backup specs follows the TTL pointers.\<close>

definition deep_equal_backup_spec ::
    "AerospikeNamespaceBackupSpec \<Rightarrow> AerospikeNamespaceBackupSpec \<Rightarrow> bool" where
  "deep_equal_backup_spec a b \<longleftrightarrow>
     bk_Target a = bk_Target b \<and> bk_Storage a = bk_Storage b \<and>
     map_option deref (bk_TTL a) = map_option deref (bk_TTL b)"

definition GetSecret :: "BackupStorageSpec \<Rightarrow> string" where
  "GetSecret b = bs_Secret b"

definition GetSecretKey :: "BackupStorageSpec \<Rightarrow> string" where
  "GetSecretKey b = (case bs_SecretKey b of Some k \<Rightarrow> k | None \<Rightarrow> DefaultSecretFilename)"

text \<open>\<open>metav1.NamespaceDefault\<close> is \<open>default\<close>.\<close>

definition GetSecretNamespace :: "BackupStorageSpec \<Rightarrow> string \<Rightarrow> string" where
  "GetSecretNamespace b fallbackNamespace =
     (let namespace = (case bs_SecretNamespace b of Some n \<Rightarrow> n | None \<Rightarrow> fallbackNamespace)
      in if namespace = [] then ''default'' else namespace)"

text \<open>
  \<open>(b *AerospikeNamespaceBackup) SyncStatusWithSpec\<close> and its counterpart for restores: the
  object with its status brought up to date, and whether anything was assigned.
\<close>

text \<open>\<open>p != q\<close> on string pointers.\<close>

definition ptr_neq :: "strptr option \<Rightarrow> strptr option \<Rightarrow> bool" where
  "ptr_neq p q \<longleftrightarrow> map_option address p \<noteq> map_option address q"

definition Backup_SyncStatusWithSpec ::
    "AerospikeNamespaceBackup \<Rightarrow> AerospikeNamespaceBackup \<times> bool" where
  "Backup_SyncStatusWithSpec b =
     (let sp = asnb_Spec b; st = bks_Spec (asnb_Status b);
          m1 = (bk_Storage st \<noteq> bk_Storage sp);
          st1 = (if m1 then st\<lparr>bk_Storage := bk_Storage sp\<rparr> else st);
          m2 = (bk_Target st1 \<noteq> bk_Target sp);
          st2 = (if m2 then st1\<lparr>bk_Target := bk_Target sp\<rparr> else st1);
          m3 = ptr_neq (bk_TTL st2) (bk_TTL sp);
          st3 = (if m3 then st2\<lparr>bk_TTL := bk_TTL sp\<rparr> else st2)
      in (b\<lparr>asnb_Status := (asnb_Status b)\<lparr>bks_Spec := st3\<rparr>\<rparr>, m1 \<or> m2 \<or> m3))"

definition Restore_SyncStatusWithSpec ::
    "AerospikeNamespaceRestore \<Rightarrow> AerospikeNamespaceRestore \<times> bool" where
  "Restore_SyncStatusWithSpec r =
     (let sp = asnr_Spec r; st = res_Spec (asnr_Status r);
          m1 = (re_Storage st \<noteq> re_Storage sp);
          st1 = (if m1 then st\<lparr>re_Storage := re_Storage sp\<rparr> else st);
          m2 = (re_Target st1 \<noteq> re_Target sp);
          st2 = (if m2 then st1\<lparr>re_Target := re_Target sp\<rparr> else st1)
      in (r\<lparr>asnr_Status := (asnr_Status r)\<lparr>res_Spec := st2\<rparr>\<rparr>, m1 \<or> m2))"

section \<open>The BackupRestoreObject interface (v1alpha2/types.go)\<close>

text \<open>
  A Go interface value is a pointer to an object and a table of the methods of its type.
  \<open>'o BackupRestoreObject\<close> is that table; setters return the changed object. The two
  type assertions \<open>obj.(*AerospikeNamespaceBackup)\<close> and
  \<open>obj.(*AerospikeNamespaceRestore)\<close> of the handler are entries too.
\<close>

record 'o BackupRestoreObject =
  GetOperationType :: OperationType
  GetKind :: string
  GetObjectMeta :: "'o \<Rightarrow> ObjectMeta"
  GetStorage :: "'o \<Rightarrow> BackupStorageSpec option"
  SetStorage :: "BackupStorageSpec option \<Rightarrow> 'o \<Rightarrow> 'o"
  GetTarget :: "'o \<Rightarrow> TargetNamespace"
  GetConditions :: "'o \<Rightarrow> Condition list"
  SetConditions :: "Condition list \<Rightarrow> 'o \<Rightarrow> 'o"
  GetFailedConditionType :: string
  GetFinishedConditionType :: string
  GetStartedConditionType :: string
  SyncStatusWithSpec :: "'o \<Rightarrow> 'o \<times> bool"
  assert_backup :: "'o \<Rightarrow> AerospikeNamespaceBackup option"
  assert_restore :: "'o \<Rightarrow> AerospikeNamespaceRestore option"

text \<open>\<open>GetName\<close> and \<open>GetNamespace\<close> read the metadata in both implementations.\<close>

definition GetName :: "'o BackupRestoreObject \<Rightarrow> 'o \<Rightarrow> string" where
  "GetName I x = om_Name (GetObjectMeta I x)"

definition GetNamespace :: "'o BackupRestoreObject \<Rightarrow> 'o \<Rightarrow> string" where
  "GetNamespace I x = om_Namespace (GetObjectMeta I x)"

definition Backup_methods :: "AerospikeNamespaceBackup BackupRestoreObject" where
  "Backup_methods = \<lparr>
     GetOperationType = OperationTypeBackup,
     GetKind = AerospikeNamespaceBackupKind,
     GetObjectMeta = asnb_Meta,
     GetStorage = (\<lambda>b. bk_Storage (asnb_Spec b)),
     SetStorage = (\<lambda>storage b. b\<lparr>asnb_Spec := (asnb_Spec b)\<lparr>bk_Storage := storage\<rparr>\<rparr>),
     GetTarget = (\<lambda>b. bk_Target (asnb_Spec b)),
     GetConditions = (\<lambda>b. bks_Conditions (asnb_Status b)),
     SetConditions = (\<lambda>cs b. b\<lparr>asnb_Status := (asnb_Status b)\<lparr>bks_Conditions := cs\<rparr>\<rparr>),
     GetFailedConditionType = ConditionBackupFailed,
     GetFinishedConditionType = ConditionBackupFinished,
     GetStartedConditionType = ConditionBackupStarted,
     SyncStatusWithSpec = Backup_SyncStatusWithSpec,
     assert_backup = Some,
     assert_restore = (\<lambda>_. None)\<rparr>"

definition Restore_methods :: "AerospikeNamespaceRestore BackupRestoreObject" where
  "Restore_methods = \<lparr>
     GetOperationType = OperationTypeRestore,
     GetKind = AerospikeNamespaceRestoreKind,
     GetObjectMeta = asnr_Meta,
     GetStorage = (\<lambda>r. re_Storage (asnr_Spec r)),
     SetStorage = (\<lambda>storage r. r\<lparr>asnr_Spec := (asnr_Spec r)\<lparr>re_Storage := storage\<rparr>\<rparr>),
     GetTarget = (\<lambda>r. re_Target (asnr_Spec r)),
     GetConditions = (\<lambda>r. res_Conditions (asnr_Status r)),
     SetConditions = (\<lambda>cs r. r\<lparr>asnr_Status := (asnr_Status r)\<lparr>res_Conditions := cs\<rparr>\<rparr>),
     GetFailedConditionType = ConditionRestoreFailed,
     GetFinishedConditionType = ConditionRestoreFinished,
     GetStartedConditionType = ConditionRestoreStarted,
     SyncStatusWithSpec = Restore_SyncStatusWithSpec,
     assert_backup = (\<lambda>_. None),
     assert_restore = Some\<rparr>"

text \<open>
  What the handler of backups and restores relies on, whichever object it is given: the
  setters and getters fit together, synchronising the status touches neither the metadata
  nor the spec nor the conditions, the three condition types differ, and the type assertion
  guarded by \<open>GetOperationType\<close> succeeds.
\<close>

locale backup_restore_object =
  fixes I :: "'o BackupRestoreObject"
  assumes get_set_conditions: "GetConditions I (SetConditions I cs x) = cs"
    and meta_set_conditions: "GetObjectMeta I (SetConditions I cs x) = GetObjectMeta I x"
    and storage_set_conditions: "GetStorage I (SetConditions I cs x) = GetStorage I x"
    and target_set_conditions: "GetTarget I (SetConditions I cs x) = GetTarget I x"
    and get_set_storage: "GetStorage I (SetStorage I s x) = s"
    and meta_set_storage: "GetObjectMeta I (SetStorage I s x) = GetObjectMeta I x"
    and target_set_storage: "GetTarget I (SetStorage I s x) = GetTarget I x"
    and conditions_set_storage: "GetConditions I (SetStorage I s x) = GetConditions I x"
    and conditions_sync: "GetConditions I (fst (SyncStatusWithSpec I x)) = GetConditions I x"
    and meta_sync: "GetObjectMeta I (fst (SyncStatusWithSpec I x)) = GetObjectMeta I x"
    and storage_sync: "GetStorage I (fst (SyncStatusWithSpec I x)) = GetStorage I x"
    and target_sync: "GetTarget I (fst (SyncStatusWithSpec I x)) = GetTarget I x"
    and distinct_conditions:
      "distinct [GetFailedConditionType I, GetFinishedConditionType I, GetStartedConditionType I]"
    and assertion: "case GetOperationType I of
        OperationTypeBackup \<Rightarrow> assert_backup I x \<noteq> None
      | OperationTypeRestore \<Rightarrow> assert_restore I x \<noteq> None"
    and backup_conditions: "assert_backup I x = Some b \<Longrightarrow> bks_Conditions (asnb_Status b) = GetConditions I x"
    and restore_conditions: "assert_restore I x = Some r \<Longrightarrow> res_Conditions (asnr_Status r) = GetConditions I x"
begin

lemmas laws [simp] = get_set_conditions meta_set_conditions storage_set_conditions
  target_set_conditions get_set_storage meta_set_storage target_set_storage
  conditions_set_storage conditions_sync meta_sync storage_sync target_sync

lemma name_laws [simp]:
  "GetName I (SetConditions I cs x) = GetName I x"
  "GetNamespace I (SetConditions I cs x) = GetNamespace I x"
  "GetName I (SetStorage I s x) = GetName I x"
  "GetNamespace I (SetStorage I s x) = GetNamespace I x"
  by (simp_all add: GetName_def GetNamespace_def)

lemma condition_neq:
  "GetFailedConditionType I \<noteq> GetStartedConditionType I"
  "GetFinishedConditionType I \<noteq> GetStartedConditionType I"
  "GetFailedConditionType I \<noteq> GetFinishedConditionType I"
  using distinct_conditions by auto

end

interpretation backup: backup_restore_object Backup_methods
  by unfold_locales
    (simp_all add: Backup_methods_def Backup_SyncStatusWithSpec_def Let_def condition_types)

interpretation restore: backup_restore_object Restore_methods
  by unfold_locales
    (simp_all add: Restore_methods_def Restore_SyncStatusWithSpec_def Let_def condition_types)

section \<open>Facts about the methods\<close>

lemma Backup_sync_status:
  "bks_Spec (asnb_Status (fst (Backup_SyncStatusWithSpec b))) =
     (asnb_Spec b)\<lparr>bk_TTL := (if ptr_neq (bk_TTL (bks_Spec (asnb_Status b))) (bk_TTL (asnb_Spec b))
        then bk_TTL (asnb_Spec b) else bk_TTL (bks_Spec (asnb_Status b)))\<rparr>"
  by (simp add: Backup_SyncStatusWithSpec_def Let_def)

lemma Restore_sync_status: "res_Spec (asnr_Status (fst (Restore_SyncStatusWithSpec r))) = asnr_Spec r"
  by (simp add: Restore_SyncStatusWithSpec_def Let_def)

lemma Restore_sync_changed:
  "snd (Restore_SyncStatusWithSpec r) \<longleftrightarrow> res_Spec (asnr_Status r) \<noteq> asnr_Spec r"
  by (cases "asnr_Spec r"; cases "res_Spec (asnr_Status r)")
    (auto simp: Restore_SyncStatusWithSpec_def Let_def)

lemma GetSecretNamespace_ne: "GetSecretNamespace b fb \<noteq> []"
  by (simp add: GetSecretNamespace_def Let_def)

end
