(* ===== verification/KubeEnv.thy ===== *)
theory KubeEnv
  imports ApiTypes
begin

text \<open>
  The environment of the reconciler, the backup and restore handler, the garbage collector
  and the admission webhook. Everything here stands for code outside the repository (the
  Kubernetes clientsets and listers, the Aerospike client, the cloud storage client, the
  clock, the hash functions): the fields of \<open>env\<close> are parameters of the model, each a
  function of the history of calls. A Kubernetes call fails with an \<open>api_err\<close>, any other
  client with a text, so no environment can return the operator's own sentinel errors.
\<close>

section \<open>The calls\<close>

datatype kind = KPod | KConfigMap | KPVC | KSecret | KJob | KStorageClass | KCluster | KBackup | KRestore

text \<open>
  Reads record what is read, writes also whether they succeeded. \<open>EvRecord\<close> is an event of
  the recorder (its type and reason; the message is not kept). A patch is recorded as the
  pair of objects it was computed from.
\<close>

datatype event =
    EvNow
  | EvRecord string string
  | EvGet kind string string
  | EvList kind string labels
  | EvWatchPod string string int
  | EvCreatePod Pod bool
  | EvDeletePod string string int bool
  | EvCreateConfigMap ConfigMap bool
  | EvUpdateConfigMap ConfigMap bool
  | EvCreateService Service bool
  | EvCreateNetworkPolicy NetworkPolicy bool
  | EvCreatePVC PersistentVolumeClaim bool
  | EvPatchPVC PersistentVolumeClaim PersistentVolumeClaim bool
  | EvDeletePVC string string bool
  | EvCreateSecret string Secret bool
  | EvDeleteSecret string string bool
  | EvCreateJob Job bool
  | EvPatchCluster AerospikeCluster AerospikeCluster bool
  | EvUpdateClusterStatus AerospikeCluster bool
  | EvCreateBackup AerospikeNamespaceBackup bool
  | EvUpdateBackupStatus AerospikeNamespaceBackup bool
  | EvDeleteBackup string string bool
  | EvUpdateRestoreStatus AerospikeNamespaceRestore bool
  | EvConnect string int
  | EvInfo string string bool
  | EvMigrationQuery string "bool option"
  | EvWaitMigrations string int bool
  | EvBucketAttrs string
  | EvDeleteObject string string bool

type_synonym history = "event list"
type_synonym 'a act = "(event, 'a) io"
type_synonym 'a acte = "(event, gerr + 'a) io"

record env =
  env_now :: "history \<Rightarrow> int"
  \<comment> \<open>pods\<close>
  env_list_pods :: "history \<Rightarrow> string \<Rightarrow> labels \<Rightarrow> api_err + Pod list"
  env_get_pod :: "history \<Rightarrow> string \<Rightarrow> string \<Rightarrow> api_err + Pod"
  env_create_pod :: "history \<Rightarrow> Pod \<Rightarrow> api_err + Pod"
  env_delete_pod :: "history \<Rightarrow> string \<Rightarrow> string \<Rightarrow> api_err + unit"
  env_watch_pod :: "history \<Rightarrow> string \<Rightarrow> string \<Rightarrow> int \<Rightarrow> Pod watch_event list \<times> string"
  env_pod_ready :: "Pod \<Rightarrow> bool"
  \<comment> \<open>config maps, services, network policies, storage classes\<close>
  env_create_configmap :: "history \<Rightarrow> ConfigMap \<Rightarrow> api_err + ConfigMap"
  env_get_configmap :: "history \<Rightarrow> string \<Rightarrow> string \<Rightarrow> api_err + ConfigMap"
  env_update_configmap :: "history \<Rightarrow> ConfigMap \<Rightarrow> api_err + ConfigMap"
  env_create_service :: "history \<Rightarrow> Service \<Rightarrow> api_err + Service"
  env_create_networkpolicy :: "history \<Rightarrow> NetworkPolicy \<Rightarrow> api_err + NetworkPolicy"
  env_get_storageclass :: "history \<Rightarrow> string \<Rightarrow> api_err + unit"
  \<comment> \<open>persistent volume claims\<close>
  env_list_pvcs :: "history \<Rightarrow> string \<Rightarrow> labels \<Rightarrow> api_err + PersistentVolumeClaim list"
  env_get_pvc :: "history \<Rightarrow> string \<Rightarrow> string \<Rightarrow> api_err + PersistentVolumeClaim"
  env_create_pvc :: "history \<Rightarrow> PersistentVolumeClaim \<Rightarrow> api_err + PersistentVolumeClaim"
  env_patch_pvc :: "history \<Rightarrow> string \<Rightarrow> string \<Rightarrow> string \<Rightarrow> api_err + unit"
  env_delete_pvc :: "history \<Rightarrow> string \<Rightarrow> string \<Rightarrow> api_err + unit"
  \<comment> \<open>secrets and jobs\<close>
  env_get_secret :: "history \<Rightarrow> string \<Rightarrow> string \<Rightarrow> api_err + Secret"
  env_list_secrets :: "history \<Rightarrow> string \<Rightarrow> labels \<Rightarrow> api_err + Secret list"
  env_create_secret :: "history \<Rightarrow> string \<Rightarrow> Secret \<Rightarrow> api_err + Secret"
  env_delete_secret :: "history \<Rightarrow> string \<Rightarrow> string \<Rightarrow> api_err + unit"
  env_get_job :: "history \<Rightarrow> string \<Rightarrow> string \<Rightarrow> api_err + Job"
  env_create_job :: "history \<Rightarrow> Job \<Rightarrow> api_err + Job"
  \<comment> \<open>custom resources\<close>
  env_get_cluster :: "history \<Rightarrow> string \<Rightarrow> string \<Rightarrow> api_err + AerospikeCluster"
  env_patch_cluster :: "history \<Rightarrow> string \<Rightarrow> string \<Rightarrow> string \<Rightarrow> api_err + AerospikeCluster"
  env_update_cluster_status :: "history \<Rightarrow> AerospikeCluster \<Rightarrow> api_err + AerospikeCluster"
  env_get_backup :: "history \<Rightarrow> string \<Rightarrow> string \<Rightarrow> api_err + AerospikeNamespaceBackup"
  env_get_restore :: "history \<Rightarrow> string \<Rightarrow> string \<Rightarrow> api_err + AerospikeNamespaceRestore"
  env_create_backup :: "history \<Rightarrow> AerospikeNamespaceBackup \<Rightarrow> api_err + AerospikeNamespaceBackup"
  env_update_backup_status :: "history \<Rightarrow> AerospikeNamespaceBackup \<Rightarrow> api_err + unit"
  env_delete_backup :: "history \<Rightarrow> string \<Rightarrow> string \<Rightarrow> api_err + unit"
  env_update_restore_status :: "history \<Rightarrow> AerospikeNamespaceRestore \<Rightarrow> api_err + unit"
  \<comment> \<open>JSON and merge patches: the bytes of the patch from the first object to the second\<close>
  env_cluster_patch :: "AerospikeCluster \<Rightarrow> AerospikeCluster \<Rightarrow> string + string"
  env_pvc_patch :: "PersistentVolumeClaim \<Rightarrow> PersistentVolumeClaim \<Rightarrow> string + string"
  \<comment> \<open>the Aerospike client\<close>
  env_connect :: "history \<Rightarrow> string \<Rightarrow> int \<Rightarrow> string + unit"
  env_info :: "history \<Rightarrow> string \<Rightarrow> string \<Rightarrow> string + (string, string) fmap"
  env_nodes :: "history \<Rightarrow> string \<Rightarrow> string list"
  env_migrating :: "history \<Rightarrow> string \<Rightarrow> string + bool"
  env_wait_migrations :: "history \<Rightarrow> string \<Rightarrow> int \<Rightarrow> string + unit"
  env_ticks :: "history \<Rightarrow> nat"
  \<comment> \<open>cloud storage\<close>
  env_gcs_client :: "history \<Rightarrow> string \<Rightarrow> string + unit"
  env_bucket_attrs :: "history \<Rightarrow> string \<Rightarrow> string + unit"
  env_delete_object :: "history \<Rightarrow> string \<Rightarrow> string \<Rightarrow> string + unit"
  \<comment> \<open>pure library code: hashes (hexadecimal digests), quantities, IEEE 754 floats, time\<close>
  env_sha256 :: "string \<Rightarrow> string"
  env_md5 :: "string \<Rightarrow> string"
  env_parse_quantity :: "string \<Rightarrow> string + quantity"
  env_parse_float :: "string \<Rightarrow> string + nat"
  env_format_hours :: "nat \<Rightarrow> string"
  env_parse_go_duration :: "string \<Rightarrow> string + int"
  env_parse_rfc3339 :: "string \<Rightarrow> string + int"
  env_format_rfc3339 :: "int \<Rightarrow> string"
  \<comment> \<open>helpers of the Kubernetes libraries: quantities that must parse, the entries of a resource list
     (None for nil), keys of the form namespace/name, the owner that controls an object\<close>
  env_must_parse :: "string \<Rightarrow> quantity"
  env_cpu :: "(string, quantity) gomap \<Rightarrow> quantity option"
  env_memory :: "(string, quantity) gomap \<Rightarrow> quantity option"
  env_meta_key :: "ObjectMeta \<Rightarrow> string + string"
  env_split_key :: "string \<Rightarrow> string + string \<times> string"
  env_controller_of :: "ObjectMeta \<Rightarrow> OwnerReference option"
  \<comment> \<open>process-wide settings\<close>
  env_OperatorVersion :: string
  env_DebugEnabled :: bool

text \<open>\<open>Key\<close> of \<^verbatim>\<open>pkg/meta/key.go\<close>\<close>

definition Key :: "env \<Rightarrow> ObjectMeta \<Rightarrow> string" where
  "Key E m = (case env_meta_key E m of Inl err \<Rightarrow> ''(unknown)'' | Inr res \<Rightarrow> res)"

definition is_ok :: "'e + 'a \<Rightarrow> bool" where
  "is_ok r = (case r of Inl _ \<Rightarrow> False | Inr _ \<Rightarrow> True)"

lemma is_ok_simps [simp]: "is_ok (Inl e) = False" "is_ok (Inr x) = True"
  by (simp_all add: is_ok_def)

abbreviation of_api :: "api_err + 'a \<Rightarrow> gerr + 'a" where
  "of_api \<equiv> map_sum ApiErr id"

abbreviation of_client :: "string + 'a \<Rightarrow> gerr + 'a" where
  "of_client \<equiv> map_sum ClientErr id"

text \<open>The sentinels are the operator's own.\<close>

lemma of_api_sentinel [simp]:
  "map_sum ApiErr f r \<noteq> Inl PodUpgradeFailed" "map_sum ApiErr f r \<noteq> Inl ClusterBackupFailed"
  "map_sum ClientErr g s \<noteq> Inl PodUpgradeFailed" "map_sum ClientErr g s \<noteq> Inl ClusterBackupFailed"
  by (cases r; cases s; simp)+

section \<open>The calls as computations\<close>

abbreviation Now :: "env \<Rightarrow> int act" where
  "Now E \<equiv> call (\<lambda>_. EvNow) (env_now E)"

abbreviation Record :: "string \<Rightarrow> string \<Rightarrow> unit act" where
  "Record t reason \<equiv> call (\<lambda>_. EvRecord t reason) (\<lambda>_. ())"

abbreviation Pods_List :: "env \<Rightarrow> string \<Rightarrow> labels \<Rightarrow> Pod list acte" where
  "Pods_List E ns sel \<equiv> call (\<lambda>_. EvList KPod ns sel) (\<lambda>h. of_api (env_list_pods E h ns sel))"

abbreviation Pods_Get :: "env \<Rightarrow> string \<Rightarrow> string \<Rightarrow> Pod acte" where
  "Pods_Get E ns n \<equiv> call (\<lambda>_. EvGet KPod ns n) (\<lambda>h. of_api (env_get_pod E h ns n))"

abbreviation Pods_Create :: "env \<Rightarrow> Pod \<Rightarrow> Pod acte" where
  "Pods_Create E p \<equiv> call (\<lambda>r. EvCreatePod p (is_ok r)) (\<lambda>h. of_api (env_create_pod E h p))"

abbreviation Pods_Delete :: "env \<Rightarrow> string \<Rightarrow> string \<Rightarrow> int \<Rightarrow> unit acte" where
  "Pods_Delete E ns n grace \<equiv>
     call (\<lambda>r. EvDeletePod ns n grace (is_ok r)) (\<lambda>h. of_api (env_delete_pod E h ns n))"

abbreviation Pods_Watch ::
    "env \<Rightarrow> string \<Rightarrow> string \<Rightarrow> int \<Rightarrow> (Pod watch_event list \<times> string) act" where
  "Pods_Watch E ns n t \<equiv> call (\<lambda>_. EvWatchPod ns n t) (\<lambda>h. env_watch_pod E h ns n t)"

abbreviation ConfigMaps_Create :: "env \<Rightarrow> ConfigMap \<Rightarrow> ConfigMap acte" where
  "ConfigMaps_Create E c \<equiv>
     call (\<lambda>r. EvCreateConfigMap c (is_ok r)) (\<lambda>h. of_api (env_create_configmap E h c))"

abbreviation ConfigMaps_Get :: "env \<Rightarrow> string \<Rightarrow> string \<Rightarrow> ConfigMap acte" where
  "ConfigMaps_Get E ns n \<equiv>
     call (\<lambda>_. EvGet KConfigMap ns n) (\<lambda>h. of_api (env_get_configmap E h ns n))"

abbreviation ConfigMaps_Update :: "env \<Rightarrow> ConfigMap \<Rightarrow> ConfigMap acte" where
  "ConfigMaps_Update E c \<equiv>
     call (\<lambda>r. EvUpdateConfigMap c (is_ok r)) (\<lambda>h. of_api (env_update_configmap E h c))"

abbreviation Services_Create :: "env \<Rightarrow> Service \<Rightarrow> Service acte" where
  "Services_Create E s \<equiv>
     call (\<lambda>r. EvCreateService s (is_ok r)) (\<lambda>h. of_api (env_create_service E h s))"

abbreviation NetworkPolicies_Create :: "env \<Rightarrow> NetworkPolicy \<Rightarrow> NetworkPolicy acte" where
  "NetworkPolicies_Create E p \<equiv>
     call (\<lambda>r. EvCreateNetworkPolicy p (is_ok r)) (\<lambda>h. of_api (env_create_networkpolicy E h p))"

abbreviation StorageClasses_Get :: "env \<Rightarrow> string \<Rightarrow> unit acte" where
  "StorageClasses_Get E n \<equiv>
     call (\<lambda>_. EvGet KStorageClass [] n) (\<lambda>h. of_api (env_get_storageclass E h n))"

abbreviation PVCs_List :: "env \<Rightarrow> string \<Rightarrow> labels \<Rightarrow> PersistentVolumeClaim list acte" where
  "PVCs_List E ns sel \<equiv> call (\<lambda>_. EvList KPVC ns sel) (\<lambda>h. of_api (env_list_pvcs E h ns sel))"

abbreviation PVCs_Get :: "env \<Rightarrow> string \<Rightarrow> string \<Rightarrow> PersistentVolumeClaim acte" where
  "PVCs_Get E ns n \<equiv> call (\<lambda>_. EvGet KPVC ns n) (\<lambda>h. of_api (env_get_pvc E h ns n))"

abbreviation PVCs_Create :: "env \<Rightarrow> PersistentVolumeClaim \<Rightarrow> PersistentVolumeClaim acte" where
  "PVCs_Create E c \<equiv> call (\<lambda>r. EvCreatePVC c (is_ok r)) (\<lambda>h. of_api (env_create_pvc E h c))"

abbreviation PVCs_Delete :: "env \<Rightarrow> string \<Rightarrow> string \<Rightarrow> unit acte" where
  "PVCs_Delete E ns n \<equiv>
     call (\<lambda>r. EvDeletePVC ns n (is_ok r)) (\<lambda>h. of_api (env_delete_pvc E h ns n))"

text \<open>The last argument is the pair the patch was computed from.\<close>

abbreviation PVCs_Patch ::
    "env \<Rightarrow> string \<Rightarrow> PersistentVolumeClaim \<Rightarrow> PersistentVolumeClaim \<Rightarrow> unit acte" where
  "PVCs_Patch E patch old new \<equiv>
     call (\<lambda>r. EvPatchPVC old new (is_ok r))
       (\<lambda>h. of_api (env_patch_pvc E h (om_Namespace (pvc_Meta old)) (pvc_Name old) patch))"

abbreviation Secrets_Get :: "env \<Rightarrow> string \<Rightarrow> string \<Rightarrow> Secret acte" where
  "Secrets_Get E ns n \<equiv> call (\<lambda>_. EvGet KSecret ns n) (\<lambda>h. of_api (env_get_secret E h ns n))"

abbreviation Secrets_List :: "env \<Rightarrow> string \<Rightarrow> labels \<Rightarrow> Secret list acte" where
  "Secrets_List E ns sel \<equiv>
     call (\<lambda>_. EvList KSecret ns sel) (\<lambda>h. of_api (env_list_secrets E h ns sel))"

abbreviation Secrets_Create :: "env \<Rightarrow> string \<Rightarrow> Secret \<Rightarrow> Secret acte" where
  "Secrets_Create E ns s \<equiv>
     call (\<lambda>r. EvCreateSecret ns s (is_ok r)) (\<lambda>h. of_api (env_create_secret E h ns s))"

abbreviation Secrets_Delete :: "env \<Rightarrow> string \<Rightarrow> string \<Rightarrow> unit acte" where
  "Secrets_Delete E ns n \<equiv>
     call (\<lambda>r. EvDeleteSecret ns n (is_ok r)) (\<lambda>h. of_api (env_delete_secret E h ns n))"

abbreviation Jobs_Get :: "env \<Rightarrow> string \<Rightarrow> string \<Rightarrow> Job acte" where
  "Jobs_Get E ns n \<equiv> call (\<lambda>_. EvGet KJob ns n) (\<lambda>h. of_api (env_get_job E h ns n))"

abbreviation Jobs_Create :: "env \<Rightarrow> Job \<Rightarrow> Job acte" where
  "Jobs_Create E j \<equiv> call (\<lambda>r. EvCreateJob j (is_ok r)) (\<lambda>h. of_api (env_create_job E h j))"

abbreviation Clusters_Get :: "env \<Rightarrow> string \<Rightarrow> string \<Rightarrow> AerospikeCluster acte" where
  "Clusters_Get E ns n \<equiv> call (\<lambda>_. EvGet KCluster ns n) (\<lambda>h. of_api (env_get_cluster E h ns n))"

abbreviation Clusters_Patch ::
    "env \<Rightarrow> string \<Rightarrow> AerospikeCluster \<Rightarrow> AerospikeCluster \<Rightarrow> AerospikeCluster acte" where
  "Clusters_Patch E patch old new \<equiv>
     call (\<lambda>r. EvPatchCluster old new (is_ok r))
       (\<lambda>h. of_api (env_patch_cluster E h (asc_Namespace old) (asc_Name old) patch))"

abbreviation Clusters_UpdateStatus :: "env \<Rightarrow> AerospikeCluster \<Rightarrow> AerospikeCluster acte" where
  "Clusters_UpdateStatus E c \<equiv>
     call (\<lambda>r. EvUpdateClusterStatus c (is_ok r)) (\<lambda>h. of_api (env_update_cluster_status E h c))"

abbreviation Backups_Get :: "env \<Rightarrow> string \<Rightarrow> string \<Rightarrow> AerospikeNamespaceBackup acte" where
  "Backups_Get E ns n \<equiv> call (\<lambda>_. EvGet KBackup ns n) (\<lambda>h. of_api (env_get_backup E h ns n))"

abbreviation Restores_Get :: "env \<Rightarrow> string \<Rightarrow> string \<Rightarrow> AerospikeNamespaceRestore acte" where
  "Restores_Get E ns n \<equiv> call (\<lambda>_. EvGet KRestore ns n) (\<lambda>h. of_api (env_get_restore E h ns n))"

abbreviation Backups_Create ::
    "env \<Rightarrow> AerospikeNamespaceBackup \<Rightarrow> AerospikeNamespaceBackup acte" where
  "Backups_Create E b \<equiv>
     call (\<lambda>r. EvCreateBackup b (is_ok r)) (\<lambda>h. of_api (env_create_backup E h b))"

abbreviation Backups_UpdateStatus :: "env \<Rightarrow> AerospikeNamespaceBackup \<Rightarrow> unit acte" where
  "Backups_UpdateStatus E b \<equiv>
     call (\<lambda>r. EvUpdateBackupStatus b (is_ok r)) (\<lambda>h. of_api (env_update_backup_status E h b))"

abbreviation Backups_Delete :: "env \<Rightarrow> string \<Rightarrow> string \<Rightarrow> unit acte" where
  "Backups_Delete E ns n \<equiv>
     call (\<lambda>r. EvDeleteBackup ns n (is_ok r)) (\<lambda>h. of_api (env_delete_backup E h ns n))"

abbreviation Restores_UpdateStatus :: "env \<Rightarrow> AerospikeNamespaceRestore \<Rightarrow> unit acte" where
  "Restores_UpdateStatus E b \<equiv>
     call (\<lambda>r. EvUpdateRestoreStatus b (is_ok r)) (\<lambda>h. of_api (env_update_restore_status E h b))"

abbreviation As_Connect :: "env \<Rightarrow> string \<Rightarrow> int \<Rightarrow> unit acte" where
  "As_Connect E ip port \<equiv> call (\<lambda>_. EvConnect ip port) (\<lambda>h. of_client (env_connect E h ip port))"

abbreviation As_Info :: "env \<Rightarrow> string \<Rightarrow> string \<Rightarrow> (string, string) fmap acte" where
  "As_Info E ip cmd \<equiv> call (\<lambda>r. EvInfo ip cmd (is_ok r)) (\<lambda>h. of_client (env_info E h ip cmd))"

abbreviation As_Migrating :: "env \<Rightarrow> string \<Rightarrow> bool acte" where
  "As_Migrating E node \<equiv>
     call (\<lambda>r. EvMigrationQuery node (case r of Inl _ \<Rightarrow> None | Inr b \<Rightarrow> Some b)) (\<lambda>h. of_client (env_migrating E h node))"

abbreviation As_WaitMigrations :: "env \<Rightarrow> string \<Rightarrow> int \<Rightarrow> unit acte" where
  "As_WaitMigrations E node t \<equiv>
     call (\<lambda>r. EvWaitMigrations node t (is_ok r)) (\<lambda>h. of_client (env_wait_migrations E h node t))"

text \<open>A read of the history itself, for the parameters that are no calls.\<close>

abbreviation Peek :: "(history \<Rightarrow> 'a) \<Rightarrow> 'a act" where
  "Peek f \<equiv> State (\<lambda>h. (f h, h))"

abbreviation Gcs_NewClient :: "env \<Rightarrow> string \<Rightarrow> unit acte" where
  "Gcs_NewClient E credentials \<equiv> Peek (\<lambda>h. of_client (env_gcs_client E h credentials))"

abbreviation Gcs_Attrs :: "env \<Rightarrow> string \<Rightarrow> unit acte" where
  "Gcs_Attrs E bucket \<equiv>
     call (\<lambda>_. EvBucketAttrs bucket) (\<lambda>h. of_client (env_bucket_attrs E h bucket))"

abbreviation Gcs_Delete :: "env \<Rightarrow> string \<Rightarrow> string \<Rightarrow> unit acte" where
  "Gcs_Delete E bucket obj \<equiv>
     call (\<lambda>r. EvDeleteObject bucket obj (is_ok r)) (\<lambda>h. of_client (env_delete_object E h bucket obj))"

lemma emits_Peek [emits_intro]: "emits P (Peek f)"
  by (simp add: emits_def)

section \<open>Kinds of calls\<close>

text \<open>Reads, clock readings, recorder events and queries of a node change nothing.\<close>

fun writes :: "event \<Rightarrow> bool" where
  "writes EvNow = False"
| "writes (EvRecord _ _) = False"
| "writes (EvGet _ _ _) = False"
| "writes (EvList _ _ _) = False"
| "writes (EvWatchPod _ _ _) = False"
| "writes (EvConnect _ _) = False"
| "writes (EvMigrationQuery _ _) = False"
| "writes (EvInfo _ cmd _) = (cmd \<noteq> ''build'' \<and> cmd \<noteq> ''statistics'')"
| "writes (EvWaitMigrations _ _ _) = False"
| "writes (EvBucketAttrs _) = False"
| "writes _ = True"

fun touches_pods :: "event \<Rightarrow> bool" where
  "touches_pods (EvCreatePod _ _) = True"
| "touches_pods (EvDeletePod _ _ _ _) = True"
| "touches_pods _ = False"

fun touches_pvcs :: "event \<Rightarrow> bool" where
  "touches_pvcs (EvCreatePVC _ _) = True"
| "touches_pvcs (EvPatchPVC _ _ _) = True"
| "touches_pvcs (EvDeletePVC _ _ _) = True"
| "touches_pvcs _ = False"

fun creates_job :: "event \<Rightarrow> bool" where
  "creates_job (EvCreateJob _ _) = True"
| "creates_job _ = False"

fun creates_backup :: "event \<Rightarrow> bool" where
  "creates_backup (EvCreateBackup _ _) = True"
| "creates_backup _ = False"

end
