(* ===== verification/Constants.thy ===== *)
theory Constants
  imports KubeEnv
begin

text \<open>
  \<^verbatim>\<open>pkg/reconciler/constants.go\<close> (without the configuration templates, which are in
  theory ConfigMaps) and the labels of \<^verbatim>\<open>pkg/utils/selectors/label.go\<close>. Durations are in
  nanoseconds.
\<close>

section \<open>Selectors\<close>

definition LabelAppKey :: string where "LabelAppKey = ''app''"
definition LabelAppVal :: string where "LabelAppVal = ''aerospike''"
definition LabelClusterKey :: string where "LabelClusterKey = ''cluster''"
definition LabelNamespaceKey :: string where "LabelNamespaceKey = ''namespace''"

lemmas label_keys = LabelAppKey_def LabelAppVal_def LabelClusterKey_def LabelNamespaceKey_def

text \<open>A selector from a set of labels is the set itself.\<close>

definition ResourcesByClusterName :: "string \<Rightarrow> labels" where
  "ResourcesByClusterName name = map_lit [(LabelAppKey, LabelAppVal), (LabelClusterKey, name)]"

definition ResourcesByBackupRestoreObject :: "'o BackupRestoreObject \<Rightarrow> 'o \<Rightarrow> labels" where
  "ResourcesByBackupRestoreObject I obj =
     map_lit [(LabelAppKey, LabelAppVal), (op_string (GetOperationType I), GetName I obj)]"

section \<open>Names and paths\<close>

definition initialConfigVolumeName :: string where "initialConfigVolumeName = ''aerospike-conf-src''"
definition initialConfigMountPath :: string where "initialConfigMountPath = ''/aerospike-conf-src''"
definition finalConfigVolumeName :: string where "finalConfigVolumeName = ''aerospike-conf''"
definition finalConfigMountPath :: string where "finalConfigMountPath = ''/aerospike-conf''"
definition configFileName :: string where "configFileName = ''aerospike.conf''"
definition namespaceVolumePrefix :: string where "namespaceVolumePrefix = ''data-ns''"
definition defaultFilePath :: string where "defaultFilePath = ''/opt/aerospike/data/''"
definition defaultDevicePathPrefix :: string where "defaultDevicePathPrefix = ''/dev/xvd''"

section \<open>Ports\<close>

definition cServicePort :: int where "cServicePort = 3000"
definition servicePortName :: string where "servicePortName = ''service''"
definition HeartbeatPort :: int where "HeartbeatPort = 3002"
definition heartbeatPortName :: string where "heartbeatPortName = ''heartbeat''"
definition fabricPort :: int where "fabricPort = 3001"
definition fabricPortName :: string where "fabricPortName = ''fabric''"
definition infoPort :: int where "infoPort = 3003"
definition infoPortName :: string where "infoPortName = ''info''"
definition aspromPortName :: string where "aspromPortName = ''prometheus''"
definition aspromPort :: int where "aspromPort = 9145"

lemmas ports = cServicePort_def HeartbeatPort_def fabricPort_def infoPort_def aspromPort_def

section \<open>Timeouts\<close>

definition second :: int where "second = 1000000000"
definition watchCreatePodTimeout :: int where "watchCreatePodTimeout = 3 * 3600 * second"
definition watchDeletePodTimeout :: int where "watchDeletePodTimeout = 3 * 60 * second"
definition terminationGracePeriod :: int where "terminationGracePeriod = 2 * 60 * second"
definition waitMigrationsTimeout :: int where "waitMigrationsTimeout = 3600 * second"

section \<open>Annotations\<close>

definition configMapHashAnnotation :: string where
  "configMapHashAnnotation = ''aerospike.travelaudience.com/config-map-hash''"
definition nodeIdAnnotation :: string where
  "nodeIdAnnotation = ''aerospike.travelaudience.com/node-id''"
definition PodAnnotation :: string where
  "PodAnnotation = ''aerospike.travelaudience.com/pod-name''"
definition PVCTTLAnnotation :: string where
  "PVCTTLAnnotation = ''aerospike.travelaudience.com/pvc-ttl''"
definition LastUnmountedOnAnnotation :: string where
  "LastUnmountedOnAnnotation = ''aerospike.travelaudience.com/last-unmounted-on''"

lemmas pvc_annotations = PodAnnotation_def PVCTTLAnnotation_def LastUnmountedOnAnnotation_def

section \<open>Placeholders, defaults and resources\<close>

definition ServiceNodeIdValue :: string where "ServiceNodeIdValue = ''__SERVICE__NODE_ID__''"
definition HeartbeatAddressesValue :: string where
  "HeartbeatAddressesValue = ''__NETWORK__HEARTBEAT__MESH_SEED_ADDRESS_PORT__''"
definition defaultPersistentVolumeClaimTTL :: string where "defaultPersistentVolumeClaimTTL = ''0d''"
definition defaultMemorySize :: string where "defaultMemorySize = ''4G''"

text \<open>A number of gibibytes, in thousandths of a byte.\<close>

definition Gi :: "int \<Rightarrow> quantity" where "Gi n = n * 2 ^ 30 * 1000"

definition aspromCpuRequest :: string where "aspromCpuRequest = ''10m''"
definition aspromMemoryRequest :: string where "aspromMemoryRequest = ''32Mi''"
definition aspromCpuLimit :: string where "aspromCpuLimit = ''20m''"
definition aspromMemoryLimit :: string where "aspromMemoryLimit = ''128Mi''"
definition initContainerCpuRequest :: string where "initContainerCpuRequest = ''10m''"
definition initContainerMemoryRequest :: string where "initContainerMemoryRequest = ''32Mi''"
definition aerospikeServerContainerDefaultCpuRequest :: int where
  "aerospikeServerContainerDefaultCpuRequest = 1"
definition aerospikeServerContainerDefaultMemoryRequestGi :: int where
  "aerospikeServerContainerDefaultMemoryRequestGi = 4"

definition ReasonImagePullBackOff :: string where "ReasonImagePullBackOff = ''ImagePullBackOff''"
definition ReasonImageInspectError :: string where "ReasonImageInspectError = ''ImageInspectError''"
definition ReasonErrImagePull :: string where "ReasonErrImagePull = ''ErrImagePull''"
definition ReasonRegistryUnavailable :: string where
  "ReasonRegistryUnavailable = ''RegistryUnavailable''"

text \<open>The owner reference every object created for a cluster carries.\<close>

definition cluster_owner :: "AerospikeCluster \<Rightarrow> OwnerReference" where
  "cluster_owner c = \<lparr>or_APIVersion = SchemeGroupVersion, or_Kind = AerospikeClusterKind,
     or_Name = asc_Name c, or_UID = om_UID (asc_Meta c), or_Controller = Some True,
     or_BlockOwnerDeletion = Some True\<rparr>"

end
