(* ===== verification/Pvcs.thy ===== *)
theory Pvcs
  imports Constants
begin

text \<open>
  \<^verbatim>\<open>pkg/reconciler/pvc.go\<close> and \<^verbatim>\<open>pkg/utils/time/time.go\<close>: which persistent volume claim
  a pod gets, how claims are created and how their mounting is recorded.
\<close>

section \<open>Model\<close>

subsection \<open>time.go\<close>

text \<open>
  When the string contains a \<open>d\<close> and the float parser fails, the error of the second attempt
  is used without a check: if that attempt succeeds, \<open>err.Error()\<close> dereferences nil.
\<close>

definition ParseDuration :: "env \<Rightarrow> string \<Rightarrow> gerr + int" where
  "ParseDuration E s =
     (if CHR ''d'' \<in> set s
      then (case env_parse_float E (trim_suffix ''d'' s) of
              Inr v \<Rightarrow> of_client (env_parse_go_duration E (env_format_hours E v))
            | Inl _ \<Rightarrow>
                (let x = replace_first ''d'' ''h'' s in
                 case env_parse_go_duration E x of
                   Inl err \<Rightarrow> Inl (ClientErr (replace_all x s err))
                 | Inr d \<Rightarrow> Inl NilPanic))
      else of_client (env_parse_go_duration E s))"

subsection \<open>pvc.go\<close>

definition volumeModeMap :: "(string, string) fmap" where
  "volumeModeMap = map_lit [(StorageTypeDevice, ''Block''), (StorageTypeFile, ''Filesystem'')]"

text \<open>The loop that collects the claims of a pod that may be mounted again.\<close>

fun available_pvcs ::
    "env \<Rightarrow> string \<Rightarrow> PersistentVolumeClaim list \<Rightarrow> PersistentVolumeClaim list acte" where
  "available_pvcs E podName [] = ok []"
| "available_pvcs E podName (pvc # pvcs) =
     (if pvc_Annotation pvc PodAnnotation \<noteq> Some podName then available_pvcs E podName pvcs
      else case pvc_Annotation pvc LastUnmountedOnAnnotation of
        None \<Rightarrow> available_pvcs E podName pvcs
      | Some lastUnmountedString \<Rightarrow>
          liftE (of_client (env_parse_rfc3339 E lastUnmountedString)) (\<lambda>lastUnmountedOn.
          case pvc_Annotation pvc PVCTTLAnnotation of
            None \<Rightarrow> available_pvcs E podName pvcs
          | Some ttl \<Rightarrow>
              liftE (ParseDuration E ttl) (\<lambda>objExpiration.
              if objExpiration = 0
              then bindE (available_pvcs E podName pvcs) (\<lambda>rest. ok (pvc # rest))
              else do {
                now \<leftarrow> Now E;
                if now < lastUnmountedOn + objExpiration
                then bindE (available_pvcs E podName pvcs) (\<lambda>rest. ok (pvc # rest))
                else available_pvcs E podName pvcs
              })))"

definition fromMostRecent :: "PersistentVolumeClaim list \<Rightarrow> PersistentVolumeClaim list" where
  "fromMostRecent pvcs = sort_key (\<lambda>p. - om_CreationTimestamp (pvc_Meta p)) pvcs"

definition getPersistentVolumeClaim ::
    "env \<Rightarrow> AerospikeCluster \<Rightarrow> Pod \<Rightarrow> PersistentVolumeClaim option acte" where
  "getPersistentVolumeClaim E c pod =
     bindE (PVCs_List E (asc_Namespace c) (ResourcesByClusterName (asc_Name c))) (\<lambda>pvcs.
     if length pvcs = 0 then ok None
     else bindE (available_pvcs E (pod_Name pod) pvcs) (\<lambda>podPVCs.
       if length podPVCs = 0 then ok None
       else ok (Some (hd (fromMostRecent podPVCs)))))"

definition build_claim ::
    "AerospikeCluster \<Rightarrow> Pod \<Rightarrow> AerospikeNamespaceSpec \<Rightarrow> quantity \<Rightarrow> PersistentVolumeClaim" where
  "build_claim c pod namespace storageSize =
     (let volumeMode = (case fmlookup volumeModeMap (st_Type (ns_Storage namespace)) of
                          None \<Rightarrow> [] | Some m \<Rightarrow> m);
          persistentVolumeClaimTTL = (case st_PersistentVolumeClaimTTL (ns_Storage namespace) of
                          None \<Rightarrow> defaultPersistentVolumeClaimTTL | Some t \<Rightarrow> t)
      in \<lparr>pvc_Meta = zero_meta\<lparr>
            om_GenerateName := pod_Name pod @ ''-'' @ ns_Name namespace @ ''-'',
            om_Labels := Some (map_lit [(LabelAppKey, LabelAppVal),
                                        (LabelNamespaceKey, ns_Name namespace),
                                        (LabelClusterKey, asc_Name c)]),
            om_Namespace := asc_Namespace c,
            om_OwnerReferences := [cluster_owner c],
            om_Annotations := Some (map_lit [(PodAnnotation, pod_Name pod),
                                             (PVCTTLAnnotation, persistentVolumeClaimTTL)])\<rparr>,
          pvc_AccessModes = [''ReadWriteOnce''],
          pvc_StorageRequest = storageSize,
          pvc_VolumeMode = volumeMode,
          pvc_StorageClassName =
            (case st_StorageClassName (ns_Storage namespace) of
               None \<Rightarrow> None
             | Some sc \<Rightarrow> if sc \<noteq> [] then Some sc else None)\<rparr>)"

definition createPersistentVolumeClaim ::
    "env \<Rightarrow> AerospikeCluster \<Rightarrow> Pod \<Rightarrow> AerospikeNamespaceSpec \<Rightarrow> PersistentVolumeClaim acte" where
  "createPersistentVolumeClaim E c pod namespace =
     liftE (of_client (env_parse_quantity E (st_Size (ns_Storage namespace)))) (\<lambda>storageSize.
     PVCs_Create E (build_claim c pod namespace storageSize))"

text \<open>\<open>fmt.Sprint('a'+index)\<close> prints the number, not the letter.\<close>

definition getIndexBasedDevicePath :: "nat \<Rightarrow> string" where
  "getIndexBasedDevicePath index = defaultDevicePathPrefix @ itoa (97 + int index)"

definition setPVCAnnotation :: "string \<Rightarrow> string \<Rightarrow> PersistentVolumeClaim \<Rightarrow> PersistentVolumeClaim" where
  "setPVCAnnotation key v pvc =
     pvc\<lparr>pvc_Meta := (pvc_Meta pvc)\<lparr>om_Annotations :=
        Some (fmupd key v (gm_make (om_Annotations (pvc_Meta pvc))))\<rparr>\<rparr>"

definition removePVCAnnotation :: "string \<Rightarrow> PersistentVolumeClaim \<Rightarrow> PersistentVolumeClaim" where
  "removePVCAnnotation key pvc =
     pvc\<lparr>pvc_Meta := (pvc_Meta pvc)\<lparr>om_Annotations := gm_delete key (om_Annotations (pvc_Meta pvc))\<rparr>\<rparr>"

definition patchPVC :: "env \<Rightarrow> PersistentVolumeClaim \<Rightarrow> PersistentVolumeClaim \<Rightarrow> unit acte" where
  "patchPVC E old new =
     liftE (of_client (env_pvc_patch E old new)) (\<lambda>patchBytes. PVCs_Patch E patchBytes old new)"

definition signalMounted :: "env \<Rightarrow> PersistentVolumeClaim \<Rightarrow> unit acte" where
  "signalMounted E oldPVC =
     patchPVC E oldPVC (removePVCAnnotation LastUnmountedOnAnnotation oldPVC)"

definition signalUnmounted :: "env \<Rightarrow> PersistentVolumeClaim \<Rightarrow> unit acte" where
  "signalUnmounted E oldPVC = do {
     now \<leftarrow> Now E;
     patchPVC E oldPVC (setPVCAnnotation LastUnmountedOnAnnotation (env_format_rfc3339 E now) oldPVC)
   }"

section \<open>Specification: which claims may be reused\<close>

text \<open>When a claim was last unmounted and for how long it is kept, where both are readable.\<close>

definition pvc_lease :: "env \<Rightarrow> PersistentVolumeClaim \<Rightarrow> (int \<times> int) option" where
  "pvc_lease E pvc =
     (case (pvc_Annotation pvc LastUnmountedOnAnnotation, pvc_Annotation pvc PVCTTLAnnotation) of
        (Some s, Some ttl) \<Rightarrow>
          (case (env_parse_rfc3339 E s, ParseDuration E ttl) of
             (Inr t, Inr d) \<Rightarrow> Some (t, d) | _ \<Rightarrow> None)
      | _ \<Rightarrow> None)"

text \<open>A claim is reusable at a time if it never expires or has not expired yet.\<close>

definition reusable :: "env \<Rightarrow> int \<Rightarrow> PersistentVolumeClaim \<Rightarrow> bool" where
  "reusable E now pvc \<longleftrightarrow>
     (case pvc_lease E pvc of None \<Rightarrow> False | Some (t, d) \<Rightarrow> d = 0 \<or> now < t + d)"

section \<open>Facts\<close>

text \<open>Every collected claim is one of the pod's and was reusable at some reading of the clock.\<close>

lemma available_pvcs_sound:
  assumes "run_state (available_pvcs E podName pvcs) h = (Inr res, h')"
  shows "set res \<subseteq> {p \<in> set pvcs. pvc_Annotation p PodAnnotation = Some podName \<and>
            (\<exists>h1. reusable E (env_now E h1) p)}"
  using assms
proof (induction pvcs arbitrary: h res)
  case Nil
  then show ?case by simp
next
  case (Cons p ps)
  have IH: "\<And>h res. run_state (available_pvcs E podName ps) h = (Inr res, h') \<Longrightarrow>
      set res \<subseteq> {q \<in> set (p # ps). pvc_Annotation q PodAnnotation = Some podName \<and>
            (\<exists>h1. reusable E (env_now E h1) q)}"
    using Cons.IH by fastforce
  show ?case
  proof (cases "run_state (available_pvcs E podName ps) h = (Inr res, h')")
    case True
    then show ?thesis by (rule IH)
  next
    case False
    from Cons.prems False obtain s t ttl d where
      p: "pvc_Annotation p PodAnnotation = Some podName"
      and s: "pvc_Annotation p LastUnmountedOnAnnotation = Some s" "env_parse_rfc3339 E s = Inr t"
      and ttl: "pvc_Annotation p PVCTTLAnnotation = Some ttl" "ParseDuration E ttl = Inr d"
      by (auto simp: map_sum_def split: if_splits option.splits sum.splits)
    have lease: "pvc_lease E p = Some (t, d)" by (simp add: pvc_lease_def s ttl)
    from Cons.prems p s ttl obtain h2 res2 where
      sub: "run_state (available_pvcs E podName ps) h2 = (Inr res2, h')"
      and res: "res = p # res2 \<and> (d = 0 \<or> env_now E h < t + d) \<or> res = res2"
      by (auto split: if_splits sum.splits prod.splits)
    have "set res2 \<subseteq> {q \<in> set (p # ps). pvc_Annotation q PodAnnotation = Some podName \<and>
            (\<exists>h1. reusable E (env_now E h1) q)}" using sub by (rule IH)
    moreover have "res = p # res2 \<Longrightarrow> reusable E (env_now E h) p"
      using res lease by (auto simp: reusable_def)
    ultimately show ?thesis using p res by auto
  qed
qed

lemma emits_available_pvcs: "emits (\<lambda>e. e = EvNow) (available_pvcs E n pvcs)"
  by (induction pvcs) (auto intro!: emits_intro)

lemma getPersistentVolumeClaim_some:
  assumes "run_state (getPersistentVolumeClaim E c pod) h = (Inr (Some pvc), h')"
  obtains pvcs podPVCs h1 where
    "env_list_pvcs E h (asc_Namespace c) (ResourcesByClusterName (asc_Name c)) = Inr pvcs"
    and "run_state (available_pvcs E (pod_Name pod) pvcs)
           (h @ [EvList KPVC (asc_Namespace c) (ResourcesByClusterName (asc_Name c))]) = (Inr podPVCs, h1)"
    and "podPVCs \<noteq> []" and "pvc = hd (fromMostRecent podPVCs)"
  using assms unfolding getPersistentVolumeClaim_def
  by (auto simp: map_sum_def split: sum.splits if_splits prod.splits)

lemma hd_fromMostRecent:
  assumes "xs \<noteq> []"
  shows "hd (fromMostRecent xs) \<in> set xs"
    and "x \<in> set xs \<Longrightarrow>
      om_CreationTimestamp (pvc_Meta x) \<le> om_CreationTimestamp (pvc_Meta (hd (fromMostRecent xs)))"
proof -
  have "fromMostRecent xs \<noteq> []" using assms by (metis fromMostRecent_def length_0_conv length_sort)
  then show "hd (fromMostRecent xs) \<in> set xs"
    using hd_in_set [of "fromMostRecent xs"] by (simp add: fromMostRecent_def)
  show "x \<in> set xs \<Longrightarrow>
      om_CreationTimestamp (pvc_Meta x) \<le> om_CreationTimestamp (pvc_Meta (hd (fromMostRecent xs)))"
    using sort_key_hd_min [of x xs "\<lambda>p. - om_CreationTimestamp (pvc_Meta p)"]
    by (simp add: fromMostRecent_def)
qed

lemma pvc_annotation_simps [simp]:
  "pvc_Annotation (setPVCAnnotation k v p) k' = (if k = k' then Some v else pvc_Annotation p k')"
  "pvc_Annotation (removePVCAnnotation k p) k' = (if k = k' then None else pvc_Annotation p k')"
  by (auto simp: setPVCAnnotation_def removePVCAnnotation_def)

text \<open>A mounted claim is not reusable, and a claim marked as unmounted is, while its TTL runs.\<close>

lemma mounted_not_reusable: "\<not> reusable E now (removePVCAnnotation LastUnmountedOnAnnotation p)"
  by (simp add: reusable_def pvc_lease_def)

text \<open>The claims of a cluster are labelled with what the lister selects them by.\<close>

lemma build_claim_labels:
  "om_Labels (pvc_Meta (build_claim c pod ns q)) = Some l \<Longrightarrow>
     \<forall>k v. fmlookup (ResourcesByClusterName (asc_Name c)) k = Some v \<longrightarrow> fmlookup l k = Some v"
  by (auto simp: build_claim_def ResourcesByClusterName_def label_keys Let_def zero_meta_def)

text \<open>Which calls the operations of this component make.\<close>

lemma emits_pvc_ops:
  assumes "\<And>e. \<not> writes e \<Longrightarrow> P e" and "\<And>o' n r. P (EvPatchPVC o' n r)" and "\<And>c r. P (EvCreatePVC c r)"
  shows "emits P (getPersistentVolumeClaim E c pod)"
    and "emits P (createPersistentVolumeClaim E c pod ns)"
    and "emits P (signalMounted E pvc)"
    and "emits P (signalUnmounted E pvc)"
proof -
  have "emits P (available_pvcs E n pvcs)" for n pvcs
    by (rule emits_weaken [OF emits_available_pvcs]) (auto intro: assms(1))
  then show "emits P (getPersistentVolumeClaim E c pod)"
    unfolding getPersistentVolumeClaim_def by (auto intro!: emits_intro assms)
qed (auto simp: createPersistentVolumeClaim_def signalMounted_def signalUnmounted_def patchPVC_def
      intro!: emits_intro assms)

end
