(* ===== verification/PodUtils.thy ===== *)
theory PodUtils
  imports Pvcs
begin

text \<open>
  \<^verbatim>\<open>pkg/reconciler/podutils.go\<close> and \<^verbatim>\<open>pkg/asutils/asutils.go\<close>: what the reconciler
  reads off a pod, how it waits for one, and how it talks to the Aerospike node in it.
\<close>

section \<open>Model\<close>

subsection \<open>The index of a pod\<close>

definition podIndex :: "Pod \<Rightarrow> int" where
  "podIndex pod =
     (case atoi (trim_prefix (str_at (om_Labels (pod_Meta pod)) LabelClusterKey @ ''-'') (pod_Name pod)) of
        Inl err \<Rightarrow> - 1
      | Inr res \<Rightarrow> res)"

text \<open>\<open>sort.Sort(byIndex(pods))\<close>\<close>

definition byIndex :: "Pod list \<Rightarrow> Pod list" where
  "byIndex pods = sort_key podIndex pods"

subsection \<open>The state of a pod\<close>

definition isPodRunningAndReady :: "env \<Rightarrow> Pod \<Rightarrow> bool" where
  "isPodRunningAndReady E pod \<longleftrightarrow> pt_Phase (pod_Status pod) = ''Running'' \<and> env_pod_ready E pod"

definition isImageError :: "string \<Rightarrow> bool" where
  "isImageError reason \<longleftrightarrow> reason = ReasonErrImagePull \<or> reason = ReasonImageInspectError \<or>
     reason = ReasonImagePullBackOff \<or> reason = ReasonRegistryUnavailable"

text \<open>The loop over the container statuses.\<close>

fun failed_container :: "ContainerState list \<Rightarrow> bool" where
  "failed_container [] = False"
| "failed_container (container # rest) =
     (if (case cs_Terminated container of None \<Rightarrow> False | Some ExitCode \<Rightarrow> ExitCode \<noteq> 0) then True
      else if (case cs_Waiting container of None \<Rightarrow> False | Some reason \<Rightarrow> isImageError reason) then True
      else failed_container rest)"

definition isPodInFailureState :: "Pod \<Rightarrow> bool" where
  "isPodInFailureState pod =
     (if pt_Phase (pod_Status pod) = ''Failed'' then True
      else failed_container (pt_InitContainerStatuses (pod_Status pod)
             @ pt_ContainerStatuses (pod_Status pod)))"

subsection \<open>Waiting for a pod\<close>

text \<open>
  \<open>watch.UntilWithSync\<close> hands the events of the watch to the condition, one by one, until the
  condition is satisfied or fails; when the watch ends first (the timeout, a closed channel) its
  error is returned. The condition is a Go closure: \<open>'s\<close> is what it captures and changes.
\<close>

fun UntilWithSync ::
    "('s \<Rightarrow> Pod watch_event \<Rightarrow> ('s \<times> (gerr + bool)) act) \<Rightarrow> string \<Rightarrow> 's
     \<Rightarrow> Pod watch_event list \<Rightarrow> ('s \<times> (gerr + Pod watch_event option)) act" where
  "UntilWithSync fn end_err s [] = ret (s, Inl (ClientErr end_err))"
| "UntilWithSync fn end_err s (e # es) = do {
     r \<leftarrow> fn s e;
     case r of (s', d) \<Rightarrow>
       (case d of
          Inl err \<Rightarrow> ret (s', Inl err)
        | Inr done' \<Rightarrow> if done' then ret (s', Inr (Some e)) else UntilWithSync fn end_err s' es)
   }"

definition waitForPodCondition ::
    "env \<Rightarrow> Pod \<Rightarrow> ('s \<Rightarrow> Pod watch_event \<Rightarrow> ('s \<times> (gerr + bool)) act) \<Rightarrow> 's \<Rightarrow> int
     \<Rightarrow> ('s \<times> (gerr + unit)) act" where
  "waitForPodCondition E pod fn s timeout = do {
     w \<leftarrow> Pods_Watch E (pod_Namespace pod) (pod_Name pod) timeout;
     case w of (evs, end_err) \<Rightarrow> do {
       r \<leftarrow> UntilWithSync fn end_err s evs;
       case r of (s', l) \<Rightarrow>
         (case l of
            Inl err \<Rightarrow> ret (s', Inl err)
          | Inr last_ev \<Rightarrow>
              if last_ev = None
              then ret (s', Inl (Errorf ''no events received for pod %s'' [AStr (Key E (pod_Meta pod))]))
              else ret (s', Inr ()))
     }
   }"

subsection \<open>The Aerospike node of a pod\<close>

text \<open>
  Both functions on migrations connect to the node and look for it, by name and ignoring case,
  among the nodes of the cluster that the client sees; \<open>on_own_node\<close> is that common part.
\<close>

definition on_own_node :: "env \<Rightarrow> Pod \<Rightarrow> (string \<Rightarrow> 'a acte) \<Rightarrow> 'a acte" where
  "on_own_node E pod f =
     bindE (As_Connect E (pt_PodIP (pod_Status pod)) cServicePort) (\<lambda>_. do {
       nodes \<leftarrow> Peek (\<lambda>h. env_nodes E h (pt_PodIP (pod_Status pod)));
       case find (\<lambda>n. equal_fold n (str_at (om_Annotations (pod_Meta pod)) nodeIdAnnotation)) nodes of
         Some node \<Rightarrow> f node
       | None \<Rightarrow> fail (Errorf ''failed to find node %s in the cluster''
                   [AStr (str_at (om_Annotations (pod_Meta pod)) nodeIdAnnotation)])
     })"

definition podHasMigrationsInProgress :: "env \<Rightarrow> Pod \<Rightarrow> bool acte" where
  "podHasMigrationsInProgress E pod = on_own_node E pod (As_Migrating E)"

definition waitForMigrationsToFinishOnPod :: "env \<Rightarrow> Pod \<Rightarrow> unit acte" where
  "waitForMigrationsToFinishOnPod E pod =
     on_own_node E pod (\<lambda>node. As_WaitMigrations E node waitMigrationsTimeout)"

definition runInfoCommandOnPod :: "env \<Rightarrow> Pod \<Rightarrow> string \<Rightarrow> (string, string) fmap acte" where
  "runInfoCommandOnPod E pod command =
     bindE (As_Connect E (pt_PodIP (pod_Status pod)) cServicePort) (\<lambda>_.
     As_Info E (pt_PodIP (pod_Status pod)) command)"

definition getAerospikeServerVersionFromPod :: "env \<Rightarrow> Pod \<Rightarrow> string acte" where
  "getAerospikeServerVersionFromPod E pod =
     bindE (runInfoCommandOnPod E pod ''build'') (\<lambda>res.
     case fmlookup res ''build'' of
       None \<Rightarrow> fail (Errorf ''failed to get aerospike version from pod %v''
                 [AStr (Key E (pod_Meta pod))])
     | Some version \<Rightarrow> ok version)"

definition tipClearHostname :: "env \<Rightarrow> Pod \<Rightarrow> string \<Rightarrow> unit acte" where
  "tipClearHostname E pod addr =
     bindE (runInfoCommandOnPod E pod
              (''tip-clear:host-port-list='' @ addr @ '':'' @ itoa HeartbeatPort)) (\<lambda>_. ok ())"

definition alumniReset :: "env \<Rightarrow> Pod \<Rightarrow> unit acte" where
  "alumniReset E pod = bindE (runInfoCommandOnPod E pod ''services-alumni-reset'') (\<lambda>_. ok ())"

subsection \<open>asutils.go\<close>

fun statistics_pair :: "string \<Rightarrow> (string, string) fmap \<Rightarrow> (string, string) fmap" where
  "statistics_pair pair res =
     (case split_on (CHR ''='') pair of
        [k, v] \<Rightarrow> fmupd (trim_space k) (trim_space v) res
      | _ \<Rightarrow> res)"

definition ParseStatistics :: "string \<Rightarrow> (string, string) fmap" where
  "ParseStatistics stats = fold statistics_pair (split_on (CHR '';'') stats) fmempty"

definition GetClusterSize :: "env \<Rightarrow> string \<Rightarrow> int \<Rightarrow> int acte" where
  "GetClusterSize E host port =
     bindE (As_Connect E host port) (\<lambda>_.
     bindE (As_Info E host ''statistics'') (\<lambda>r.
     case fmlookup (ParseStatistics (str_at (Some r) ''statistics'')) ''cluster_size'' of
       None \<Rightarrow> fail (Errorf ''cluster_size is not present'' [])
     | Some str \<Rightarrow> liftE (atoi str) ok))"

section \<open>Facts\<close>

text \<open>A pod named as the operator names its pods is given back its index.\<close>

lemma podIndex_named:
  assumes "pod_Name pod = name @ ''-'' @ itoa i" and "str_at (om_Labels (pod_Meta pod)) LabelClusterKey = name"
    and "- (2 ^ 63) \<le> i" and "i < 2 ^ 63"
  shows "podIndex pod = i"
proof -
  have "trim_prefix (name @ ''-'') (pod_Name pod) = itoa i"
    using trim_prefix_append [of "name @ ''-''" "itoa i"] assms(1) by simp
  then show ?thesis using atoi_itoa [OF assms(3,4)] assms(2) by (simp add: podIndex_def)
qed

lemma failed_container_iff:
  "failed_container cs \<longleftrightarrow>
     (\<exists>c \<in> set cs. (\<exists>x. cs_Terminated c = Some x \<and> x \<noteq> 0) \<or>
        (\<exists>reason. cs_Waiting c = Some reason \<and> isImageError reason))"
  by (induction cs) (auto split: option.splits)

lemma isPodInFailureState_iff:
  "isPodInFailureState pod \<longleftrightarrow>
     pt_Phase (pod_Status pod) = ''Failed'' \<or>
     (\<exists>c \<in> set (pt_InitContainerStatuses (pod_Status pod) @ pt_ContainerStatuses (pod_Status pod)).
        (\<exists>x. cs_Terminated c = Some x \<and> x \<noteq> 0) \<or>
        (\<exists>reason. cs_Waiting c = Some reason \<and> isImageError reason))"
  by (simp add: isPodInFailureState_def failed_container_iff)

text \<open>Reading the node changes nothing.\<close>

lemma emits_on_own_node [emits_intro]:
  "(\<And>e. \<not> writes e \<Longrightarrow> P e) \<Longrightarrow> (\<And>n. emits P (f n)) \<Longrightarrow> emits P (on_own_node E pod f)"
  unfolding on_own_node_def by (auto intro!: emits_intro)

lemma emits_node_reads [emits_intro]:
  assumes "\<And>e. \<not> writes e \<Longrightarrow> P e"
  shows "emits P (podHasMigrationsInProgress E pod)"
    and "emits P (waitForMigrationsToFinishOnPod E pod)"
    and "emits P (getAerospikeServerVersionFromPod E pod)"
    and "emits P (GetClusterSize E host port)"
  unfolding podHasMigrationsInProgress_def waitForMigrationsToFinishOnPod_def
    getAerospikeServerVersionFromPod_def runInfoCommandOnPod_def GetClusterSize_def
  by (auto intro!: emits_intro assms)

lemma emits_node_commands [emits_intro]:
  assumes "\<And>e. \<not> writes e \<Longrightarrow> P e" and "\<And>ip cmd r. P (EvInfo ip cmd r)"
  shows "emits P (tipClearHostname E pod a)" and "emits P (alumniReset E pod)"
  unfolding tipClearHostname_def alumniReset_def runInfoCommandOnPod_def
  by (auto intro!: emits_intro assms)

text \<open>Waiting makes one watch call and whatever the condition makes.\<close>

lemma emits_UntilWithSync [emits_intro]:
  "(\<And>s e. emits P (fn s e)) \<Longrightarrow> emits P (UntilWithSync fn err s es)"
  by (induction es arbitrary: s) (auto intro!: emits_intro)

lemma emits_waitForPodCondition [emits_intro]:
  "(\<And>e. \<not> writes e \<Longrightarrow> P e) \<Longrightarrow> (\<And>s e. emits P (fn s e)) \<Longrightarrow>
     emits P (waitForPodCondition E pod fn s t)"
  unfolding waitForPodCondition_def by (auto intro!: emits_intro)

text \<open>When waiting succeeds, the condition has returned true on some event of the watch.\<close>

lemma UntilWithSync_ok:
  "run_state (UntilWithSync fn err s es) h = ((s', Inr l), h') \<Longrightarrow>
     \<exists>e \<in> set es. l = Some e \<and> (\<exists>s0 h0. run_state (fn s0 e) h0 = ((s', Inr True), h'))"
proof (induction es arbitrary: s h)
  case (Cons e es)
  obtain s1 d h1 where fn: "run_state (fn s e) h = ((s1, d), h1)" by (metis prod.exhaust)
  show ?case
  proof (cases d)
    case (Inl a)
    then show ?thesis using Cons.prems fn by simp
  next
    case (Inr b)
    then show ?thesis using Cons.prems Cons.IH [of s1 h1] fn by (cases b) auto
  qed
qed simp

lemma waitForPodCondition_ok:
  assumes "run_state (waitForPodCondition E pod fn s t) h = ((s', Inr u), h')"
  obtains e s0 h0 where "run_state (fn s0 e) h0 = ((s', Inr True), h')"
  using assms unfolding waitForPodCondition_def
  by (auto split: prod.splits sum.splits if_splits dest!: UntilWithSync_ok)

end
