(* ===== verification/ConfigMaps.thy ===== *)
theory ConfigMaps
  imports Pvcs
begin

text \<open>
  \<^verbatim>\<open>pkg/reconciler/configmap.go\<close> and the two templates at the end of
  \<^verbatim>\<open>pkg/reconciler/constants.go\<close>: the configuration file of a cluster and the config map
  that carries it. A template is the tree that \<open>template.Must(...Parse(text))\<close> yields, with
  the white space that a \<open>{{-\<close> trims already removed, and \<open>exec\<close> is what the
  \<^verbatim>\<open>text/template\<close> package does with the actions the two templates use.
\<close>

section \<open>Templates\<close>

text \<open>
  The values the code stores in a property map. A pointer is true whenever it is not nil and is
  printed as what it points to; a string, a number and a boolean are true when not zero.
\<close>

datatype tprop = PStr string | PStrPtr string | PInt int | PIntPtr int | PBool bool | PList "string list"

fun truth :: "tprop option \<Rightarrow> bool" where
  "truth None = False"
| "truth (Some (PStr s)) = (s \<noteq> [])"
| "truth (Some (PStrPtr s)) = True"
| "truth (Some (PInt i)) = (i \<noteq> 0)"
| "truth (Some (PIntPtr i)) = True"
| "truth (Some (PBool b)) = b"
| "truth (Some (PList xs)) = (xs \<noteq> [])"

fun printed :: "tprop option \<Rightarrow> string" where
  "printed None = ''<no value>''"
| "printed (Some (PStr s)) = s"
| "printed (Some (PStrPtr s)) = s"
| "printed (Some (PInt i)) = itoa i"
| "printed (Some (PIntPtr i)) = itoa i"
| "printed (Some (PBool b)) = (if b then ''true'' else ''false'')"
| "printed (Some (PList xs)) = ''['' @ join '' '' xs @ '']''"

fun elements :: "tprop option \<Rightarrow> string list" where
  "elements (Some (PList xs)) = xs"
| "elements _ = []"

datatype tmpl =
    Txt string
  | Dot
  | Fld string
  | IfFld string "tmpl list"
  | IfEq string string "tmpl list" "tmpl list"
  | RangeFld string "tmpl list"

type_synonym props = "(string, tprop) fmap"

fun exec :: "props \<Rightarrow> string \<Rightarrow> tmpl \<Rightarrow> string" where
  "exec ps dot (Txt s) = s"
| "exec ps dot Dot = dot"
| "exec ps dot (Fld k) = printed (fmlookup ps k)"
| "exec ps dot (IfFld k ts) = (if truth (fmlookup ps k) then concat (map (exec ps dot) ts) else [])"
| "exec ps dot (IfEq k s ts us) =
     (if fmlookup ps k = Some (PStr s) then concat (map (exec ps dot) ts)
      else concat (map (exec ps dot) us))"
| "exec ps dot (RangeFld k ts) =
     concat (map (\<lambda>x. concat (map (exec ps x) ts)) (elements (fmlookup ps k)))"

definition Execute :: "tmpl list \<Rightarrow> props \<Rightarrow> string" where
  "Execute ts ps = concat (map (exec ps []) ts)"

text \<open>A line break followed by \<open>n\<close> tabs.\<close>

definition nl :: "nat \<Rightarrow> string" where
  "nl n = CHR 0x0A # replicate n (CHR 0x09)"

section \<open>Model\<close>

subsection \<open>The templates and keys of constants.go\<close>

definition serviceNodeIdKey :: string where "serviceNodeIdKey = ''nodeId''"
definition clusterNamespacesKey :: string where "clusterNamespacesKey = ''namespaces''"
definition heartbeatAddressesConfigKey :: string where
  "heartbeatAddressesConfigKey = ''heartbeatAddresses''"
definition nsNameKey :: string where "nsNameKey = ''name''"
definition nsReplicationFactorKey :: string where "nsReplicationFactorKey = ''replicationFactor''"
definition nsMemorySizeKey :: string where "nsMemorySizeKey = ''memorySize''"
definition nsDefaultTTLKey :: string where "nsDefaultTTLKey = ''defaultTTL''"
definition nsStorageTypeKey :: string where "nsStorageTypeKey = ''storageType''"
definition nsStorageSizeKey :: string where "nsStorageSizeKey = ''storageSize''"
definition nsFilePath :: string where "nsFilePath = ''filePath''"
definition nsDevicePath :: string where "nsDevicePath = ''devicePath''"
definition nsDataInMemory :: string where "nsDataInMemory = ''dataInMemory''"

lemmas prop_keys = serviceNodeIdKey_def clusterNamespacesKey_def heartbeatAddressesConfigKey_def
  nsNameKey_def nsReplicationFactorKey_def nsMemorySizeKey_def nsDefaultTTLKey_def
  nsStorageTypeKey_def nsStorageSizeKey_def nsFilePath_def nsDevicePath_def nsDataInMemory_def

definition asConfigTemplate :: "tmpl list" where
  "asConfigTemplate =
    [Txt (nl 0 @ ''service {''
      @ nl 1 @ ''user root''
      @ nl 1 @ ''group root''
      @ nl 1 @ ''paxos-single-replica-limit 1''
      @ nl 1 @ ''pidfile /var/run/aerospike/asd.pid''
      @ nl 1 @ ''service-threads 4''
      @ nl 1 @ ''transaction-queues 4''
      @ nl 1 @ ''transaction-threads-per-queue 4''
      @ nl 1 @ ''proto-fd-max 15000''
      @ nl 1 @ ''node-id ''),
     Fld ''nodeId'',
     Txt (nl 0 @ ''}'' @ nl 0
      @ nl 0 @ ''logging {''
      @ nl 1 @ ''file /var/log/aerospike/aerospike.log {''
      @ nl 2 @ ''context any info''
      @ nl 1 @ ''}'' @ nl 0
      @ nl 1 @ ''console {''
      @ nl 2 @ ''context any info ''
      @ nl 1 @ ''}''
      @ nl 0 @ ''}'' @ nl 0
      @ nl 0 @ ''network {''
      @ nl 1 @ ''service {''
      @ nl 2 @ ''address any''
      @ nl 2 @ ''port 3000''
      @ nl 1 @ ''}'' @ nl 0
      @ nl 1 @ ''heartbeat {''
      @ nl 2 @ ''mode mesh''
      @ nl 2 @ ''port 3002'' @ nl 0
      @ nl 2),
     Fld ''heartbeatAddresses'',
     Txt (nl 0
      @ nl 2 @ ''interval 100''
      @ nl 2 @ ''timeout 10''
      @ nl 1 @ ''}'' @ nl 0
      @ nl 1 @ ''fabric {''
      @ nl 2 @ ''port 3001''
      @ nl 1 @ ''}'' @ nl 0
      @ nl 1 @ ''info {''
      @ nl 2 @ ''port 3003''
      @ nl 1 @ ''}''
      @ nl 0 @ ''}'' @ nl 0 @ nl 0),
     RangeFld ''namespaces'' [Txt (nl 1), Dot, Txt (nl 0)],
     Txt (nl 0)]"

definition asNamespaceTemplate :: "tmpl list" where
  "asNamespaceTemplate =
    [Txt (nl 0 @ ''namespace ''), Fld ''name'', Txt ('' {'' @ nl 0 @ nl 1),
     IfFld ''replicationFactor''
       [Txt (nl 2 @ ''replication-factor ''), Fld ''replicationFactor'', Txt (nl 1)],
     Txt (nl 0 @ nl 1),
     IfFld ''memorySize'' [Txt (nl 2 @ ''memory-size ''), Fld ''memorySize'', Txt (nl 1)],
     Txt (nl 0 @ nl 1),
     IfFld ''defaultTTL'' [Txt (nl 2 @ ''default-ttl ''), Fld ''defaultTTL'', Txt (nl 1)],
     Txt (nl 0 @ nl 1 @ ''storage-engine device {'' @ nl 0 @ nl 2),
     IfEq ''storageType'' ''file''
       [Txt (nl 3 @ ''file ''), Fld ''filePath'', Fld ''name'', Txt ''/'', Fld ''name'',
        Txt (''.dat'' @ nl 2)]
       [IfEq ''storageType'' ''device''
          [Txt (nl 3 @ ''device ''), Fld ''devicePath'', Txt (nl 2)] []],
     Txt (nl 0 @ nl 2),
     IfFld ''storageSize'' [Txt (nl 3 @ ''filesize ''), Fld ''storageSize'', Txt (nl 2)],
     IfFld ''dataInMemory'' [Txt (nl 3 @ ''data-in-memory ''), Fld ''dataInMemory''],
     Txt (nl 1 @ ''}'' @ nl 0 @ ''}'')]"

subsection \<open>configmap.go\<close>

definition getNamespaceProps :: "AerospikeCluster \<Rightarrow> nat \<Rightarrow> AerospikeNamespaceSpec \<Rightarrow> props" where
  "getNamespaceProps c index namespace =
     (let nodeCount = spec_NodeCount (asc_Spec c);
          storage = ns_Storage namespace;
          p0 = fmupd nsNameKey (PStr (ns_Name namespace)) fmempty;
          p1 = (case ns_ReplicationFactor namespace of
                  None \<Rightarrow> p0
                | Some rf \<Rightarrow>
                    if rf \<le> nodeCount \<and> rf > 0 then fmupd nsReplicationFactorKey (PIntPtr rf) p0
                    else if rf > nodeCount then fmupd nsReplicationFactorKey (PInt nodeCount) p0
                    else p0);
          p2 = (case ns_MemorySize namespace of
                  Some m \<Rightarrow> if m \<noteq> [] then fmupd nsMemorySizeKey (PStrPtr m) p1
                            else fmupd nsMemorySizeKey (PStr defaultMemorySize) p1
                | None \<Rightarrow> fmupd nsMemorySizeKey (PStr defaultMemorySize) p1);
          p3 = (case ns_DefaultTTL namespace of
                  None \<Rightarrow> p2
                | Some ttl \<Rightarrow> (case atoi (trim_suffix ''s'' ttl) of
                    Inr v \<Rightarrow> fmupd nsDefaultTTLKey (PInt v) p2
                  | Inl _ \<Rightarrow> p2));
          p4 = fmupd nsStorageTypeKey (PStr (st_Type storage)) p3;
          p5 = (if st_Type storage = StorageTypeFile
                then fmupd nsFilePath (PStr defaultFilePath) (fmupd nsStorageSizeKey (PStr (st_Size storage)) p4)
                else if st_Type storage = StorageTypeDevice
                then fmupd nsDevicePath (PStr (getIndexBasedDevicePath index)) p4
                else p4)
      in case st_DataInMemory storage of
           None \<Rightarrow> p5
         | Some b \<Rightarrow> fmupd nsDataInMemory (PBool b) p5)"

definition getClusterProps :: "AerospikeCluster \<Rightarrow> string list \<Rightarrow> props" where
  "getClusterProps c namespacesConfig =
     map_lit [(serviceNodeIdKey, PStr ServiceNodeIdValue),
              (clusterNamespacesKey, PList namespacesConfig),
              (heartbeatAddressesConfigKey, PStr HeartbeatAddressesValue)]"

definition buildConfig :: "AerospikeCluster \<Rightarrow> string" where
  "buildConfig c =
     (let namespacesConfig = map (\<lambda>(index, namespace).
            Execute asNamespaceTemplate (getNamespaceProps c index namespace))
            (enumerate 0 (spec_Namespaces (asc_Spec c)))
      in Execute asConfigTemplate (getClusterProps c namespacesConfig))"

text \<open>\<open>asstrings.Hash\<close> is the hexadecimal SHA-256 digest.\<close>

definition Hash :: "env \<Rightarrow> string \<Rightarrow> string" where
  "Hash E s = env_sha256 E s"

definition HashSlice :: "env \<Rightarrow> string list \<Rightarrow> string" where
  "HashSlice E s = env_sha256 E (join [] s)"

definition buildConfigMap :: "env \<Rightarrow> AerospikeCluster \<Rightarrow> ConfigMap" where
  "buildConfigMap E c =
     (let aerospikeConfig = buildConfig c
      in \<lparr>cm_Meta = zero_meta\<lparr>
            om_Name := asc_Name c,
            om_Labels := Some (map_lit [(LabelAppKey, LabelAppVal), (LabelClusterKey, asc_Name c)]),
            om_Namespace := asc_Namespace c,
            om_OwnerReferences := [cluster_owner c],
            om_Annotations := Some (map_lit [(configMapHashAnnotation, Hash E aerospikeConfig)])\<rparr>,
          cm_Data = Some (map_lit [(configFileName, aerospikeConfig)])\<rparr>)"

definition updateConfigMap :: "env \<Rightarrow> AerospikeCluster \<Rightarrow> ConfigMap \<Rightarrow> ConfigMap acte" where
  "updateConfigMap E c desiredConfigMap =
     bindE (ConfigMaps_Get E (asc_Namespace c) (om_Name (cm_Meta desiredConfigMap))) (\<lambda>currentConfigMap.
     let currentHash = str_at (om_Annotations (cm_Meta currentConfigMap)) configMapHashAnnotation;
         outdated = (Hash E (str_at (cm_Data currentConfigMap) configFileName) \<noteq> currentHash \<or>
           str_at (om_Annotations (cm_Meta desiredConfigMap)) configMapHashAnnotation \<noteq> currentHash)
     in if \<not> outdated then ok currentConfigMap
        else ConfigMaps_Update E desiredConfigMap)"

definition ensureConfigMap :: "env \<Rightarrow> AerospikeCluster \<Rightarrow> ConfigMap acte" where
  "ensureConfigMap E c = (let desiredConfigMap = buildConfigMap E c in do {
     r \<leftarrow> ConfigMaps_Create E desiredConfigMap;
     case r of
       Inl err \<Rightarrow> if IsAlreadyExists err then updateConfigMap E c desiredConfigMap else fail err
     | Inr createdConfigMap \<Rightarrow> ok createdConfigMap
   })"

section \<open>Facts\<close>

abbreviation config_hash :: "ConfigMap \<Rightarrow> string" where
  "config_hash cm \<equiv> str_at (om_Annotations (cm_Meta cm)) configMapHashAnnotation"

lemma str_at_simps [simp]:
  "str_at (Some (fmupd k v f)) k' = (if k = k' then v else str_at (Some f) k')"
  by (simp add: str_at_def)

lemma buildConfigMap_simps [simp]:
  "om_Name (cm_Meta (buildConfigMap E c)) = asc_Name c"
  "om_Namespace (cm_Meta (buildConfigMap E c)) = asc_Namespace c"
  "config_hash (buildConfigMap E c) = Hash E (buildConfig c)"
  "cm_Data (buildConfigMap E c) = Some (map_lit [(configFileName, buildConfig c)])"
  by (simp_all add: buildConfigMap_def Let_def zero_meta_def)

text \<open>What each step of \<open>getNamespaceProps\<close> does to the lookup of a key.\<close>

lemma lookup_steps:
  "fmlookup (case x of None \<Rightarrow> m | Some r \<Rightarrow> if P r then fmupd K (u r) m else if Q r then fmupd K v m else m) k =
     (if k = K then (case x of None \<Rightarrow> fmlookup m k | Some r \<Rightarrow> if P r then Some (u r) else if Q r then Some v else fmlookup m k)
      else fmlookup m k)"
  "fmlookup (case y of Some r \<Rightarrow> if P' r then fmupd K (u' r) m else fmupd K v m | None \<Rightarrow> fmupd K v m) k =
     (if k = K then Some (case y of Some r \<Rightarrow> if P' r then u' r else v | None \<Rightarrow> v) else fmlookup m k)"
  "fmlookup (case z of None \<Rightarrow> m | Some t \<Rightarrow> (case A t of Inr n \<Rightarrow> fmupd K (w n) m | Inl _ \<Rightarrow> m)) k =
     (if k = K then (case z of None \<Rightarrow> fmlookup m k | Some t \<Rightarrow> (case A t of Inr n \<Rightarrow> Some (w n) | Inl _ \<Rightarrow> fmlookup m k))
      else fmlookup m k)"
  "fmlookup (if b then fmupd K v (fmupd L v' m) else if b' then fmupd J v'' m else m) k =
     (if k = K \<and> b then Some v else if k = L \<and> b then Some v'
      else if k = J \<and> \<not> b \<and> b' then Some v'' else fmlookup m k)"
  "fmlookup (case d of None \<Rightarrow> m | Some c \<Rightarrow> fmupd K (g c) m) k =
     (if k = K then (case d of None \<Rightarrow> fmlookup m k | Some c \<Rightarrow> Some (g c)) else fmlookup m k)"
  by (auto split: option.split sum.split)

lemmas props_lookup = getNamespaceProps_def Let_def lookup_steps fmupd_lookup fmempty_lookup

text \<open>The replication factor that ends up in the configuration.\<close>

definition effective_rf :: "int \<Rightarrow> int option \<Rightarrow> int option" where
  "effective_rf nodeCount rf =
     (case rf of
        None \<Rightarrow> None
      | Some r \<Rightarrow> if 0 < r \<and> r \<le> nodeCount then Some r
                  else if r > nodeCount \<and> nodeCount \<noteq> 0 then Some nodeCount else None)"

lemma namespace_rf:
  "(if truth (fmlookup (getNamespaceProps c i ns) nsReplicationFactorKey)
    then Some (printed (fmlookup (getNamespaceProps c i ns) nsReplicationFactorKey)) else None)
   = map_option itoa (effective_rf (spec_NodeCount (asc_Spec c)) (ns_ReplicationFactor ns))"
  by (simp_all only: props_lookup) (simp_all add: prop_keys effective_rf_def split: option.split)

lemma namespace_memory:
  "fmlookup (getNamespaceProps c i ns) nsMemorySizeKey \<in>
     {Some (PStr defaultMemorySize)} \<union> {Some (PStrPtr m) | m. ns_MemorySize ns = Some m \<and> m \<noteq> []}"
  by (simp only: props_lookup) (simp add: prop_keys split: option.split)

text \<open>
  The namespace template as lines: with the properties the code computes, what is printed is the
  concatenation of the optional settings.
\<close>

definition setting :: "nat \<Rightarrow> string \<Rightarrow> string option \<Rightarrow> string" where
  "setting n name v = (case v of None \<Rightarrow> [] | Some x \<Rightarrow> nl n @ name @ '' '' @ x @ nl (n - 1))"

definition render_namespace :: "AerospikeCluster \<Rightarrow> nat \<Rightarrow> AerospikeNamespaceSpec \<Rightarrow> string" where
  "render_namespace c i ns =
     nl 0 @ ''namespace '' @ ns_Name ns @ '' {'' @ nl 0 @ nl 1
     @ setting 2 ''replication-factor''
         (map_option itoa (effective_rf (spec_NodeCount (asc_Spec c)) (ns_ReplicationFactor ns)))
     @ nl 0 @ nl 1
     @ setting 2 ''memory-size''
         (Some (case ns_MemorySize ns of Some (x # m) \<Rightarrow> x # m | _ \<Rightarrow> ''4G''))
     @ nl 0 @ nl 1
     @ setting 2 ''default-ttl''
         (case ns_DefaultTTL ns of
            None \<Rightarrow> None
          | Some ttl \<Rightarrow> (case atoi (trim_suffix ''s'' ttl) of
              Inl _ \<Rightarrow> None | Inr v \<Rightarrow> if v = 0 then None else Some (itoa v)))
     @ nl 0 @ nl 1 @ ''storage-engine device {'' @ nl 0 @ nl 2
     @ (if st_Type (ns_Storage ns) = ''file''
        then setting 3 ''file'' (Some (''/opt/aerospike/data/'' @ ns_Name ns @ ''/'' @ ns_Name ns @ ''.dat''))
        else if st_Type (ns_Storage ns) = ''device''
        then setting 3 ''device'' (Some (''/dev/xvd'' @ itoa (97 + int i)))
        else [])
     @ nl 0 @ nl 2
     @ (if st_Type (ns_Storage ns) = ''file'' \<and> st_Size (ns_Storage ns) \<noteq> []
        then setting 3 ''filesize'' (Some (st_Size (ns_Storage ns))) else [])
     @ (if st_DataInMemory (ns_Storage ns) = Some True then nl 3 @ ''data-in-memory true'' else [])
     @ nl 1 @ ''}'' @ nl 0 @ ''}''"

text \<open>One lookup of each key of the property map.\<close>

lemma namespace_props:
  "fmlookup (getNamespaceProps c i ns) ''name'' = Some (PStr (ns_Name ns))"
  "fmlookup (getNamespaceProps c i ns) ''memorySize'' =
     Some (case ns_MemorySize ns of Some (x # m) \<Rightarrow> PStrPtr (x # m) | _ \<Rightarrow> PStr ''4G'')"
  "fmlookup (getNamespaceProps c i ns) ''defaultTTL'' =
     (case ns_DefaultTTL ns of None \<Rightarrow> None
      | Some ttl \<Rightarrow> (case atoi (trim_suffix ''s'' ttl) of Inl _ \<Rightarrow> None | Inr v \<Rightarrow> Some (PInt v)))"
  "fmlookup (getNamespaceProps c i ns) ''storageType'' = Some (PStr (st_Type (ns_Storage ns)))"
  "fmlookup (getNamespaceProps c i ns) ''storageSize'' =
     (if st_Type (ns_Storage ns) = ''file'' then Some (PStr (st_Size (ns_Storage ns))) else None)"
  "fmlookup (getNamespaceProps c i ns) ''filePath'' =
     (if st_Type (ns_Storage ns) = ''file'' then Some (PStr ''/opt/aerospike/data/'') else None)"
  "fmlookup (getNamespaceProps c i ns) ''devicePath'' =
     (if st_Type (ns_Storage ns) = ''device''
      then Some (PStr (''/dev/xvd'' @ itoa (97 + int i))) else None)"
  "fmlookup (getNamespaceProps c i ns) ''dataInMemory'' =
     map_option PBool (st_DataInMemory (ns_Storage ns))"
  by (simp_all only: props_lookup)
    (simp_all add: prop_keys storage_types defaultMemorySize_def defaultFilePath_def getIndexBasedDevicePath_def
      defaultDevicePathPrefix_def split: option.split sum.split list.split)

text \<open>An optional setting of a template prints what \<open>setting\<close> says.\<close>

definition shown :: "tprop option \<Rightarrow> string option" where
  "shown v = (if truth v then Some (printed v) else None)"

lemma if_setting:
  "(if truth v then nl (Suc n) @ name @ '' '' @ printed v @ nl n else []) =
     setting (Suc n) name (shown v)"
  by (simp add: setting_def shown_def)

lemma shown_simps [simp]:
  "shown None = None"
  "shown (Some (PStr s)) = (if s = [] then None else Some s)"
  "shown (Some (PStrPtr s)) = Some s"
  "shown (Some (PInt i)) = (if i = 0 then None else Some (itoa i))"
  by (simp_all add: shown_def)

lemma shown_settings:
  "shown (fmlookup (getNamespaceProps c i ns) ''replicationFactor'') =
     map_option itoa (effective_rf (spec_NodeCount (asc_Spec c)) (ns_ReplicationFactor ns))"
  "shown (fmlookup (getNamespaceProps c i ns) ''memorySize'') =
     Some (case ns_MemorySize ns of Some (x # m) \<Rightarrow> x # m | _ \<Rightarrow> ''4G'')"
  "shown (fmlookup (getNamespaceProps c i ns) ''defaultTTL'') =
     (case ns_DefaultTTL ns of
        None \<Rightarrow> None
      | Some ttl \<Rightarrow> (case atoi (trim_suffix ''s'' ttl) of
          Inl _ \<Rightarrow> None | Inr v \<Rightarrow> if v = 0 then None else Some (itoa v)))"
    apply (unfold shown_def)
    apply (rule namespace_rf [unfolded nsReplicationFactorKey_def])
   apply (simp_all add: namespace_props split: option.splits sum.splits list.splits)
  done

lemma namespace_config: "Execute asNamespaceTemplate (getNamespaceProps c i ns) = render_namespace c i ns"
proof -
  let ?p = "fmlookup (getNamespaceProps c i ns)"
  let ?st = "ns_Storage ns"
  have storage: "(if ?p ''storageType'' = Some (PStr ''file'')
      then nl 3 @ ''file '' @ printed (?p ''filePath'') @ printed (?p ''name'') @ ''/'' @ printed (?p ''name'') @ ''.dat'' @ nl 2
      else if ?p ''storageType'' = Some (PStr ''device'') then nl 3 @ ''device '' @ printed (?p ''devicePath'') @ nl 2 else []) =
    (if st_Type ?st = ''file''
     then setting 3 ''file'' (Some (''/opt/aerospike/data/'' @ ns_Name ns @ ''/'' @ ns_Name ns @ ''.dat''))
     else if st_Type ?st = ''device'' then setting 3 ''device'' (Some (''/dev/xvd'' @ itoa (97 + int i))) else [])"
    by (simp add: namespace_props setting_def)
  have size: "(if truth (?p ''storageSize'') then nl 3 @ ''filesize '' @ printed (?p ''storageSize'') @ nl 2 else []) =
    (if st_Type ?st = ''file'' \<and> st_Size ?st \<noteq> [] then setting 3 ''filesize'' (Some (st_Size ?st)) else [])"
    by (simp add: namespace_props setting_def)
  have memory: "(if truth (?p ''dataInMemory'') then nl 3 @ ''data-in-memory '' @ printed (?p ''dataInMemory'') else []) =
    (if st_DataInMemory ?st = Some True then nl 3 @ ''data-in-memory true'' else [])"
    by (cases "st_DataInMemory ?st") (simp_all add: namespace_props)
  have settings: "(if truth v then nl 2 @ name @ '' '' @ printed v @ nl 1 else []) = setting 2 name (shown v)"
    for v name using if_setting [of v "Suc 0" name] by (simp only: numeral_2_eq_2 One_nat_def)
  have name: "printed (?p ''name'') = ns_Name ns" by (simp add: namespace_props)
  have "Execute asNamespaceTemplate (getNamespaceProps c i ns) =
     nl 0 @ ''namespace '' @ printed (?p ''name'') @ '' {'' @ nl 0 @ nl 1
     @ (if truth (?p ''replicationFactor'')
        then nl 2 @ ''replication-factor'' @ '' '' @ printed (?p ''replicationFactor'') @ nl 1 else [])
     @ nl 0 @ nl 1
     @ (if truth (?p ''memorySize'') then nl 2 @ ''memory-size'' @ '' '' @ printed (?p ''memorySize'') @ nl 1 else [])
     @ nl 0 @ nl 1
     @ (if truth (?p ''defaultTTL'') then nl 2 @ ''default-ttl'' @ '' '' @ printed (?p ''defaultTTL'') @ nl 1 else [])
     @ nl 0 @ nl 1 @ ''storage-engine device {'' @ nl 0 @ nl 2
     @ (if ?p ''storageType'' = Some (PStr ''file'')
        then nl 3 @ ''file '' @ printed (?p ''filePath'') @ printed (?p ''name'') @ ''/'' @ printed (?p ''name'') @ ''.dat'' @ nl 2
        else if ?p ''storageType'' = Some (PStr ''device'') then nl 3 @ ''device '' @ printed (?p ''devicePath'') @ nl 2 else [])
     @ nl 0 @ nl 2
     @ (if truth (?p ''storageSize'') then nl 3 @ ''filesize '' @ printed (?p ''storageSize'') @ nl 2 else [])
     @ (if truth (?p ''dataInMemory'') then nl 3 @ ''data-in-memory '' @ printed (?p ''dataInMemory'') else [])
     @ nl 1 @ ''}'' @ nl 0 @ ''}''"
    unfolding Execute_def asNamespaceTemplate_def by simp
  then show ?thesis
    unfolding storage unfolding render_namespace_def size memory settings shown_settings name .
qed

lemma ensureConfigMap_hash:
  assumes run: "run_state (ensureConfigMap E c) h = (Inr cm, h')"
    and honest: "\<And>h x y. env_create_configmap E h x = Inr y \<Longrightarrow> y = x"
      "\<And>h x y. env_update_configmap E h x = Inr y \<Longrightarrow> y = x"
  shows "config_hash cm = Hash E (buildConfig c)"
    and "Hash E (str_at (cm_Data cm) configFileName) = Hash E (buildConfig c)"
  using run unfolding ensureConfigMap_def updateConfigMap_def Let_def
  by (auto simp: map_sum_def dest!: honest split: sum.splits if_splits)

lemma emits_configmap [emits_intro]:
  assumes "\<And>e. \<not> writes e \<Longrightarrow> P e" and "\<And>x r. P (EvCreateConfigMap x r)"
    and "\<And>x r. P (EvUpdateConfigMap x r)"
  shows "emits P (ensureConfigMap E c)"
  unfolding ensureConfigMap_def updateConfigMap_def by (auto intro!: emits_intro assms)

end
