(* ===== verification/PodSpecs.thy ===== *)
theory PodSpecs
  imports PodUtils ConfigMaps
begin

text \<open>
  The pure part of \<^verbatim>\<open>pkg/reconciler/pod.go\<close>: what the pod of a node looks like before
  its volumes are attached, and how its resources and its node id are computed. Also
  \<^verbatim>\<open>cmd/asinit\<close>, the init container of that pod, which reads the arguments built here.
\<close>

section \<open>Model\<close>

subsection \<open>Resources\<close>

definition computeCpuRequest :: "env \<Rightarrow> AerospikeCluster \<Rightarrow> quantity" where
  "computeCpuRequest E c =
     (case Option.bind (spec_Resources (asc_Spec c)) (\<lambda>res. env_cpu E (rr_Requests res)) of
        Some q \<Rightarrow> q
      | None \<Rightarrow> env_must_parse E (itoa aerospikeServerContainerDefaultCpuRequest))"

text \<open>Addition of 64-bit integers.\<close>

definition wrap64 :: "int \<Rightarrow> int" where
  "wrap64 i = (i + 2 ^ 63) mod 2 ^ 64 - 2 ^ 63"

fun sum_memory :: "int \<Rightarrow> AerospikeNamespaceSpec list \<Rightarrow> int" where
  "sum_memory acc [] = acc"
| "sum_memory acc (ns # rest) =
     (case ns_MemorySize ns of
        None \<Rightarrow> sum_memory (wrap64 (acc + aerospikeServerContainerDefaultMemoryRequestGi)) rest
      | Some m \<Rightarrow>
          (case atoi (trim_suffix ''G'' m) of
             Inr s \<Rightarrow> sum_memory (wrap64 (acc + s)) rest
           | Inl err \<Rightarrow> sum_memory (wrap64 (acc + aerospikeServerContainerDefaultMemoryRequestGi)) rest))"

definition computeMemoryRequest :: "env \<Rightarrow> AerospikeCluster \<Rightarrow> quantity" where
  "computeMemoryRequest E c =
     (let computedMemory = env_must_parse E (itoa (sum_memory 0 (spec_Namespaces (asc_Spec c))) @ ''Gi'')
      in case Option.bind (spec_Resources (asc_Spec c)) (\<lambda>res. env_memory E (rr_Requests res)) of
           Some memory \<Rightarrow> if memory > computedMemory then memory else computedMemory
         | None \<Rightarrow> computedMemory)"

text \<open>A limit that is neither nil nor zero.\<close>

definition set_limit :: "quantity option \<Rightarrow> quantity option" where
  "set_limit q = (if q = Some 0 then None else q)"

definition computeResourceLimits :: "env \<Rightarrow> AerospikeCluster \<Rightarrow> (string, quantity) fmap" where
  "computeResourceLimits E c =
     (case spec_Resources (asc_Spec c) of
        None \<Rightarrow> fmempty
      | Some res \<Rightarrow>
          (let limits = rr_Limits res in
           if limits = None then fmempty
           else case (set_limit (env_cpu E limits), set_limit (env_memory E limits)) of
                  (Some cpu, Some memory) \<Rightarrow> map_lit [(''cpu'', cpu), (''memory'', memory)]
                | (Some cpu, None) \<Rightarrow> map_lit [(''cpu'', cpu)]
                | (None, Some memory) \<Rightarrow> map_lit [(''memory'', memory)]
                | (None, None) \<Rightarrow> fmempty))"

subsection \<open>Identity\<close>

definition nodeIdPrefix :: string where "nodeIdPrefix = ''a''"

definition computeNodeId :: "env \<Rightarrow> string \<Rightarrow> string" where
  "computeNodeId E podName = nodeIdPrefix @ take 15 (env_md5 E podName)"

text \<open>\<open>fmt.Sprintf("%s-%d", aerospikeCluster.Name, index)\<close>\<close>

definition pod_name :: "AerospikeCluster \<Rightarrow> int \<Rightarrow> string" where
  "pod_name c index = asc_Name c @ ''-'' @ itoa index"

text \<open>\<open>fmt.Sprintf("%s.%s.%s", pod.Name, aerospikeCluster.Name, aerospikeCluster.Namespace)\<close>\<close>

definition pod_host :: "AerospikeCluster \<Rightarrow> Pod \<Rightarrow> string" where
  "pod_host c pod = pod_Name pod @ ''.'' @ asc_Name c @ ''.'' @ asc_Namespace c"

text \<open>
  \<open>make([]string, len(pods))\<close> already holds that many empty strings, to which the peers are
  appended.
\<close>

definition mesh_peers :: "AerospikeCluster \<Rightarrow> string \<Rightarrow> Pod list \<Rightarrow> string list" where
  "mesh_peers c podName pods =
     replicate (length pods) [] @ map (pod_host c) (filter (\<lambda>pod. podName \<noteq> pod_Name pod) pods)"

definition peer_list :: "AerospikeCluster \<Rightarrow> string \<Rightarrow> Pod list \<Rightarrow> string" where
  "peer_list c podName pods = join '','' (mesh_peers c podName pods)"

subsection \<open>The pod\<close>

text \<open>\<open>path.Join\<close> of a clean directory and a file name\<close>

definition path_join :: "string \<Rightarrow> string \<Rightarrow> string" where
  "path_join dir file = dir @ ''/'' @ file"

definition tools_image :: "env \<Rightarrow> string" where
  "tools_image E = ''quay.io/travelaudience/aerospike-operator-tools:'' @ env_OperatorVersion E"

definition init_container :: "env \<Rightarrow> string \<Rightarrow> string \<Rightarrow> Container" where
  "init_container E nodeId peerList =
     (let initialConfigFilePath = path_join initialConfigMountPath configFileName;
          finalConfigFilePath = path_join finalConfigMountPath configFileName
      in zero_container\<lparr>
        ct_Name := ''init'',
        ct_Image := tools_image E,
        ct_ImagePullPolicy := ''Always'',
        ct_Command := [''/usr/local/bin/asinit'', ''--node-id'', nodeId, ''--peer-list'', peerList,
          ''--source-config'', initialConfigFilePath, ''--target-config'', finalConfigFilePath],
        ct_VolumeMounts :=
          [\<lparr>vm_Name = initialConfigVolumeName, vm_MountPath = initialConfigMountPath, vm_ReadOnly = False\<rparr>,
           \<lparr>vm_Name = finalConfigVolumeName, vm_MountPath = finalConfigMountPath, vm_ReadOnly = False\<rparr>],
        ct_Resources := \<lparr>
          rr_Requests = Some (map_lit [(''cpu'', env_must_parse E initContainerCpuRequest),
            (''memory'', env_must_parse E initContainerMemoryRequest)]),
          rr_Limits = None\<rparr>\<rparr>)"

definition asReadinessInitialDelaySeconds :: int where "asReadinessInitialDelaySeconds = 3"
definition asReadinessTimeoutSeconds :: int where "asReadinessTimeoutSeconds = 2"
definition asReadinessPeriodSeconds :: int where "asReadinessPeriodSeconds = 10"
definition asReadinessFailureThreshold :: int where "asReadinessFailureThreshold = 3"

definition server_container :: "env \<Rightarrow> AerospikeCluster \<Rightarrow> Container" where
  "server_container E c = zero_container\<lparr>
     ct_Name := ''aerospike-server'',
     ct_Image := ''aerospike/aerospike-server:'' @ spec_Version (asc_Spec c),
     ct_Command := [''/usr/bin/asd'', ''--foreground'', ''--config-file'',
       path_join finalConfigMountPath configFileName],
     ct_Ports := [(servicePortName, cServicePort), (heartbeatPortName, HeartbeatPort),
       (fabricPortName, fabricPort), (infoPortName, infoPort)],
     ct_VolumeMounts :=
       [\<lparr>vm_Name = finalConfigVolumeName, vm_MountPath = finalConfigMountPath, vm_ReadOnly = False\<rparr>],
     ct_ReadinessProbe := Some \<lparr>pr_Handler = TCPSocket cServicePort,
       pr_InitialDelaySeconds = asReadinessInitialDelaySeconds,
       pr_TimeoutSeconds = asReadinessTimeoutSeconds,
       pr_PeriodSeconds = asReadinessPeriodSeconds,
       pr_FailureThreshold = asReadinessFailureThreshold\<rparr>,
     ct_Resources := \<lparr>
       rr_Requests = Some (map_lit [(''cpu'', computeCpuRequest E c), (''memory'', computeMemoryRequest E c)]),
       rr_Limits = Some (computeResourceLimits E c)\<rparr>\<rparr>"

definition asprom_container :: "env \<Rightarrow> Container" where
  "asprom_container E = zero_container\<lparr>
     ct_Name := ''asprom'',
     ct_Image := tools_image E,
     ct_Command := [''asprom''],
     ct_Ports := [(''http'', aspromPort)],
     ct_LivenessProbe := Some \<lparr>pr_Handler = HTTPGet ''/metrics'' aspromPort,
       pr_InitialDelaySeconds = 0, pr_TimeoutSeconds = 0, pr_PeriodSeconds = 0, pr_FailureThreshold = 0\<rparr>,
     ct_Resources := \<lparr>
       rr_Requests = Some (map_lit [(''cpu'', env_must_parse E aspromCpuRequest),
         (''memory'', env_must_parse E aspromMemoryRequest)]),
       rr_Limits = Some (map_lit [(''cpu'', env_must_parse E aspromCpuLimit),
         (''memory'', env_must_parse E aspromMemoryLimit)])\<rparr>\<rparr>"

text \<open>No two pods of a cluster on one host, unless debugging.\<close>

definition pod_affinity :: "env \<Rightarrow> AerospikeCluster \<Rightarrow> PodAffinityTerm list option" where
  "pod_affinity E c =
     (if \<not> env_DebugEnabled E
      then Some [\<lparr>pa_MatchExpressions =
                    [\<lparr>ls_Key = LabelAppKey, ls_Operator = ''In'', ls_Values = [LabelAppVal]\<rparr>,
                     \<lparr>ls_Key = LabelClusterKey, ls_Operator = ''In'', ls_Values = [asc_Name c]\<rparr>],
                  pa_TopologyKey = ''kubernetes.io/hostname''\<rparr>]
      else None)"

definition build_pod :: "env \<Rightarrow> AerospikeCluster \<Rightarrow> ConfigMap \<Rightarrow> int \<Rightarrow> Pod list \<Rightarrow> Pod" where
  "build_pod E c configMap index pods =
     (let podName = pod_name c index;
          nodeId = computeNodeId E podName;
          peerList = peer_list c podName pods
      in \<lparr>pod_Meta = zero_meta\<lparr>
            om_Name := podName,
            om_Labels := Some (map_lit [(LabelAppKey, LabelAppVal), (LabelClusterKey, asc_Name c)]),
            om_Namespace := asc_Namespace c,
            om_OwnerReferences := [cluster_owner c],
            om_Annotations := Some (map_lit
              [(configMapHashAnnotation, str_at (om_Annotations (cm_Meta configMap)) configMapHashAnnotation),
               (nodeIdAnnotation, nodeId)])\<rparr>,
          pod_Spec = \<lparr>
            ps_InitContainers = [init_container E nodeId peerList],
            ps_Containers = [server_container E c, asprom_container E],
            ps_Volumes =
              [\<lparr>vol_Name = initialConfigVolumeName, vol_Source = ConfigMapVolume (om_Name (cm_Meta configMap))\<rparr>,
               \<lparr>vol_Name = finalConfigVolumeName, vol_Source = EmptyDirVolume\<rparr>],
            ps_RestartPolicy = ''Never'',
            ps_Hostname = podName,
            ps_Subdomain = asc_Name c,
            ps_NodeSelector = spec_NodeSelector (asc_Spec c),
            ps_Tolerations = spec_Tolerations (asc_Spec c),
            ps_PodAntiAffinity = pod_affinity E c\<rparr>,
          pod_Status = zero_status\<rparr>)"

text \<open>
  The last part of the attach loop: the volume of a namespace in the first container and in the
  pod; an error for a storage type that is neither a device nor a file.
\<close>

definition attach_volume ::
    "nat \<Rightarrow> AerospikeNamespaceSpec \<Rightarrow> PersistentVolumeClaim \<Rightarrow> Pod \<Rightarrow> gerr + Pod" where
  "attach_volume index namespace pvc pod =
     (let volume_name = namespaceVolumePrefix @ ''-'' @ ns_Name namespace;
          add_volume = (\<lambda>ct. pod\<lparr>pod_Spec := (pod_Spec pod)\<lparr>
             ps_Containers := ct (hd (ps_Containers (pod_Spec pod))) # tl (ps_Containers (pod_Spec pod)),
             ps_Volumes := ps_Volumes (pod_Spec pod) @
               [\<lparr>vol_Name = namespaceVolumePrefix @ ''-'' @ str_at (om_Labels (pvc_Meta pvc)) LabelNamespaceKey,
                 vol_Source = PersistentVolumeClaimVolume (pvc_Name pvc)\<rparr>]\<rparr>\<rparr>)
      in if st_Type (ns_Storage namespace) = StorageTypeDevice
         then Inr (add_volume (\<lambda>ct. ct\<lparr>ct_VolumeDevices := ct_VolumeDevices ct @
                 [\<lparr>vd_Name = volume_name, vd_DevicePath = getIndexBasedDevicePath index\<rparr>]\<rparr>))
         else if st_Type (ns_Storage namespace) = StorageTypeFile
         then Inr (add_volume (\<lambda>ct. ct\<lparr>ct_VolumeMounts := ct_VolumeMounts ct @
                 [\<lparr>vm_Name = volume_name, vm_MountPath = defaultFilePath @ ns_Name namespace,
                   vm_ReadOnly = False\<rparr>]\<rparr>))
         else Inl (Errorf ''unsupported storage type %s'' [AStr (st_Type (ns_Storage namespace))]))"

subsection \<open>cmd/asinit\<close>

text \<open>The contents of the target configuration file, from the flags and the source file.\<close>

definition seed_lines :: "string \<Rightarrow> string" where
  "seed_lines peerList =
     concat (map (\<lambda>peer. ''mesh-seed-address-port '' @ peer @ '' '' @ itoa HeartbeatPort @ [CHR 0x0A])
       (fields_func (CHR '','') peerList))"

definition asinit :: "string \<Rightarrow> string \<Rightarrow> string \<Rightarrow> string" where
  "asinit nodeId peerList input =
     replace_all HeartbeatAddressesValue (seed_lines peerList)
       (replace_all ServiceNodeIdValue nodeId input)"

section \<open>Facts\<close>

lemma length_computeNodeId: "15 \<le> length (env_md5 E n) \<Longrightarrow> length (computeNodeId E n) = 16"
  by (simp add: computeNodeId_def nodeIdPrefix_def)

lemma build_pod_simps [simp]:
  "pod_Name (build_pod E c cm i pods) = pod_name c i"
  "pod_Namespace (build_pod E c cm i pods) = asc_Namespace c"
  "str_at (om_Labels (pod_Meta (build_pod E c cm i pods))) LabelClusterKey = asc_Name c"
  "str_at (om_Annotations (pod_Meta (build_pod E c cm i pods))) nodeIdAnnotation = computeNodeId E (pod_name c i)"
  "str_at (om_Annotations (pod_Meta (build_pod E c cm i pods))) configMapHashAnnotation = config_hash cm"
  by (simp_all add: build_pod_def Let_def zero_meta_def label_keys nodeIdAnnotation_def
      configMapHashAnnotation_def)

lemma podIndex_build_pod:
  "- (2 ^ 63) \<le> i \<Longrightarrow> i < 2 ^ 63 \<Longrightarrow> podIndex (build_pod E c cm i pods) = i"
  by (rule podIndex_named [of _ "asc_Name c"]) (simp_all add: pod_name_def)

lemma pod_name_inj: "pod_name c i = pod_name c j \<Longrightarrow> i = j"
  by (auto simp: pod_name_def dest: itoa_inj)

text \<open>The init container recovers the peers: the empty entries do not matter.\<close>

lemma peers_recovered:
  assumes "CHR '','' \<notin> set (asc_Name c)" and "CHR '','' \<notin> set (asc_Namespace c)"
    and "\<And>p. p \<in> set pods \<Longrightarrow> CHR '','' \<notin> set (pod_Name p)"
  shows "fields_func (CHR '','') (peer_list c n pods) =
    map (pod_host c) (filter (\<lambda>p. n \<noteq> pod_Name p) pods)"
proof -
  have "CHR '','' \<notin> set x" if "x \<in> set (mesh_peers c n pods)" for x
    using that assms by (auto simp: mesh_peers_def pod_host_def)
  then have "fields_func (CHR '','') (peer_list c n pods) = filter (\<lambda>f. f \<noteq> []) (mesh_peers c n pods)"
    unfolding peer_list_def by (rule fields_join)
  also have "\<dots> = map (pod_host c) (filter (\<lambda>p. n \<noteq> pod_Name p) pods)"
    by (simp add: mesh_peers_def pod_host_def filter_map o_def filter_replicate)
  finally show ?thesis .
qed

lemma wrap64_id: "- (2 ^ 63) \<le> i \<Longrightarrow> i < 2 ^ 63 \<Longrightarrow> wrap64 i = i"
  by (simp add: wrap64_def)

text \<open>The effects of attaching on the rest of the pod.\<close>

lemma attach_volume_meta:
  "attach_volume i ns pvc pod = Inr pod' \<Longrightarrow> pod_Meta pod' = pod_Meta pod"
  by (auto simp: attach_volume_def Let_def split: if_splits)

lemma attach_volume_volumes:
  "attach_volume i ns pvc pod = Inr pod' \<Longrightarrow>
     map vol_Source (ps_Volumes (pod_Spec pod')) =
       map vol_Source (ps_Volumes (pod_Spec pod)) @ [PersistentVolumeClaimVolume (pvc_Name pvc)]"
  by (auto simp: attach_volume_def Let_def split: if_splits)

end
