(* ===== verification/Versioning.thy ===== *)
theory Versioning
  imports GoStd
begin

text \<open>
  \<^verbatim>\<open>pkg/versioning\<close>: versions of Aerospike, the supported ones, the transitions between
  them and the strategy of an upgrade. The specification the component is measured against
  is the lexicographic order on versions (an instance of \<^theory_text>\<open>linorder\<close>) and the
  storage-format boundary at 4.2.0.0.
\<close>

section \<open>Model\<close>

subsection \<open>version.go\<close>

datatype Version = Version (Major: int) (Minor: int) (Patch: int) (Revision: int)

text \<open>The loop that parses each part, stopping at the first that is not an integer.\<close>

fun parse_parts :: "string list \<Rightarrow> gerr + int list" where
  "parse_parts [] = Inr []"
| "parse_parts (s # ss) =
     (case atoi s of
        Inl e \<Rightarrow> Inl e
      | Inr d \<Rightarrow> (case parse_parts ss of Inl e \<Rightarrow> Inl e | Inr ds \<Rightarrow> Inr (d # ds)))"

text \<open>\<open>parts\<close> has length 4 and is zero where the string has no part.\<close>

definition NewVersionFromString :: "string \<Rightarrow> gerr + Version" where
  "NewVersionFromString versionString =
     (let s = split_on (CHR ''.'') versionString in
      if length s < 3 \<or> length s > 4 then Inl (Errorf ''invalid version scheme'' [])
      else case parse_parts s of
             Inl e \<Rightarrow> Inl e
           | Inr ds \<Rightarrow> (let parts = ds @ replicate (4 - length ds) 0
                       in Inr (Version (parts ! 0) (parts ! 1) (parts ! 2) (parts ! 3))))"

definition String :: "Version \<Rightarrow> string" where
  "String v = itoa (Major v) @ ''.'' @ itoa (Minor v) @ ''.'' @ itoa (Patch v) @ ''.''
              @ itoa (Revision v)"

fun contains :: "string list \<Rightarrow> string \<Rightarrow> bool" where
  "contains [] e = False"
| "contains (a # s) e = (if a = e then True else contains s e)"

subsection \<open>versions.go\<close>

definition AerospikeServerSupportedVersions :: "string list" where
  "AerospikeServerSupportedVersions =
     [''4.0.0.4'', ''4.0.0.5'', ''4.0.0.6'', ''4.1.0.1'', ''4.1.0.6'', ''4.2.0.3'', ''4.2.0.4'',
      ''4.2.0.5'', ''4.2.0.10'', ''4.3.0.2'', ''4.3.0.4'', ''4.3.0.6'', ''4.3.0.7'', ''4.3.0.8'',
      ''4.3.0.10'']"

definition IsSupported :: "Version \<Rightarrow> bool" where
  "IsSupported v = contains AerospikeServerSupportedVersions (String v)"

subsection \<open>upgrade.go and strategy.go\<close>

record VersionUpgrade =
  Source :: Version
  Target :: Version

record UpgradeStrategy =
  RecreatePersistentVolumeClaims :: bool

definition DefaultStrategy :: UpgradeStrategy where
  "DefaultStrategy = \<lparr>RecreatePersistentVolumeClaims = False\<rparr>"

definition To42XYStrategy :: UpgradeStrategy where
  "To42XYStrategy = \<lparr>RecreatePersistentVolumeClaims = True\<rparr>"

text \<open>The last comparison compares the target's revision with itself, as the code does.\<close>

definition isDowngrade :: "VersionUpgrade \<Rightarrow> bool" where
  "isDowngrade vu \<longleftrightarrow>
     Major (Target vu) < Major (Source vu) \<or>
     Minor (Target vu) < Minor (Source vu) \<or>
     Patch (Target vu) < Patch (Source vu) \<or>
     Revision (Target vu) < Revision (Target vu)"

definition isMajorUpgrade :: "VersionUpgrade \<Rightarrow> bool" where
  "isMajorUpgrade vu \<longleftrightarrow> \<not> isDowngrade vu \<and> Major (Target vu) > Major (Source vu)"

definition isMinorUpgrade :: "VersionUpgrade \<Rightarrow> bool" where
  "isMinorUpgrade vu \<longleftrightarrow>
     \<not> isDowngrade vu \<and> \<not> isMajorUpgrade vu \<and> Minor (Target vu) > Minor (Source vu)"

definition isPatchUpgrade :: "VersionUpgrade \<Rightarrow> bool" where
  "isPatchUpgrade vu \<longleftrightarrow>
     \<not> isDowngrade vu \<and> \<not> isMajorUpgrade vu \<and> \<not> isMinorUpgrade vu \<and>
     Patch (Target vu) > Patch (Source vu)"

definition isRevisionUpgrade :: "VersionUpgrade \<Rightarrow> bool" where
  "isRevisionUpgrade vu \<longleftrightarrow>
     \<not> isDowngrade vu \<and> \<not> isMajorUpgrade vu \<and> \<not> isMinorUpgrade vu \<and> \<not> isPatchUpgrade vu \<and>
     Revision (Target vu) > Revision (Source vu)"

definition IsValid :: "VersionUpgrade \<Rightarrow> bool" where
  "IsValid vu \<longleftrightarrow>
     IsSupported (Source vu) \<and> IsSupported (Target vu) \<and>
     (isMinorUpgrade vu \<or> isPatchUpgrade vu \<or> isRevisionUpgrade vu)"

definition GetStrategy :: "VersionUpgrade \<Rightarrow> gerr + UpgradeStrategy" where
  "GetStrategy vu =
     (if \<not> IsValid vu then
        Inl (Errorf ''cannot upgrade from version %v to %v''
               [AStr (String (Source vu)), AStr (String (Target vu))])
      else if Major (Target vu) = 4 \<and> Minor (Source vu) \<le> 1 \<and> Minor (Target vu) \<ge> 2
           then Inr To42XYStrategy
      else Inr DefaultStrategy)"

section \<open>The order on versions\<close>

fun version_key :: "Version \<Rightarrow> int \<times> int \<times> int \<times> int" where
  "version_key (Version a b c d) = (a, b, c, d)"

instantiation Version :: linorder
begin

definition less_eq_Version :: "Version \<Rightarrow> Version \<Rightarrow> bool" where
  "less_eq_Version v w \<longleftrightarrow>
     Major v < Major w \<or> Major v = Major w \<and>
     (Minor v < Minor w \<or> Minor v = Minor w \<and>
      (Patch v < Patch w \<or> Patch v = Patch w \<and> Revision v \<le> Revision w))"

definition less_Version :: "Version \<Rightarrow> Version \<Rightarrow> bool" where
  "less_Version v w \<longleftrightarrow>
     Major v < Major w \<or> Major v = Major w \<and>
     (Minor v < Minor w \<or> Minor v = Minor w \<and>
      (Patch v < Patch w \<or> Patch v = Patch w \<and> Revision v < Revision w))"

instance
  by standard (auto simp: less_eq_Version_def less_Version_def intro: Version.expand)

end

lemmas version_order = less_eq_Version_def less_Version_def

section \<open>Parsing and printing\<close>

definition int64_range :: "int \<Rightarrow> bool" where
  "int64_range i \<longleftrightarrow> - (2 ^ 63) \<le> i \<and> i < 2 ^ 63"

text \<open>The values a \<open>Version\<close> struct can hold.\<close>

definition version_int64 :: "Version \<Rightarrow> bool" where
  "version_int64 v \<longleftrightarrow> list_all int64_range [Major v, Minor v, Patch v, Revision v]"

lemma split_String:
  "split_on (CHR ''.'') (String v) =
     [itoa (Major v), itoa (Minor v), itoa (Patch v), itoa (Revision v)]"
  by (simp add: String_def split_on_append split_on_no_sep itoa_no_dot)

lemma String_inj: "String v = String w \<longleftrightarrow> v = w"
proof
  assume "String v = String w"
  then have "split_on (CHR ''.'') (String v) = split_on (CHR ''.'') (String w)" by simp
  then show "v = w" by (auto simp: split_String dest!: itoa_inj intro: Version.expand)
qed simp

lemma contains_set: "contains s e \<longleftrightarrow> e \<in> set s"
  by (induction s) auto

lemma parse_parts_length: "parse_parts ss = Inr ds \<Longrightarrow> length ds = length ss"
  by (induction ss arbitrary: ds) (auto split: sum.splits)

section \<open>The supported versions\<close>

definition supported :: "Version list" where
  "supported =
     [Version 4 0 0 4, Version 4 0 0 5, Version 4 0 0 6, Version 4 1 0 1, Version 4 1 0 6,
      Version 4 2 0 3, Version 4 2 0 4, Version 4 2 0 5, Version 4 2 0 10, Version 4 3 0 2,
      Version 4 3 0 4, Version 4 3 0 6, Version 4 3 0 7, Version 4 3 0 8, Version 4 3 0 10]"

lemma supported_strings: "AerospikeServerSupportedVersions = map String supported"
  by (simp add: AerospikeServerSupportedVersions_def supported_def String_def itoa_def
      nat_digits.simps)

lemma IsSupported_iff: "IsSupported v \<longleftrightarrow> v \<in> set supported"
  by (auto simp: IsSupported_def contains_set supported_strings String_inj)

lemma supported_shape: "v \<in> set supported \<Longrightarrow> Major v = 4 \<and> Patch v = 0"
  by (auto simp: supported_def)

lemmas upgrade_kinds = isDowngrade_def isMajorUpgrade_def isMinorUpgrade_def isPatchUpgrade_def
  isRevisionUpgrade_def

text \<open>
  Every supported version has major 4 and patch 0, so that among them the component-wise test
  \<open>isDowngrade\<close> cannot go wrong and the kinds of upgrade cover exactly the increasing pairs.
\<close>

lemma IsValid_iff_less:
  assumes "IsSupported (Source vu)" and "IsSupported (Target vu)"
  shows "IsValid vu \<longleftrightarrow> Source vu < Target vu"
proof -
  have "Major (Source vu) = 4" "Patch (Source vu) = 0" "Major (Target vu) = 4" "Patch (Target vu) = 0"
    using assms by (auto simp: IsSupported_iff dest: supported_shape)
  then show ?thesis
    using assms by (auto simp: IsValid_def upgrade_kinds version_order)
qed

lemma IsValid_supported: "IsValid vu \<Longrightarrow> IsSupported (Source vu) \<and> IsSupported (Target vu)"
  by (simp add: IsValid_def)

lemma IsValid_less: "IsValid vu \<Longrightarrow> Source vu < Target vu"
  using IsValid_iff_less IsValid_supported by blast

lemma supported_major: "IsSupported v \<Longrightarrow> Major v = 4"
  by (simp add: IsSupported_iff supported_shape)

lemma version_ge_42:
  "Major v = 4 \<Longrightarrow> Patch v = 0 \<Longrightarrow> 0 \<le> Revision v \<Longrightarrow> Version 4 2 0 0 \<le> v \<longleftrightarrow> 2 \<le> Minor v"
  by (auto simp: version_order)

lemma supported_revision: "IsSupported v \<Longrightarrow> 0 \<le> Revision v"
  by (auto simp: IsSupported_iff supported_def)

lemma supported_ge_42: "IsSupported v \<Longrightarrow> Version 4 2 0 0 \<le> v \<longleftrightarrow> 2 \<le> Minor v"
  by (auto simp: IsSupported_iff version_ge_42 supported_shape supported_revision)

end
