(* ===== verification/Status.thy ===== *)
theory Status
  imports KubeEnv Versioning
begin

text \<open>
  \<^verbatim>\<open>pkg/reconciler/status.go\<close>, the signals of \<^verbatim>\<open>pkg/reconciler/upgrades.go\<close> and
  the event reasons of \<^verbatim>\<open>pkg/utils/events/reasons.go\<close>: how the reconciler writes its
  progress into the annotations and conditions of a cluster.
\<close>

section \<open>Model\<close>

subsection \<open>Constants\<close>

definition UpgradeStatusAnnotationKey :: string where
  "UpgradeStatusAnnotationKey = ''aerospike.travelaudience.com/upgrade-status''"
definition UpgradeStatusStartedAnnotationValue :: string where
  "UpgradeStatusStartedAnnotationValue = ''started''"
definition UpgradeStatusFailedAnnotationValue :: string where
  "UpgradeStatusFailedAnnotationValue = ''failed''"
definition UpgradeStatusBackupAnnotationValue :: string where
  "UpgradeStatusBackupAnnotationValue = ''backup''"

lemmas upgrade_annotation_values = UpgradeStatusStartedAnnotationValue_def
  UpgradeStatusFailedAnnotationValue_def UpgradeStatusBackupAnnotationValue_def

definition ReasonValidationError :: string where "ReasonValidationError = ''ValidationError''"
definition ReasonNodeStarting :: string where "ReasonNodeStarting = ''NodeStarting''"
definition ReasonNodeStarted :: string where "ReasonNodeStarted = ''NodeStarted''"
definition ReasonNodeStartedFailed :: string where "ReasonNodeStartedFailed = ''NodeStartedFailed''"
definition ReasonNodeUpgradeStarted :: string where "ReasonNodeUpgradeStarted = ''NodeUpgradeStarted''"
definition ReasonNodeUpgradeFailed :: string where "ReasonNodeUpgradeFailed = ''NodeUpgradeFailed''"
definition ReasonNodeUpgradeFinished :: string where
  "ReasonNodeUpgradeFinished = ''NodeUpgradeFinished''"
definition ReasonWaitForMigrationsStarted :: string where
  "ReasonWaitForMigrationsStarted = ''WaitForMigrationsStarted''"
definition ReasonWaitForMigrationsFinished :: string where
  "ReasonWaitForMigrationsFinished = ''WaitForMigrationsFinished''"
definition ReasonJobFinished :: string where "ReasonJobFinished = ''JobFinished''"
definition ReasonJobFailed :: string where "ReasonJobFailed = ''JobFailed''"
definition ReasonJobCreated :: string where "ReasonJobCreated = ''JobCreated''"
definition ReasonClusterUpgradeStarted :: string where
  "ReasonClusterUpgradeStarted = ''ClusterUpgradeStarted''"
definition ReasonClusterUpgradeFailed :: string where
  "ReasonClusterUpgradeFailed = ''ClusterUpgradeFailed''"
definition ReasonClusterUpgradeFinished :: string where
  "ReasonClusterUpgradeFinished = ''ClusterUpgradeFinished''"
definition ReasonClusterAutoBackupStarted :: string where
  "ReasonClusterAutoBackupStarted = ''ClusterAutoBackupStarted''"
definition ReasonClusterAutoBackupFinished :: string where
  "ReasonClusterAutoBackupFinished = ''ClusterAutoBackupFinished''"
definition ReasonClusterAutoBackupFailed :: string where
  "ReasonClusterAutoBackupFailed = ''ClusterAutoBackupFailed''"

definition EventTypeNormal :: string where "EventTypeNormal = ''Normal''"
definition EventTypeWarning :: string where "EventTypeWarning = ''Warning''"

subsection \<open>status.go\<close>

text \<open>The four assignments of the code; the other fields of the status keep their value.\<close>

definition updateStatus :: "AerospikeCluster \<Rightarrow> AerospikeCluster" where
  "updateStatus c =
     c\<lparr>asc_Status := (asc_Status c)\<lparr>status_Spec := (status_Spec (asc_Status c))\<lparr>
         spec_BackupSpec := spec_BackupSpec (asc_Spec c),
         spec_Namespaces := spec_Namespaces (asc_Spec c),
         spec_NodeCount := spec_NodeCount (asc_Spec c),
         spec_Version := spec_Version (asc_Spec c)\<rparr>\<rparr>\<rparr>"

definition patchCluster :: "env \<Rightarrow> AerospikeCluster \<Rightarrow> AerospikeCluster \<Rightarrow> unit acte" where
  "patchCluster E old new =
     (if old = new then ok ()
      else liftE (of_client (env_cluster_patch E old new)) (\<lambda>patchBytes.
        let newStatus = asc_Status new in
        bindE (Clusters_Patch E patchBytes old new) (\<lambda>new'.
        if asc_Status new' \<noteq> newStatus
        then bindE (Clusters_UpdateStatus E (new'\<lparr>asc_Status := newStatus\<rparr>)) (\<lambda>_. ok ())
        else ok ())))"

definition appendCondition :: "Condition \<Rightarrow> AerospikeCluster \<Rightarrow> AerospikeCluster" where
  "appendCondition condition c =
     c\<lparr>asc_Status := (asc_Status c)\<lparr>status_Conditions := status_Conditions (asc_Status c) @ [condition]\<rparr>\<rparr>"

definition setAerospikeClusterAnnotation :: "string \<Rightarrow> string \<Rightarrow> AerospikeCluster \<Rightarrow> AerospikeCluster" where
  "setAerospikeClusterAnnotation key v c =
     c\<lparr>asc_Meta := (asc_Meta c)\<lparr>om_Annotations :=
         Some (fmupd key v (gm_make (om_Annotations (asc_Meta c))))\<rparr>\<rparr>"

definition removeAerospikeClusterAnnotation :: "string \<Rightarrow> AerospikeCluster \<Rightarrow> AerospikeCluster" where
  "removeAerospikeClusterAnnotation key c =
     c\<lparr>asc_Meta := (asc_Meta c)\<lparr>om_Annotations := gm_delete key (om_Annotations (asc_Meta c))\<rparr>\<rparr>"

subsection \<open>The signals of upgrades.go\<close>

text \<open>
  A signal changes the cluster it is given in place, also when the patch then fails: it returns
  the changed object together with the error. \<open>patch_and_record\<close> is the tail that all six
  signals share: patch, return the error if there is one, else record the event.
\<close>

definition patch_and_record ::
    "env \<Rightarrow> AerospikeCluster \<Rightarrow> string \<Rightarrow> string \<Rightarrow> AerospikeCluster
     \<Rightarrow> (AerospikeCluster \<times> (gerr + unit)) act" where
  "patch_and_record E oldCluster etype reason c = do {
     r \<leftarrow> patchCluster E oldCluster c;
     case r of
       Inl err \<Rightarrow> ret (c, Inl err)
     | Inr _ \<Rightarrow> do { Record etype reason; ret (c, Inr ()) }
   }"

definition signalBackupStarted :: "env \<Rightarrow> AerospikeCluster \<Rightarrow> (AerospikeCluster \<times> (gerr + unit)) act" where
  "signalBackupStarted E oldCluster = do {
     t \<leftarrow> Now E;
     let c = setAerospikeClusterAnnotation UpgradeStatusAnnotationKey UpgradeStatusBackupAnnotationValue
               (appendCondition \<lparr>c_Type = ConditionAutoBackupStarted, c_Status = ConditionTrue,
                  c_Reason = ReasonClusterAutoBackupStarted, c_Message = ''cluster backup started'',
                  c_LastTransitionTime = t\<rparr> oldCluster);
     patch_and_record E oldCluster EventTypeNormal ReasonClusterAutoBackupStarted c
   }"

definition signalBackupFinished :: "env \<Rightarrow> AerospikeCluster \<Rightarrow> (AerospikeCluster \<times> (gerr + unit)) act" where
  "signalBackupFinished E oldCluster = do {
     t \<leftarrow> Now E;
     let c = appendCondition \<lparr>c_Type = ConditionAutoBackupFinished, c_Status = ConditionTrue,
                  c_Reason = ReasonClusterAutoBackupFinished, c_Message = ''cluster backup finished'',
                  c_LastTransitionTime = t\<rparr> oldCluster;
     patch_and_record E oldCluster EventTypeNormal ReasonClusterAutoBackupFinished c
   }"

definition signalBackupFailed :: "env \<Rightarrow> AerospikeCluster \<Rightarrow> (AerospikeCluster \<times> (gerr + unit)) act" where
  "signalBackupFailed E oldCluster = do {
     t \<leftarrow> Now E;
     let c = appendCondition \<lparr>c_Type = ConditionAutoBackupFailed, c_Status = ConditionTrue,
                  c_Reason = ReasonClusterAutoBackupFailed, c_Message = ''cluster backup failed'',
                  c_LastTransitionTime = t\<rparr> oldCluster;
     patch_and_record E oldCluster EventTypeNormal ReasonClusterAutoBackupFailed c
   }"

definition signalUpgradeStarted ::
    "env \<Rightarrow> AerospikeCluster \<Rightarrow> VersionUpgrade \<Rightarrow> (AerospikeCluster \<times> (gerr + unit)) act" where
  "signalUpgradeStarted E oldCluster upgrade = do {
     t \<leftarrow> Now E;
     let c = setAerospikeClusterAnnotation UpgradeStatusAnnotationKey UpgradeStatusStartedAnnotationValue
               (appendCondition \<lparr>c_Type = ConditionUpgradeStarted, c_Status = ConditionTrue,
                  c_Reason = ReasonClusterUpgradeStarted,
                  c_Message = ''upgrade from version '' @ String (Source upgrade) @ '' to ''
                    @ String (Target upgrade) @ '' started'',
                  c_LastTransitionTime = t\<rparr> oldCluster);
     patch_and_record E oldCluster EventTypeNormal ReasonClusterUpgradeStarted c
   }"

definition signalUpgradeFailed ::
    "env \<Rightarrow> AerospikeCluster \<Rightarrow> VersionUpgrade \<Rightarrow> (AerospikeCluster \<times> (gerr + unit)) act" where
  "signalUpgradeFailed E oldCluster upgrade = do {
     t \<leftarrow> Now E;
     let c = setAerospikeClusterAnnotation UpgradeStatusAnnotationKey UpgradeStatusFailedAnnotationValue
               (appendCondition \<lparr>c_Type = ConditionUpgradeFailed, c_Status = ConditionTrue,
                  c_Reason = ReasonClusterUpgradeFailed,
                  c_Message = ''upgrade from version '' @ String (Source upgrade) @ '' to ''
                    @ String (Target upgrade) @ '' failed'',
                  c_LastTransitionTime = t\<rparr> oldCluster);
     patch_and_record E oldCluster EventTypeWarning ReasonClusterUpgradeFailed c
   }"

definition signalUpgradeFinished ::
    "env \<Rightarrow> AerospikeCluster \<Rightarrow> VersionUpgrade \<Rightarrow> (AerospikeCluster \<times> (gerr + unit)) act" where
  "signalUpgradeFinished E oldCluster upgrade = do {
     t \<leftarrow> Now E;
     let c = removeAerospikeClusterAnnotation UpgradeStatusAnnotationKey
               (appendCondition \<lparr>c_Type = ConditionUpgradeFinished, c_Status = ConditionTrue,
                  c_Reason = ReasonClusterUpgradeFinished,
                  c_Message = ''finished upgrade from version '' @ String (Source upgrade) @ '' to ''
                    @ String (Target upgrade),
                  c_LastTransitionTime = t\<rparr> oldCluster);
     patch_and_record E oldCluster EventTypeNormal ReasonClusterUpgradeFinished c
   }"

section \<open>Facts\<close>

text \<open>The upgrade status annotation of a cluster.\<close>

definition upgrade_status :: "AerospikeCluster \<Rightarrow> string option" where
  "upgrade_status c = gm_get (om_Annotations (asc_Meta c)) UpgradeStatusAnnotationKey"

lemma append_simps [simp]:
  "asc_Meta (appendCondition x c) = asc_Meta c"
  "asc_Spec (appendCondition x c) = asc_Spec c"
  "status_Spec (asc_Status (appendCondition x c)) = status_Spec (asc_Status c)"
  "status_Conditions (asc_Status (appendCondition x c)) = status_Conditions (asc_Status c) @ [x]"
  by (simp_all add: appendCondition_def)

lemma annotation_simps [simp]:
  "asc_Spec (setAerospikeClusterAnnotation k v c) = asc_Spec c"
  "asc_Status (setAerospikeClusterAnnotation k v c) = asc_Status c"
  "om_Name (asc_Meta (setAerospikeClusterAnnotation k v c)) = om_Name (asc_Meta c)"
  "om_Namespace (asc_Meta (setAerospikeClusterAnnotation k v c)) = om_Namespace (asc_Meta c)"
  "asc_Spec (removeAerospikeClusterAnnotation k c) = asc_Spec c"
  "asc_Status (removeAerospikeClusterAnnotation k c) = asc_Status c"
  by (simp_all add: setAerospikeClusterAnnotation_def removeAerospikeClusterAnnotation_def)

lemma upgrade_status_simps [simp]:
  "upgrade_status (appendCondition x c) = upgrade_status c"
  "upgrade_status (setAerospikeClusterAnnotation UpgradeStatusAnnotationKey v c) = Some v"
  "upgrade_status (removeAerospikeClusterAnnotation UpgradeStatusAnnotationKey c) = None"
  by (simp_all add: upgrade_status_def setAerospikeClusterAnnotation_def
      removeAerospikeClusterAnnotation_def gm_get_def gm_delete_def gm_make_def split: option.splits)

text \<open>The calls by which the reconciler writes to a cluster object, and nothing else.\<close>

fun signals_cluster :: "event \<Rightarrow> bool" where
  "signals_cluster EvNow = True"
| "signals_cluster (EvRecord _ _) = True"
| "signals_cluster (EvPatchCluster _ _ _) = True"
| "signals_cluster (EvUpdateClusterStatus _ _) = True"
| "signals_cluster _ = False"

lemma emits_patchCluster:
  assumes "\<And>r. P (EvPatchCluster old new r)" and "\<And>c r. P (EvUpdateClusterStatus c r)"
  shows "emits P (patchCluster E old new)"
  unfolding patchCluster_def Let_def using assms by (auto intro!: emits_intro)

lemma emits_signals [emits_intro]:
  assumes "\<And>e. signals_cluster e \<Longrightarrow> P e"
  shows "emits P (signalBackupStarted E c)" "emits P (signalBackupFinished E c)"
    "emits P (signalBackupFailed E c)" "emits P (signalUpgradeStarted E c u)"
    "emits P (signalUpgradeFailed E c u)" "emits P (signalUpgradeFinished E c u)"
  unfolding signalBackupStarted_def signalBackupFinished_def signalBackupFailed_def
    signalUpgradeStarted_def signalUpgradeFailed_def signalUpgradeFinished_def Let_def
    patch_and_record_def
  by (auto intro!: emits_intro emits_patchCluster assms)

text \<open>
  An error of a signal comes from the patch, so it is none of the sentinels. A signal leaves the
  spec alone, appends one condition and sets the annotation as its name says.
\<close>

lemma patchCluster_error:
  "run_state (patchCluster E old new) h = (Inl e, h') \<Longrightarrow> (\<exists>a. e = ApiErr a) \<or> (\<exists>s. e = ClientErr s)"
  unfolding patchCluster_def Let_def
  by (auto simp: map_sum_def split: if_splits sum.splits prod.splits)

lemma patch_and_record_result:
  "run_state (patch_and_record E old t reason c) h = ((c', r), h') \<Longrightarrow>
     c' = c \<and> (\<forall>e. r = Inl e \<longrightarrow> (\<exists>a. e = ApiErr a) \<or> (\<exists>s. e = ClientErr s))"
  unfolding patch_and_record_def
  by (auto dest: patchCluster_error split: prod.splits sum.splits)

lemmas signal_defs = signalBackupStarted_def signalBackupFinished_def signalBackupFailed_def
  signalUpgradeStarted_def signalUpgradeFailed_def signalUpgradeFinished_def Let_def

text \<open>What the signals make of the annotation and the conditions.\<close>

lemma signal_result:
  "run_state (signalBackupStarted E c) h = ((c', r), h') \<Longrightarrow> upgrade_status c' = Some ''backup''"
  "run_state (signalBackupFinished E c) h = ((c', r), h') \<Longrightarrow> upgrade_status c' = upgrade_status c"
  "run_state (signalBackupFailed E c) h = ((c', r), h') \<Longrightarrow> upgrade_status c' = upgrade_status c"
  "run_state (signalUpgradeStarted E c u) h = ((c', r), h') \<Longrightarrow> upgrade_status c' = Some ''started''"
  "run_state (signalUpgradeFailed E c u) h = ((c', r), h') \<Longrightarrow> upgrade_status c' = Some ''failed''"
  "run_state (signalUpgradeFinished E c u) h = ((c', r), h') \<Longrightarrow> upgrade_status c' = None"
  unfolding signal_defs
  by (auto dest!: patch_and_record_result simp: upgrade_annotation_values)

lemma signal_spec:
  "run_state (signalBackupStarted E c) h = ((c', r), h') \<Longrightarrow> asc_Spec c' = asc_Spec c"
  "run_state (signalBackupFinished E c) h = ((c', r), h') \<Longrightarrow> asc_Spec c' = asc_Spec c"
  "run_state (signalBackupFailed E c) h = ((c', r), h') \<Longrightarrow> asc_Spec c' = asc_Spec c"
  "run_state (signalUpgradeStarted E c u) h = ((c', r), h') \<Longrightarrow> asc_Spec c' = asc_Spec c"
  "run_state (signalUpgradeFailed E c u) h = ((c', r), h') \<Longrightarrow> asc_Spec c' = asc_Spec c"
  "run_state (signalUpgradeFinished E c u) h = ((c', r), h') \<Longrightarrow> asc_Spec c' = asc_Spec c"
  unfolding signal_defs by (auto dest!: patch_and_record_result)

lemma signal_error:
  assumes "run_state m h = ((c', Inl e), h')"
    and "m \<in> {signalBackupStarted E c, signalBackupFinished E c, signalBackupFailed E c,
              signalUpgradeStarted E c u, signalUpgradeFailed E c u, signalUpgradeFinished E c u}"
  shows "(\<exists>a. e = ApiErr a) \<or> (\<exists>s. e = ClientErr s)"
  using assms unfolding signal_defs by (auto dest!: patch_and_record_result)

lemma updateStatus_spec [simp]:
  "asc_Spec (updateStatus c) = asc_Spec c" "asc_Meta (updateStatus c) = asc_Meta c"
  by (simp_all add: updateStatus_def)

end
