(* ===== verification/Pods.thy ===== *)
theory Pods
  imports PodSpecs Status
begin

text \<open>
  The effects of \<^verbatim>\<open>pkg/reconciler/pod.go\<close> and \<open>maybeUpgradePodWithIndex\<close> of
  \<^verbatim>\<open>pkg/reconciler/upgrades.go\<close>: how pods are listed, created, deleted, restarted and
  upgraded. Goroutines that only report progress are reduced to the events they record at the
  start and at the end; the info commands sent to all pods concurrently after a deletion are sent
  one after the other.
\<close>

section \<open>Model\<close>

subsection \<open>Listing\<close>

definition listClusterPods :: "env \<Rightarrow> AerospikeCluster \<Rightarrow> Pod list acte" where
  "listClusterPods E c =
     bindE (Pods_List E (asc_Namespace c) (ResourcesByClusterName (asc_Name c))) (\<lambda>pods.
     ok (byIndex pods))"

text \<open>The sort of the code is applied to the unfiltered list, after the filtering.\<close>

definition listClusterRunningPods :: "env \<Rightarrow> AerospikeCluster \<Rightarrow> Pod list acte" where
  "listClusterRunningPods E c =
     bindE (Pods_List E (asc_Namespace c) (ResourcesByClusterName (asc_Name c))) (\<lambda>pods.
     ok (filter (\<lambda>pod. \<not> isPodInFailureState pod) pods))"

definition computeMeshHash :: "env \<Rightarrow> AerospikeCluster \<Rightarrow> string acte" where
  "computeMeshHash E c =
     bindE (listClusterPods E c) (\<lambda>pods. ok (HashSlice E (map (\<lambda>p. pt_PodIP (pod_Status p)) pods)))"

definition getPodWithIndex :: "env \<Rightarrow> AerospikeCluster \<Rightarrow> int \<Rightarrow> Pod option acte" where
  "getPodWithIndex E c index = do {
     r \<leftarrow> Pods_Get E (asc_Namespace c) (pod_name c index);
     case r of
       Inl err \<Rightarrow> if \<not> IsNotFound err then fail err else ok None
     | Inr p \<Rightarrow> ok (Some p)
   }"

subsection \<open>Deleting\<close>

text \<open>The loop that marks the claims of a pod as unmounted.\<close>

definition unmount_claims :: "env \<Rightarrow> Pod \<Rightarrow> unit acte" where
  "unmount_claims E pod =
     forE (ps_Volumes (pod_Spec pod)) (\<lambda>volume.
       case vol_Source volume of
         PersistentVolumeClaimVolume ClaimName \<Rightarrow>
           bindE (PVCs_Get E (pod_Namespace pod) ClaimName) (\<lambda>pvc. signalUnmounted E pvc)
       | _ \<Rightarrow> ok ())"

fun is_deleted :: "Pod watch_event \<Rightarrow> bool" where
  "is_deleted (WatchDeleted p) = True"
| "is_deleted _ = False"

definition deletePod :: "env \<Rightarrow> AerospikeCluster \<Rightarrow> Pod \<Rightarrow> unit acte" where
  "deletePod E c pod =
     bindE (unmount_claims E pod) (\<lambda>_.
     bindE (Pods_Delete E (pod_Namespace pod) (pod_Name pod) (terminationGracePeriod div second)) (\<lambda>_. do {
       r \<leftarrow> waitForPodCondition E pod (\<lambda>s event. ret (s, Inr (is_deleted event))) () watchDeletePodTimeout;
       case snd r of Inl err \<Rightarrow> fail err | Inr _ \<Rightarrow> ok ()
     }))"

text \<open>The commands sent to every remaining pod once a pod is gone; their errors are only logged.\<close>

fun forget_pod :: "env \<Rightarrow> string \<Rightarrow> Pod list \<Rightarrow> unit act" where
  "forget_pod E host [] = ret ()"
| "forget_pod E host (p # ps) = do {
     _ \<leftarrow> tipClearHostname E p host;
     _ \<leftarrow> alumniReset E p;
     forget_pod E host ps
   }"

definition wait_migrations :: "env \<Rightarrow> Pod \<Rightarrow> unit acte" where
  "wait_migrations E pod = do {
     Record EventTypeNormal ReasonWaitForMigrationsStarted;
     r \<leftarrow> waitForMigrationsToFinishOnPod E pod;
     case r of
       Inl err \<Rightarrow> fail err
     | Inr _ \<Rightarrow> do { Record EventTypeNormal ReasonWaitForMigrationsFinished; ok () }
   }"

definition safeDeletePodWithIndex :: "env \<Rightarrow> AerospikeCluster \<Rightarrow> int \<Rightarrow> unit acte" where
  "safeDeletePodWithIndex E c index =
     bindE (getPodWithIndex E c index) (\<lambda>pod.
     case pod of
       None \<Rightarrow> ok ()
     | Some pod \<Rightarrow>
         bindE (podHasMigrationsInProgress E pod) (\<lambda>migrations.
         bindE (if migrations then wait_migrations E pod else ok ()) (\<lambda>_.
         bindE (deletePod E c pod) (\<lambda>_.
         bindE (listClusterPods E c) (\<lambda>pods. do {
           forget_pod E (pod_host c pod) pods;
           ok ()
         })))))"

subsection \<open>Creating\<close>

text \<open>The claim of one namespace: a new one when the upgrade asks for it or none is available.\<close>

definition claim_for ::
    "env \<Rightarrow> AerospikeCluster \<Rightarrow> UpgradeStrategy option \<Rightarrow> Pod \<Rightarrow> AerospikeNamespaceSpec
     \<Rightarrow> PersistentVolumeClaim acte" where
  "claim_for E c upgradeStrategy pod namespace =
     (if (case upgradeStrategy of None \<Rightarrow> False | Some s \<Rightarrow> RecreatePersistentVolumeClaims s)
      then createPersistentVolumeClaim E c pod namespace
      else bindE (getPersistentVolumeClaim E c pod) (\<lambda>pvc.
        case pvc of
          Some pvc \<Rightarrow> bindE (signalMounted E pvc) (\<lambda>_.
            ok (removePVCAnnotation LastUnmountedOnAnnotation pvc))
        | None \<Rightarrow> createPersistentVolumeClaim E c pod namespace))"

fun attach_volumes ::
    "env \<Rightarrow> AerospikeCluster \<Rightarrow> UpgradeStrategy option \<Rightarrow> nat \<Rightarrow> AerospikeNamespaceSpec list \<Rightarrow> Pod
     \<Rightarrow> Pod acte" where
  "attach_volumes E c upgradeStrategy index [] pod = ok pod"
| "attach_volumes E c upgradeStrategy index (namespace # rest) pod =
     bindE (claim_for E c upgradeStrategy pod namespace) (\<lambda>pvc.
     liftE (attach_volume index namespace pvc pod) (\<lambda>pod'.
     attach_volumes E c upgradeStrategy (Suc index) rest pod'))"

text \<open>The condition under which a pod counts as started; \<open>currentPod\<close> is captured by it.\<close>

fun pod_started :: "env \<Rightarrow> AerospikeCluster \<Rightarrow> Pod \<Rightarrow> Pod watch_event \<Rightarrow> (Pod \<times> (gerr + bool)) act" where
  "pod_started E c currentPod WatchError =
     ret (currentPod, Inl (Errorf ''got event of type error: %+v'' []))"
| "pod_started E c currentPod (WatchDeleted p) =
     ret (p, Inl (Errorf ''pod %s has been deleted'' [AStr (Key E (pod_Meta p))]))"
| "pod_started E c currentPod (WatchAdded p) =
     (if isPodInFailureState p
      then do {
        r \<leftarrow> deletePod E c p;
        ret (p, case r of
          Inl err \<Rightarrow> Inl err
        | Inr _ \<Rightarrow> Inl (Errorf ''pod %s in a failure state has been deleted'' [AStr (Key E (pod_Meta p))]))
      }
      else ret (p, Inr (isPodRunningAndReady E p)))"
| "pod_started E c currentPod (WatchModified p) =
     (if isPodInFailureState p
      then do {
        r \<leftarrow> deletePod E c p;
        ret (p, case r of
          Inl err \<Rightarrow> Inl err
        | Inr _ \<Rightarrow> Inl (Errorf ''pod %s in a failure state has been deleted'' [AStr (Key E (pod_Meta p))]))
      }
      else ret (p, Inr (isPodRunningAndReady E p)))"

definition upgrade_strategy :: "VersionUpgrade option \<Rightarrow> gerr + UpgradeStrategy option" where
  "upgrade_strategy upgrade =
     (case upgrade of
        None \<Rightarrow> Inr None
      | Some u \<Rightarrow> (case GetStrategy u of Inl err \<Rightarrow> Inl err | Inr s \<Rightarrow> Inr (Some s)))"

text \<open>From the creation of the pod to its being ready.\<close>

definition start_pod :: "env \<Rightarrow> AerospikeCluster \<Rightarrow> Pod \<Rightarrow> Pod acte" where
  "start_pod E c pod =
     bindE (Pods_Create E pod) (\<lambda>res. do {
       w \<leftarrow> waitForPodCondition E res (pod_started E c) res watchCreatePodTimeout;
       case w of (currentPod, r) \<Rightarrow>
         (case r of
            Inl err \<Rightarrow> do { Record EventTypeWarning ReasonNodeStartedFailed; fail err }
          | Inr _ \<Rightarrow> do { Record EventTypeNormal ReasonNodeStarted; ok currentPod })
     })"

definition createPodWithIndex ::
    "env \<Rightarrow> AerospikeCluster \<Rightarrow> ConfigMap \<Rightarrow> int \<Rightarrow> VersionUpgrade option \<Rightarrow> Pod acte" where
  "createPodWithIndex E c configMap index upgrade =
     bindE (listClusterPods E c) (\<lambda>pods.
     let pod = build_pod E c configMap index pods in
     liftE (upgrade_strategy upgrade) (\<lambda>upgradeStrategy.
     bindE (attach_volumes E c upgradeStrategy 0 (spec_Namespaces (asc_Spec c)) pod) (\<lambda>pod.
     start_pod E c pod)))"

subsection \<open>Restarting, upgrading, checking\<close>

definition safeRestartPodWithIndex ::
    "env \<Rightarrow> AerospikeCluster \<Rightarrow> ConfigMap \<Rightarrow> int \<Rightarrow> VersionUpgrade option \<Rightarrow> Pod acte" where
  "safeRestartPodWithIndex E c configMap index upgrade =
     bindE (safeDeletePodWithIndex E c index) (\<lambda>_. createPodWithIndex E c configMap index upgrade)"

definition maybeUpgradePodWithIndex ::
    "env \<Rightarrow> AerospikeCluster \<Rightarrow> ConfigMap \<Rightarrow> int \<Rightarrow> VersionUpgrade \<Rightarrow> Pod option acte" where
  "maybeUpgradePodWithIndex E c configMap index upgrade =
     bindE (getPodWithIndex E c index) (\<lambda>pod.
     case pod of
       None \<Rightarrow> ok None
     | Some pod \<Rightarrow>
         bindE (getAerospikeServerVersionFromPod E pod) (\<lambda>version.
         if version = spec_Version (asc_Spec c) then ok (Some pod)
         else do {
           Record EventTypeNormal ReasonNodeUpgradeStarted;
           bindE (safeRestartPodWithIndex E c configMap index (Some upgrade)) (\<lambda>newPod.
           bindE (getAerospikeServerVersionFromPod E newPod) (\<lambda>version.
           if version \<noteq> spec_Version (asc_Spec c)
           then do {
             Record EventTypeNormal ReasonNodeUpgradeFailed;
             fail (Errorf ''failed to upgrade pod %s to version %s''
               [AStr (Key E (pod_Meta newPod)), AStr (spec_Version (asc_Spec c))])
           }
           else do {
             Record EventTypeNormal ReasonNodeUpgradeFinished;
             ok (Some newPod)
           }))
         }))"

text \<open>
  The loop of \<open>ensureClusterSize\<close> ends when its timer fires, after some number of ticks that the
  environment decides.
\<close>

fun cluster_size_loop :: "env \<Rightarrow> AerospikeCluster \<Rightarrow> Pod \<Rightarrow> nat \<Rightarrow> unit acte" where
  "cluster_size_loop E c pod 0 =
     bindE (safeDeletePodWithIndex E c (podIndex pod)) (\<lambda>_.
     fail (Errorf ''detected incorrect cluster size for pod %q'' [AStr (Key E (pod_Meta pod))]))"
| "cluster_size_loop E c pod (Suc ticks) =
     bindE (listClusterRunningPods E c) (\<lambda>pods.
     bindE (GetClusterSize E (pt_PodIP (pod_Status pod)) cServicePort) (\<lambda>clusterSize.
     if clusterSize \<ge> int (length pods) then ok () else cluster_size_loop E c pod ticks))"

definition ensureClusterSize :: "env \<Rightarrow> AerospikeCluster \<Rightarrow> Pod \<Rightarrow> unit acte" where
  "ensureClusterSize E c pod = do {
     ticks \<leftarrow> Peek (env_ticks E);
     cluster_size_loop E c pod ticks
   }"

text \<open>One round of the second loop of \<open>ensurePods\<close>.\<close>

definition ensure_pod ::
    "env \<Rightarrow> AerospikeCluster \<Rightarrow> ConfigMap \<Rightarrow> VersionUpgrade option \<Rightarrow> int \<Rightarrow> unit acte" where
  "ensure_pod E c configMap upgrade i =
     bindE (getPodWithIndex E c i) (\<lambda>pod.
     bindE (case pod of
              None \<Rightarrow> ok None
            | Some p \<Rightarrow> if isPodInFailureState p then bindE (deletePod E c p) (\<lambda>_. ok None) else ok (Some p))
       (\<lambda>pod.
     case pod of
       None \<Rightarrow> bindE (createPodWithIndex E c configMap i None) (\<lambda>_. ok ())
     | Some p \<Rightarrow>
         (case upgrade of
            Some u \<Rightarrow> bindE (maybeUpgradePodWithIndex E c configMap i u) (\<lambda>_. ok ())
          | None \<Rightarrow>
              if str_at (om_Annotations (cm_Meta configMap)) configMapHashAnnotation
                   \<noteq> str_at (om_Annotations (pod_Meta p)) configMapHashAnnotation
              then bindE (safeRestartPodWithIndex E c configMap i upgrade) (\<lambda>_. ok ())
              else ensureClusterSize E c p)))"

definition ensurePods ::
    "env \<Rightarrow> AerospikeCluster \<Rightarrow> ConfigMap \<Rightarrow> VersionUpgrade option \<Rightarrow> unit acte" where
  "ensurePods E c configMap upgrade =
     bindE (listClusterPods E c) (\<lambda>pods.
     let currentSize = int (length pods); desiredSize = spec_NodeCount (asc_Spec c) in
     bindE (forE (rev [desiredSize..currentSize - 1]) (\<lambda>i. safeDeletePodWithIndex E c i)) (\<lambda>_.
     forE [0..desiredSize - 1] (\<lambda>i. ensure_pod E c configMap upgrade i)))"

end
