(* ===== verification/PodFacts.thy ===== *)
theory PodFacts
  imports Pods
begin

text \<open>
  What the pod operations guarantee: which calls they make, that a pod is only deleted once its
  claims are marked as unmounted and its migrations are over, that a created pod is running and
  ready, and that a successful round leaves each pod on the desired configuration and version.
\<close>

section \<open>Which calls the operations make\<close>

text \<open>The calls of pod management: reads, recorder events, info commands, pods and claims.\<close>

fun pod_calls :: "event \<Rightarrow> bool" where
  "pod_calls (EvCreatePod _ _) = True"
| "pod_calls (EvDeletePod _ _ _ _) = True"
| "pod_calls (EvCreatePVC _ _) = True"
| "pod_calls (EvPatchPVC _ _ _) = True"
| "pod_calls (EvInfo _ _ _) = True"
| "pod_calls e = (\<not> writes e)"

lemma reads_pod_calls [intro, simp]: "\<not> writes e \<Longrightarrow> pod_calls e"
  by (cases e) simp_all

lemma emits_listing [emits_intro]:
  assumes "\<And>e. \<not> writes e \<Longrightarrow> P e"
  shows "emits P (listClusterPods E c)" and "emits P (listClusterRunningPods E c)"
    and "emits P (getPodWithIndex E c i)"
  unfolding listClusterPods_def listClusterRunningPods_def getPodWithIndex_def
  by (auto intro!: emits_intro assms)

lemma emits_unmount_claims [emits_intro]:
  assumes "\<And>e. \<not> writes e \<Longrightarrow> P e" and "\<And>a b r. P (EvPatchPVC a b r)"
  shows "emits P (unmount_claims E pod)"
  unfolding unmount_claims_def signalUnmounted_def patchPVC_def
  by (auto intro!: emits_intro assms split: VolumeSource.split)

lemma emits_deletePod [emits_intro]:
  assumes "\<And>e. \<not> writes e \<Longrightarrow> P e" and "\<And>a b r. P (EvPatchPVC a b r)"
    and "\<And>n x g r. P (EvDeletePod n x g r)"
  shows "emits P (deletePod E c pod)"
  unfolding deletePod_def by (auto intro!: emits_intro assms)

lemma emits_forget_pod [emits_intro]:
  assumes "\<And>e. \<not> writes e \<Longrightarrow> P e" and "\<And>ip cmd r. P (EvInfo ip cmd r)"
  shows "emits P (forget_pod E host ps)"
  by (induction ps) (auto intro!: emits_intro assms)

lemma emits_wait_migrations [emits_intro]:
  "(\<And>e. \<not> writes e \<Longrightarrow> P e) \<Longrightarrow> emits P (wait_migrations E pod)"
  unfolding wait_migrations_def by (auto intro!: emits_intro)

lemma emits_safeDelete: "emits pod_calls (safeDeletePodWithIndex E c i)"
  unfolding safeDeletePodWithIndex_def by (auto intro!: emits_intro)

lemma emits_attach_volumes:
  assumes "\<And>e. \<not> writes e \<Longrightarrow> P e" and "\<And>a b r. P (EvPatchPVC a b r)" and "\<And>x r. P (EvCreatePVC x r)"
  shows "emits P (attach_volumes E c s i nss pod)"
proof -
  have "emits P (claim_for E c s pod ns)" for pod ns
    unfolding claim_for_def by (auto intro!: emits_intro emits_pvc_ops assms)
  then show ?thesis
    by (induction nss arbitrary: i pod) (auto intro!: emits_intro)
qed

lemma emits_pod_started: "emits pod_calls (pod_started E c p e)"
  by (cases e) (auto intro!: emits_intro)

lemma emits_start_pod: "emits pod_calls (start_pod E c pod)"
  unfolding start_pod_def by (auto intro!: emits_intro emits_pod_started)

lemma emits_createPod: "emits pod_calls (createPodWithIndex E c cm i u)"
  unfolding createPodWithIndex_def
  by (auto intro!: emits_intro emits_start_pod emits_attach_volumes)

lemma emits_maybeUpgrade: "emits pod_calls (maybeUpgradePodWithIndex E c cm i u)"
  unfolding maybeUpgradePodWithIndex_def safeRestartPodWithIndex_def
  by (auto intro!: emits_intro emits_createPod emits_safeDelete)

lemma emits_ensureClusterSize: "emits pod_calls (ensureClusterSize E c p)"
proof -
  have "emits pod_calls (cluster_size_loop E c p n)" for n
    by (induction n) (auto intro!: emits_intro emits_safeDelete)
  then show ?thesis unfolding ensureClusterSize_def by (auto intro!: emits_intro)
qed

lemma emits_ensure_pod: "emits pod_calls (ensure_pod E c cm u i)"
  unfolding ensure_pod_def safeRestartPodWithIndex_def
  by (auto intro!: emits_intro emits_createPod emits_safeDelete emits_maybeUpgrade emits_ensureClusterSize)

lemma emits_ensurePods: "emits pod_calls (ensurePods E c cm u)"
  unfolding ensurePods_def by (auto intro!: emits_intro emits_ensure_pod emits_safeDelete)

section \<open>The error that is never returned\<close>

text \<open>
  No operation on pods returns \<open>PodUpgradeFailed\<close>: the sentinel is declared and compared with,
  but nothing ever returns it.
\<close>

lemma ParseDuration_sentinel: "ParseDuration E s \<noteq> Inl PodUpgradeFailed"
  by (simp add: ParseDuration_def Let_def split: sum.splits)

lemma atoi_sentinel: "atoi s \<noteq> Inl PodUpgradeFailed"
  by (simp add: atoi_def parse_digits_def Let_def split: list.splits)

lemma GetStrategy_sentinel: "GetStrategy u \<noteq> Inl PodUpgradeFailed"
  by (simp add: GetStrategy_def Let_def)

text \<open>When the error of a step is passed on.\<close>

lemma avoids_bind_case:
  assumes "avoids err m" and "\<And>e. e \<noteq> err \<Longrightarrow> avoids err (f (Inl e))" and "\<And>x. avoids err (f (Inr x))"
  shows "avoids err (State_Monad.bind m f)"
  unfolding avoids_def
proof
  fix tr
  obtain r tr' where run: "run_state m tr = (r, tr')" by fastforce
  have "avoids err (f r)" using avoidsD [OF assms(1) run] assms(2,3) by (cases r) auto
  then show "fst (run_state (State_Monad.bind m f) tr) \<noteq> Inl err" using run by (simp add: avoids_def)
qed

lemma avoids_reads [avoids_intro]:
  "avoids PodUpgradeFailed (listClusterPods E c)"
  "avoids PodUpgradeFailed (listClusterRunningPods E c)"
  "avoids PodUpgradeFailed (podHasMigrationsInProgress E pod)"
  "avoids PodUpgradeFailed (waitForMigrationsToFinishOnPod E pod)"
  "avoids PodUpgradeFailed (getAerospikeServerVersionFromPod E pod)"
  "avoids PodUpgradeFailed (GetClusterSize E host port)"
  unfolding listClusterPods_def listClusterRunningPods_def
    podHasMigrationsInProgress_def waitForMigrationsToFinishOnPod_def on_own_node_def
    getAerospikeServerVersionFromPod_def runInfoCommandOnPod_def GetClusterSize_def
  by (auto intro!: avoids_intro simp: atoi_sentinel)

lemma avoids_getPodWithIndex [avoids_intro]: "avoids PodUpgradeFailed (getPodWithIndex E c i)"
  unfolding getPodWithIndex_def by (rule avoids_bind_case) (auto intro!: avoids_intro)

lemma avoids_wait_migrations [avoids_intro]: "avoids PodUpgradeFailed (wait_migrations E pod)"
  unfolding wait_migrations_def
  by (rule avoids_bind, rule avoids_bind_case) (auto intro!: avoids_intro)

lemma avoids_patchPVC [avoids_intro]: "avoids PodUpgradeFailed (patchPVC E a b)"
  unfolding patchPVC_def by (auto intro!: avoids_intro)

lemma avoids_available [avoids_intro]: "avoids PodUpgradeFailed (available_pvcs E n ps)"
  by (induction ps) (auto intro!: avoids_intro simp: ParseDuration_sentinel)

lemma avoids_pvc_ops [avoids_intro]:
  "avoids PodUpgradeFailed (signalMounted E p)"
  "avoids PodUpgradeFailed (signalUnmounted E p)"
  "avoids PodUpgradeFailed (createPersistentVolumeClaim E c pod ns)"
  "avoids PodUpgradeFailed (getPersistentVolumeClaim E c pod)"
  unfolding signalMounted_def signalUnmounted_def createPersistentVolumeClaim_def
    getPersistentVolumeClaim_def
  by (auto intro!: avoids_intro)

text \<open>A wait returns an error of its condition, of the watch, or its own.\<close>

definition avoids_snd :: "'x \<Rightarrow> ('e, 's \<times> ('x + 'a)) io \<Rightarrow> bool" where
  "avoids_snd err m \<longleftrightarrow> (\<forall>tr. snd (fst (run_state m tr)) \<noteq> Inl err)"

lemma avoids_sndD:
  assumes "avoids_snd err m" and "run_state m tr = ((s, r), tr')"
  shows "r \<noteq> Inl err"
proof -
  have "snd (fst (run_state m tr)) \<noteq> Inl err" using assms(1) by (simp add: avoids_snd_def)
  then show ?thesis by (simp add: assms(2))
qed

lemma UntilWithSync_sentinel:
  assumes "\<And>s e. avoids_snd PodUpgradeFailed (fn s e)"
  shows "avoids_snd PodUpgradeFailed (UntilWithSync fn err s es)"
proof (induction es arbitrary: s)
  case (Cons e es)
  show ?case unfolding avoids_snd_def
  proof
    fix tr
    obtain s' d tr' where run: "run_state (fn s e) tr = ((s', d), tr')" by (metis prod.exhaust)
    then have "d \<noteq> Inl PodUpgradeFailed" by (rule avoids_sndD [OF assms])
    then show "snd (fst (run_state (UntilWithSync fn err s (e # es)) tr)) \<noteq> Inl PodUpgradeFailed"
      using run Cons.IH [of s'] by (cases d) (auto simp: avoids_snd_def)
  qed
qed (simp add: avoids_snd_def)

lemma waitForPodCondition_sentinel:
  assumes "\<And>s e. avoids_snd PodUpgradeFailed (fn s e)"
  shows "avoids_snd PodUpgradeFailed (waitForPodCondition E pod fn s t)"
  unfolding avoids_snd_def
proof
  fix h
  obtain evs err where w: "env_watch_pod E h (pod_Namespace pod) (pod_Name pod) t = (evs, err)"
    by fastforce
  let ?h = "h @ [EvWatchPod (pod_Namespace pod) (pod_Name pod) t]"
  obtain s' r h' where run: "run_state (UntilWithSync fn err s evs) ?h = ((s', r), h')"
    by (metis prod.exhaust)
  have "r \<noteq> Inl PodUpgradeFailed"
    using UntilWithSync_sentinel [OF assms] run by (rule avoids_sndD)
  then show "snd (fst (run_state (waitForPodCondition E pod fn s t) h)) \<noteq> Inl PodUpgradeFailed"
    using w run unfolding waitForPodCondition_def by (cases r) auto
qed

lemma avoids_after_wait:
  assumes "avoids_snd err m" and "\<And>s e. e \<noteq> err \<Longrightarrow> avoids err (f (s, Inl e))"
    and "\<And>s x. avoids err (f (s, Inr x))"
  shows "avoids err (State_Monad.bind m f)"
  unfolding avoids_def
proof
  fix tr
  obtain s r tr' where run: "run_state m tr = ((s, r), tr')" by (metis prod.exhaust)
  then have "r \<noteq> Inl err" by (rule avoids_sndD [OF assms(1)])
  then have "avoids err (f (s, r))" using assms(2,3) by (cases r) auto
  then show "fst (run_state (State_Monad.bind m f) tr) \<noteq> Inl err" using run by (simp add: avoids_def)
qed

lemma avoids_unmount_claims [avoids_intro]: "avoids PodUpgradeFailed (unmount_claims E pod)"
  unfolding unmount_claims_def by (auto intro!: avoids_intro split: VolumeSource.split)

lemma avoids_deletePod [avoids_intro]: "avoids PodUpgradeFailed (deletePod E c pod)"
  unfolding deletePod_def
  by (intro avoids_bindE avoids_unmount_claims avoids_call avoids_after_wait waitForPodCondition_sentinel)
    (auto simp: avoids_snd_def intro!: avoids_intro)

lemma avoids_safeDelete [avoids_intro]: "avoids PodUpgradeFailed (safeDeletePodWithIndex E c i)"
  unfolding safeDeletePodWithIndex_def by (auto intro!: avoids_intro)

lemma avoids_attach [avoids_intro]:
  "avoids PodUpgradeFailed (attach_volumes E c s i nss pod)"
proof -
  have "avoids PodUpgradeFailed (claim_for E c s pod ns)" for pod ns
    unfolding claim_for_def by (auto intro!: avoids_intro)
  moreover have "attach_volume i ns pvc pod \<noteq> Inl PodUpgradeFailed" for i ns pvc pod
    by (simp add: attach_volume_def Let_def)
  ultimately show ?thesis by (induction nss arbitrary: i pod) (auto intro!: avoids_intro)
qed

lemma pod_started_sentinel: "avoids_snd PodUpgradeFailed (pod_started E c s e)"
proof -
  have "r \<noteq> Inl PodUpgradeFailed" if "run_state (deletePod E c p) h = (r, h')" for p r h h'
    using avoidsD [OF avoids_deletePod that] .
  then show ?thesis
    by (cases e) (auto simp: avoids_snd_def split: prod.splits sum.splits)
qed

lemma avoids_start_pod [avoids_intro]: "avoids PodUpgradeFailed (start_pod E c pod)"
  unfolding start_pod_def
  by (intro avoids_bindE avoids_call avoids_after_wait waitForPodCondition_sentinel pod_started_sentinel)
    (auto intro!: avoids_intro)

lemma avoids_createPod [avoids_intro]: "avoids PodUpgradeFailed (createPodWithIndex E c cm i u)"
proof -
  have "upgrade_strategy u \<noteq> Inl PodUpgradeFailed"
    by (auto simp: upgrade_strategy_def GetStrategy_sentinel split: option.splits sum.splits
        dest: GetStrategy_sentinel [THEN notE])
  then show ?thesis unfolding createPodWithIndex_def by (auto intro!: avoids_intro)
qed

lemma avoids_restart [avoids_intro]: "avoids PodUpgradeFailed (safeRestartPodWithIndex E c cm i u)"
  unfolding safeRestartPodWithIndex_def by (auto intro!: avoids_intro)

lemma avoids_maybeUpgrade [avoids_intro]:
  "avoids PodUpgradeFailed (maybeUpgradePodWithIndex E c cm i u)"
  unfolding maybeUpgradePodWithIndex_def by (auto intro!: avoids_intro)

lemma avoids_ensureClusterSize [avoids_intro]: "avoids PodUpgradeFailed (ensureClusterSize E c p)"
proof -
  have "avoids PodUpgradeFailed (cluster_size_loop E c p n)" for n
    by (induction n) (auto intro!: avoids_intro)
  then show ?thesis unfolding ensureClusterSize_def by (auto intro!: avoids_intro)
qed

lemma avoids_ensurePods: "avoids PodUpgradeFailed (ensurePods E c cm u)"
  unfolding ensurePods_def ensure_pod_def by (auto intro!: avoids_intro)

section \<open>A pod is deleted last\<close>

fun is_pod_delete :: "event \<Rightarrow> bool" where
  "is_pod_delete (EvDeletePod _ _ _ _) = True"
| "is_pod_delete _ = False"

lemma not_pod_delete [simp]: "\<not> writes e \<Longrightarrow> \<not> is_pod_delete e"
  by (cases e) simp_all

text \<open>A claim marked as unmounted: the patch the code sends, seen in the calls.\<close>

definition marked_unmounted :: "env \<Rightarrow> string \<Rightarrow> string \<Rightarrow> event list \<Rightarrow> bool" where
  "marked_unmounted E ns claim es \<longleftrightarrow>
     (\<exists>h0 pvc t. env_get_pvc E h0 ns claim = Inr pvc \<and>
        EvPatchPVC pvc (setPVCAnnotation LastUnmountedOnAnnotation (env_format_rfc3339 E t) pvc) True \<in> set es)"

lemma signalUnmounted_ok:
  "run_state (signalUnmounted E pvc) h = (Inr u, h') \<Longrightarrow>
     \<exists>t. EvPatchPVC pvc (setPVCAnnotation LastUnmountedOnAnnotation (env_format_rfc3339 E t) pvc) True
           \<in> set (drop (length h) h')"
  unfolding signalUnmounted_def patchPVC_def
  by (auto simp: map_sum_def is_ok_def split: sum.splits)

lemma unmount_claims_ok:
  assumes run: "run_state (unmount_claims E pod) h = (Inr u, h')"
    and v: "v \<in> set (ps_Volumes (pod_Spec pod))" "vol_Source v = PersistentVolumeClaimVolume claim"
  shows "\<exists>es. h' = h @ es \<and> marked_unmounted E (pod_Namespace pod) claim es"
proof -
  let ?f = "\<lambda>volume. case vol_Source volume of
      PersistentVolumeClaimVolume ClaimName \<Rightarrow>
        bindE (PVCs_Get E (pod_Namespace pod) ClaimName) (\<lambda>pvc. signalUnmounted E pvc) | _ \<Rightarrow> ok ()"
  have "emits (\<lambda>_. True) (?f x)" for x
    by (auto intro!: emits_intro emits_pvc_ops split: VolumeSource.split)
  from forE_ok [OF this run [unfolded unmount_claims_def] v(1)] obtain es es1 es2 where
    f: "run_state (?f v) (h @ es) = (Inr (), h @ es @ es1)" and h': "h' = h @ es @ es1 @ es2" by blast
  from f v(2) obtain pvc h1 where
    get: "env_get_pvc E (h @ es) (pod_Namespace pod) claim = Inr pvc"
    and h1: "h1 = h @ es @ [EvGet KPVC (pod_Namespace pod) claim]"
    and sig: "run_state (signalUnmounted E pvc) h1 = (Inr (), h @ es @ es1)"
    by (auto simp: map_sum_def split: sum.splits)
  from signalUnmounted_ok [OF sig] obtain t where
    "EvPatchPVC pvc (setPVCAnnotation LastUnmountedOnAnnotation (env_format_rfc3339 E t) pvc) True
       \<in> set (drop (length h1) (h @ es @ es1))" by blast
  then have "EvPatchPVC pvc (setPVCAnnotation LastUnmountedOnAnnotation (env_format_rfc3339 E t) pvc) True
       \<in> set es1"
    unfolding h1 by (auto dest: in_set_dropD)
  then have "marked_unmounted E (pod_Namespace pod) claim (es @ es1 @ es2)"
    unfolding marked_unmounted_def using get by auto
  then show ?thesis using h' by auto
qed

lemma marked_unmounted_mono: "marked_unmounted E ns claim es \<Longrightarrow> set es \<subseteq> set es' \<Longrightarrow> marked_unmounted E ns claim es'"
  unfolding marked_unmounted_def by blast

text \<open>In the calls of \<open>deletePod\<close>, every claim of the pod is marked before the pod is deleted.\<close>

lemma deletePod_marks_claims:
  assumes run: "run_state (deletePod E c pod) h = (r, h')"
    and split: "h' = h @ pre @ e # rest" and del: "is_pod_delete e"
    and v: "v \<in> set (ps_Volumes (pod_Spec pod))" "vol_Source v = PersistentVolumeClaimVolume claim"
  shows "marked_unmounted E (pod_Namespace pod) claim pre"
proof -
  obtain r1 h1 where um: "run_state (unmount_claims E pod) h = (r1, h1)" by fastforce
  have "emits (\<lambda>e. \<not> is_pod_delete e) (unmount_claims E pod)" by (auto intro!: emits_intro)
  from emits_extends [OF this um] obtain es where
    es: "h1 = h @ es" "list_all (\<lambda>e. \<not> is_pod_delete e) es" by blast
  have "emits (\<lambda>_. True) (deletePod E c pod)" by (auto intro!: emits_intro)
  show ?thesis
  proof (cases r1)
    case (Inl err)
    then have "h' = h1" using run um by (simp add: deletePod_def)
    then show ?thesis using es split del by (auto simp: list_all_iff)
  next
    case (Inr u)
    let ?rest = "bindE (Pods_Delete E (pod_Namespace pod) (pod_Name pod) (terminationGracePeriod div second)) (\<lambda>_. do {
       r \<leftarrow> waitForPodCondition E pod (\<lambda>s event. ret (s, Inr (is_deleted event))) () watchDeletePodTimeout;
       case snd r of Inl err \<Rightarrow> fail err | Inr _ \<Rightarrow> ok ()
     })"
    have "run_state ?rest h1 = (r, h')" using run um Inr unfolding deletePod_def by simp
    moreover have "emits (\<lambda>_. True) ?rest" by (auto intro!: emits_intro)
    ultimately obtain es' where h': "h' = h1 @ es'" by (blast dest: emits_extends)
    have "es @ es' = pre @ e # rest" using split h' es(1) by simp
    from split_after [OF es(2) this del] obtain us where "pre = es @ us" .
    moreover obtain es0 where "h1 = h @ es0" "marked_unmounted E (pod_Namespace pod) claim es0"
      using unmount_claims_ok [OF um [unfolded Inr] v] by blast
    ultimately show ?thesis using es(1) by (auto elim!: marked_unmounted_mono)
  qed
qed

text \<open>
  \<open>safeDeletePodWithIndex\<close> deletes a pod only after its node answered that no migrations are in
  progress, or after waiting for them ended well.
\<close>

fun migrations_over :: "event \<Rightarrow> bool" where
  "migrations_over (EvMigrationQuery n a) = (a = Some False)"
| "migrations_over (EvWaitMigrations n t done) = (t = waitMigrationsTimeout \<and> done)"
| "migrations_over _ = False"

lemma on_own_node_ok:
  assumes "run_state (on_own_node E pod f) h = (Inr x, h')"
  obtains node h1 where "run_state (f node) (h @ h1) = (Inr x, h')"
    and "equal_fold node (str_at (om_Annotations (pod_Meta pod)) nodeIdAnnotation)"
  using assms unfolding on_own_node_def
  by (auto simp: map_sum_def find_Some_iff split: sum.splits option.splits prod.splits)

lemma podHasMigrations_false:
  assumes "run_state (podHasMigrationsInProgress E pod) h = (Inr False, h')"
  shows "\<exists>es. h' = h @ es \<and> (\<exists>g \<in> set es. migrations_over g)"
  using assms unfolding podHasMigrationsInProgress_def
  by (elim on_own_node_ok) (auto simp: map_sum_def split: sum.splits)

lemma wait_migrations_ok:
  assumes "run_state (wait_migrations E pod) h = (Inr u, h')"
  shows "\<exists>es. h' = h @ es \<and> (\<exists>g \<in> set es. migrations_over g)"
proof -
  let ?h = "h @ [EvRecord EventTypeNormal ReasonWaitForMigrationsStarted]"
  from assms obtain h1 where
    w: "run_state (waitForMigrationsToFinishOnPod E pod) ?h = (Inr (), h1)"
    and h': "h' = h1 @ [EvRecord EventTypeNormal ReasonWaitForMigrationsFinished]"
    unfolding wait_migrations_def by (auto split: prod.splits sum.splits)
  from w obtain es where "h1 = ?h @ es" "\<exists>g \<in> set es. migrations_over g"
    unfolding waitForMigrationsToFinishOnPod_def
    by (elim on_own_node_ok) (auto simp: map_sum_def split: sum.splits)
  then show ?thesis using h' by auto
qed

lemma safeDelete_guarded: "guarded_run is_pod_delete migrations_over (safeDeletePodWithIndex E c i)"
proof -
  have delete: "guarded_run is_pod_delete migrations_over
      (bindE (if b then wait_migrations E pod else ok ()) (\<lambda>_. bindE (deletePod E c pod) f))"
    if "b" and "\<And>x. emits (\<lambda>_. True) (f x)" for b pod f
    using that wait_migrations_ok [of E pod]
    by (intro guarded_run_bindE) (auto intro!: emits_intro)
  show ?thesis
    unfolding safeDeletePodWithIndex_def
  proof (intro guarded_run_bindE disjI2)
    fix p :: "Pod option"
    let ?rest = "\<lambda>pod migrations. bindE (if migrations then wait_migrations E pod else ok ()) (\<lambda>_.
         bindE (deletePod E c pod) (\<lambda>_. bindE (listClusterPods E c) (\<lambda>pods. do {
           forget_pod E (pod_host c pod) pods; ok () })))"
    have "guarded_run is_pod_delete migrations_over
        (bindE (podHasMigrationsInProgress E pod) (?rest pod))" for pod
    proof (rule guarded_run_bindE)
      fix h b es
      assume "run_state (podHasMigrationsInProgress E pod) h = (Inr b, h @ es)"
      moreover have "guarded_run is_pod_delete migrations_over (?rest pod True)"
        by (rule delete) (auto intro!: emits_intro)
      ultimately show "(\<exists>g \<in> set es. migrations_over g) \<or> guarded_run is_pod_delete migrations_over (?rest pod b)"
        using podHasMigrations_false [of E pod h "h @ es"] by (cases b) simp_all
    qed (auto intro!: emits_intro)
    then show "guarded_run is_pod_delete migrations_over
        (case p of None \<Rightarrow> ok () | Some pod \<Rightarrow> bindE (podHasMigrationsInProgress E pod) (?rest pod))"
      by (cases p) (auto intro!: guarded_run_emits emits_intro)
  qed (auto intro!: emits_intro)
qed

section \<open>What success means\<close>

text \<open>A started pod was seen running and ready, and in no failure state.\<close>

lemma pod_started_true:
  "run_state (pod_started E c s e) h = ((p, Inr True), h') \<Longrightarrow>
     isPodRunningAndReady E p \<and> \<not> isPodInFailureState p"
  by (cases e) (auto split: if_splits prod.splits sum.splits)

lemma start_pod_ok:
  assumes "run_state (start_pod E c pod) h = (Inr p, h')"
  shows "isPodRunningAndReady E p \<and> \<not> isPodInFailureState p"
    and "EvCreatePod pod True \<in> set (drop (length h) h')"
proof -
  from assms obtain res h1 where
    create: "env_create_pod E h pod = Inr res"
    and wait: "run_state (waitForPodCondition E res (pod_started E c) res watchCreatePodTimeout)
        (h @ [EvCreatePod pod True]) = ((p, Inr ()), h1)"
    and h': "h' = h1 @ [EvRecord EventTypeNormal ReasonNodeStarted]"
    unfolding start_pod_def by (auto simp: map_sum_def split: sum.splits prod.splits)
  from wait show "isPodRunningAndReady E p \<and> \<not> isPodInFailureState p"
    by (rule waitForPodCondition_ok) (drule pod_started_true)
  have "emits (\<lambda>_. True) (waitForPodCondition E res (pod_started E c) res watchCreatePodTimeout)"
    by (auto intro!: emits_intro emits_weaken [OF emits_pod_started])
  from emits_extends [OF this wait] h' show "EvCreatePod pod True \<in> set (drop (length h) h')"
    by auto
qed

lemma attach_volumes_meta:
  "run_state (attach_volumes E c s i nss pod) h = (Inr pod', h') \<Longrightarrow> pod_Meta pod' = pod_Meta pod"
proof (induction nss arbitrary: i pod h)
  case (Cons ns nss)
  from Cons.prems obtain pvc h1 pod1 where
    "attach_volume i ns pvc pod = Inr pod1"
    and "run_state (attach_volumes E c s (Suc i) nss pod1) h1 = (Inr pod', h')"
    by (auto split: prod.splits sum.splits)
  then show ?case using Cons.IH attach_volume_meta by metis
qed simp

text \<open>A created pod carries its name, its node id and the hash of the configuration.\<close>

lemma createPod_ok:
  assumes "run_state (createPodWithIndex E c cm i u) h = (Inr p, h')"
  obtains req where "EvCreatePod req True \<in> set (drop (length h) h')"
    and "pod_Name req = pod_name c i"
    and "str_at (om_Annotations (pod_Meta req)) configMapHashAnnotation = config_hash cm"
    and "str_at (om_Annotations (pod_Meta req)) nodeIdAnnotation = computeNodeId E (pod_name c i)"
    and "isPodRunningAndReady E p" and "\<not> isPodInFailureState p"
proof -
  from assms obtain pods s req h1 h2 where
    list: "run_state (listClusterPods E c) h = (Inr pods, h1)"
    and att: "run_state (attach_volumes E c s 0 (spec_Namespaces (asc_Spec c)) (build_pod E c cm i pods)) h1
          = (Inr req, h2)"
    and start: "run_state (start_pod E c req) h2 = (Inr p, h')"
    unfolding createPodWithIndex_def Let_def by (auto split: prod.splits sum.splits)
  have meta: "pod_Meta req = pod_Meta (build_pod E c cm i pods)" using att by (rule attach_volumes_meta)
  have "emits (\<lambda>_. True) (listClusterPods E c)" by (auto intro!: emits_intro)
  moreover have "emits (\<lambda>_. True) (attach_volumes E c s 0 (spec_Namespaces (asc_Spec c)) (build_pod E c cm i pods))"
    by (auto intro!: emits_attach_volumes)
  ultimately obtain es where "h2 = h @ es"
    using emits_extends [OF _ list] emits_extends [OF _ att] by (metis append_assoc)
  then have "EvCreatePod req True \<in> set (drop (length h) h')"
    using start_pod_ok(2) [OF start] by (metis append_eq_conv_conj drop_drop in_set_dropD length_append add.commute)
  then show ?thesis using that [of req] start_pod_ok(1) [OF start] by (simp add: meta)
qed

text \<open>A pod is only returned as upgraded when its node reports the desired version.\<close>

definition reports_version :: "env \<Rightarrow> Pod \<Rightarrow> string \<Rightarrow> bool" where
  "reports_version E p v \<longleftrightarrow>
     (\<exists>h res. env_info E h (pt_PodIP (pod_Status p)) ''build'' = Inr res \<and> fmlookup res ''build'' = Some v)"

lemma getVersion_ok:
  "run_state (getAerospikeServerVersionFromPod E p) h = (Inr v, h') \<Longrightarrow> reports_version E p v"
  unfolding getAerospikeServerVersionFromPod_def runInfoCommandOnPod_def reports_version_def
  by (auto simp: map_sum_def split: sum.splits option.splits)

lemma maybeUpgrade_ok:
  "run_state (maybeUpgradePodWithIndex E c cm i u) h = (Inr (Some p), h') \<Longrightarrow>
     reports_version E p (spec_Version (asc_Spec c))"
  unfolding maybeUpgradePodWithIndex_def
  by (auto split: prod.splits sum.splits option.splits if_splits dest: getVersion_ok)

text \<open>
  After a successful round outside an upgrade the pod of an index has the current configuration:
  either it was created in this round with it, or it was listed, in no failure state, with it.
\<close>

definition pod_current :: "env \<Rightarrow> AerospikeCluster \<Rightarrow> ConfigMap \<Rightarrow> int \<Rightarrow> event list \<Rightarrow> bool" where
  "pod_current E c cm i es \<longleftrightarrow>
     (\<exists>req. EvCreatePod req True \<in> set es \<and> pod_Name req = pod_name c i \<and>
        str_at (om_Annotations (pod_Meta req)) configMapHashAnnotation = config_hash cm) \<or>
     (\<exists>h p. env_get_pod E h (asc_Namespace c) (pod_name c i) = Inr p \<and> \<not> isPodInFailureState p \<and>
        str_at (om_Annotations (pod_Meta p)) configMapHashAnnotation = config_hash cm)"

lemma getPod_some:
  "run_state (getPodWithIndex E c i) h = (Inr (Some p), h') \<Longrightarrow>
     env_get_pod E h (asc_Namespace c) (pod_name c i) = Inr p"
  unfolding getPodWithIndex_def by (auto simp: map_sum_def split: sum.splits if_splits)

lemma drop_prefix:
  "h1 = h @ es1 \<Longrightarrow> x \<in> set (drop (length h1) h') \<Longrightarrow> x \<in> set (drop (length h) h')"
  by (metis drop_drop in_set_dropD length_append add.commute)

lemma createPod_current:
  assumes "run_state (createPodWithIndex E c cm i u) h1 = (Inr p, h')" and "h1 = h @ es1"
  shows "pod_current E c cm i (drop (length h) h')"
  using assms(1)
  by (rule createPod_ok) (auto simp: pod_current_def intro!: drop_prefix [OF assms(2)])

lemma safeRestart_current:
  assumes "run_state (safeRestartPodWithIndex E c cm i u) h1 = (Inr p, h')" and "h1 = h @ es1"
  shows "pod_current E c cm i (drop (length h) h')"
proof -
  from assms(1) obtain h2 where
    del: "run_state (safeDeletePodWithIndex E c i) h1 = (Inr (), h2)"
    and create: "run_state (createPodWithIndex E c cm i u) h2 = (Inr p, h')"
    unfolding safeRestartPodWithIndex_def by (auto split: prod.splits sum.splits)
  from emits_extends [OF emits_safeDelete del] assms(2) obtain es2 where "h2 = h @ es2" by auto
  with create show ?thesis by (rule createPod_current)
qed

lemma ensure_pod_current:
  assumes run: "run_state (ensure_pod E c cm None i) h = (Inr x, h')"
  shows "pod_current E c cm i (drop (length h) h')"
proof -
  from run obtain pod h1 where get: "run_state (getPodWithIndex E c i) h = (Inr pod, h1)"
    unfolding ensure_pod_def by (elim bindE_ok) blast
  let ?drop = "case pod of None \<Rightarrow> ok None
    | Some p \<Rightarrow> if isPodInFailureState p then bindE (deletePod E c p) (\<lambda>_. ok None) else ok (Some p)"
  from run get obtain pod2 h2 where failed: "run_state ?drop h1 = (Inr pod2, h2)"
    and rest: "run_state (case pod2 of
       None \<Rightarrow> bindE (createPodWithIndex E c cm i None) (\<lambda>_. ok ())
     | Some p \<Rightarrow> if config_hash cm \<noteq> str_at (om_Annotations (pod_Meta p)) configMapHashAnnotation
              then bindE (safeRestartPodWithIndex E c cm i None) (\<lambda>_. ok ())
              else ensureClusterSize E c p) h2 = (Inr x, h')"
    unfolding ensure_pod_def by (auto simp del: run_bindE elim!: bindE_ok)
  have eg: "emits (\<lambda>_. True) (getPodWithIndex E c i)" and ef: "emits (\<lambda>_. True) ?drop"
    by (auto intro!: emits_intro)
  from emits_extends [OF eg get] emits_extends [OF ef failed] obtain es where h2: "h2 = h @ es" by auto
  show ?thesis
  proof (cases pod2)
    case None
    then show ?thesis using rest h2 by (auto elim!: bindE_ok simp del: run_bindE dest!: createPod_current)
  next
    case (Some p)
    show ?thesis
    proof (cases "config_hash cm = str_at (om_Annotations (pod_Meta p)) configMapHashAnnotation")
      case True
      have "pod = Some p \<and> \<not> isPodInFailureState p"
        using failed Some by (auto split: option.splits if_splits prod.splits sum.splits)
      then show ?thesis using getPod_some [of E c i h p h1] get True by (auto simp: pod_current_def)
    next
      case False
      then show ?thesis using rest Some h2
        by (auto elim!: bindE_ok simp del: run_bindE dest!: safeRestart_current)
    qed
  qed
qed

lemma ensurePods_ok:
  assumes run: "run_state (ensurePods E c cm u) h = (Inr x, h')"
    and i: "0 \<le> i" "i < spec_NodeCount (asc_Spec c)"
  obtains es es1 es2 where "run_state (ensure_pod E c cm u i) (h @ es) = (Inr (), h @ es @ es1)"
    and "h' = h @ es @ es1 @ es2"
proof -
  from run obtain pods h1 h2 where list: "run_state (listClusterPods E c) h = (Inr pods, h1)"
    and down: "run_state (forE (rev [spec_NodeCount (asc_Spec c)..int (length pods) - 1])
        (safeDeletePodWithIndex E c)) h1 = (Inr (), h2)"
    and up: "run_state (forE [0..spec_NodeCount (asc_Spec c) - 1] (ensure_pod E c cm u)) h2 = (Inr x, h')"
    unfolding ensurePods_def Let_def by (auto split: prod.splits sum.splits)
  have el: "emits (\<lambda>_. True) (listClusterPods E c)" by (auto intro!: emits_intro)
  have ed: "emits (\<lambda>_. True) (forE is (safeDeletePodWithIndex E c))" for "is"
    by (auto intro!: emits_intro emits_weaken [OF emits_safeDelete])
  from emits_extends [OF el list] emits_extends [OF ed down] obtain es0 where h2: "h2 = h @ es0" by auto
  have "emits (\<lambda>_. True) (ensure_pod E c cm u j)" for j by (rule emits_weaken [OF emits_ensure_pod]) simp
  from forE_ok [OF this up, of i] i obtain es es1 es2 where
    "run_state (ensure_pod E c cm u i) (h2 @ es) = (Inr (), h2 @ es @ es1)" "h' = h2 @ es @ es1 @ es2"
    by auto
  then show ?thesis using that [of "es0 @ es" es1 es2] by (simp add: h2)
qed

section \<open>Claims during an upgrade\<close>

text \<open>
  When the upgrade asks for it, each namespace of the pod gets a claim created for it on the
  spot: the calls are exactly one creation per namespace and the pod mounts the answers.
\<close>

definition created_claim :: "env \<Rightarrow> event \<Rightarrow> PersistentVolumeClaim \<Rightarrow> bool" where
  "created_claim E e pvc \<longleftrightarrow> (\<exists>x h. e = EvCreatePVC x True \<and> env_create_pvc E h x = Inr pvc)"

lemma attach_recreate:
  assumes "RecreatePersistentVolumeClaims s"
    and "run_state (attach_volumes E c (Some s) i nss pod) h = (Inr pod', h')"
  shows "\<exists>es pvcs. h' = h @ es \<and> length es = length nss \<and> list_all2 (created_claim E) es pvcs \<and>
    map vol_Source (ps_Volumes (pod_Spec pod')) =
      map vol_Source (ps_Volumes (pod_Spec pod)) @ map (\<lambda>p. PersistentVolumeClaimVolume (pvc_Name p)) pvcs"
  using assms(2)
proof (induction nss arbitrary: i pod h)
  case (Cons ns nss)
  from Cons.prems obtain q pvc pod1 where
    create: "env_create_pvc E h (build_claim c pod ns q) = Inr pvc"
    and att: "attach_volume i ns pvc pod = Inr pod1"
    and rest: "run_state (attach_volumes E c (Some s) (Suc i) nss pod1)
       (h @ [EvCreatePVC (build_claim c pod ns q) True]) = (Inr pod', h')"
    using assms(1)
    by (auto simp: claim_for_def createPersistentVolumeClaim_def map_sum_def split: sum.splits)
  from Cons.IH [OF rest] obtain es pvcs where
    "h' = h @ (EvCreatePVC (build_claim c pod ns q) True # es)" and "length es = length nss"
    and "list_all2 (created_claim E) es pvcs"
    and "map vol_Source (ps_Volumes (pod_Spec pod')) = map vol_Source (ps_Volumes (pod_Spec pod1)) @
      map (\<lambda>p. PersistentVolumeClaimVolume (pvc_Name p)) pvcs"
    by auto
  then show ?case
    using create attach_volume_volumes [OF att]
    by (intro exI [of _ "EvCreatePVC (build_claim c pod ns q) True # es"] exI [of _ "pvc # pvcs"])
      (auto simp: created_claim_def [of E "EvCreatePVC x r" for x r])
qed simp

text \<open>Without a strategy an available claim is taken, whatever version wrote it.\<close>

lemma claim_for_reuse:
  assumes "run_state (getPersistentVolumeClaim E c pod) h = (Inr (Some pvc), h1)"
    and "run_state (claim_for E c None pod ns) h = (Inr p, h')"
  shows "pvc_Name p = pvc_Name pvc"
  using assms by (auto simp: claim_for_def removePVCAnnotation_def split: prod.splits sum.splits)

end
