(* ===== verification/Resources.thy ===== *)
theory Resources
  imports Constants
begin

text \<open>
  \<^verbatim>\<open>pkg/reconciler/service.go\<close> and \<^verbatim>\<open>pkg/reconciler/networkpolicy.go\<close>: the headless
  service and the network policy of a cluster.
\<close>

section \<open>Model\<close>

text \<open>The two labels of every object of a cluster.\<close>

abbreviation cluster_labels :: "AerospikeCluster \<Rightarrow> labels" where
  "cluster_labels c \<equiv> map_lit [(LabelAppKey, LabelAppVal), (LabelClusterKey, asc_Name c)]"

subsection \<open>service.go\<close>

text \<open>\<open>intstr.IntOrString{StrVal: s}\<close> leaves the type at its zero value, an integer.\<close>

definition str_port :: "string \<Rightarrow> IntOrString" where
  "str_port s = \<lparr>ios_Type = IntType, ios_IntVal = 0, ios_StrVal = s\<rparr>"

definition cluster_service :: "AerospikeCluster \<Rightarrow> Service" where
  "cluster_service c =
     \<lparr>svc_Meta = zero_meta\<lparr>
        om_Name := asc_Name c,
        om_Labels := Some (cluster_labels c),
        om_Namespace := asc_Namespace c,
        om_OwnerReferences := [cluster_owner c]\<rparr>,
      svc_Selector = cluster_labels c,
      svc_Ports =
        [\<lparr>sp_Name = servicePortName, sp_Port = cServicePort, sp_TargetPort = str_port servicePortName\<rparr>,
         \<lparr>sp_Name = heartbeatPortName, sp_Port = HeartbeatPort, sp_TargetPort = str_port heartbeatPortName\<rparr>,
         \<lparr>sp_Name = aspromPortName, sp_Port = aspromPort, sp_TargetPort = str_port aspromPortName\<rparr>],
      svc_ClusterIP = ''None''\<rparr>"

definition ensureService :: "env \<Rightarrow> AerospikeCluster \<Rightarrow> unit acte" where
  "ensureService E c = do {
     r \<leftarrow> Services_Create E (cluster_service c);
     case r of
       Inl err \<Rightarrow> if \<not> IsAlreadyExists err then fail err else ok ()
     | Inr _ \<Rightarrow> ok ()
   }"

subsection \<open>networkpolicy.go\<close>

definition protocolTCP :: string where "protocolTCP = ''TCP''"
definition protocolUDP :: string where "protocolUDP = ''UDP''"

definition cluster_policy :: "AerospikeCluster \<Rightarrow> NetworkPolicy" where
  "cluster_policy c =
     \<lparr>np_Meta = zero_meta\<lparr>
        om_Name := asc_Name c,
        om_Labels := Some (cluster_labels c),
        om_Namespace := asc_Namespace c,
        om_OwnerReferences := [cluster_owner c]\<rparr>,
      np_PodSelector = cluster_labels c,
      np_PolicyTypes = [''Ingress'', ''Egress''],
      np_Ingress =
        [\<lparr>np_Peers = [cluster_labels c],
          np_Ports = [(protocolTCP, fabricPort), (protocolTCP, HeartbeatPort)]\<rparr>,
         \<lparr>np_Peers = [],
          np_Ports = [(protocolTCP, cServicePort), (protocolTCP, infoPort), (protocolTCP, aspromPort)]\<rparr>],
      np_Egress =
        [\<lparr>np_Peers = [cluster_labels c],
          np_Ports = [(protocolTCP, fabricPort), (protocolTCP, HeartbeatPort)]\<rparr>,
         \<lparr>np_Peers = [],
          np_Ports = [(protocolTCP, 53), (protocolUDP, 53)]\<rparr>]\<rparr>"

definition ensureNetworkPolicy :: "env \<Rightarrow> AerospikeCluster \<Rightarrow> unit acte" where
  "ensureNetworkPolicy E c = do {
     r \<leftarrow> NetworkPolicies_Create E (cluster_policy c);
     case r of
       Inl err \<Rightarrow> if \<not> IsAlreadyExists err then fail err else ok ()
     | Inr _ \<Rightarrow> ok ()
   }"

section \<open>Specification: what a network policy lets through\<close>

text \<open>
  A policy admits traffic when one of its rules names the peer (a rule without peers names
  everybody) and the port. A label selector matches a pod that carries all of its labels.
\<close>

definition selects :: "labels \<Rightarrow> labels \<Rightarrow> bool" where
  "selects sel l \<longleftrightarrow> fmpred (\<lambda>k v. fmlookup l k = Some v) sel"

definition rule_admits :: "labels \<Rightarrow> string \<times> int \<Rightarrow> NetworkPolicyRule \<Rightarrow> bool" where
  "rule_admits peer port rule \<longleftrightarrow>
     (np_Peers rule = [] \<or> (\<exists>sel \<in> set (np_Peers rule). selects sel peer)) \<and> port \<in> set (np_Ports rule)"

definition admits_ingress :: "NetworkPolicy \<Rightarrow> labels \<Rightarrow> string \<times> int \<Rightarrow> bool" where
  "admits_ingress p peer port \<longleftrightarrow> (\<exists>rule \<in> set (np_Ingress p). rule_admits peer port rule)"

definition admits_egress :: "NetworkPolicy \<Rightarrow> labels \<Rightarrow> string \<times> int \<Rightarrow> bool" where
  "admits_egress p peer port \<longleftrightarrow> (\<exists>rule \<in> set (np_Egress p). rule_admits peer port rule)"

section \<open>Facts\<close>

lemma selects_cluster:
  "selects (cluster_labels c) l \<longleftrightarrow>
     fmlookup l LabelAppKey = Some LabelAppVal \<and> fmlookup l LabelClusterKey = Some (asc_Name c)"
proof
  assume "selects (cluster_labels c) l"
  then have "fmlookup (cluster_labels c) k = Some v \<Longrightarrow> fmlookup l k = Some v" for k v
    unfolding selects_def by (rule fmpredD)
  from this [of LabelAppKey LabelAppVal] this [of LabelClusterKey "asc_Name c"]
  show "fmlookup l LabelAppKey = Some LabelAppVal \<and> fmlookup l LabelClusterKey = Some (asc_Name c)"
    by (simp add: label_keys)
qed (auto simp: selects_def intro: fmpred_upd)

lemma policy_ingress:
  "admits_ingress (cluster_policy c) peer port \<longleftrightarrow>
     port \<in> {(''TCP'', 3000), (''TCP'', 3003), (''TCP'', 9145)} \<or>
     selects (cluster_labels c) peer \<and> port \<in> {(''TCP'', 3001), (''TCP'', 3002)}"
  by (auto simp: admits_ingress_def rule_admits_def cluster_policy_def ports protocolTCP_def)

lemma policy_egress:
  "admits_egress (cluster_policy c) peer port \<longleftrightarrow>
     port \<in> {(''TCP'', 53), (''UDP'', 53)} \<or>
     selects (cluster_labels c) peer \<and> port \<in> {(''TCP'', 3001), (''TCP'', 3002)}"
  by (auto simp: admits_egress_def rule_admits_def cluster_policy_def ports protocolTCP_def protocolUDP_def)

lemma emits_resources [emits_intro]:
  "(\<And>x r. P (EvCreateService x r)) \<Longrightarrow> emits P (ensureService E c)"
  "(\<And>x r. P (EvCreateNetworkPolicy x r)) \<Longrightarrow> emits P (ensureNetworkPolicy E c)"
  unfolding ensureService_def ensureNetworkPolicy_def by (auto intro!: emits_intro)

end
