(* ===== verification/ClusterBackups.thy ===== *)
theory ClusterBackups
  imports Constants Versioning
begin

text \<open>
  \<^verbatim>\<open>pkg/reconciler/backups.go\<close>: the backups taken before an upgrade, and the test
  whether they are complete.
\<close>

section \<open>Model\<close>

text \<open>\<open>replace_all\<close> is \<open>strings.Replace\<close> with a count of -1.\<close>

definition GetBackupName :: "string \<Rightarrow> string \<Rightarrow> string \<Rightarrow> string" where
  "GetBackupName ns sourceVersion targetVersion =
     ns @ ''-'' @ replace_all ''.'' [] sourceVersion @ ''-'' @ replace_all ''.'' [] targetVersion @ ''-upgrade''"

abbreviation upgrade_backup_name :: "AerospikeCluster \<Rightarrow> string \<Rightarrow> string" where
  "upgrade_backup_name c ns \<equiv>
     GetBackupName ns (spec_Version (status_Spec (asc_Status c))) (spec_Version (asc_Spec c))"

text \<open>
  The backup of one namespace. The TTL is the pointer of the cluster's own backup spec; its
  address is of no consequence here.
\<close>

definition namespace_backup ::
    "AerospikeCluster \<Rightarrow> string \<Rightarrow> AerospikeClusterBackupSpec \<Rightarrow> AerospikeNamespaceBackup" where
  "namespace_backup c ns spec =
     (let spec' = \<lparr>
        bk_Target = \<lparr>tn_Cluster = asc_Name c, tn_Namespace = ns\<rparr>,
        bk_Storage = Some \<lparr>
          bs_Type = bs_Type (cb_Storage spec),
          bs_Bucket = bs_Bucket (cb_Storage spec),
          bs_Secret = GetSecret (cb_Storage spec),
          bs_SecretNamespace = bs_SecretNamespace (cb_Storage spec),
          bs_SecretKey = bs_SecretKey (cb_Storage spec)\<rparr>,
        bk_TTL = map_option (StrPtr 0) (cb_TTL spec)\<rparr>
      in \<lparr>asnb_Meta = zero_meta\<lparr>
            om_Name := upgrade_backup_name c ns,
            om_Labels := Some (map_lit [(LabelAppKey, LabelAppVal), (LabelClusterKey, asc_Name c),
                                        (LabelNamespaceKey, ns)]),
            om_Namespace := asc_Namespace c,
            om_OwnerReferences := [cluster_owner c]\<rparr>,
          asnb_Spec = spec',
          asnb_Status = \<lparr>
            bks_Spec = \<lparr>bk_Target = \<lparr>tn_Cluster = [], tn_Namespace = []\<rparr>, bk_Storage = None, bk_TTL = None\<rparr>,
            bks_Conditions = []\<rparr>\<rparr>)"

definition createNamespaceBackup :: "env \<Rightarrow> AerospikeCluster \<Rightarrow> string \<Rightarrow> unit acte" where
  "createNamespaceBackup E c ns =
     (case spec_BackupSpec (asc_Spec c) of
        None \<Rightarrow> fail NilPanic
      | Some spec \<Rightarrow> bindE (Backups_Create E (namespace_backup c ns spec)) (\<lambda>_. ok ()))"

definition backupCluster :: "env \<Rightarrow> AerospikeCluster \<Rightarrow> unit acte" where
  "backupCluster E c =
     forE (spec_Namespaces (asc_Spec c)) (\<lambda>namespace. createNamespaceBackup E c (ns_Name namespace))"

text \<open>The loop over the conditions of a backup.\<close>

fun backup_completed :: "Condition list \<Rightarrow> gerr + bool" where
  "backup_completed [] = Inr False"
| "backup_completed (condition # rest) =
     (if c_Type condition = ConditionBackupFinished \<and> c_Status condition = ConditionTrue then Inr True
      else if c_Type condition = ConditionBackupFailed \<and> c_Status condition = ConditionTrue
      then Inl ClusterBackupFailed
      else backup_completed rest)"

definition isBackupCompleted :: "env \<Rightarrow> AerospikeCluster \<Rightarrow> string \<Rightarrow> bool acte" where
  "isBackupCompleted E c ns =
     bindE (Backups_Get E (asc_Namespace c) (upgrade_backup_name c ns)) (\<lambda>backup.
     liftE (backup_completed (bks_Conditions (asnb_Status backup))) ok)"

fun backups_finished :: "env \<Rightarrow> AerospikeCluster \<Rightarrow> AerospikeNamespaceSpec list \<Rightarrow> bool acte" where
  "backups_finished E c [] = ok True"
| "backups_finished E c (namespace # rest) =
     bindE (isBackupCompleted E c (ns_Name namespace)) (\<lambda>finished.
     if \<not> finished then ok False else backups_finished E c rest)"

definition isClusterBackupFinished :: "env \<Rightarrow> AerospikeCluster \<Rightarrow> bool acte" where
  "isClusterBackupFinished E c = backups_finished E c (spec_Namespaces (asc_Spec c))"

section \<open>Facts\<close>

text \<open>A condition that is true and of the given type.\<close>

definition has_condition :: "string \<Rightarrow> Condition list \<Rightarrow> bool" where
  "has_condition t cs \<longleftrightarrow> (\<exists>x \<in> set cs. c_Type x = t \<and> c_Status x = ConditionTrue)"

lemma has_condition_simps [simp]:
  "\<not> has_condition t []"
  "has_condition t (x # cs) \<longleftrightarrow> c_Type x = t \<and> c_Status x = ConditionTrue \<or> has_condition t cs"
  "has_condition t (cs @ ds) \<longleftrightarrow> has_condition t cs \<or> has_condition t ds"
  by (auto simp: has_condition_def)

lemma backup_completed_cases:
  "backup_completed cs = Inr True \<Longrightarrow> has_condition ConditionBackupFinished cs"
  "backup_completed cs = Inr False \<longleftrightarrow>
     \<not> has_condition ConditionBackupFinished cs \<and> \<not> has_condition ConditionBackupFailed cs"
  "backup_completed cs = Inl e \<Longrightarrow> e = ClusterBackupFailed \<and> has_condition ConditionBackupFailed cs"
  by (induction cs) (auto split: if_splits)

lemma backup_completed_finished:
  "has_condition ConditionBackupFinished cs \<Longrightarrow> \<not> has_condition ConditionBackupFailed cs \<Longrightarrow>
     backup_completed cs = Inr True"
  by (induction cs) (auto simp: condition_types)

lemma isBackupCompleted_true:
  "run_state (isBackupCompleted E c ns) h = (Inr True, h') \<Longrightarrow>
     \<exists>b. env_get_backup E h (asc_Namespace c) (upgrade_backup_name c ns) = Inr b \<and>
         has_condition ConditionBackupFinished (bks_Conditions (asnb_Status b))"
  unfolding isBackupCompleted_def
  by (auto simp: map_sum_def split: sum.splits dest: backup_completed_cases(1))

text \<open>
  The test succeeds only when, for every namespace, the backup of this upgrade was read with its
  finished condition.
\<close>

lemma backups_finished_true:
  "run_state (backups_finished E c nss) h = (Inr True, h') \<Longrightarrow> ns \<in> set nss \<Longrightarrow>
     \<exists>h0 b. env_get_backup E h0 (asc_Namespace c) (upgrade_backup_name c (ns_Name ns)) = Inr b \<and>
         has_condition ConditionBackupFinished (bks_Conditions (asnb_Status b))"
proof (induction nss arbitrary: h)
  case (Cons n nss)
  from Cons.prems(1) obtain h1 where
    1: "run_state (isBackupCompleted E c (ns_Name n)) h = (Inr True, h1)"
    and 2: "run_state (backups_finished E c nss) h1 = (Inr True, h')"
    by (auto split: prod.splits sum.splits if_splits)
  then show ?case using Cons.prems(2) Cons.IH [OF 2] isBackupCompleted_true [OF 1] by auto
qed simp

lemma emits_backups [emits_intro]:
  "(\<And>e. \<not> writes e \<Longrightarrow> P e) \<Longrightarrow> emits P (isClusterBackupFinished E c)"
  "(\<And>b r. P (EvCreateBackup b r)) \<Longrightarrow> emits P (backupCluster E c)"
proof -
  assume P: "\<And>e. \<not> writes e \<Longrightarrow> P e"
  have "emits P (backups_finished E c nss)" for nss
    by (induction nss) (auto simp: isBackupCompleted_def intro!: emits_intro P)
  then show "emits P (isClusterBackupFinished E c)" by (simp add: isClusterBackupFinished_def)
next
  assume "\<And>b r. P (EvCreateBackup b r)"
  then show "emits P (backupCluster E c)"
    unfolding backupCluster_def createNamespaceBackup_def by (auto intro!: emits_intro)
qed

text \<open>Backup names: what comes after the last two separators tells the versions apart.\<close>

lemma first_sep_unique:
  "a @ c # x = b @ c # y \<Longrightarrow> c \<notin> set a \<Longrightarrow> c \<notin> set b \<Longrightarrow> a = b \<and> x = y"
proof (induction a arbitrary: b)
  case Nil
  then show ?case by (cases b) auto
next
  case (Cons z a)
  then show ?case by (cases b) auto
qed

lemma append_sep_unique:
  assumes "x @ c # a = y @ c # b" and "c \<notin> set a" and "c \<notin> set b"
  shows "x = y \<and> a = b"
proof -
  have "rev a @ c # rev x = rev b @ c # rev y" using arg_cong [OF assms(1), of rev] by simp
  then have "rev a = rev b \<and> rev x = rev y"
    by (rule first_sep_unique) (use assms(2,3) in simp_all)
  then show ?thesis by simp
qed

lemma GetBackupName_inj:
  assumes "GetBackupName n s t = GetBackupName n' s' t'"
    and no_dash: "CHR ''-'' \<notin> set s" "CHR ''-'' \<notin> set t" "CHR ''-'' \<notin> set s'" "CHR ''-'' \<notin> set t'"
  shows "n = n' \<and> filter (\<lambda>x. x \<noteq> CHR ''.'') s = filter (\<lambda>x. x \<noteq> CHR ''.'') s' \<and>
    filter (\<lambda>x. x \<noteq> CHR ''.'') t = filter (\<lambda>x. x \<noteq> CHR ''.'') t'"
proof -
  let ?f = "filter (\<lambda>x. x \<noteq> CHR ''.'')"
  have "(n @ CHR ''-'' # ?f s) @ CHR ''-'' # ?f t = (n' @ CHR ''-'' # ?f s') @ CHR ''-'' # ?f t'"
    using assms(1) by (simp add: GetBackupName_def replace_all_byte)
  then have "n @ CHR ''-'' # ?f s = n' @ CHR ''-'' # ?f s' \<and> ?f t = ?f t'"
    by (rule append_sep_unique) (use no_dash in auto)
  moreover from this have "n = n' \<and> ?f s = ?f s'"
    by (intro append_sep_unique [of n _ "?f s" n' "?f s'"]) (use no_dash in auto)
  ultimately show ?thesis by blast
qed

end
