(* ===== verification/Reconciler.thy ===== *)
theory Reconciler
  imports PodFacts Resources ClusterBackups
begin

text \<open>
  \<^verbatim>\<open>pkg/reconciler/validation.go\<close> and \<open>MaybeReconcile\<close> of
  \<^verbatim>\<open>pkg/reconciler/cluster.go\<close>: one reconciliation of a cluster.
\<close>

section \<open>Model\<close>

subsection \<open>validation.go\<close>

fun replication_factors_valid :: "AerospikeCluster \<Rightarrow> AerospikeNamespaceSpec list \<Rightarrow> bool act" where
  "replication_factors_valid c [] = ret True"
| "replication_factors_valid c (ns # rest) =
     (if (case ns_ReplicationFactor ns of None \<Rightarrow> False | Some rf \<Rightarrow> rf > spec_NodeCount (asc_Spec c))
      then do { Record EventTypeWarning ReasonValidationError; ret False }
      else replication_factors_valid c rest)"

definition validateReplicationFactor :: "AerospikeCluster \<Rightarrow> bool act" where
  "validateReplicationFactor c = replication_factors_valid c (spec_Namespaces (asc_Spec c))"

fun storage_classes_valid :: "env \<Rightarrow> AerospikeNamespaceSpec list \<Rightarrow> bool act" where
  "storage_classes_valid E [] = ret True"
| "storage_classes_valid E (ns # rest) =
     (case st_StorageClassName (ns_Storage ns) of
        None \<Rightarrow> storage_classes_valid E rest
      | Some sc \<Rightarrow>
          if sc \<noteq> [] then do {
            r \<leftarrow> StorageClasses_Get E sc;
            case r of
              Inl err \<Rightarrow> do { Record EventTypeWarning ReasonValidationError; ret False }
            | Inr _ \<Rightarrow> storage_classes_valid E rest
          }
          else storage_classes_valid E rest)"

definition validateStorageClass :: "env \<Rightarrow> AerospikeCluster \<Rightarrow> bool act" where
  "validateStorageClass E c = storage_classes_valid E (spec_Namespaces (asc_Spec c))"

definition validate :: "env \<Rightarrow> AerospikeCluster \<Rightarrow> bool acte" where
  "validate E c = do {
     rf \<leftarrow> validateReplicationFactor c;
     if \<not> rf then ok False
     else do {
       sc \<leftarrow> validateStorageClass E c;
       if \<not> sc then ok False else ok True
     }
   }"

subsection \<open>cluster.go\<close>

definition upgrade_of :: "AerospikeCluster \<Rightarrow> gerr + VersionUpgrade option" where
  "upgrade_of c =
     (let old = spec_Version (status_Spec (asc_Status c)); new = spec_Version (asc_Spec c) in
      if old \<noteq> [] \<and> new \<noteq> old
      then (case NewVersionFromString old of
              Inl err \<Rightarrow> Inl err
            | Inr source \<Rightarrow> (case NewVersionFromString new of
                Inl err \<Rightarrow> Inl err
              | Inr target \<Rightarrow> Inr (Some \<lparr>Source = source, Target = target\<rparr>)))
      else Inr None)"

text \<open>
  From the validation to the end. A failing signal of a failed upgrade is only logged.
\<close>

definition reconcile :: "env \<Rightarrow> AerospikeCluster \<Rightarrow> VersionUpgrade option \<Rightarrow> unit acte" where
  "reconcile E c upgrade =
     bindE (validate E c) (\<lambda>valid.
     if \<not> valid then ok ()
     else bindE (ensureService E c) (\<lambda>_.
       bindE (ensureConfigMap E c) (\<lambda>configMap.
       bindE (ensureNetworkPolicy E c) (\<lambda>_. do {
         r \<leftarrow> ensurePods E c configMap upgrade;
         case r of
           Inl err \<Rightarrow>
             if err = PodUpgradeFailed
             then (case upgrade of
                     Some u \<Rightarrow> do { _ \<leftarrow> signalUpgradeFailed E c u; fail err }
                   | None \<Rightarrow> fail NilPanic)
             else fail err
         | Inr _ \<Rightarrow>
             (let c' = updateStatus c in
              bindE (patchCluster E c c') (\<lambda>_.
              case upgrade of
                None \<Rightarrow> ok ()
              | Some u \<Rightarrow> do {
                  s \<leftarrow> signalUpgradeFinished E c' u;
                  case snd s of Inl err \<Rightarrow> fail err | Inr _ \<Rightarrow> ok ()
                }))
       }))))"

text \<open>The part that only an upgrade runs; \<open>go_on\<close> is the rest, with the cluster it leaves.\<close>

definition before_upgrade ::
    "env \<Rightarrow> AerospikeCluster \<Rightarrow> VersionUpgrade \<Rightarrow> (AerospikeCluster \<Rightarrow> unit acte) \<Rightarrow> unit acte" where
  "before_upgrade E c u go_on =
     (case gm_get (om_Annotations (asc_Meta c)) UpgradeStatusAnnotationKey of
        None \<Rightarrow> do {
          s \<leftarrow> signalBackupStarted E c;
          case s of (c1, r) \<Rightarrow>
            (case r of Inl err \<Rightarrow> fail err | Inr _ \<Rightarrow> backupCluster E c1)
        }
      | Some status \<Rightarrow>
          if status = UpgradeStatusBackupAnnotationValue
          then do {
            b \<leftarrow> isClusterBackupFinished E c;
            case b of
              Inl err \<Rightarrow>
                if err = ClusterBackupFailed
                then do {
                  s \<leftarrow> signalBackupFailed E c;
                  _ \<leftarrow> signalUpgradeFailed E (fst s) u;
                  fail err
                }
                else fail err
            | Inr backupsCompleted \<Rightarrow>
                if backupsCompleted
                then do {
                  s \<leftarrow> signalBackupFinished E c;
                  case s of (c1, r) \<Rightarrow>
                    (case r of
                       Inl err \<Rightarrow> fail err
                     | Inr _ \<Rightarrow> do {
                         s \<leftarrow> signalUpgradeStarted E c1 u;
                         case s of (c2, r) \<Rightarrow>
                           (case r of Inl err \<Rightarrow> fail err | Inr _ \<Rightarrow> go_on c2)
                       })
                }
                else ok ()
          }
          else go_on c)"

definition MaybeReconcile :: "env \<Rightarrow> AerospikeCluster \<Rightarrow> unit acte" where
  "MaybeReconcile E c =
     (if gm_get (om_Annotations (asc_Meta c)) UpgradeStatusAnnotationKey
           = Some UpgradeStatusFailedAnnotationValue
      then ok ()
      else liftE (upgrade_of c) (\<lambda>upgrade.
        case upgrade of
          None \<Rightarrow> reconcile E c None
        | Some u \<Rightarrow> before_upgrade E c u (\<lambda>c'. reconcile E c' upgrade)))"

section \<open>Facts\<close>

lemma emits_trivial: "emits Q m \<Longrightarrow> (\<And>e. P e) \<Longrightarrow> emits P m"
  by (rule emits_weaken) simp_all

lemma emits_validate [emits_intro]:
  assumes "\<And>e. \<not> writes e \<Longrightarrow> P e"
  shows "emits P (validate E c)"
proof -
  have "emits P (replication_factors_valid c nss)" and "emits P (storage_classes_valid E nss)" for nss
    by (induction nss) (auto intro!: emits_intro assms split: option.splits)
  then show ?thesis unfolding validate_def validateReplicationFactor_def validateStorageClass_def
    by (auto intro!: emits_intro)
qed

lemma emits_any_reconcile: "emits (\<lambda>_. True) (reconcile E c u)"
proof -
  have "emits (\<lambda>_. True) (ensurePods E c cm u)" for cm by (rule emits_weaken [OF emits_ensurePods]) simp
  then show ?thesis unfolding reconcile_def Let_def
    by (auto intro!: emits_intro emits_patchCluster)
qed

lemma validate_true:
  "run_state (validate E c) h = (Inr True, h') \<Longrightarrow> ns \<in> set (spec_Namespaces (asc_Spec c)) \<Longrightarrow>
     ns_ReplicationFactor ns = Some rf \<Longrightarrow> rf \<le> spec_NodeCount (asc_Spec c)"
proof -
  have *: "run_state (replication_factors_valid c nss) h = (True, h') \<Longrightarrow> ns \<in> set nss \<Longrightarrow>
     ns_ReplicationFactor ns = Some rf \<Longrightarrow> rf \<le> spec_NodeCount (asc_Spec c)" for nss h h'
    by (induction nss) (auto split: if_splits option.splits)
  assume "run_state (validate E c) h = (Inr True, h')" "ns \<in> set (spec_Namespaces (asc_Spec c))"
    "ns_ReplicationFactor ns = Some rf"
  then show ?thesis
    unfolding validate_def validateReplicationFactor_def
    by (auto split: prod.splits if_splits intro: *)
qed

subsection \<open>No pod is touched before the backups are complete\<close>

fun touches_nodes :: "event \<Rightarrow> bool" where
  "touches_nodes e = (touches_pods e \<or> touches_pvcs e)"

lemma not_touches [simp]:
  "\<not> writes e \<Longrightarrow> \<not> touches_nodes e" "signals_cluster e \<Longrightarrow> \<not> touches_nodes e"
  "\<not> touches_nodes (EvCreateBackup b r)"
  by (cases e; simp)+

declare touches_nodes.simps [simp del]

text \<open>The backups of all namespaces were read as finished at some point.\<close>

definition backups_complete :: "env \<Rightarrow> AerospikeCluster \<Rightarrow> bool" where
  "backups_complete E c \<longleftrightarrow> (\<forall>ns \<in> set (spec_Namespaces (asc_Spec c)). \<exists>h b.
     env_get_backup E h (asc_Namespace c) (upgrade_backup_name c (ns_Name ns)) = Inr b \<and>
     has_condition ConditionBackupFinished (bks_Conditions (asnb_Status b)))"

lemma isClusterBackupFinished_true:
  "run_state (isClusterBackupFinished E c) h = (Inr True, h') \<Longrightarrow> backups_complete E c"
  unfolding isClusterBackupFinished_def backups_complete_def by (blast dest: backups_finished_true)

lemma before_upgrade_gate:
  assumes go_on: "\<And>c'. emits (\<lambda>_. True) (go_on c')"
    and status: "upgrade_status c = None \<or> upgrade_status c = Some UpgradeStatusBackupAnnotationValue"
  shows "emits (\<lambda>e. touches_nodes e \<longrightarrow> upgrade_status c \<noteq> None \<and> backups_complete E c)
    (before_upgrade E c u go_on)"
proof (cases "upgrade_status c")
  case None
  then show ?thesis unfolding before_upgrade_def upgrade_status_def by (auto intro!: emits_intro)
next
  case (Some s)
  let ?P = "\<lambda>e. touches_nodes e \<longrightarrow> backups_complete E c"
  have fin: "emits ?P (isClusterBackupFinished E c)" by (auto intro!: emits_intro)
  have go: "emits ?P (go_on c')" if "backups_complete E c" for c'
    using that by (intro emits_weaken [OF go_on]) simp
  have "emits ?P (before_upgrade E c u go_on)"
    using Some status unfolding before_upgrade_def upgrade_status_def
    by (auto intro!: emits_intro emits_bind_run [OF fin] go dest: isClusterBackupFinished_true)
  then show ?thesis using Some by simp
qed

subsection \<open>When the status is written\<close>

fun writes_cluster :: "event \<Rightarrow> AerospikeCluster option" where
  "writes_cluster (EvPatchCluster old new _) = Some new"
| "writes_cluster (EvUpdateClusterStatus new _) = Some new"
| "writes_cluster _ = None"

lemma not_writes_cluster [simp]:
  "\<not> writes e \<Longrightarrow> writes_cluster e = None" "pod_calls e \<Longrightarrow> writes_cluster e = None"
  by (cases e; simp)+

lemma updateStatus_simps [simp]:
  "spec_Version (status_Spec (asc_Status (updateStatus c))) = spec_Version (asc_Spec c)"
  "spec_NodeCount (status_Spec (asc_Status (updateStatus c))) = spec_NodeCount (asc_Spec c)"
  "spec_Namespaces (status_Spec (asc_Status (updateStatus c))) = spec_Namespaces (asc_Spec c)"
  "spec_BackupSpec (status_Spec (asc_Status (updateStatus c))) = spec_BackupSpec (asc_Spec c)"
  "asc_Spec (updateStatus c) = asc_Spec c" "asc_Meta (updateStatus c) = asc_Meta c"
  "upgrade_status (updateStatus c) = upgrade_status c"
  by (simp_all add: updateStatus_def upgrade_status_def)

text \<open>The status a patch sends is that of the object it was computed from.\<close>

lemma emits_patchCluster_status:
  assumes "\<And>r. P (EvPatchCluster old new r)"
    and "\<And>c r. asc_Status c = asc_Status new \<Longrightarrow> P (EvUpdateClusterStatus c r)"
  shows "emits P (patchCluster E old new)"
  unfolding patchCluster_def Let_def using assms by (auto intro!: emits_intro)

lemma emits_signalUpgradeFinished:
  assumes "\<And>e. \<not> writes e \<Longrightarrow> P e"
    and "\<And>old new r. status_Spec (asc_Status new) = status_Spec (asc_Status c) \<Longrightarrow>
      upgrade_status new = None \<Longrightarrow> P (EvPatchCluster old new r)"
    and "\<And>c' r. status_Spec (asc_Status c') = status_Spec (asc_Status c) \<Longrightarrow> P (EvUpdateClusterStatus c' r)"
  shows "emits P (signalUpgradeFinished E c u)"
  unfolding signalUpgradeFinished_def patch_and_record_def Let_def
  by (intro emits_bind emits_sum emits_call emits_return emits_patchCluster_status)
    (simp_all add: assms)

text \<open>
  A reconciliation writes the cluster only after \<open>ensurePods\<close> has succeeded, and then with the
  version it was asked for.
\<close>

lemma reconcile_writes:
  "emits (\<lambda>e. \<forall>new. writes_cluster e = Some new \<longrightarrow>
       (\<exists>cm h h'. run_state (ensurePods E c cm u) h = (Inr (), h')) \<and>
       spec_Version (status_Spec (asc_Status new)) = spec_Version (asc_Spec c))
     (reconcile E c u)" (is "emits ?P _")
proof -
  have pods: "emits ?P (ensurePods E c cm u)" for cm
    by (rule emits_weaken [OF emits_ensurePods]) simp
  have finish: "emits ?P (bindE (patchCluster E c (updateStatus c)) (\<lambda>_. case u of
        None \<Rightarrow> ok ()
      | Some u \<Rightarrow> do { s \<leftarrow> signalUpgradeFinished E (updateStatus c) u;
                       case snd s of Inl err \<Rightarrow> fail err | Inr _ \<Rightarrow> ok () }))"
    if "run_state (ensurePods E c cm u) h = (Inr (), h')" for cm h h'
    using that
    by (intro emits_bindE emits_option emits_bind emits_sum emits_return emits_patchCluster_status
        emits_signalUpgradeFinished) (auto intro!: exI)
  have end_of: "emits ?P (do {
       r \<leftarrow> ensurePods E c cm u;
       case r of
         Inl err \<Rightarrow> if err = PodUpgradeFailed
           then (case u of Some u \<Rightarrow> do { _ \<leftarrow> signalUpgradeFailed E c u; fail err } | None \<Rightarrow> fail NilPanic)
           else fail err
       | Inr _ \<Rightarrow> bindE (patchCluster E c (updateStatus c)) (\<lambda>_. case u of
            None \<Rightarrow> ok ()
          | Some u \<Rightarrow> do { s \<leftarrow> signalUpgradeFinished E (updateStatus c) u;
                           case snd s of Inl err \<Rightarrow> fail err | Inr _ \<Rightarrow> ok () }) })" for cm
  proof (rule emits_bind_run [OF pods])
    fix x h h'
    assume run: "run_state (ensurePods E c cm u) h = (x, h')"
    show "emits ?P (case x of
         Inl err \<Rightarrow> if err = PodUpgradeFailed
           then (case u of Some u \<Rightarrow> do { _ \<leftarrow> signalUpgradeFailed E c u; fail err } | None \<Rightarrow> fail NilPanic)
           else fail err
       | Inr _ \<Rightarrow> bindE (patchCluster E c (updateStatus c)) (\<lambda>_. case u of
            None \<Rightarrow> ok ()
          | Some u \<Rightarrow> do { s \<leftarrow> signalUpgradeFinished E (updateStatus c) u;
                           case snd s of Inl err \<Rightarrow> fail err | Inr _ \<Rightarrow> ok () }))"
    proof (cases x)
      case (Inl err)
      then show ?thesis using avoidsD [OF avoids_ensurePods run] by (auto intro!: emits_intro)
    next
      case (Inr u)
      then show ?thesis using finish run by simp
    qed
  qed
  show ?thesis unfolding reconcile_def Let_def
    by (intro emits_intro end_of) (auto intro!: emits_intro)
qed

end
