(* ===== verification/BackupRestore.thy ===== *)
theory BackupRestore
  imports Constants Status ClusterBackups
begin

text \<open>
  \<^verbatim>\<open>pkg/backuprestore\<close>: the handler that runs a backup or a restore as a Kubernetes job,
  whichever of the two it is given. The Go interface is the method table \<open>I\<close>; the object the
  handler changes in place is passed on explicitly.
\<close>

section \<open>Model\<close>

subsection \<open>constants.go and utils.go\<close>

definition secretVolumeName :: string where "secretVolumeName = ''secret''"
definition secretVolumeMountPath :: string where "secretVolumeMountPath = ''/secret''"
definition jobBackoffLimit :: int where "jobBackoffLimit = 3"

definition GetMetadataObjectName :: "string \<Rightarrow> string" where
  "GetMetadataObjectName n = n @ ''.json''"

definition GetBackupObjectName :: "string \<Rightarrow> string" where
  "GetBackupObjectName n = n @ ''.asb.gz''"

subsection \<open>status.go\<close>

definition br_updateStatus :: "'o BackupRestoreObject \<Rightarrow> env \<Rightarrow> 'o \<Rightarrow> unit acte" where
  "br_updateStatus I E obj =
     (case GetOperationType I of
        OperationTypeBackup \<Rightarrow>
          (case assert_backup I obj of Some b \<Rightarrow> Backups_UpdateStatus E b | None \<Rightarrow> fail NilPanic)
      | OperationTypeRestore \<Rightarrow>
          (case assert_restore I obj of Some r \<Rightarrow> Restores_UpdateStatus E r | None \<Rightarrow> fail NilPanic))"

definition isFailedOrFinished :: "'o BackupRestoreObject \<Rightarrow> 'o \<Rightarrow> bool" where
  "isFailedOrFinished I obj =
     list_ex (\<lambda>c. (c_Type c = GetFinishedConditionType I \<or> c_Type c = GetFailedConditionType I)
                  \<and> c_Status c = ConditionTrue) (GetConditions I obj)"

subsection \<open>secret.go\<close>

definition temp_secret :: "'o BackupRestoreObject \<Rightarrow> Secret \<Rightarrow> 'o \<Rightarrow> Secret" where
  "temp_secret I secret obj =
     \<lparr>sec_Meta = zero_meta\<lparr>
        om_GenerateName := sec_Name secret @ ''-'',
        om_Labels := Some (map_lit [(LabelAppKey, LabelAppVal), (op_string (GetOperationType I), GetName I obj)]),
        om_OwnerReferences := [\<lparr>or_APIVersion = SchemeGroupVersion, or_Kind = GetKind I,
          or_Name = GetName I obj, or_UID = om_UID (GetObjectMeta I obj),
          or_Controller = Some True, or_BlockOwnerDeletion = Some True\<rparr>]\<rparr>,
      sec_Data = sec_Data secret, sec_Type = sec_Type secret\<rparr>"

definition createTempSecret :: "'o BackupRestoreObject \<Rightarrow> env \<Rightarrow> Secret \<Rightarrow> 'o \<Rightarrow> Secret acte" where
  "createTempSecret I E secret obj = Secrets_Create E (GetNamespace I obj) (temp_secret I secret obj)"

definition getSecret :: "'o BackupRestoreObject \<Rightarrow> env \<Rightarrow> 'o \<Rightarrow> Secret acte" where
  "getSecret I E obj =
     (case GetStorage I obj of
        None \<Rightarrow> fail NilPanic
      | Some storage \<Rightarrow>
          (let namespace = GetSecretNamespace storage (GetNamespace I obj) in
           bindE (Secrets_Get E namespace (GetSecret storage)) (\<lambda>secret.
           if namespace = GetNamespace I obj then ok secret
           else createTempSecret I E secret obj)))"

definition clearSecrets :: "'o BackupRestoreObject \<Rightarrow> env \<Rightarrow> 'o \<Rightarrow> unit acte" where
  "clearSecrets I E obj =
     bindE (Secrets_List E (GetNamespace I obj) (ResourcesByBackupRestoreObject I obj)) (\<lambda>secrets.
     forE secrets (\<lambda>secret. Secrets_Delete E (om_Namespace (sec_Meta secret)) (sec_Name secret)))"

subsection \<open>job.go\<close>

definition getJobName :: "'o BackupRestoreObject \<Rightarrow> 'o \<Rightarrow> string" where
  "getJobName I obj = GetName I obj @ ''-'' @ op_string (GetOperationType I)"

definition build_job ::
    "'o BackupRestoreObject \<Rightarrow> env \<Rightarrow> 'o \<Rightarrow> BackupStorageSpec \<Rightarrow> Secret \<Rightarrow> Job" where
  "build_job I E obj storage secret =
     (let m = GetObjectMeta I obj; target = GetTarget I obj
      in \<lparr>job_Meta = zero_meta\<lparr>
            om_Name := getJobName I obj,
            om_Labels := Some (map_lit [(LabelAppKey, LabelAppVal),
                                        (LabelClusterKey, tn_Cluster target),
                                        (LabelNamespaceKey, tn_Namespace target)]),
            om_Namespace := om_Namespace m,
            om_OwnerReferences := [\<lparr>or_APIVersion = SchemeGroupVersion, or_Kind = GetKind I,
              or_Name = om_Name m, or_UID = om_UID m,
              or_Controller = Some True, or_BlockOwnerDeletion = Some True\<rparr>]\<rparr>,
          job_TemplateMeta = zero_meta\<lparr>
            om_Name := op_string (GetOperationType I), om_Namespace := om_Namespace m\<rparr>,
          job_Containers = [zero_container\<lparr>
            ct_Name := ''aerospike-operator-tools'',
            ct_Image := ''quay.io/travelaudience/aerospike-operator-tools:'' @ env_OperatorVersion E,
            ct_ImagePullPolicy := ''Always'',
            ct_Command := [''backup'', op_string (GetOperationType I),
              ''-debug='' @ (if env_DebugEnabled E then ''true'' else ''false''),
              ''-bucket-name='' @ bs_Bucket storage,
              ''-name='' @ om_Name m,
              ''-secret-path='' @ secretVolumeMountPath @ ''/'' @ GetSecretKey storage,
              ''-host='' @ tn_Cluster target @ ''.'' @ GetNamespace I obj,
              ''-namespace='' @ tn_Namespace target],
            ct_VolumeMounts := [\<lparr>vm_Name = secretVolumeName, vm_MountPath = secretVolumeMountPath, vm_ReadOnly = True\<rparr>]\<rparr>],
          job_RestartPolicy = ''Never'',
          job_Volumes = [\<lparr>vol_Name = secretVolumeName, vol_Source = SecretVolume (sec_Name secret)\<rparr>],
          job_BackoffLimit = jobBackoffLimit,
          job_Conditions = [], job_Failed = 0\<rparr>)"

definition createJob :: "'o BackupRestoreObject \<Rightarrow> env \<Rightarrow> 'o \<Rightarrow> Secret \<Rightarrow> Job acte" where
  "createJob I E obj secret =
     (case GetStorage I obj of
        None \<Rightarrow> fail NilPanic
      | Some storage \<Rightarrow>
          (let secretKey = GetSecretKey storage in
           if gm_get (sec_Data secret) secretKey = None
           then fail (Errorf ''secret does not contain expected field %q'' [AStr secretKey])
           else Jobs_Create E (build_job I E obj storage secret)))"

subsection \<open>handler.go\<close>

definition job_condition :: "string \<Rightarrow> string \<Rightarrow> int \<Rightarrow> Condition" where
  "job_condition t msg now = \<lparr>c_Type = t, c_Status = ConditionTrue, c_Reason = [], c_Message = msg,
     c_LastTransitionTime = now\<rparr>"

definition launchJob :: "'o BackupRestoreObject \<Rightarrow> env \<Rightarrow> 'o \<Rightarrow> Secret \<Rightarrow> 'o acte" where
  "launchJob I E obj secret =
     bindE (createJob I E obj secret) (\<lambda>job. do {
       Record EventTypeNormal ReasonJobCreated;
       now \<leftarrow> Now E;
       let condition = job_condition (GetStartedConditionType I)
             (op_string (GetOperationType I) @ '' job created as '' @ Key E (job_Meta job)) now;
       ok (SetConditions I (GetConditions I obj @ [condition]) obj)
     })"

text \<open>The first complete or failed condition of the job; \<open>None\<close> is the empty condition type.\<close>

datatype job_outcome = JobComplete | JobFailed

fun outcome_of :: "JobCondition list \<Rightarrow> job_outcome option" where
  "outcome_of [] = None"
| "outcome_of (c # rest) =
     (if jc_Type c = ''Complete'' \<and> jc_Status c = ''True'' then Some JobComplete
      else if jc_Type c = ''Failed'' \<and> jc_Status c = ''True'' then Some JobFailed
      else outcome_of rest)"

definition maybeSetConditions :: "'o BackupRestoreObject \<Rightarrow> env \<Rightarrow> 'o \<Rightarrow> Job \<Rightarrow> 'o act" where
  "maybeSetConditions I E obj job =
     (case outcome_of (job_Conditions job) of
        None \<Rightarrow> ret obj
      | Some JobComplete \<Rightarrow> do {
          Record EventTypeNormal ReasonJobFinished;
          now \<leftarrow> Now E;
          ret (SetConditions I (GetConditions I obj @ [job_condition (GetFinishedConditionType I)
            (op_string (GetOperationType I) @ '' job has finished'') now]) obj)
        }
      | Some JobFailed \<Rightarrow> do {
          Record EventTypeWarning ReasonJobFailed;
          now \<leftarrow> Now E;
          ret (SetConditions I (GetConditions I obj @ [job_condition (GetFailedConditionType I)
            (op_string (GetOperationType I) @ '' job failed '' @ itoa (job_Failed job) @ '' times'') now]) obj)
        })"

text \<open>The storage of an object without one of its own is that of its cluster.\<close>

definition with_storage :: "'o BackupRestoreObject \<Rightarrow> env \<Rightarrow> 'o \<Rightarrow> 'o acte" where
  "with_storage I E obj =
     (if GetStorage I obj = None
      then bindE (Clusters_Get E (GetNamespace I obj) (tn_Cluster (GetTarget I obj))) (\<lambda>c.
        case spec_BackupSpec (asc_Spec c) of
          None \<Rightarrow> fail NilPanic
        | Some spec \<Rightarrow> ok (SetStorage I (Some (cb_Storage spec)) obj))
      else ok obj)"

text \<open>The job of an object: looked up, launched when missing, else evaluated.\<close>

definition run_job :: "'o BackupRestoreObject \<Rightarrow> env \<Rightarrow> 'o \<Rightarrow> 'o acte" where
  "run_job I E obj = do {
     r \<leftarrow> Jobs_Get E (om_Namespace (GetObjectMeta I obj)) (getJobName I obj);
     case r of
       Inl err \<Rightarrow>
         if IsNotFound err
         then bindE (getSecret I E obj) (\<lambda>secret. launchJob I E obj secret)
         else fail err
     | Inr job \<Rightarrow> do { obj' \<leftarrow> maybeSetConditions I E obj job; ok obj' }
   }"

definition Handle :: "'o BackupRestoreObject \<Rightarrow> env \<Rightarrow> 'o \<Rightarrow> unit acte" where
  "Handle I E obj =
     (if isFailedOrFinished I obj
      then (let (obj', changed) = SyncStatusWithSpec I obj in
            bindE (if changed then br_updateStatus I E obj' else ok ()) (\<lambda>_.
            clearSecrets I E obj'))
      else bindE (with_storage I E obj) (\<lambda>obj1.
        bindE (run_job I E obj1) (\<lambda>obj2.
        br_updateStatus I E (fst (SyncStatusWithSpec I obj2)))))"

section \<open>Facts\<close>

lemma isFailedOrFinished_iff:
  "isFailedOrFinished I obj \<longleftrightarrow>
     has_condition (GetFinishedConditionType I) (GetConditions I obj) \<or>
     has_condition (GetFailedConditionType I) (GetConditions I obj)"
  by (auto simp: isFailedOrFinished_def has_condition_def list_ex_iff)

text \<open>The conditions a status update writes.\<close>

fun written_conditions :: "event \<Rightarrow> Condition list option" where
  "written_conditions (EvUpdateBackupStatus b _) = Some (bks_Conditions (asnb_Status b))"
| "written_conditions (EvUpdateRestoreStatus r _) = Some (res_Conditions (asnr_Status r))"
| "written_conditions _ = None"

lemma not_written [simp]: "\<not> writes e \<Longrightarrow> written_conditions e = None"
  by (cases e) simp_all

text \<open>What the calls of one run of the handler may be, given the object it was started on.\<close>

definition handler_call :: "'o BackupRestoreObject \<Rightarrow> env \<Rightarrow> 'o \<Rightarrow> event \<Rightarrow> bool" where
  "handler_call I E obj e \<longleftrightarrow>
     (\<forall>cs. written_conditions e = Some cs \<longrightarrow>
        (\<exists>new. cs = GetConditions I obj @ new \<and> length new \<le> 1 \<and>
           (isFailedOrFinished I obj \<longrightarrow> new = []))) \<and>
     (\<forall>j r. e = EvCreateJob j r \<longrightarrow>
        \<not> isFailedOrFinished I obj \<and>
        om_Name (job_Meta j) = getJobName I obj \<and> om_Namespace (job_Meta j) = GetNamespace I obj \<and>
        (\<exists>h. env_get_job E h (GetNamespace I obj) (getJobName I obj) = Inl NotFound)) \<and>
     (\<forall>n x r. e = EvDeleteSecret n x r \<longrightarrow> isFailedOrFinished I obj) \<and>
     \<not> touches_pods e \<and> \<not> touches_pvcs e"

lemma reads_handler_call [simp]: "\<not> writes e \<Longrightarrow> handler_call I E obj e"
  by (cases e) (simp_all add: handler_call_def)

context backup_restore_object
begin

lemma with_storage_ok:
  assumes "run_state (with_storage I E obj) h = (Inr obj', h')"
  shows "GetConditions I obj' = GetConditions I obj" and "GetObjectMeta I obj' = GetObjectMeta I obj"
    and "GetStorage I obj' \<noteq> None" and "GetTarget I obj' = GetTarget I obj"
  using assms by (auto simp: with_storage_def map_sum_def split: if_splits sum.splits option.splits)

lemma run_job_ok:
  assumes "run_state (run_job I E obj) h = (Inr obj', h')"
  shows "\<exists>new. GetConditions I obj' = GetConditions I obj @ new \<and> length new \<le> 1"
  using assms unfolding run_job_def launchJob_def maybeSetConditions_def
  by (auto split: prod.splits sum.splits if_splits option.splits job_outcome.splits)

lemma emits_update:
  assumes "\<And>cs e. written_conditions e = Some cs \<Longrightarrow> cs = GetConditions I obj' \<Longrightarrow>
      (\<exists>b r. e = EvUpdateBackupStatus b r) \<or> (\<exists>b r. e = EvUpdateRestoreStatus b r) \<Longrightarrow> P e"
  shows "emits P (br_updateStatus I E obj')"
  unfolding br_updateStatus_def
  by (auto intro!: emits_intro assms backup_conditions restore_conditions
      split: OperationType.split option.split)

lemma emits_run_job:
  assumes live: "\<not> isFailedOrFinished I obj"
    and same: "GetConditions I obj1 = GetConditions I obj" "GetObjectMeta I obj1 = GetObjectMeta I obj"
  shows "emits (handler_call I E obj) (run_job I E obj1)"
proof -
  have nn: "getJobName I obj1 = getJobName I obj" "GetNamespace I obj1 = GetNamespace I obj"
    "om_Namespace (GetObjectMeta I obj) = GetNamespace I obj"
    by (simp_all add: getJobName_def GetName_def GetNamespace_def same)
  have secret: "emits (handler_call I E obj) (getSecret I E obj1)"
    unfolding getSecret_def createTempSecret_def Let_def
    by (auto intro!: emits_intro simp: handler_call_def)
  have launch: "emits (handler_call I E obj) (launchJob I E obj1 s)"
    if "env_get_job E h (GetNamespace I obj) (getJobName I obj) = Inl NotFound" for s h
    using that live unfolding launchJob_def createJob_def Let_def
    by (auto intro!: emits_intro simp: handler_call_def build_job_def Let_def nn same)
  show ?thesis
    unfolding run_job_def
  proof (rule emits_bind_run)
    fix r h h'
    assume "run_state (Jobs_Get E (om_Namespace (GetObjectMeta I obj1)) (getJobName I obj1)) h = (r, h')"
    then have r: "r = map_sum ApiErr id (env_get_job E h (GetNamespace I obj) (getJobName I obj))"
      by (simp add: same nn)
    show "emits (handler_call I E obj)
        (case r of
           Inl err \<Rightarrow> if IsNotFound err then bindE (getSecret I E obj1) (launchJob I E obj1) else fail err
         | Inr job \<Rightarrow> maybeSetConditions I E obj1 job \<bind> (\<lambda>obj'. ok obj'))"
      using secret launch [of h] unfolding r maybeSetConditions_def
      by (auto intro!: emits_intro simp: map_sum_def split: sum.splits option.splits job_outcome.splits)
  qed (auto intro!: emits_intro)
qed

lemma emits_Handle: "emits (handler_call I E obj) (Handle I E obj)"
proof (cases "isFailedOrFinished I obj")
  case True
  have "emits (handler_call I E obj) (br_updateStatus I E (fst (SyncStatusWithSpec I obj)))"
    by (rule emits_update) (auto simp: handler_call_def True)
  moreover have "emits (handler_call I E obj) (clearSecrets I E x)" for x
    unfolding clearSecrets_def by (auto intro!: emits_intro simp: handler_call_def True)
  ultimately show ?thesis
    using True unfolding Handle_def by (auto intro!: emits_intro split: prod.splits)
next
  case False
  have reads: "emits (handler_call I E obj) (with_storage I E obj)"
    unfolding with_storage_def by (auto intro!: emits_intro)
  have "emits (handler_call I E obj) (bindE (run_job I E obj1) (\<lambda>obj2.
        br_updateStatus I E (fst (SyncStatusWithSpec I obj2))))"
    if "run_state (with_storage I E obj) h = (Inr obj1, h')" for obj1 h h'
  proof (rule emits_bindE_run)
    note same = with_storage_ok [OF that]
    show "emits (handler_call I E obj) (run_job I E obj1)" by (rule emits_run_job [OF False same(1,2)])
    fix obj2 h2 h3
    assume "run_state (run_job I E obj1) h2 = (Inr obj2, h3)"
    from run_job_ok [OF this] show "emits (handler_call I E obj)
        (br_updateStatus I E (fst (SyncStatusWithSpec I obj2)))"
      by (intro emits_update) (auto simp: handler_call_def same False)
  qed
  then show ?thesis
    using False unfolding Handle_def by (auto intro!: emits_bindE_run [OF reads])
qed

end

end
