(* ===== verification/GarbageCollector.thy ===== *)
theory GarbageCollector
  imports BackupRestore Pvcs
begin

text \<open>
  \<^verbatim>\<open>pkg/garbagecollector\<close>: the deletion of expired backups (with their data in cloud
  storage) and of expired persistent volume claims; with the part of
  \<^verbatim>\<open>pkg/backuprestore/gcs\<close> it uses.
\<close>

section \<open>Model\<close>

subsection \<open>gcs/gcs.go\<close>

text \<open>The handle of an object; the bucket's attributes are read to know that the bucket exists.\<close>

definition GetObject :: "env \<Rightarrow> string \<Rightarrow> string \<Rightarrow> (string \<times> string) acte" where
  "GetObject E bucketName objectName =
     bindE (Gcs_Attrs E bucketName) (\<lambda>_. ok (bucketName, objectName))"

definition DeleteObject :: "env \<Rightarrow> string \<Rightarrow> string \<Rightarrow> unit acte" where
  "DeleteObject E bucketName objectName =
     bindE (GetObject E bucketName objectName) (\<lambda>(b, n). Gcs_Delete E b n)"

subsection \<open>garbagecollector/gcs.go\<close>

text \<open>\<open>secret.Data[k]\<close> of a missing key is the nil slice.\<close>

definition deleteBackupDataGCS :: "env \<Rightarrow> AerospikeNamespaceBackup \<Rightarrow> unit acte" where
  "deleteBackupDataGCS E asBackup =
     (case bk_Storage (asnb_Spec asBackup) of
        None \<Rightarrow> fail NilPanic
      | Some storage \<Rightarrow>
          (let namespace = GetSecretNamespace storage (om_Namespace (asnb_Meta asBackup));
               name = om_Name (asnb_Meta asBackup)
           in bindE (Secrets_Get E namespace (GetSecret storage)) (\<lambda>secret.
              bindE (Gcs_NewClient E (str_at (sec_Data secret) (GetSecretKey storage))) (\<lambda>_.
              bindE (DeleteObject E (bs_Bucket storage) (GetMetadataObjectName name)) (\<lambda>_.
              DeleteObject E (bs_Bucket storage) (GetBackupObjectName name))))))"

subsection \<open>garbagecollector/asbackups.go\<close>

definition backup_ttl :: "AerospikeNamespaceBackup \<Rightarrow> AerospikeCluster \<Rightarrow> string option" where
  "backup_ttl asBackup c =
     (case bk_TTL (asnb_Spec asBackup) of
        Some p \<Rightarrow> Some (deref p)
      | None \<Rightarrow> (case spec_BackupSpec (asc_Spec c) of None \<Rightarrow> None | Some spec \<Rightarrow> cb_TTL spec))"

text \<open>
  The deletion of an expired backup. A storage taken from the cluster is the address of a field
  and never nil; the cluster's backup spec itself may be.
\<close>

definition delete_backup :: "env \<Rightarrow> AerospikeNamespaceBackup \<Rightarrow> AerospikeCluster \<Rightarrow> unit acte" where
  "delete_backup E asBackup c =
     liftE (case bk_Storage (asnb_Spec asBackup) of
              Some storage \<Rightarrow> Inr storage
            | None \<Rightarrow> (case spec_BackupSpec (asc_Spec c) of
                None \<Rightarrow> Inl NilPanic | Some spec \<Rightarrow> Inr (cb_Storage spec))) (\<lambda>storage.
     let asBackup' = asBackup\<lparr>asnb_Spec := (asnb_Spec asBackup)\<lparr>bk_Storage := Some storage\<rparr>\<rparr> in
     if bs_Type storage = StorageTypeGCS
     then do {
       _ \<leftarrow> deleteBackupDataGCS E asBackup';
       Backups_Delete E (om_Namespace (asnb_Meta asBackup)) (om_Name (asnb_Meta asBackup))
     }
     else fail (Errorf ''storage type not supported'' []))"

definition Backup_Handle :: "env \<Rightarrow> AerospikeNamespaceBackup \<Rightarrow> unit acte" where
  "Backup_Handle E asBackup =
     bindE (Clusters_Get E (om_Namespace (asnb_Meta asBackup)) (tn_Cluster (bk_Target (asnb_Spec asBackup)))) (\<lambda>c.
     case backup_ttl asBackup c of
       None \<Rightarrow> ok ()
     | Some ttl \<Rightarrow>
         liftE (ParseDuration E ttl) (\<lambda>objExpiration.
         if objExpiration = 0 then ok ()
         else do {
           now \<leftarrow> Now E;
           if now > om_CreationTimestamp (asnb_Meta asBackup) + objExpiration
           then delete_backup E asBackup c
           else ok ()
         }))"

subsection \<open>garbagecollector/pvcs.go\<close>

definition mounts_claim :: "Pod \<Rightarrow> string \<Rightarrow> bool" where
  "mounts_claim pod claim \<longleftrightarrow>
     list_ex (\<lambda>volume. case vol_Source volume of
                PersistentVolumeClaimVolume ClaimName \<Rightarrow> ClaimName = claim | _ \<Rightarrow> False)
       (ps_Volumes (pod_Spec pod))"

definition PVC_Handle :: "env \<Rightarrow> PersistentVolumeClaim \<Rightarrow> unit acte" where
  "PVC_Handle E pvc =
     (case pvc_Annotation pvc LastUnmountedOnAnnotation of
        None \<Rightarrow> ok ()
      | Some s \<Rightarrow>
          liftE (of_client (env_parse_rfc3339 E s)) (\<lambda>lastUnmountedOn.
          case pvc_Annotation pvc PVCTTLAnnotation of
            None \<Rightarrow> fail (Errorf ''could not retrieve ttl from annotations'' [])
          | Some ttl \<Rightarrow>
              liftE (ParseDuration E ttl) (\<lambda>objExpiration.
              if objExpiration = 0 then ok ()
              else do {
                now \<leftarrow> Now E;
                if now < lastUnmountedOn + objExpiration then ok ()
                else (case pvc_Annotation pvc PodAnnotation of
                  None \<Rightarrow> fail (Errorf ''could not retrieve pod-name from annotations'' [])
                | Some podName \<Rightarrow> do {
                    r \<leftarrow> Pods_Get E (om_Namespace (pvc_Meta pvc)) podName;
                    let delete = PVCs_Delete E (om_Namespace (pvc_Meta pvc)) (pvc_Name pvc);
                    case r of
                      Inr pod \<Rightarrow> if mounts_claim pod (pvc_Name pvc) then ok () else delete
                    | Inl err \<Rightarrow> if \<not> IsNotFound err then fail err else delete
                  })
              })))"

section \<open>Facts\<close>

lemma emits_DeleteObject [emits_intro]:
  assumes "\<And>e. \<not> writes e \<Longrightarrow> P e" and "\<And>r. P (EvDeleteObject b n r)"
  shows "emits P (DeleteObject E b n)"
  unfolding DeleteObject_def
proof (rule emits_bindE_run)
  fix x h h'
  assume "run_state (GetObject E b n) h = (Inr x, h')"
  then have "x = (b, n)" by (auto simp: GetObject_def map_sum_def split: sum.splits)
  then show "emits P (case x of (b, n) \<Rightarrow> Gcs_Delete E b n)" by (auto intro!: emits_intro assms)
qed (auto simp: GetObject_def intro!: emits_intro assms)

lemma deleteBackupDataGCS_calls:
  "emits (\<lambda>e. \<not> writes e \<or> (\<exists>b n r. e = EvDeleteObject b n r \<and>
       n \<in> {GetMetadataObjectName (om_Name (asnb_Meta bk)), GetBackupObjectName (om_Name (asnb_Meta bk))}))
     (deleteBackupDataGCS E bk)"
  unfolding deleteBackupDataGCS_def Let_def
  by (auto intro!: emits_intro)

text \<open>A deletion, of the resource or of its data, only ever follows a reading of the clock past
  the expiry that the backup's (or its cluster's) TTL sets.\<close>

definition backup_expired :: "env \<Rightarrow> AerospikeNamespaceBackup \<Rightarrow> bool" where
  "backup_expired E bk \<longleftrightarrow>
     (\<exists>h c ttl d. env_get_cluster E h (om_Namespace (asnb_Meta bk)) (tn_Cluster (bk_Target (asnb_Spec bk))) = Inr c \<and>
        backup_ttl bk c = Some ttl \<and> ParseDuration E ttl = Inr d \<and> d \<noteq> 0 \<and>
        (\<exists>h'. env_now E h' > om_CreationTimestamp (asnb_Meta bk) + d))"

lemma Backup_Handle_expired:
  "emits (\<lambda>e. writes e \<longrightarrow> backup_expired E bk) (Backup_Handle E bk)"
  unfolding Backup_Handle_def
proof (rule emits_bindE_run)
  fix c h h'
  assume "run_state (Clusters_Get E (om_Namespace (asnb_Meta bk)) (tn_Cluster (bk_Target (asnb_Spec bk)))) h
    = (Inr c, h')"
  then have c: "env_get_cluster E h (om_Namespace (asnb_Meta bk)) (tn_Cluster (bk_Target (asnb_Spec bk))) = Inr c"
    by (auto simp: map_sum_def split: sum.splits)
  show "emits (\<lambda>e. writes e \<longrightarrow> backup_expired E bk) (case backup_ttl bk c of
       None \<Rightarrow> ok ()
     | Some ttl \<Rightarrow> liftE (ParseDuration E ttl) (\<lambda>objExpiration.
         if objExpiration = 0 then ok ()
         else do {
           now \<leftarrow> Now E;
           if now > om_CreationTimestamp (asnb_Meta bk) + objExpiration then delete_backup E bk c else ok ()
         }))"
  proof (intro emits_option emits_liftE emits_if emits_return emits_bind_run)
    fix ttl d now h h'
    assume "backup_ttl bk c = Some ttl" "ParseDuration E ttl = Inr d" "d \<noteq> 0"
      "run_state (Now E) h = (now, h')" "om_CreationTimestamp (asnb_Meta bk) + d < now"
    then have "backup_expired E bk"
      unfolding backup_expired_def using c by (fastforce intro: exI [of _ h])
    moreover have "emits (\<lambda>_. True) (delete_backup E bk c)"
      unfolding delete_backup_def Let_def
      by (auto intro!: emits_intro emits_weaken [OF deleteBackupDataGCS_calls] split: option.splits)
    ultimately show "emits (\<lambda>e. writes e \<longrightarrow> backup_expired E bk) (delete_backup E bk c)"
      by (auto elim: emits_weaken)
  qed (auto intro!: emits_intro)
qed (auto intro!: emits_intro)

text \<open>
  A claim is only deleted when its lease is over at some reading of the clock and no pod of its
  name mounts it.
\<close>

definition lease_over :: "env \<Rightarrow> PersistentVolumeClaim \<Rightarrow> int \<Rightarrow> bool" where
  "lease_over E pvc now \<longleftrightarrow> (\<exists>t d. pvc_lease E pvc = Some (t, d) \<and> d \<noteq> 0 \<and> t + d \<le> now)"

lemma PVC_Handle_deletes:
  assumes "run_state (PVC_Handle E pvc) h = (r, h')" and "EvDeletePVC ns n b \<in> set (drop (length h) h')"
  shows "ns = om_Namespace (pvc_Meta pvc) \<and> n = pvc_Name pvc \<and> lease_over E pvc (env_now E h) \<and>
    (\<exists>podName h1. pvc_Annotation pvc PodAnnotation = Some podName \<and>
       (env_get_pod E h1 ns podName = Inl NotFound \<or>
        (\<exists>pod. env_get_pod E h1 ns podName = Inr pod \<and> \<not> mounts_claim pod n)))"
  using assms unfolding PVC_Handle_def Let_def
  by (auto simp: lease_over_def pvc_lease_def map_sum_def
      split: option.splits sum.splits if_splits; blast)

text \<open>At one instant a claim is not both up for deletion and reusable by the reconciler.\<close>

lemma lease_over_not_reusable: "lease_over E pvc now \<Longrightarrow> \<not> reusable E now pvc"
  by (auto simp: lease_over_def reusable_def)

end
