(* ===== verification/Controllers.thy ===== *)
theory Controllers
  imports Reconciler GarbageCollector
begin

text \<open>
  \<^verbatim>\<open>pkg/controller\<close>: how the four controllers turn events of the cluster into keys of
  their work queue and keys back into runs of their handler. The queue itself
  (\<^verbatim>\<open>client-go/util/workqueue\<close>) is outside the repository: what is modelled is which of
  its operations the code calls.
\<close>

section \<open>Model\<close>

subsection \<open>generic.go\<close>

text \<open>
  \<open>processNextWorkItem\<close>: the calls on the queue, in their order, for the item it was given.
  \<open>defer c.workqueue.Done(obj)\<close> comes last.
\<close>

datatype work_item = StringItem string | OtherItem

datatype queue_call = QForget work_item | QDone work_item | QAddRateLimited string

definition processNextWorkItem ::
    "(string \<Rightarrow> unit acte) \<Rightarrow> work_item \<Rightarrow> queue_call list act" where
  "processNextWorkItem syncHandler obj =
     (case obj of
        OtherItem \<Rightarrow> ret [QForget obj, QDone obj]
      | StringItem key \<Rightarrow> do {
          r \<leftarrow> syncHandler key;
          case r of
            Inl err \<Rightarrow> ret [QDone obj]
          | Inr _ \<Rightarrow> ret [QForget obj, QDone obj]
        })"

definition enqueue :: "env \<Rightarrow> ObjectMeta \<Rightarrow> queue_call list" where
  "enqueue E m = (case env_meta_key E m of Inl err \<Rightarrow> [] | Inr key \<Rightarrow> [QAddRateLimited key])"

subsection \<open>Events on owned objects\<close>

text \<open>
  The objects the event handlers of the informers are given: an object, the tombstone of a deleted
  object whose last state may be unknown, or neither.
\<close>

datatype informer_object = Object ObjectMeta | Tombstone "ObjectMeta option" | NotAnObject

text \<open>
  \<open>handleObject\<close> of the cluster, backup and restore controllers: they differ in the kind of the
  owner and in the lister that finds it.
\<close>

definition handle_owned ::
    "env \<Rightarrow> string \<Rightarrow> (string \<Rightarrow> string \<Rightarrow> ObjectMeta acte) \<Rightarrow> informer_object \<Rightarrow> queue_call list act" where
  "handle_owned E kind get_owner obj =
     (case (case obj of Object m \<Rightarrow> Some m | Tombstone m \<Rightarrow> m | NotAnObject \<Rightarrow> None) of
        None \<Rightarrow> ret []
      | Some object \<Rightarrow>
          (case env_controller_of E object of
             None \<Rightarrow> ret []
           | Some ownerRef \<Rightarrow>
               if or_Kind ownerRef \<noteq> kind then ret []
               else do {
                 r \<leftarrow> get_owner (om_Namespace object) (or_Name ownerRef);
                 case r of Inl err \<Rightarrow> ret [] | Inr owner \<Rightarrow> ret (enqueue E owner)
               }))"

definition Cluster_handleObject :: "env \<Rightarrow> informer_object \<Rightarrow> queue_call list act" where
  "Cluster_handleObject E =
     handle_owned E ''AerospikeCluster'' (\<lambda>ns n. bindE (Clusters_Get E ns n) (\<lambda>c. ok (asc_Meta c)))"

definition Backup_handleObject :: "env \<Rightarrow> informer_object \<Rightarrow> queue_call list act" where
  "Backup_handleObject E =
     handle_owned E ''AerospikeNamespaceBackup'' (\<lambda>ns n. bindE (Backups_Get E ns n) (\<lambda>b. ok (asnb_Meta b)))"

definition Restore_handleObject :: "env \<Rightarrow> informer_object \<Rightarrow> queue_call list act" where
  "Restore_handleObject E =
     handle_owned E ''AerospikeNamespaceRestore'' (\<lambda>ns n. bindE (Restores_Get E ns n) (\<lambda>r. ok (asnr_Meta r)))"

text \<open>The update handlers drop the updates of a periodic resync.\<close>

definition update_handler ::
    "(informer_object \<Rightarrow> queue_call list act) \<Rightarrow> ObjectMeta \<Rightarrow> ObjectMeta \<Rightarrow> queue_call list act" where
  "update_handler handleObject old new =
     (if om_ResourceVersion new = om_ResourceVersion old then ret [] else handleObject (Object new))"

subsection \<open>processQueueItem\<close>

definition Cluster_processQueueItem :: "env \<Rightarrow> string \<Rightarrow> unit acte" where
  "Cluster_processQueueItem E key =
     (case env_split_key E key of
        Inl err \<Rightarrow> ok ()
      | Inr (namespace, name) \<Rightarrow> do {
          r \<leftarrow> Clusters_Get E namespace name;
          case r of
            Inl err \<Rightarrow> if IsNotFound err then ok () else fail err
          | Inr c \<Rightarrow> MaybeReconcile E c
        })"

definition Backup_processQueueItem :: "env \<Rightarrow> string \<Rightarrow> unit acte" where
  "Backup_processQueueItem E key =
     (case env_split_key E key of
        Inl err \<Rightarrow> ok ()
      | Inr (namespace, name) \<Rightarrow> do {
          r \<leftarrow> Backups_Get E namespace name;
          case r of
            Inl err \<Rightarrow> if IsNotFound err then ok () else fail err
          | Inr b \<Rightarrow> Handle Backup_methods E b
        })"

definition Restore_processQueueItem :: "env \<Rightarrow> string \<Rightarrow> unit acte" where
  "Restore_processQueueItem E key =
     (case env_split_key E key of
        Inl err \<Rightarrow> ok ()
      | Inr (namespace, name) \<Rightarrow> do {
          r \<leftarrow> Restores_Get E namespace name;
          case r of
            Inl err \<Rightarrow> if IsNotFound err then ok () else fail err
          | Inr x \<Rightarrow> Handle Restore_methods E x
        })"

subsection \<open>garbagecollector.go\<close>

definition asnbPrefix :: string where "asnbPrefix = ''asnb''"
definition pvcPrefix :: string where "pvcPrefix = ''pvc''"

definition enqueueWithPrefix :: "env \<Rightarrow> ObjectMeta \<Rightarrow> string \<Rightarrow> queue_call list" where
  "enqueueWithPrefix E m prefix =
     (case env_meta_key E m of
        Inr key \<Rightarrow> [QAddRateLimited (prefix @ '':'' @ key)]
      | Inl err \<Rightarrow> [])"

definition GC_handleObject :: "env \<Rightarrow> informer_object \<Rightarrow> queue_call list" where
  "GC_handleObject E obj =
     (case obj of
        Object object \<Rightarrow>
          (case env_controller_of E object of
             Some ownerRef \<Rightarrow>
               if or_Kind ownerRef = ''AerospikeCluster'' then enqueueWithPrefix E object pvcPrefix else []
           | None \<Rightarrow> [])
      | _ \<Rightarrow> [])"

definition GC_processQueueItem :: "env \<Rightarrow> string \<Rightarrow> unit acte" where
  "GC_processQueueItem E prefixedKey =
     (case split_on (CHR '':'') prefixedKey of
        [prefix, key] \<Rightarrow>
          (case env_split_key E key of
             Inl err \<Rightarrow> ok ()
           | Inr (namespace, name) \<Rightarrow>
               if prefix = asnbPrefix
               then do {
                 r \<leftarrow> Backups_Get E namespace name;
                 case r of
                   Inl err \<Rightarrow> if IsNotFound err then ok () else fail err
                 | Inr b \<Rightarrow> Backup_Handle E b
               }
               else if prefix = pvcPrefix
               then do {
                 r \<leftarrow> PVCs_Get E namespace name;
                 case r of
                   Inl err \<Rightarrow> if IsNotFound err then ok () else fail err
                 | Inr pvc \<Rightarrow> PVC_Handle E pvc
               }
               else fail (Errorf ''invalid prefix %q'' [AStr prefix]))
      | _ \<Rightarrow> fail (Errorf ''invalid key format for garbagecollector controller: %q'' [AStr prefixedKey]))"

section \<open>Facts\<close>

text \<open>
  What client-go documents of its keys: the key of an object is its namespace and its name with a
  slash between them, and is taken apart into the two again. Names and namespaces of Kubernetes
  objects contain no colon.
\<close>

definition keys_roundtrip :: "env \<Rightarrow> ObjectMeta \<Rightarrow> string \<Rightarrow> bool" where
  "keys_roundtrip E m key \<longleftrightarrow>
     env_meta_key E m = Inr key \<and> env_split_key E key = Inr (om_Namespace m, om_Name m) \<and>
     CHR '':'' \<notin> set key"

lemma split_prefixed:
  "CHR '':'' \<notin> set prefix \<Longrightarrow> CHR '':'' \<notin> set key \<Longrightarrow>
     split_on (CHR '':'') (prefix @ '':'' @ key) = [prefix, key]"
  by (simp add: split_on_append split_on_no_sep)

end
