(* ===== verification/Admission.thy ===== *)
theory Admission
  imports KubeEnv Versioning
begin

text \<open>
  \<^verbatim>\<open>pkg/admission/cluster.go\<close> and \<^verbatim>\<open>pkg/admission/backups.go\<close>: the decisions of the
  validating admission webhook. Decoding of the raw objects is the API machinery's and is a
  parameter (\<open>decoders\<close>).
\<close>

section \<open>Model\<close>

definition AerospikeMeshSeedAddressMaxLength :: nat where "AerospikeMeshSeedAddressMaxLength = 63"
definition AerospikeClusterNameMaxLength :: nat where "AerospikeClusterNameMaxLength = 61"
definition aerospikeNamespaceMaxNameLen :: nat where "aerospikeNamespaceMaxNameLen = 23"
definition defaultNamespaceReplicationFactor :: int where "defaultNamespaceReplicationFactor = 2"

lemmas admission_consts = AerospikeMeshSeedAddressMaxLength_def AerospikeClusterNameMaxLength_def
  aerospikeNamespaceMaxNameLen_def defaultNamespaceReplicationFactor_def

datatype operation = Create | Update | Delete | Connect

record AdmissionRequest =
  req_UID :: string
  req_Operation :: operation
  req_Object :: string
  req_OldObject :: string

record AdmissionResponse =
  resp_UID :: string
  resp_Allowed :: bool
  resp_Result :: "gerr option"

text \<open>\<open>UniversalDeserializer().Decode\<close> of a non-empty raw object, and the zero objects.\<close>

record decoders =
  dec_cluster :: "string \<Rightarrow> string + AerospikeCluster"
  dec_backup :: "string \<Rightarrow> string + AerospikeNamespaceBackup"
  dec_restore :: "string \<Rightarrow> string + AerospikeNamespaceRestore"

definition zero_spec :: AerospikeClusterSpec where
  "zero_spec = \<lparr>spec_NodeCount = 0, spec_Version = [], spec_Namespaces = [], spec_BackupSpec = None,
     spec_Resources = None, spec_NodeSelector = None, spec_Tolerations = []\<rparr>"

definition zero_cluster :: AerospikeCluster where
  "zero_cluster = \<lparr>asc_Meta = zero_meta, asc_Spec = zero_spec,
     asc_Status = \<lparr>status_Spec = zero_spec, status_Conditions = []\<rparr>\<rparr>"

definition zero_backup :: AerospikeNamespaceBackup where
  "zero_backup = (let sp = \<lparr>bk_Target = \<lparr>tn_Cluster = [], tn_Namespace = []\<rparr>, bk_Storage = None,
       bk_TTL = None\<rparr>
     in \<lparr>asnb_Meta = zero_meta, asnb_Spec = sp, asnb_Status = \<lparr>bks_Spec = sp, bks_Conditions = []\<rparr>\<rparr>)"

definition zero_restore_status :: AerospikeNamespaceRestoreStatus where
  "zero_restore_status = \<lparr>res_Spec = \<lparr>re_Target = \<lparr>tn_Cluster = [], tn_Namespace = []\<rparr>,
     re_Storage = None\<rparr>, res_Conditions = []\<rparr>"

definition zero_restore :: AerospikeNamespaceRestore where
  "zero_restore = \<lparr>asnr_Meta = zero_meta, asnr_Spec = res_Spec zero_restore_status,
     asnr_Status = zero_restore_status\<rparr>"

definition decodeAerospikeCluster :: "decoders \<Rightarrow> string \<Rightarrow> gerr + AerospikeCluster" where
  "decodeAerospikeCluster D raw =
     (if length raw = 0 then Inr zero_cluster else of_client (dec_cluster D raw))"

definition decodeAerospikeNamespaceBackup ::
    "decoders \<Rightarrow> string \<Rightarrow> gerr + AerospikeNamespaceBackup" where
  "decodeAerospikeNamespaceBackup D raw =
     (if length raw = 0 then Inr zero_backup else of_client (dec_backup D raw))"

definition decodeAerospikeNamespaceRestore ::
    "decoders \<Rightarrow> string \<Rightarrow> gerr + AerospikeNamespaceRestore" where
  "decodeAerospikeNamespaceRestore D raw =
     (if length raw = 0 then Inr zero_restore else of_client (dec_restore D raw))"

definition admissionResponseFromError :: "gerr \<Rightarrow> AdmissionResponse" where
  "admissionResponseFromError err = \<lparr>resp_UID = [], resp_Allowed = False, resp_Result = Some err\<rparr>"

definition allowed :: AdmissionResponse where
  "allowed = \<lparr>resp_UID = [], resp_Allowed = True, resp_Result = None\<rparr>"

subsection \<open>Clusters\<close>

definition namespaceMap :: "AerospikeCluster \<Rightarrow> (string, AerospikeNamespaceSpec) fmap" where
  "namespaceMap c = fold (\<lambda>ns res. fmupd (ns_Name ns) ns res) (spec_Namespaces (asc_Spec c)) fmempty"

text \<open>
  Go ranges over a map in an unspecified order, which only decides which of several errors is
  reported; the model goes through the names in the order of the spec.
\<close>

definition namespace_names :: "AerospikeCluster \<Rightarrow> string list" where
  "namespace_names c = remdups (map ns_Name (spec_Namespaces (asc_Spec c)))"

fun check_removed :: "(string, AerospikeNamespaceSpec) fmap \<Rightarrow> string list \<Rightarrow> gerr + unit" where
  "check_removed newnss [] = Inr ()"
| "check_removed newnss (name # names) =
     (if fmlookup newnss name = None then Inl (Errorf ''cannot remove namespace %s'' [AStr name])
      else check_removed newnss names)"

fun check_changed ::
    "(string, AerospikeNamespaceSpec) fmap \<Rightarrow> (string, AerospikeNamespaceSpec) fmap \<Rightarrow> string list
     \<Rightarrow> gerr + unit" where
  "check_changed oldnss newnss [] = Inr ()"
| "check_changed oldnss newnss (name # names) =
     (case (fmlookup oldnss name, fmlookup newnss name) of
        (Some o1, Some n1) \<Rightarrow>
          (if ns_ReplicationFactor o1 \<noteq> None \<and> ns_ReplicationFactor n1 \<noteq> None \<and>
              ns_ReplicationFactor o1 \<noteq> ns_ReplicationFactor n1
           then Inl (Errorf ''cannot change the replication factor for namespace %s'' [AStr name])
           else if ns_Storage o1 \<noteq> ns_Storage n1
           then Inl (Errorf ''cannot change the storage spec for namespace %s'' [AStr name])
           else check_changed oldnss newnss names)
      | _ \<Rightarrow> check_changed oldnss newnss names)"

definition validateNamespaces :: "AerospikeCluster \<Rightarrow> AerospikeCluster \<Rightarrow> gerr + unit" where
  "validateNamespaces old new =
     (let oldnss = namespaceMap old; newnss = namespaceMap new in
      if fcard (fmdom newnss) < length (spec_Namespaces (asc_Spec new))
      then Inl (Errorf ''namespace names must be unique'' [])
      else case check_removed newnss (namespace_names old) of
             Inl e \<Rightarrow> Inl e
           | Inr _ \<Rightarrow> check_changed oldnss newnss (namespace_names new))"

definition validateVersion :: "AerospikeCluster \<Rightarrow> AerospikeCluster \<Rightarrow> gerr + unit" where
  "validateVersion old new =
     (if spec_Version (asc_Spec old) = spec_Version (asc_Spec new) then Inr ()
      else case NewVersionFromString (spec_Version (asc_Spec old)) of
             Inl err \<Rightarrow> Inl err
           | Inr sourceVersion \<Rightarrow>
               (case NewVersionFromString (spec_Version (asc_Spec new)) of
                  Inl err \<Rightarrow> Inl err
                | Inr targetVersion \<Rightarrow>
                    if \<not> IsValid \<lparr>Source = sourceVersion, Target = targetVersion\<rparr>
                    then Inl (Errorf ''cannot upgrade from version %v to %v''
                           [AStr (String sourceVersion), AStr (String targetVersion)])
                    else Inr ()))"

definition validateAerospikeClusterUpdate ::
    "AerospikeCluster \<Rightarrow> AerospikeCluster \<Rightarrow> gerr + unit" where
  "validateAerospikeClusterUpdate old new =
     (if spec_Version (asc_Spec old) \<noteq> spec_Version (asc_Spec new) \<and>
         asc_Spec old \<noteq> (asc_Spec new)\<lparr>spec_Version := spec_Version (asc_Spec old)\<rparr>
      then Inl (Errorf ''when changing .spec.version no other changes to .spec can be performed'' [])
      else if spec_Version (asc_Spec old) \<noteq> spec_Version (asc_Spec new) \<and>
              spec_BackupSpec (asc_Spec new) = None
      then Inl (Errorf ''no value for .spec.backupSpec has been specified'' [])
      else case validateVersion old new of
             Inl err \<Rightarrow> Inl err
           | Inr _ \<Rightarrow> validateNamespaces old new)"

text \<open>The loop over the namespaces of the spec.\<close>

fun check_namespaces :: "int \<Rightarrow> AerospikeNamespaceSpec list \<Rightarrow> gerr + unit" where
  "check_namespaces nodeCount [] = Inr ()"
| "check_namespaces nodeCount (ns # nss) =
     (if length (ns_Name ns) > aerospikeNamespaceMaxNameLen
      then Inl (Errorf ''the name of a namespace cannot exceed %d characters''
             [AInt (int aerospikeNamespaceMaxNameLen)])
      else
        let currentReplicationFactor =
              (case ns_ReplicationFactor ns of None \<Rightarrow> defaultNamespaceReplicationFactor | Some r \<Rightarrow> r)
        in if currentReplicationFactor > nodeCount
           then Inl (Errorf ''replication factor of %d requested for namespace %s but the cluster has only %d nodes''
                  [AInt currentReplicationFactor, AStr (ns_Name ns), AInt nodeCount])
           else check_namespaces nodeCount nss)"

text \<open>The part of the validation that calls nobody: names, version, namespaces.\<close>

definition validate_static :: "AerospikeCluster \<Rightarrow> gerr + unit" where
  "validate_static c =
     (if length (asc_Name c) > AerospikeClusterNameMaxLength
      then Inl (Errorf ''the name of the cluster cannot exceed %d characters''
             [AInt (int AerospikeClusterNameMaxLength)])
      else if 2 * (length (asc_Name c) + 2) + length (asc_Namespace c) > AerospikeMeshSeedAddressMaxLength
      then Inl (Errorf ''the current combination of cluster and kubernetes namespace names cannot be used'' [])
      else case NewVersionFromString (spec_Version (asc_Spec c)) of
             Inl err \<Rightarrow> Inl err
           | Inr version \<Rightarrow>
               if \<not> IsSupported version
               then Inl (Errorf ''aerospike version %q is not supported'' [AStr (spec_Version (asc_Spec c))])
               else if length (spec_Namespaces (asc_Spec c)) \<noteq> 1
               then Inl (Errorf ''the number of namespaces in the cluster must be exactly one'' [])
               else check_namespaces (spec_NodeCount (asc_Spec c)) (spec_Namespaces (asc_Spec c)))"

definition validateAerospikeCluster :: "env \<Rightarrow> AerospikeCluster \<Rightarrow> unit acte" where
  "validateAerospikeCluster E c =
     liftE (validate_static c) (\<lambda>_.
     (case spec_BackupSpec (asc_Spec c) of
        None \<Rightarrow> ok ()
      | Some bspec \<Rightarrow>
          (let secretNamespace = GetSecretNamespace (cb_Storage bspec) (asc_Namespace c);
               secretName = GetSecret (cb_Storage bspec)
           in do {
             r \<leftarrow> Secrets_Get E secretNamespace secretName;
             case r of
               Inl err \<Rightarrow>
                 if IsNotFound err
                 then fail (Errorf ''secret %q not found in namespace %q''
                        [AStr secretName, AStr secretNamespace])
                 else fail err
             | Inr secret \<Rightarrow>
                 (let secretKey = GetSecretKey (cb_Storage bspec) in
                  if gm_get (sec_Data secret) secretKey = None
                  then fail (Errorf ''secret %q does not contain expected field %q''
                         [AStr secretName, AStr secretKey])
                  else ok ())
           })))"

definition admitAerospikeCluster ::
    "env \<Rightarrow> decoders \<Rightarrow> AdmissionRequest \<Rightarrow> AdmissionResponse act" where
  "admitAerospikeCluster E D ar =
     (case decodeAerospikeCluster D (req_Object ar) of
        Inl err \<Rightarrow> ret (admissionResponseFromError err)
      | Inr new \<Rightarrow>
          (case decodeAerospikeCluster D (req_OldObject ar) of
             Inl err \<Rightarrow> ret (admissionResponseFromError err)
           | Inr old \<Rightarrow> do {
               r \<leftarrow> validateAerospikeCluster E new;
               case r of
                 Inl err \<Rightarrow> ret (admissionResponseFromError err)
               | Inr _ \<Rightarrow>
                   (if req_Operation ar = Update
                    then case validateAerospikeClusterUpdate old new of
                           Inl err \<Rightarrow> ret (admissionResponseFromError err)
                         | Inr _ \<Rightarrow> ret allowed
                    else ret allowed)
             }))"

subsection \<open>Backups and restores\<close>

fun namespaceExists_in :: "AerospikeNamespaceSpec list \<Rightarrow> string \<Rightarrow> bool" where
  "namespaceExists_in [] n = False"
| "namespaceExists_in (ns # nss) n = (if ns_Name ns = n then True else namespaceExists_in nss n)"

definition namespaceExists :: "'o BackupRestoreObject \<Rightarrow> AerospikeCluster \<Rightarrow> 'o \<Rightarrow> bool" where
  "namespaceExists I c obj =
     namespaceExists_in (spec_Namespaces (asc_Spec c)) (tn_Namespace (GetTarget I obj))"

definition validateBackupRestoreObj :: "env \<Rightarrow> 'o BackupRestoreObject \<Rightarrow> 'o \<Rightarrow> unit acte" where
  "validateBackupRestoreObj E I obj =
     bindE (Clusters_Get E (GetNamespace I obj) (tn_Cluster (GetTarget I obj))) (\<lambda>c.
     if \<not> namespaceExists I c obj
     then fail (Errorf ''cluster %s does not contain a namespace named %s''
            [AStr (asc_Name c), AStr (tn_Namespace (GetTarget I obj))])
     else
       liftE (case GetStorage I obj of
                Some s \<Rightarrow> Inr s
              | None \<Rightarrow> (case spec_BackupSpec (asc_Spec c) of
                          Some bspec \<Rightarrow> Inr (cb_Storage bspec)
                        | None \<Rightarrow> Inl (Errorf ''must specify .spec.storage'' [])))
       (\<lambda>storageSpec.
         let secretNamespace = GetSecretNamespace storageSpec (GetNamespace I obj) in do {
           r \<leftarrow> Secrets_Get E secretNamespace (GetSecret storageSpec);
           case r of
             Inl err \<Rightarrow>
               if IsNotFound err
               then fail (Errorf ''secret %q not found in namespace %q''
                      [AStr (GetSecret storageSpec), AStr secretNamespace])
               else fail err
           | Inr secret \<Rightarrow>
               (let secretKey = GetSecretKey storageSpec in
                if gm_get (sec_Data secret) secretKey = None
                then fail (Errorf ''secret %q does not contain expected field %q''
                       [AStr (sec_Name secret), AStr secretKey])
                else ok ())
         }))"

definition admitAerospikeNamespaceBackup ::
    "env \<Rightarrow> decoders \<Rightarrow> AdmissionRequest \<Rightarrow> AdmissionResponse act" where
  "admitAerospikeNamespaceBackup E D ar =
     (case decodeAerospikeNamespaceBackup D (req_Object ar) of
        Inl err \<Rightarrow> ret (admissionResponseFromError err)
      | Inr obj \<Rightarrow>
          (case (if req_Operation ar = Update
                 then (case decodeAerospikeNamespaceBackup D (req_OldObject ar) of
                         Inl err \<Rightarrow> Inl err
                       | Inr old \<Rightarrow>
                           if \<not> deep_equal_backup_spec (asnb_Spec obj) (asnb_Spec old)
                           then Inl (Errorf ''the spec of an aerospikenamespacebackup resource cannot be changed after creation'' [])
                           else Inr ())
                 else Inr ()) of
             Inl err \<Rightarrow> ret (admissionResponseFromError err)
           | Inr _ \<Rightarrow> do {
               r \<leftarrow> validateBackupRestoreObj E Backup_methods obj;
               case r of Inl err \<Rightarrow> ret (admissionResponseFromError err) | Inr _ \<Rightarrow> ret allowed
             }))"

definition admitAerospikeNamespaceRestore ::
    "env \<Rightarrow> decoders \<Rightarrow> AdmissionRequest \<Rightarrow> AdmissionResponse act" where
  "admitAerospikeNamespaceRestore E D ar =
     (case decodeAerospikeNamespaceRestore D (req_Object ar) of
        Inl err \<Rightarrow> ret (admissionResponseFromError err)
      | Inr obj \<Rightarrow>
          (case (if req_Operation ar = Update
                 then (case decodeAerospikeNamespaceRestore D (req_OldObject ar) of
                         Inl err \<Rightarrow> Inl err
                       | Inr old \<Rightarrow>
                           if asnr_Status old \<noteq> zero_restore_status \<and> asnr_Status obj = zero_restore_status
                           then Inl (Errorf ''the .status field cannot be deleted'' [])
                           else if asnr_Spec obj \<noteq> asnr_Spec old
                           then Inl (Errorf ''the spec of an aerospikenamespacerestore resource cannot be changed after creation'' [])
                           else Inr ())
                 else Inr ()) of
             Inl err \<Rightarrow> ret (admissionResponseFromError err)
           | Inr _ \<Rightarrow> do {
               r \<leftarrow> validateBackupRestoreObj E Restore_methods obj;
               case r of Inl err \<Rightarrow> ret (admissionResponseFromError err) | Inr _ \<Rightarrow> ret allowed
             }))"

section \<open>What an accepted cluster satisfies\<close>

text \<open>The contract of the webhook towards the reconciler.\<close>

definition wf_cluster :: "AerospikeCluster \<Rightarrow> bool" where
  "wf_cluster c \<longleftrightarrow>
     length (asc_Name c) \<le> 61 \<and>
     2 * (length (asc_Name c) + 2) + length (asc_Namespace c) \<le> 63 \<and>
     (\<exists>v. NewVersionFromString (spec_Version (asc_Spec c)) = Inr v \<and> IsSupported v) \<and>
     (\<exists>ns. spec_Namespaces (asc_Spec c) = [ns] \<and> length (ns_Name ns) \<le> 23 \<and>
        (case ns_ReplicationFactor ns of None \<Rightarrow> 2 | Some r \<Rightarrow> r) \<le> spec_NodeCount (asc_Spec c))"

lemma check_namespaces_iff:
  "check_namespaces n nss = Inr u \<longleftrightarrow>
     (\<forall>ns \<in> set nss. length (ns_Name ns) \<le> 23 \<and>
        (case ns_ReplicationFactor ns of None \<Rightarrow> 2 | Some r \<Rightarrow> r) \<le> n)"
  by (induction nss) (auto simp: Let_def admission_consts split: option.splits)

lemma validate_static_iff: "validate_static c = Inr u \<longleftrightarrow> wf_cluster c"
  unfolding validate_static_def wf_cluster_def
  by (auto simp: check_namespaces_iff admission_consts length_Suc_conv split: sum.splits)

text \<open>
  What the update rules preserve when both objects have passed validation: the name and the
  storage of the single namespace, and, when the version changes, everything else.
\<close>

lemma namespaceMap_single:
  "spec_Namespaces (asc_Spec c) = [ns] \<Longrightarrow> namespaceMap c = fmupd (ns_Name ns) ns fmempty"
  by (simp add: namespaceMap_def)

lemma validateNamespaces_single:
  assumes "spec_Namespaces (asc_Spec old) = [ons]" and "spec_Namespaces (asc_Spec new) = [nns]"
  shows "validateNamespaces old new = Inr u \<longleftrightarrow>
     ns_Name ons = ns_Name nns \<and> ns_Storage ons = ns_Storage nns \<and>
     (ns_ReplicationFactor ons = None \<or> ns_ReplicationFactor nns = None \<or>
      ns_ReplicationFactor ons = ns_ReplicationFactor nns)"
  using assms
  by (auto simp: validateNamespaces_def Let_def namespaceMap_single namespace_names_def)

lemma validateVersion_iff:
  "validateVersion old new = Inr u \<longleftrightarrow>
     spec_Version (asc_Spec old) = spec_Version (asc_Spec new) \<or>
     (\<exists>s t. NewVersionFromString (spec_Version (asc_Spec old)) = Inr s \<and>
        NewVersionFromString (spec_Version (asc_Spec new)) = Inr t \<and>
        IsValid \<lparr>Source = s, Target = t\<rparr>)"
  by (auto simp: validateVersion_def split: sum.splits)

lemma validateUpdate_iff:
  "validateAerospikeClusterUpdate old new = Inr u \<longleftrightarrow>
     (spec_Version (asc_Spec old) \<noteq> spec_Version (asc_Spec new) \<longrightarrow>
        asc_Spec old = (asc_Spec new)\<lparr>spec_Version := spec_Version (asc_Spec old)\<rparr> \<and>
        spec_BackupSpec (asc_Spec new) \<noteq> None) \<and>
     validateVersion old new = Inr () \<and> validateNamespaces old new = Inr ()"
  by (auto simp: validateAerospikeClusterUpdate_def split: sum.splits)

lemma validateAerospikeCluster_wf:
  assumes "run_state (validateAerospikeCluster E c) h = (Inr u, h')"
  shows "wf_cluster c"
proof -
  have "validate_static c = Inr ()"
    using assms by (cases "validate_static c") (auto simp: validateAerospikeCluster_def)
  then show ?thesis by (simp add: validate_static_iff)
qed

lemma allowed_Allowed [simp]: "resp_Allowed allowed" "\<not> resp_Allowed (admissionResponseFromError e)"
  by (simp_all add: allowed_def admissionResponseFromError_def)

text \<open>An allowed request is one whose every check passed.\<close>

lemma admitAerospikeCluster_allowed:
  assumes "run_state (admitAerospikeCluster E D ar) h = (resp, h')" and "resp_Allowed resp"
  obtains old new where "decodeAerospikeCluster D (req_Object ar) = Inr new"
    and "decodeAerospikeCluster D (req_OldObject ar) = Inr old"
    and "run_state (validateAerospikeCluster E new) h = (Inr (), h')"
    and "req_Operation ar = Update \<longrightarrow> validateAerospikeClusterUpdate old new = Inr ()"
  using assms unfolding admitAerospikeCluster_def
  by (fastforce split: sum.splits prod.splits if_splits)

lemma admission_reads_only:
  "emits (\<lambda>e. \<not> writes e) (admitAerospikeCluster E D ar)"
  "emits (\<lambda>e. \<not> writes e) (admitAerospikeNamespaceBackup E D ar)"
  "emits (\<lambda>e. \<not> writes e) (admitAerospikeNamespaceRestore E D ar)"
  unfolding admitAerospikeCluster_def admitAerospikeNamespaceBackup_def Let_def
    admitAerospikeNamespaceRestore_def validateAerospikeCluster_def validateBackupRestoreObj_def
  by (auto intro!: emits_intro)

lemma namespaceExists_in_iff: "namespaceExists_in nss n \<longleftrightarrow> n \<in> ns_Name ` set nss"
  by (induction nss) auto

text \<open>What acceptance of a backup or restore object means for its references.\<close>

lemma validateBackupRestoreObj_ok:
  assumes "run_state (validateBackupRestoreObj E I obj) h = (Inr u, h')"
  obtains c s sec where
    "env_get_cluster E h (GetNamespace I obj) (tn_Cluster (GetTarget I obj)) = Inr c"
    and "tn_Namespace (GetTarget I obj) \<in> ns_Name ` set (spec_Namespaces (asc_Spec c))"
    and "GetStorage I obj = Some s \<or>
         GetStorage I obj = None \<and> map_option cb_Storage (spec_BackupSpec (asc_Spec c)) = Some s"
    and "env_get_secret E (h @ [EvGet KCluster (GetNamespace I obj) (tn_Cluster (GetTarget I obj))])
           (GetSecretNamespace s (GetNamespace I obj)) (GetSecret s) = Inr sec"
    and "gm_get (sec_Data sec) (GetSecretKey s) \<noteq> None"
  using assms unfolding validateBackupRestoreObj_def Let_def namespaceExists_def
  by (auto simp: namespaceExists_in_iff map_sum_def split: sum.splits if_splits option.splits)

end
