(* ===== verification/Examples.thy ===== *)
theory Examples
  imports Controllers Admission
begin

text \<open>
  Concrete inputs: an environment in which every call succeeds, a cluster, pods, claims, backups
  and restores. They instantiate the hypotheses of the properties.
\<close>

section \<open>An environment\<close>

definition int_of :: "string \<Rightarrow> string + int" where
  "int_of s = (case atoi s of Inl _ \<Rightarrow> Inl ''not a number'' | Inr i \<Rightarrow> Inr i)"

definition node_name :: string where "node_name = ''A0123456789ABCDE''"

definition secret0 :: Secret where
  "secret0 = \<lparr>sec_Meta = zero_meta\<lparr>om_Name := ''creds''\<rparr>,
     sec_Data = Some (map_lit [(''key.json'', ''x'')]), sec_Type = ''Opaque''\<rparr>"

definition storage0 :: BackupStorageSpec where
  "storage0 = \<lparr>bs_Type = ''gcs'', bs_Bucket = ''bucket'', bs_Secret = ''creds'', bs_SecretNamespace = None,
     bs_SecretKey = None\<rparr>"

definition ns0 :: AerospikeNamespaceSpec where
  "ns0 = \<lparr>ns_Name = ''as0'', ns_ReplicationFactor = Some 2, ns_MemorySize = Some ''1G'', ns_DefaultTTL = None,
     ns_Storage = \<lparr>st_Type = ''file'', st_Size = ''1G'', st_StorageClassName = None,
       st_PersistentVolumeClaimTTL = None, st_DataInMemory = None\<rparr>\<rparr>"

definition spec0 :: AerospikeClusterSpec where
  "spec0 = \<lparr>spec_NodeCount = 2, spec_Version = ''4.2.0.3'', spec_Namespaces = [ns0],
     spec_BackupSpec = Some \<lparr>cb_TTL = Some ''1d'', cb_Storage = storage0\<rparr>,
     spec_Resources = None, spec_NodeSelector = None, spec_Tolerations = []\<rparr>"

definition cluster0 :: AerospikeCluster where
  "cluster0 = \<lparr>asc_Meta = zero_meta\<lparr>om_Name := ''c0'', om_Namespace := ''k''\<rparr>, asc_Spec = spec0,
     asc_Status = \<lparr>status_Spec = spec0\<lparr>spec_Version := ''4.1.0.1''\<rparr>, status_Conditions = []\<rparr>\<rparr>"

definition pod_spec0 :: PodSpec where
  "pod_spec0 = \<lparr>ps_InitContainers = [], ps_Containers = [], ps_Volumes =
       [\<lparr>vol_Name = ''data-ns-as0'', vol_Source = PersistentVolumeClaimVolume ''claim''\<rparr>],
     ps_RestartPolicy = ''Never'', ps_Hostname = [], ps_Subdomain = [], ps_NodeSelector = None,
     ps_Tolerations = [], ps_PodAntiAffinity = None\<rparr>"

definition running_pod :: "string \<Rightarrow> Pod" where
  "running_pod n = \<lparr>pod_Meta = zero_meta\<lparr>om_Name := n, om_Namespace := ''k'',
       om_Annotations := Some (map_lit [(nodeIdAnnotation, ''a0123456789abcde'')])\<rparr>,
     pod_Spec = pod_spec0, pod_Status = zero_status\<lparr>pt_Phase := ''Running''\<rparr>\<rparr>"

definition claim0 :: PersistentVolumeClaim where
  "claim0 = \<lparr>pvc_Meta = zero_meta\<lparr>om_Name := ''claim'', om_Namespace := ''k'',
       om_Annotations := Some (map_lit [(PodAnnotation, ''c0-0''), (PVCTTLAnnotation, ''1h''),
         (LastUnmountedOnAnnotation, ''5'')])\<rparr>,
     pvc_AccessModes = [''ReadWriteOnce''], pvc_StorageRequest = 1, pvc_VolumeMode = ''Filesystem'',
     pvc_StorageClassName = None\<rparr>"

definition backup0 :: AerospikeNamespaceBackup where
  "backup0 = (let sp = \<lparr>bk_Target = \<lparr>tn_Cluster = ''c0'', tn_Namespace = ''as0''\<rparr>,
       bk_Storage = Some storage0, bk_TTL = Some (StrPtr 1 ''1h'')\<rparr>
     in \<lparr>asnb_Meta = zero_meta\<lparr>om_Name := ''b0'', om_Namespace := ''k''\<rparr>, asnb_Spec = sp,
         asnb_Status = \<lparr>bks_Spec = sp, bks_Conditions = []\<rparr>\<rparr>)"

definition finished_condition :: Condition where
  "finished_condition = \<lparr>c_Type = ''BackupFinished'', c_Status = ''True'', c_Reason = [], c_Message = [],
     c_LastTransitionTime = 0\<rparr>"

definition finished_backup :: AerospikeNamespaceBackup where
  "finished_backup = backup0\<lparr>asnb_Status := (asnb_Status backup0)\<lparr>bks_Conditions := [finished_condition]\<rparr>\<rparr>"

definition restore0 :: AerospikeNamespaceRestore where
  "restore0 = (let sp = \<lparr>re_Target = \<lparr>tn_Cluster = ''c0'', tn_Namespace = ''as0''\<rparr>, re_Storage = Some storage0\<rparr>
     in \<lparr>asnr_Meta = zero_meta\<lparr>om_Name := ''r0'', om_Namespace := ''k''\<rparr>, asnr_Spec = sp,
         asnr_Status = \<lparr>res_Spec = sp, res_Conditions = []\<rparr>\<rparr>)"

text \<open>
  Every call succeeds, no pod exists, the clock stands at 9, a pod that is created becomes ready
  and one that is deleted goes away.
\<close>

definition env0 :: env where
  "env0 = \<lparr>
     env_now = (\<lambda>h. 9),
     env_list_pods = (\<lambda>h ns l. Inr []),
     env_get_pod = (\<lambda>h ns n. Inl NotFound),
     env_create_pod = (\<lambda>h p. Inr p),
     env_delete_pod = (\<lambda>h ns n. Inr ()),
     env_watch_pod = (\<lambda>h ns n t.
       (if t = watchCreatePodTimeout then [WatchModified (running_pod n)] else [WatchDeleted (running_pod n)],
        ''timed out'')),
     env_pod_ready = (\<lambda>p. True),
     env_create_configmap = (\<lambda>h c. Inr c),
     env_get_configmap = (\<lambda>h ns n. Inl NotFound),
     env_update_configmap = (\<lambda>h c. Inr c),
     env_create_service = (\<lambda>h s. Inr s),
     env_create_networkpolicy = (\<lambda>h p. Inr p),
     env_get_storageclass = (\<lambda>h n. Inr ()),
     env_list_pvcs = (\<lambda>h ns l. Inr []),
     env_get_pvc = (\<lambda>h ns n. Inr claim0),
     env_create_pvc = (\<lambda>h c. Inr c),
     env_patch_pvc = (\<lambda>h ns n p. Inr ()),
     env_delete_pvc = (\<lambda>h ns n. Inr ()),
     env_get_secret = (\<lambda>h ns n. Inr secret0),
     env_list_secrets = (\<lambda>h ns l. Inr []),
     env_create_secret = (\<lambda>h ns s. Inr s),
     env_delete_secret = (\<lambda>h ns n. Inr ()),
     env_get_job = (\<lambda>h ns n. Inl NotFound),
     env_create_job = (\<lambda>h j. Inr j),
     env_get_cluster = (\<lambda>h ns n. Inr cluster0),
     env_patch_cluster = (\<lambda>h ns n p. Inr cluster0),
     env_update_cluster_status = (\<lambda>h c. Inr c),
     env_get_backup = (\<lambda>h ns n. Inr finished_backup),
     env_get_restore = (\<lambda>h ns n. Inr restore0),
     env_create_backup = (\<lambda>h b. Inr b),
     env_update_backup_status = (\<lambda>h b. Inr ()),
     env_delete_backup = (\<lambda>h ns n. Inr ()),
     env_update_restore_status = (\<lambda>h r. Inr ()),
     env_cluster_patch = (\<lambda>a b. Inr ''{}''),
     env_pvc_patch = (\<lambda>a b. Inr ''{}''),
     env_connect = (\<lambda>h ip p. Inr ()),
     env_info = (\<lambda>h ip c. Inr (map_lit [(''build'', ''4.2.0.3''), (''statistics'', ''cluster_size=2;'')])),
     env_nodes = (\<lambda>h ip. [node_name]),
     env_migrating = (\<lambda>h n. Inr False),
     env_wait_migrations = (\<lambda>h n t. Inr ()),
     env_ticks = (\<lambda>h. 1),
     env_gcs_client = (\<lambda>h s. Inr ()),
     env_bucket_attrs = (\<lambda>h b. Inr ()),
     env_delete_object = (\<lambda>h b n. Inr ()),
     env_sha256 = (\<lambda>s. s),
     env_md5 = (\<lambda>s. ''0123456789abcdef0123456789abcdef''),
     env_parse_quantity = (\<lambda>s. Inr 1000),
     env_parse_float = (\<lambda>s. map_sum id nat (int_of s)),
     env_format_hours = (\<lambda>n. itoa (24 * int n) @ ''h''),
     env_parse_go_duration = (\<lambda>s. int_of (trim_suffix ''h'' s)),
     env_parse_rfc3339 = int_of,
     env_format_rfc3339 = itoa,
     env_must_parse = (\<lambda>s. if s = ''1'' then 1000 else
        case int_of (trim_suffix ''Gi'' s) of Inl _ \<Rightarrow> 0 | Inr n \<Rightarrow> Gi n),
     env_cpu = (\<lambda>rl. Some (case gm_get rl ''cpu'' of None \<Rightarrow> 0 | Some q \<Rightarrow> q)),
     env_memory = (\<lambda>rl. Some (case gm_get rl ''memory'' of None \<Rightarrow> 0 | Some q \<Rightarrow> q)),
     env_meta_key = (\<lambda>m. Inr (om_Namespace m @ ''/'' @ om_Name m)),
     env_split_key = (\<lambda>key. case split_on (CHR ''/'') key of
        [ns, n] \<Rightarrow> Inr (ns, n) | _ \<Rightarrow> Inl ''unexpected key format''),
     env_controller_of = (\<lambda>m. find (\<lambda>r. or_Controller r = Some True) (om_OwnerReferences m)),
     env_OperatorVersion = ''1.0.0'',
     env_DebugEnabled = False\<rparr>"

text \<open>The pods of an environment in which they are all running.\<close>

definition env_running :: env where
  "env_running = env0\<lparr>env_list_pods := (\<lambda>h ns l. Inr [running_pod ''c0-0'', running_pod ''c0-1'']),
     env_get_pod := (\<lambda>h ns n. Inr (running_pod n))\<rparr>"

text \<open>A cluster with an annotation that tells how far an upgrade has got.\<close>

definition in_upgrade :: "string \<Rightarrow> AerospikeCluster" where
  "in_upgrade s = setAerospikeClusterAnnotation UpgradeStatusAnnotationKey s cluster0"

lemmas example_defs = env0_def env_running_def cluster0_def spec0_def ns0_def storage0_def secret0_def
  running_pod_def pod_spec0_def claim0_def backup0_def restore0_def finished_backup_def
  finished_condition_def in_upgrade_def

end
