(* ===== verification/AdmissionProperties.thy ===== *)
theory AdmissionProperties
  imports Examples
begin

text \<open>
  The properties of versions and upgrades, of the admission webhook, and of the names that
  follow from what it accepts.
\<close>

section \<open>Versions and upgrades\<close>

definition recreates :: "Version \<Rightarrow> Version \<Rightarrow> bool" where
  "recreates s t \<longleftrightarrow>
     (case GetStrategy \<lparr>Source = s, Target = t\<rparr> of Inl _ \<Rightarrow> False | Inr st \<Rightarrow> RecreatePersistentVolumeClaims st)"

lemma GetStrategy_cases:
  "GetStrategy vu = (if IsSupported (Source vu) \<and> IsSupported (Target vu) \<and> Source vu < Target vu
     then Inr \<lparr>RecreatePersistentVolumeClaims = (Source vu < Version 4 2 0 0 \<and> Version 4 2 0 0 \<le> Target vu)\<rparr>
     else Inl (Errorf ''cannot upgrade from version %v to %v''
            [AStr (String (Source vu)), AStr (String (Target vu))]))"
proof (cases "IsValid vu")
  case True
  then have s: "IsSupported (Source vu)" "IsSupported (Target vu)" and less: "Source vu < Target vu"
    using IsValid_supported IsValid_less by blast+
  have "Source vu < Version 4 2 0 0 \<longleftrightarrow> Minor (Source vu) \<le> 1"
    using supported_ge_42 [OF s(1)] by (simp add: not_less [symmetric] linorder_not_le) linarith
  then show ?thesis
    using True s less supported_ge_42 [OF s(2)] supported_major [OF s(2)]
    by (auto simp: GetStrategy_def To42XYStrategy_def DefaultStrategy_def)
next
  case False
  then have "\<not> (IsSupported (Source vu) \<and> IsSupported (Target vu) \<and> Source vu < Target vu)"
    using IsValid_iff_less by blast
  then show ?thesis using False by (simp add: GetStrategy_def)
qed

text \<open>
  An upgrade is valid exactly when both versions are supported and the target is greater in
  the order on versions; the component-wise comparisons of the code decide that order on the
  supported versions.
\<close>

theorem upgrade_valid_iff:
  "IsValid vu \<longleftrightarrow> IsSupported (Source vu) \<and> IsSupported (Target vu) \<and> Source vu < Target vu"
  using IsValid_iff_less IsValid_supported by blast

text \<open>
  An upgrade has a strategy exactly when it goes up between supported versions, and the
  strategy recreates the persistent volume claims exactly when the upgrade crosses 4.2.0.0.
\<close>

theorem strategy_iff:
  "GetStrategy vu = Inr st \<longleftrightarrow>
     IsSupported (Source vu) \<and> IsSupported (Target vu) \<and> Source vu < Target vu \<and>
     RecreatePersistentVolumeClaims st = (Source vu < Version 4 2 0 0 \<and> Version 4 2 0 0 \<le> Target vu)"
  by (cases st) (auto simp: GetStrategy_cases)

text \<open>
  Upgrading in two valid steps is the same as upgrading in one: the direct upgrade is valid
  too, and it recreates the claims exactly when one of the two steps does.
\<close>

theorem upgrade_composes:
  assumes "IsValid \<lparr>Source = s, Target = m\<rparr>" and "IsValid \<lparr>Source = m, Target = t\<rparr>"
  shows "IsValid \<lparr>Source = s, Target = t\<rparr> \<and> (recreates s t \<longleftrightarrow> recreates s m \<or> recreates m t)"
proof -
  have sm: "IsSupported s" "IsSupported m" "s < m" and mt: "IsSupported t" "m < t"
    using assms IsValid_supported IsValid_less by fastforce+
  then have "s < t" by simp
  then have "IsValid \<lparr>Source = s, Target = t\<rparr>" using sm mt IsValid_iff_less by simp
  moreover have "recreates s t \<longleftrightarrow> recreates s m \<or> recreates m t"
    using sm mt \<open>s < t\<close> unfolding recreates_def GetStrategy_cases by auto
  ultimately show ?thesis by blast
qed

theorem upgrade_composes_witness:
  "recreates (Version 4 0 0 4) (Version 4 3 0 2) \<longleftrightarrow>
     recreates (Version 4 0 0 4) (Version 4 1 0 1) \<or> recreates (Version 4 1 0 1) (Version 4 3 0 2)"
proof -
  have "IsValid \<lparr>Source = Version 4 0 0 4, Target = Version 4 1 0 1\<rparr>"
    "IsValid \<lparr>Source = Version 4 1 0 1, Target = Version 4 3 0 2\<rparr>"
    by code_simp+
  from upgrade_composes [OF this] show ?thesis by blast
qed

text \<open>
  Parsing what is printed gives the version back, for every value the struct can hold.
\<close>

theorem version_roundtrip:
  assumes "version_int64 v"
  shows "NewVersionFromString (String v) = Inr v"
  using assms
  by (cases v) (simp add: NewVersionFromString_def split_String version_int64_def int64_range_def
      atoi_itoa)

theorem version_roundtrip_witness: "NewVersionFromString ''4.3.0.10'' = Inr (Version 4 3 0 10)"
proof -
  have "version_int64 (Version 4 3 0 10)" by (simp add: version_int64_def int64_range_def)
  from version_roundtrip [OF this] show ?thesis
    by (simp add: String_def itoa_def nat_digits.simps)
qed

section \<open>The admission webhook\<close>

definition decoders0 :: decoders where
  "decoders0 = \<lparr>dec_cluster = (\<lambda>_. Inr cluster0), dec_backup = (\<lambda>_. Inr backup0), dec_restore = (\<lambda>_. Inr restore0)\<rparr>"

definition request0 :: AdmissionRequest where
  "request0 = \<lparr>req_UID = ''u'', req_Operation = Update, req_Object = ''new'', req_OldObject = ''old''\<rparr>"

text \<open>
  C30: a cluster the webhook admits is well-formed: its names leave room for the mesh seed
  addresses, its version parses and is supported, and it has exactly one namespace, whose name
  is short enough and whose replication factor does not exceed the number of nodes.
\<close>

theorem admitted_cluster_wf:
  assumes "run_state (admitAerospikeCluster E D ar) h = (resp, h')" and "resp_Allowed resp"
    and "decodeAerospikeCluster D (req_Object ar) = Inr c"
  shows "wf_cluster c"
  using assms(1,2)
proof (rule admitAerospikeCluster_allowed)
  fix old new
  assume "decodeAerospikeCluster D (req_Object ar) = Inr new"
    and "run_state (validateAerospikeCluster E new) h = (Inr (), h')"
  then show ?thesis using assms(3) validateAerospikeCluster_wf by simp
qed

theorem admitted_cluster_wf_witness: "wf_cluster cluster0"
proof (rule admitted_cluster_wf [of env0 decoders0 request0 "[]"])
  show "run_state (admitAerospikeCluster env0 decoders0 request0) [] =
      (fst (run_state (admitAerospikeCluster env0 decoders0 request0) []),
       snd (run_state (admitAerospikeCluster env0 decoders0 request0) []))" by simp
  show "resp_Allowed (fst (run_state (admitAerospikeCluster env0 decoders0 request0) []))" by code_simp
  show "decodeAerospikeCluster decoders0 (req_Object request0) = Inr cluster0" by code_simp
qed

text \<open>What an update may do to a cluster.\<close>

definition same_namespace :: "AerospikeCluster \<Rightarrow> AerospikeCluster \<Rightarrow> bool" where
  "same_namespace old new \<longleftrightarrow>
     (\<exists>ons nns. spec_Namespaces (asc_Spec old) = [ons] \<and> spec_Namespaces (asc_Spec new) = [nns] \<and>
        ns_Name ons = ns_Name nns \<and> ns_Storage ons = ns_Storage nns \<and>
        (ns_ReplicationFactor ons = None \<or> ns_ReplicationFactor nns = None \<or>
         ns_ReplicationFactor ons = ns_ReplicationFactor nns))"

definition version_rule :: "AerospikeCluster \<Rightarrow> AerospikeCluster \<Rightarrow> bool" where
  "version_rule old new \<longleftrightarrow>
     spec_Version (asc_Spec old) = spec_Version (asc_Spec new) \<or>
     (\<exists>s t. NewVersionFromString (spec_Version (asc_Spec old)) = Inr s \<and>
        NewVersionFromString (spec_Version (asc_Spec new)) = Inr t \<and> s < t \<and> Major s = Major t \<and>
        asc_Spec old = (asc_Spec new)\<lparr>spec_Version := spec_Version (asc_Spec old)\<rparr> \<and>
        spec_BackupSpec (asc_Spec new) \<noteq> None)"

lemma validateUpdate_rules:
  assumes "validateAerospikeClusterUpdate old new = Inr u" and "wf_cluster old" and "wf_cluster new"
  shows "same_namespace old new \<and> version_rule old new"
proof -
  from assms(2,3) obtain ons nns where
    ns: "spec_Namespaces (asc_Spec old) = [ons]" "spec_Namespaces (asc_Spec new) = [nns]"
    by (auto simp: wf_cluster_def)
  from assms(1) have *: "validateNamespaces old new = Inr ()" "validateVersion old new = Inr ()"
    "spec_Version (asc_Spec old) \<noteq> spec_Version (asc_Spec new) \<longrightarrow>
        asc_Spec old = (asc_Spec new)\<lparr>spec_Version := spec_Version (asc_Spec old)\<rparr> \<and>
        spec_BackupSpec (asc_Spec new) \<noteq> None"
    by (simp_all add: validateUpdate_iff)
  have "s < t \<and> Major s = Major t" if "IsValid \<lparr>Source = s, Target = t\<rparr>" for s t
    using that IsValid_less IsValid_supported supported_major by fastforce
  then show ?thesis
    using * ns by (auto simp: same_namespace_def version_rule_def validateNamespaces_single validateVersion_iff)
qed

text \<open>
  C19: an admitted update of a well-formed cluster keeps the name and the storage of its namespace,
  never changes one replication factor into another, and either leaves the version alone or is a
  valid upgrade that changes nothing else in the spec and has a backup spec to back up to.
\<close>

theorem admitted_update_rules:
  assumes "run_state (admitAerospikeCluster E D ar) h = (resp, h')" and "resp_Allowed resp"
    and "req_Operation ar = Update"
    and "decodeAerospikeCluster D (req_Object ar) = Inr new"
    and "decodeAerospikeCluster D (req_OldObject ar) = Inr old" and "wf_cluster old"
  shows "same_namespace old new \<and> version_rule old new"
proof -
  from assms(1,2) have "run_state (validateAerospikeCluster E new) h = (Inr (), h') \<and>
      validateAerospikeClusterUpdate old new = Inr ()"
    by (rule admitAerospikeCluster_allowed) (use assms(3-5) in simp)
  then show ?thesis
    using validateUpdate_rules validateAerospikeCluster_wf \<open>wf_cluster old\<close> by blast
qed

definition upgrade_decoders :: decoders where
  "upgrade_decoders = decoders0\<lparr>dec_cluster := (\<lambda>raw. Inr (if raw = ''old''
     then cluster0\<lparr>asc_Spec := spec0\<lparr>spec_Version := ''4.1.0.1''\<rparr>\<rparr> else cluster0))\<rparr>"

theorem admitted_update_rules_witness:
  "version_rule (cluster0\<lparr>asc_Spec := spec0\<lparr>spec_Version := ''4.1.0.1''\<rparr>\<rparr>) cluster0"
proof -
  let ?run = "run_state (admitAerospikeCluster env0 upgrade_decoders request0) []"
  let ?old = "cluster0\<lparr>asc_Spec := spec0\<lparr>spec_Version := ''4.1.0.1''\<rparr>\<rparr>"
  have "validate_static ?old = Inr ()" by code_simp
  then have "wf_cluster ?old" by (simp add: validate_static_iff)
  moreover have "resp_Allowed (fst ?run)" by code_simp
  moreover have "decodeAerospikeCluster upgrade_decoders (req_Object request0) = Inr cluster0"
    "decodeAerospikeCluster upgrade_decoders (req_OldObject request0) = Inr ?old"
    "req_Operation request0 = Update"
    by (simp_all add: decodeAerospikeCluster_def upgrade_decoders_def request0_def)
  ultimately show ?thesis
    using admitted_update_rules [of env0 upgrade_decoders request0 "[]" "fst ?run" "snd ?run"] by simp
qed

text \<open>
  The replication factor of a namespace can be dropped by an update, although the webhook is
  meant to forbid changing it: the cluster goes from the two copies it asked for to none stated.
\<close>

theorem replication_factor_can_be_dropped:
  "validateAerospikeClusterUpdate cluster0
     (cluster0\<lparr>asc_Spec := spec0\<lparr>spec_Namespaces := [ns0\<lparr>ns_ReplicationFactor := None\<rparr>]\<rparr>\<rparr>) = Inr ()"
  by code_simp

definition backup_update_keeps_spec :: "env \<Rightarrow> decoders \<Rightarrow> AdmissionRequest \<Rightarrow> history \<Rightarrow> bool" where
  "backup_update_keeps_spec E D ar h \<longleftrightarrow>
     (\<forall>old new. decodeAerospikeNamespaceBackup D (req_Object ar) = Inr new \<longrightarrow>
        decodeAerospikeNamespaceBackup D (req_OldObject ar) = Inr old \<longrightarrow>
        resp_Allowed (fst (run_state (admitAerospikeNamespaceBackup E D ar) h)) \<longrightarrow>
        deep_equal_backup_spec (asnb_Spec new) (asnb_Spec old))"

definition restore_update_keeps_spec :: "env \<Rightarrow> decoders \<Rightarrow> AdmissionRequest \<Rightarrow> history \<Rightarrow> bool" where
  "restore_update_keeps_spec E D ar h \<longleftrightarrow>
     (\<forall>old new. decodeAerospikeNamespaceRestore D (req_Object ar) = Inr new \<longrightarrow>
        decodeAerospikeNamespaceRestore D (req_OldObject ar) = Inr old \<longrightarrow>
        resp_Allowed (fst (run_state (admitAerospikeNamespaceRestore E D ar) h)) \<longrightarrow>
        asnr_Spec new = asnr_Spec old)"

text \<open>
  The spec of a backup and the spec of a restore cannot be changed by an admitted update.
\<close>

theorem backup_restore_spec_immutable:
  assumes "req_Operation ar = Update"
  shows "backup_update_keeps_spec E D ar h \<and> restore_update_keeps_spec E D ar h"
  unfolding backup_update_keeps_spec_def restore_update_keeps_spec_def
    admitAerospikeNamespaceBackup_def admitAerospikeNamespaceRestore_def
  using assms by (auto split: if_splits)

theorem backup_restore_spec_immutable_witness:
  "backup_update_keeps_spec env0 decoders0 request0 [] \<and>
   resp_Allowed (fst (run_state (admitAerospikeNamespaceBackup env0 decoders0 request0) []))"
proof
  show "backup_update_keeps_spec env0 decoders0 request0 []"
    using backup_restore_spec_immutable [of request0] by (simp add: request0_def)
  show "resp_Allowed (fst (run_state (admitAerospikeNamespaceBackup env0 decoders0 request0) []))"
    by code_simp
qed

definition references_exist :: "env \<Rightarrow> 'o BackupRestoreObject \<Rightarrow> 'o \<Rightarrow> bool" where
  "references_exist E I obj \<longleftrightarrow>
     (\<exists>h1 h2 c s sec.
        env_get_cluster E h1 (GetNamespace I obj) (tn_Cluster (GetTarget I obj)) = Inr c \<and>
        tn_Namespace (GetTarget I obj) \<in> ns_Name ` set (spec_Namespaces (asc_Spec c)) \<and>
        (GetStorage I obj = Some s \<or>
         GetStorage I obj = None \<and> map_option cb_Storage (spec_BackupSpec (asc_Spec c)) = Some s) \<and>
        env_get_secret E h2 (GetSecretNamespace s (GetNamespace I obj)) (GetSecret s) = Inr sec \<and>
        gm_get (sec_Data sec) (GetSecretKey s) \<noteq> None)"

text \<open>
  A backup or restore that passes validation refers to things that exist: its cluster, in its
  Kubernetes namespace, has the target namespace, and the secret of the storage it will use (its
  own, or else the cluster's) holds the key that will be looked up.
\<close>

theorem admitted_references_exist:
  assumes "run_state (validateBackupRestoreObj E I obj) h = (Inr u, h')"
  shows "references_exist E I obj"
  using assms by (rule validateBackupRestoreObj_ok) (auto simp: references_exist_def; blast)

theorem admitted_references_exist_witness: "references_exist env0 Restore_methods restore0"
proof -
  let ?run = "run_state (validateBackupRestoreObj env0 Restore_methods restore0) []"
  have "is_ok (fst ?run)" by code_simp
  then have "?run = (Inr (), snd ?run)" by (cases "fst ?run") (auto simp: prod_eq_iff)
  then show ?thesis by (rule admitted_references_exist)
qed

definition read_only :: "'a act \<Rightarrow> bool" where
  "read_only m \<longleftrightarrow> emits (\<lambda>e. \<not> writes e) m"

text \<open>
  Deciding about a request changes nothing in the cluster, whatever the environment answers.
\<close>

theorem admission_read_only:
  "read_only (admitAerospikeCluster E D ar) \<and> read_only (admitAerospikeNamespaceBackup E D ar) \<and>
   read_only (admitAerospikeNamespaceRestore E D ar)"
  by (simp add: read_only_def admission_reads_only)

section \<open>Names\<close>

lemma length_String_supported: "v \<in> set supported \<Longrightarrow> length (filter (\<lambda>x. x \<noteq> CHR ''.'') (String v)) \<le> 5"
proof -
  have "list_all (\<lambda>v. length (filter (\<lambda>x. x \<noteq> CHR ''.'') (String v)) \<le> 5) supported" by code_simp
  then show "v \<in> set supported \<Longrightarrow> ?thesis" by (simp add: list_all_iff)
qed

lemma undotted_inj:
  assumes "v \<in> set supported" and "w \<in> set supported"
    and "filter (\<lambda>x. x \<noteq> CHR ''.'') (String v) = filter (\<lambda>x. x \<noteq> CHR ''.'') (String w)"
  shows "v = w"
proof -
  have "distinct (map (\<lambda>v. filter (\<lambda>x. x \<noteq> CHR ''.'') (String v)) supported)" by code_simp
  then have "inj_on (\<lambda>v. filter (\<lambda>x. x \<noteq> CHR ''.'') (String v)) (set supported)"
    by (simp add: distinct_map)
  then show ?thesis using assms by (auto dest: inj_onD)
qed

lemma String_no_dash: "v \<in> set supported \<Longrightarrow> CHR ''-'' \<notin> set (String v)"
proof -
  have "list_all (\<lambda>v. CHR ''-'' \<notin> set (String v)) supported" by code_simp
  then show "v \<in> set supported \<Longrightarrow> ?thesis" by (simp add: list_all_iff)
qed

text \<open>
  The name of a pre-upgrade backup tells which namespace is backed up and between which
  versions: no two upgrades between supported versions share a backup name.
\<close>

theorem backup_name_injective:
  assumes "list_all IsSupported [s, t, s', t']"
    and "GetBackupName n (String s) (String t) = GetBackupName n' (String s') (String t')"
  shows "n = n' \<and> s = s' \<and> t = t'"
proof -
  have sup: "s \<in> set supported" "t \<in> set supported" "s' \<in> set supported" "t' \<in> set supported"
    using assms(1) by (simp_all add: IsSupported_iff)
  from GetBackupName_inj [OF assms(2)] sup String_no_dash undotted_inj show ?thesis by blast
qed

theorem backup_name_injective_witness:
  "GetBackupName ''as0'' ''4.0.0.4'' ''4.1.0.1'' = ''as0-4004-4101-upgrade'' \<and>
   GetBackupName ''as0'' (String (Version 4 0 0 4)) (String (Version 4 1 0 1)) \<noteq>
     GetBackupName ''as0'' (String (Version 4 0 0 4)) (String (Version 4 1 0 6))"
proof
  show "GetBackupName ''as0'' ''4.0.0.4'' ''4.1.0.1'' = ''as0-4004-4101-upgrade''" by code_simp
  have "list_all IsSupported [Version 4 0 0 4, Version 4 1 0 1, Version 4 0 0 4, Version 4 1 0 6]"
    by (simp add: IsSupported_iff supported_def)
  from backup_name_injective [OF this] show
    "GetBackupName ''as0'' (String (Version 4 0 0 4)) (String (Version 4 1 0 1)) \<noteq>
       GetBackupName ''as0'' (String (Version 4 0 0 4)) (String (Version 4 1 0 6))" by auto
qed

text \<open>
  C32: names that follow from an admitted cluster fit where they are used: the job of the backup
  taken before an upgrade between supported versions has a name of at most 63 characters, and so
  has the mesh seed address of each of its first ten pods.
\<close>

theorem derived_names_fit:
  assumes "wf_cluster c" and "ns \<in> set (spec_Namespaces (asc_Spec c))"
    and "spec_Version (status_Spec (asc_Status c)) = String s" and "spec_Version (asc_Spec c) = String t"
    and "IsSupported s" and "IsSupported t" and "0 \<le> i" and "i < 10" and "pod_Name pod = pod_name c i"
  shows "length (getJobName Backup_methods (namespace_backup c (ns_Name ns) spec)) \<le> 63 \<and>
    length (pod_host c pod) \<le> 63"
proof
  have "length (ns_Name ns) \<le> 23" using assms(1,2) by (auto simp: wf_cluster_def)
  moreover have "length (filter (\<lambda>x. x \<noteq> CHR ''.'') (String s)) \<le> 5"
    "length (filter (\<lambda>x. x \<noteq> CHR ''.'') (String t)) \<le> 5"
    using assms(5,6) length_String_supported by (simp_all add: IsSupported_iff)
  ultimately show "length (getJobName Backup_methods (namespace_backup c (ns_Name ns) spec)) \<le> 63"
    by (simp add: getJobName_def GetName_def Backup_methods_def namespace_backup_def Let_def zero_meta_def
        assms(3,4) GetBackupName_def replace_all_byte)
  have "length (itoa i) = 1" using assms(7,8) by (simp add: itoa_def length_nat_digits_1)
  then show "length (pod_host c pod) \<le> 63"
    using assms(1) by (simp add: pod_host_def assms(9) pod_name_def wf_cluster_def)
qed

theorem derived_names_fit_witness:
  "length (getJobName Backup_methods (namespace_backup cluster0 ''as0'' \<lparr>cb_TTL = None, cb_Storage = storage0\<rparr>)) \<le> 63 \<and>
   length (pod_host cluster0 (running_pod ''c0-1'')) \<le> 63"
proof -
  have "validate_static cluster0 = Inr ()" by code_simp
  then have "wf_cluster cluster0" by (simp add: validate_static_iff)
  moreover have "String (Version 4 1 0 1) = ''4.1.0.1''" "String (Version 4 2 0 3) = ''4.2.0.3''" by code_simp+
  moreover have "pod_Name (running_pod ''c0-1'') = pod_name cluster0 1" by code_simp
  moreover have "IsSupported (Version 4 1 0 1)" "IsSupported (Version 4 2 0 3)"
    by (simp_all add: IsSupported_iff supported_def)
  ultimately show ?thesis
    using derived_names_fit [of cluster0 ns0 "Version 4 1 0 1" "Version 4 2 0 3" 1 "running_pod ''c0-1''" "\<lparr>cb_TTL = None, cb_Storage = storage0\<rparr>"]
    by (simp add: cluster0_def spec0_def ns0_def)
qed

end
