(* ===== verification/PodProperties.thy ===== *)
theory PodProperties
  imports Examples
begin

text \<open>
  The properties of what the reconciler builds for a cluster (configuration, network policy, pods)
  and of how it creates, deletes, restarts and upgrades the pods and reuses their claims.
\<close>

section \<open>What is built\<close>

text \<open>
  The namespace template, executed with the properties the code computes, prints the block
  \<open>render_namespace\<close> describes line by line; in particular the replication factor is the requested
  one capped at the number of nodes, and a memory size is always present.
\<close>

theorem namespace_template_renders:
  "Execute asNamespaceTemplate (getNamespaceProps c index ns) = render_namespace c index ns"
  by (rule namespace_config)

text \<open>
  \<open>ensureConfigMap\<close> ends with a config map that carries the hash of the configuration built
  from the spec, both in its annotation and as the hash of its contents, provided the API server
  stores what it is given.
\<close>

theorem config_map_up_to_date:
  assumes "run_state (ensureConfigMap E c) h = (Inr cm, h')"
    and "\<forall>h x y. env_create_configmap E h x = Inr y \<longrightarrow> y = x"
    and "\<forall>h x y. env_update_configmap E h x = Inr y \<longrightarrow> y = x"
  shows "config_hash cm = Hash E (buildConfig c) \<and>
    Hash E (str_at (cm_Data cm) configFileName) = Hash E (buildConfig c)"
  using ensureConfigMap_hash [OF assms(1)] assms(2,3) by blast

theorem config_map_up_to_date_witness:
  "config_hash (buildConfigMap env0 cluster0) = Hash env0 (buildConfig cluster0)"
proof -
  have "run_state (ensureConfigMap env0 cluster0) [] =
      (Inr (buildConfigMap env0 cluster0), [EvCreateConfigMap (buildConfigMap env0 cluster0) True])"
    by (simp add: ensureConfigMap_def Let_def env0_def)
  moreover have "\<forall>h x y. env_create_configmap env0 h x = Inr y \<longrightarrow> y = x"
    "\<forall>h x y. env_update_configmap env0 h x = Inr y \<longrightarrow> y = x" by (simp_all add: env0_def)
  ultimately show ?thesis by (rule config_map_up_to_date [THEN conjunct1])
qed

text \<open>
  The network policy of a cluster lets in the service, info and metrics ports for everybody and
  the fabric and heartbeat ports for the pods of the cluster only; it lets out DNS, and the fabric
  and heartbeat ports towards the pods of the cluster; nothing else passes.
\<close>

theorem network_policy_traffic:
  "(admits_ingress (cluster_policy c) peer port \<longleftrightarrow>
      port \<in> {(''TCP'', 3000), (''TCP'', 3003), (''TCP'', 9145)} \<or>
      fmlookup peer LabelAppKey = Some LabelAppVal \<and> fmlookup peer LabelClusterKey = Some (asc_Name c) \<and>
      port \<in> {(''TCP'', 3001), (''TCP'', 3002)}) \<and>
   (admits_egress (cluster_policy c) peer port \<longleftrightarrow>
      port \<in> {(''TCP'', 53), (''UDP'', 53)} \<or>
      fmlookup peer LabelAppKey = Some LabelAppVal \<and> fmlookup peer LabelClusterKey = Some (asc_Name c) \<and>
      port \<in> {(''TCP'', 3001), (''TCP'', 3002)})"
  by (simp only: policy_ingress policy_egress selects_cluster) blast

text \<open>
  The peer list that a new pod hands to its init container is read back there as exactly the
  other pods of the cluster: the configuration gets one mesh seed line for each of them, in spite of
  the empty entries with which the list begins.
\<close>

theorem mesh_seeds_are_the_peers:
  assumes "CHR '','' \<notin> set (asc_Name c)" and "CHR '','' \<notin> set (asc_Namespace c)"
    and "list_all (\<lambda>p. CHR '','' \<notin> set (pod_Name p)) pods"
  shows "seed_lines (peer_list c podName pods) =
    concat (map (\<lambda>p. ''mesh-seed-address-port '' @ pod_host c p @ '' 3002'' @ [CHR 0x0A])
      (filter (\<lambda>p. pod_Name p \<noteq> podName) pods))"
proof -
  have "fields_func (CHR '','') (peer_list c podName pods) =
      map (pod_host c) (filter (\<lambda>p. podName \<noteq> pod_Name p) pods)"
    using assms by (intro peers_recovered) (auto simp: list_all_iff)
  moreover have "itoa HeartbeatPort = ''3002''" by code_simp
  moreover have "(\<lambda>p. pod_Name p \<noteq> podName) = (\<lambda>p. podName \<noteq> pod_Name p)" by auto
  ultimately show ?thesis by (simp add: seed_lines_def o_def)
qed

theorem mesh_seeds_are_the_peers_witness:
  "seed_lines (peer_list cluster0 ''c0-0'' [running_pod ''c0-0'', running_pod ''c0-1'']) =
     ''mesh-seed-address-port c0-1.c0.k 3002'' @ [CHR 0x0A]"
proof -
  have "list_all (\<lambda>p. CHR '','' \<notin> set (pod_Name p)) [running_pod ''c0-0'', running_pod ''c0-1'']"
    by (simp add: running_pod_def zero_meta_def)
  moreover have "asc_Name cluster0 = ''c0''" "asc_Namespace cluster0 = ''k''"
    by (simp_all add: cluster0_def zero_meta_def)
  ultimately show ?thesis
    using mesh_seeds_are_the_peers [of cluster0 "[running_pod ''c0-0'', running_pod ''c0-1'']" "''c0-0''"]
    by (simp add: running_pod_def zero_meta_def pod_host_def)
qed

text \<open>
  The identity of a pod. Its index is read back from its name; its node id has sixteen
  characters and begins with a letter, so that Aerospike neither truncates nor strips it; pods with
  different indices have different names.
\<close>

theorem pod_identity:
  assumes "length (env_md5 E (pod_name c i)) = 32" and "- (2 ^ 63) \<le> i" and "i < 2 ^ 63" and "i \<noteq> j"
  shows "podIndex (build_pod E c cm i pods) = i \<and>
    length (str_at (om_Annotations (pod_Meta (build_pod E c cm i pods))) nodeIdAnnotation) = 16 \<and>
    hd (str_at (om_Annotations (pod_Meta (build_pod E c cm i pods))) nodeIdAnnotation) = CHR ''a'' \<and>
    pod_Name (build_pod E c cm i pods) \<noteq> pod_Name (build_pod E c cm j pods)"
  using assms
  by (auto simp: podIndex_build_pod length_computeNodeId computeNodeId_def nodeIdPrefix_def dest: pod_name_inj)

theorem pod_identity_witness: "podIndex (build_pod env0 cluster0 (buildConfigMap env0 cluster0) 7 []) = 7"
  using pod_identity [of env0 cluster0 7 8 "buildConfigMap env0 cluster0" "[]"] by (simp add: env0_def)

text \<open>
  The memory requested for a node with one namespace of \<open>n\<close> gibibytes is \<open>n\<close> gibibytes, or the
  user's own request where that is larger, given that quantities are parsed as documented.
\<close>

theorem memory_request:
  assumes "spec_Namespaces (asc_Spec c) = [ns]" and "ns_MemorySize ns = Some (itoa n @ ''G'')"
    and "0 \<le> n" and "n < 2 ^ 32" and "env_must_parse E (itoa n @ ''Gi'') = Gi n"
  shows "computeMemoryRequest E c =
    (case Option.bind (spec_Resources (asc_Spec c)) (\<lambda>r. env_memory E (rr_Requests r)) of
       None \<Rightarrow> Gi n | Some memory \<Rightarrow> max (Gi n) memory)"
proof -
  have "atoi (trim_suffix ''G'' (itoa n @ ''G'')) = Inr n"
    using assms(3,4) by (simp add: atoi_itoa)
  moreover have "wrap64 n = n" using assms(3,4) by (simp add: wrap64_id)
  ultimately show ?thesis
    using assms(1,2,5) by (auto simp: computeMemoryRequest_def Let_def split: option.splits)
qed

theorem memory_request_witness: "computeMemoryRequest env0 cluster0 = 1073741824 * 1000"
proof -
  have "itoa 1 = ''1''" "env_must_parse env0 (''1Gi'') = Gi 1" by code_simp+
  then show ?thesis
    using memory_request [of cluster0 ns0 1 env0]
    by (simp add: cluster0_def spec0_def ns0_def Gi_def)
qed

text \<open>
  A user who sets resources without a CPU request gets a CPU request of zero, not the default:
  \<open>ResourceList.Cpu\<close> returns a pointer to a zero quantity, never nil, when the entry is missing.
\<close>

lemma cpu_request_without_default:
  assumes "spec_Resources (asc_Spec c) = Some r" and "env_cpu E (rr_Requests r) = Some 0"
  shows "computeCpuRequest E c = 0"
  using assms by (simp add: computeCpuRequest_def)

lemma cpu_request_without_default_witness:
  "computeCpuRequest env0 (cluster0\<lparr>asc_Spec := spec0\<lparr>spec_Resources :=
     Some \<lparr>rr_Requests = None, rr_Limits = None\<rparr>\<rparr>\<rparr>) = 0 \<and> computeCpuRequest env0 cluster0 = 1000"
proof
  show "computeCpuRequest env0 (cluster0\<lparr>asc_Spec := spec0\<lparr>spec_Resources :=
     Some \<lparr>rr_Requests = None, rr_Limits = None\<rparr>\<rparr>\<rparr>) = 0"
    by (rule cpu_request_without_default [of _ "\<lparr>rr_Requests = None, rr_Limits = None\<rparr>"])
      (simp_all add: env0_def)
  show "computeCpuRequest env0 cluster0 = 1000" by code_simp
qed

section \<open>Pods come and go\<close>

text \<open>
  A pod is in a failure state exactly when its phase says so, or one of its containers (init
  containers included) has terminated with a non-zero exit code or waits because of its image.
\<close>

theorem failure_state:
  "isPodInFailureState pod \<longleftrightarrow>
     pt_Phase (pod_Status pod) = ''Failed'' \<or>
     (\<exists>c \<in> set (pt_InitContainerStatuses (pod_Status pod) @ pt_ContainerStatuses (pod_Status pod)).
        (\<exists>x. cs_Terminated c = Some x \<and> x \<noteq> 0) \<or>
        (\<exists>reason. cs_Waiting c = Some reason \<and> isImageError reason))"
  by (rule isPodInFailureState_iff)


text \<open>
  C13: whenever \<open>deletePod\<close> sends the deletion of a pod, each claim the pod mounts has been read and
  successfully marked as unmounted before.
\<close>

theorem delete_after_unmounting:
  assumes "run_state (deletePod E c pod) h = (r, h @ pre @ e # rest)" and "is_pod_delete e"
    and "v \<in> set (ps_Volumes (pod_Spec pod))" and "vol_Source v = PersistentVolumeClaimVolume claim"
  shows "marked_unmounted E (pod_Namespace pod) claim pre"
  using assms by (intro deletePod_marks_claims) simp_all

theorem delete_after_unmounting_witness:
  "\<exists>pre. marked_unmounted env_running ''k'' ''claim'' pre"
proof -
  let ?pod = "running_pod ''c0-1''"
  let ?run = "run_state (deletePod env_running cluster0 ?pod) []"
  have "list_ex is_pod_delete (snd ?run)" by code_simp
  then obtain pre e rest where "snd ?run = pre @ e # rest" and e: "is_pod_delete e"
    by (metis list_ex_iff split_list)
  then have "?run = (fst ?run, [] @ pre @ e # rest)" by (metis append_Nil prod.collapse)
  from delete_after_unmounting [OF this e, of "hd (ps_Volumes pod_spec0)" "''claim''"]
  show ?thesis by (auto simp: running_pod_def pod_spec0_def zero_meta_def)
qed

definition created_as_desired ::
    "env \<Rightarrow> AerospikeCluster \<Rightarrow> ConfigMap \<Rightarrow> int \<Rightarrow> Pod \<Rightarrow> event list \<Rightarrow> bool" where
  "created_as_desired E c cm i p es \<longleftrightarrow>
     (\<exists>req. EvCreatePod req True \<in> set es \<and> pod_Name req = pod_name c i \<and>
        str_at (om_Annotations (pod_Meta req)) configMapHashAnnotation = config_hash cm \<and>
        str_at (om_Annotations (pod_Meta req)) nodeIdAnnotation = computeNodeId E (pod_name c i)) \<and>
     isPodRunningAndReady E p \<and> \<not> isPodInFailureState p"

text \<open>
  When \<open>createPodWithIndex\<close> succeeds, the pod it asked for has the name of the index, the node
  id computed from it and the hash of the current configuration, and the pod it returns was seen
  running and ready and in no failure state.
\<close>

theorem created_pod_is_ready:
  assumes "run_state (createPodWithIndex E c cm i u) h = (Inr p, h')"
  shows "created_as_desired E c cm i p (drop (length h) h')"
  using assms by (rule createPod_ok) (auto simp: created_as_desired_def)

theorem created_pod_is_ready_witness:
  "\<exists>p es. created_as_desired env0 cluster0 (buildConfigMap env0 cluster0) 0 p es"
proof -
  let ?run = "run_state (createPodWithIndex env0 cluster0 (buildConfigMap env0 cluster0) 0 None) []"
  have "is_ok (fst ?run)" by code_simp
  then obtain p where "fst ?run = Inr p" by (cases "fst ?run") auto
  then have "?run = (Inr p, snd ?run)" by (simp add: prod_eq_iff)
  from created_pod_is_ready [OF this] show ?thesis by blast
qed

text \<open>
  When \<open>maybeUpgradePodWithIndex\<close> returns a pod, the node in that pod reports the version the
  spec asks for.
\<close>

theorem upgraded_pod_has_version:
  assumes "run_state (maybeUpgradePodWithIndex E c cm i u) h = (Inr (Some p), h')"
  shows "reports_version E p (spec_Version (asc_Spec c))"
  using assms by (rule maybeUpgrade_ok)

theorem upgraded_pod_has_version_witness: "reports_version env_running (running_pod ''c0-0'') ''4.2.0.3''"
proof -
  let ?u = "\<lparr>Source = Version 4 1 0 1, Target = Version 4 2 0 3\<rparr>"
  have "itoa 0 = ''0''" by code_simp
  then have "run_state (maybeUpgradePodWithIndex env_running cluster0 cm 0 ?u) [] =
      (Inr (Some (running_pod ''c0-0'')),
       snd (run_state (maybeUpgradePodWithIndex env_running cluster0 cm 0 ?u) []))" for cm
    by (simp add: maybeUpgradePodWithIndex_def getPodWithIndex_def getAerospikeServerVersionFromPod_def
        runInfoCommandOnPod_def env_running_def env0_def cluster0_def spec0_def pod_name_def zero_meta_def)
  from upgraded_pod_has_version [OF this] show ?thesis by (simp add: cluster0_def spec0_def)
qed

text \<open>
  When \<open>ensurePods\<close> succeeds outside an upgrade, every index below the node count has a pod on
  the current configuration: one that was created with its hash, or one that was read with it and in
  no failure state.
\<close>

theorem rollout_complete:
  assumes "run_state (ensurePods E c cm None) h = (Inr x, h')"
    and "0 \<le> i" and "i < spec_NodeCount (asc_Spec c)"
  shows "pod_current E c cm i (drop (length h) h')"
  using assms
proof (rule ensurePods_ok)
  fix es es1 es2
  assume run: "run_state (ensure_pod E c cm None i) (h @ es) = (Inr (), h @ es @ es1)"
    and h': "h' = h @ es @ es1 @ es2"
  from ensure_pod_current [OF run] show ?thesis
    by (auto simp: pod_current_def h')
qed

theorem rollout_complete_witness:
  "\<exists>es. pod_current env0 cluster0 (buildConfigMap env0 cluster0) 1 es"
proof -
  let ?run = "run_state (ensurePods env0 cluster0 (buildConfigMap env0 cluster0) None) []"
  have "is_ok (fst ?run)" by code_simp
  then have "?run = (Inr (), snd ?run)" by (cases "fst ?run") (auto simp: prod_eq_iff)
  from rollout_complete [OF this, of 1] show ?thesis by (auto simp: cluster0_def spec0_def)
qed

text \<open>
  No environment makes \<open>ensurePods\<close> return \<open>PodUpgradeFailed\<close>, the error on which the reconciler
  would mark an upgrade as failed: a failed pod upgrade is reported with another error and the upgrade
  stays marked as started.
\<close>

theorem pod_upgrade_failure_unreported: "avoids PodUpgradeFailed (ensurePods E c cm u)"
  by (rule avoids_ensurePods)

section \<open>Claims\<close>

definition only_new_claims :: "env \<Rightarrow> nat \<Rightarrow> Pod \<Rightarrow> Pod \<Rightarrow> event list \<Rightarrow> bool" where
  "only_new_claims E n pod pod' es \<longleftrightarrow>
     length es = n \<and> (\<exists>pvcs. list_all2 (created_claim E) es pvcs \<and>
       map vol_Source (ps_Volumes (pod_Spec pod')) =
         map vol_Source (ps_Volumes (pod_Spec pod)) @ map (\<lambda>p. PersistentVolumeClaimVolume (pvc_Name p)) pvcs)"

text \<open>
  C27: a pod that is created for an upgrade whose strategy recreates the claims mounts, for each
  namespace, the answer to a creation made on the spot, and no existing claim is touched.
\<close>

theorem upgrade_recreates_claims:
  assumes "GetStrategy u = Inr s" and "Source u < Version 4 2 0 0" and "Version 4 2 0 0 \<le> Target u"
    and "run_state (attach_volumes E c (Some s) i nss pod) h = (Inr pod', h')"
  shows "only_new_claims E (length nss) pod pod' (drop (length h) h')"
proof -
  have "IsSupported (Source u)" "IsSupported (Target u)"
    using assms(1) by (auto simp: GetStrategy_def IsValid_def Let_def split: if_splits)
  moreover from this have "Minor (Source u) \<le> 1" "2 \<le> Minor (Target u)" "Major (Target u) = 4"
    using supported_ge_42 supported_major assms(2,3) by (auto simp: not_le [symmetric]; fastforce)+
  ultimately have "RecreatePersistentVolumeClaims s"
    using assms(1) by (auto simp: GetStrategy_def To42XYStrategy_def Let_def split: if_splits)
  from attach_recreate [OF this assms(4)] show ?thesis by (auto simp: only_new_claims_def)
qed

theorem upgrade_recreates_claims_witness:
  "\<exists>pod' es. only_new_claims env0 1 (running_pod ''c0-0'') pod' es"
proof -
  let ?u = "\<lparr>Source = Version 4 1 0 1, Target = Version 4 2 0 3\<rparr>"
  let ?run = "run_state (attach_volumes env0 cluster0 (Some To42XYStrategy) 0 [ns0] (running_pod ''c0-0'')) []"
  have "is_ok (fst ?run)" by code_simp
  then obtain p where "fst ?run = Inr p" by (cases "fst ?run") auto
  then have "?run = (Inr p, snd ?run)" by (simp add: prod_eq_iff)
  moreover have "GetStrategy ?u = Inr To42XYStrategy" by code_simp
  ultimately show ?thesis
    using upgrade_recreates_claims [of ?u To42XYStrategy env0 cluster0 0 "[ns0]" "running_pod ''c0-0''" "[]" p]
    by (auto simp: version_order)
qed





end
