(* ===== verification/UpgradeProtocol.thy ===== *)
theory UpgradeProtocol
  imports Reconciler Examples
begin

text \<open>
  The protocol of an upgrade, as an abstract state machine, and the proof that
  \<open>MaybeReconcile\<close> (\<^verbatim>\<open>pkg/reconciler/cluster.go\<close>) follows it: a state is the phase kept
  in the upgrade annotation, the version recorded in the status and the version wanted by the
  spec; every write of a reconciliation to the cluster object is one of five steps.
\<close>

section \<open>The abstract machine\<close>

datatype upgrade_phase = Idle | BackingUp | Rolling | Failed

record upgrade_state =
  us_Phase :: upgrade_phase
  us_Recorded :: string
  us_Wanted :: string

text \<open>
  \<open>backed\<close> says whether the pre-upgrade backup of every namespace was found finished.
  \<open>upgrade_failed\<close> leaves the machine in a phase that has no step of its own.
\<close>

inductive upgrade_step :: "bool \<Rightarrow> upgrade_state \<Rightarrow> upgrade_state \<Rightarrow> bool" for backed where
  start_backup:
    "us_Phase s = Idle \<Longrightarrow> us_Recorded s \<noteq> [] \<Longrightarrow> us_Recorded s \<noteq> us_Wanted s \<Longrightarrow>
     upgrade_step backed s (s\<lparr>us_Phase := BackingUp\<rparr>)"
| start_upgrade:
    "us_Phase s = BackingUp \<Longrightarrow> us_Recorded s \<noteq> [] \<Longrightarrow> backed \<Longrightarrow>
     upgrade_step backed s (s\<lparr>us_Phase := Rolling\<rparr>)"
| upgrade_failed:
    "us_Phase s = BackingUp \<Longrightarrow> us_Recorded s \<noteq> [] \<Longrightarrow>
     upgrade_step backed s (s\<lparr>us_Phase := Failed\<rparr>)"
| record_version:
    "us_Phase s = Rolling \<or> us_Phase s \<noteq> Failed \<and> us_Recorded s = [] \<Longrightarrow>
     upgrade_step backed s (s\<lparr>us_Recorded := us_Wanted s\<rparr>)"
| finish_upgrade:
    "us_Phase s = Rolling \<Longrightarrow> us_Recorded s = us_Wanted s \<Longrightarrow>
     upgrade_step backed s (s\<lparr>us_Phase := Idle\<rparr>)"

inductive_cases upgrade_stepE: "upgrade_step backed s s'"

text \<open>
  The whole system: the user may ask for another version at any time, and a fresh cluster has
  neither a recorded version nor an annotation.
\<close>

inductive upgrade_reach :: "upgrade_state \<Rightarrow> bool" where
  fresh: "v \<noteq> [] \<Longrightarrow> upgrade_reach \<lparr>us_Phase = Idle, us_Recorded = [], us_Wanted = v\<rparr>"
| asked: "upgrade_reach s \<Longrightarrow> v \<noteq> [] \<Longrightarrow> upgrade_reach (s\<lparr>us_Wanted := v\<rparr>)"
| moved: "upgrade_reach s \<Longrightarrow> upgrade_step backed s s' \<Longrightarrow> upgrade_reach s'"

lemma failed_is_final:
  assumes "upgrade_step backed s s'"
  shows "us_Phase s \<noteq> Failed"
  using assms by (cases rule: upgrade_step.cases) auto

lemma step_keeps_wanted:
  assumes "upgrade_step backed s s'"
  shows "us_Wanted s' = us_Wanted s"
  using assms by (cases rule: upgrade_step.cases) auto

text \<open>The recorded version moves to the wanted one, and away from a version only while rolling.\<close>

lemma step_records:
  assumes "upgrade_step backed s s'" and "us_Recorded s' \<noteq> us_Recorded s"
  shows "us_Recorded s' = us_Wanted s \<and> (us_Recorded s = [] \<or> us_Phase s = Rolling)"
  using assms by (cases rule: upgrade_step.cases) auto

text \<open>Only a finished backup lets an upgrade begin to roll.\<close>

lemma step_needs_backup:
  assumes "upgrade_step backed s s'" and "us_Phase s' = Rolling" and "us_Phase s \<noteq> Rolling"
  shows "backed \<and> us_Phase s = BackingUp"
  using assms by (cases rule: upgrade_step.cases) auto

text \<open>An upgrade is under way only in a cluster that has a version to upgrade from.\<close>

lemma reach_recorded:
  "upgrade_reach s \<Longrightarrow> us_Wanted s \<noteq> [] \<and> (us_Phase s \<noteq> Idle \<longrightarrow> us_Recorded s \<noteq> [])"
proof (induction rule: upgrade_reach.induct)
  case (moved s backed s')
  from moved(2) show ?case using moved.IH
    by (cases rule: upgrade_step.cases) auto
qed simp_all

text \<open>
  The machine can be left rolling after the version was recorded (the last step is a write of its
  own). A request made then finds it rolling, and is rolled out without a backup: nothing between
  the request and the record needs \<open>backed\<close>.
\<close>

definition skips_backup :: "upgrade_state \<Rightarrow> bool" where
  "skips_backup s \<longleftrightarrow> us_Phase s = Rolling \<and> us_Recorded s = us_Wanted s \<and>
     (\<forall>v. v \<noteq> us_Recorded s \<longrightarrow>
        upgrade_step False (s\<lparr>us_Wanted := v\<rparr>) (s\<lparr>us_Wanted := v, us_Recorded := v\<rparr>))"

lemma rolling_skips_backup:
  "us_Phase s = Rolling \<Longrightarrow> us_Recorded s = us_Wanted s \<Longrightarrow> skips_backup s"
  unfolding skips_backup_def
proof (intro conjI allI impI)
  fix v
  assume "us_Phase s = Rolling"
  then show "upgrade_step False (s\<lparr>us_Wanted := v\<rparr>) (s\<lparr>us_Wanted := v, us_Recorded := v\<rparr>)"
    using upgrade_step.record_version [of "s\<lparr>us_Wanted := v\<rparr>" False] by simp
qed

lemma skipping_reachable:
  assumes "v \<noteq> []" and "w \<noteq> []" and "v \<noteq> w"
  shows "\<exists>s. upgrade_reach s \<and> us_Wanted s = w \<and> skips_backup s"
proof -
  let ?s = "\<lambda>p r w. \<lparr>us_Phase = p, us_Recorded = r, us_Wanted = w\<rparr>"
  have "upgrade_reach (?s Idle [] v)" using assms by (intro upgrade_reach.fresh)
  then have "upgrade_reach (?s Idle v v)"
    using upgrade_reach.moved upgrade_step.record_version [of "?s Idle [] v"] by fastforce
  then have "upgrade_reach (?s Idle v w)" using assms upgrade_reach.asked [of "?s Idle v v" w] by simp
  then have "upgrade_reach (?s BackingUp v w)"
    using assms upgrade_reach.moved upgrade_step.start_backup [of "?s Idle v w"] by fastforce
  then have "upgrade_reach (?s Rolling v w)"
    using assms upgrade_reach.moved upgrade_step.start_upgrade [of "?s BackingUp v w" True] by fastforce
  then have "upgrade_reach (?s Rolling w w)"
    using upgrade_reach.moved upgrade_step.record_version [of "?s Rolling v w"] by fastforce
  then show ?thesis using rolling_skips_backup [of "?s Rolling w w"] by force
qed

section \<open>The writes of a reconciliation, seen as steps\<close>

fun phase_of :: "string option \<Rightarrow> upgrade_phase" where
  "phase_of None = Idle"
| "phase_of (Some v) =
     (if v = UpgradeStatusBackupAnnotationValue then BackingUp
      else if v = UpgradeStatusFailedAnnotationValue then Failed
      else Rolling)"

definition upgrade_view :: "AerospikeCluster \<Rightarrow> upgrade_state" where
  "upgrade_view c = \<lparr>us_Phase = phase_of (upgrade_status c),
     us_Recorded = spec_Version (status_Spec (asc_Status c)),
     us_Wanted = spec_Version (asc_Spec c)\<rparr>"

text \<open>
  \<open>upgrade_path backed s es s'\<close>: the calls \<open>es\<close> lead from \<open>s\<close> to \<open>s'\<close>. A patch is computed from an
  object that is in the current state and sends one that is there too or a step further; the status
  update that follows a patch sends a status that agrees with the current state.
\<close>

fun upgrade_path :: "bool \<Rightarrow> upgrade_state \<Rightarrow> history \<Rightarrow> upgrade_state \<Rightarrow> bool" where
  "upgrade_path backed s [] s' = (s' = s)"
| "upgrade_path backed s (e # es) s' =
     (case e of
        EvPatchCluster old new _ \<Rightarrow>
          upgrade_view old = s \<and> (upgrade_view new = s \<or> upgrade_step backed s (upgrade_view new)) \<and>
          upgrade_path backed (upgrade_view new) es s'
      | EvUpdateClusterStatus d _ \<Rightarrow>
          spec_Version (status_Spec (asc_Status d)) = us_Recorded s \<and> upgrade_path backed s es s'
      | _ \<Rightarrow> upgrade_path backed s es s')"

lemma upgrade_path_append:
  "upgrade_path backed s es s1 \<Longrightarrow> upgrade_path backed s1 es' s2 \<Longrightarrow> upgrade_path backed s (es @ es') s2"
  by (induction backed s es s1 rule: upgrade_path.induct) (auto split: event.splits)

lemma upgrade_path_quiet:
  "list_all (\<lambda>e. writes_cluster e = None) es \<Longrightarrow> upgrade_path backed s es s"
  by (induction es) (auto split: event.splits)

text \<open>The endpoints of a path are related by the machine.\<close>

lemma upgrade_path_steps: "upgrade_path backed s es s' \<Longrightarrow> (upgrade_step backed)\<^sup>*\<^sup>* s s'"
proof (induction backed s es s' rule: upgrade_path.induct)
  case (2 backed s e es s')
  then show ?case
    by (auto split: event.splits intro: converse_rtranclp_into_rtranclp)
qed simp

text \<open>
  \<open>simulates backed s m T\<close>: from state \<open>s\<close>, whatever the environment answers, the calls of \<open>m\<close>
  follow the machine to a state related by \<open>T\<close> to the result.
\<close>

definition simulates ::
    "bool \<Rightarrow> upgrade_state \<Rightarrow> 'a act \<Rightarrow> ('a \<Rightarrow> upgrade_state \<Rightarrow> bool) \<Rightarrow> bool" where
  "simulates backed s m T \<longleftrightarrow>
     (\<forall>h. \<exists>es s'. snd (run_state m h) = h @ es \<and> upgrade_path backed s es s' \<and>
        T (fst (run_state m h)) s')"

named_theorems simulates_intro \<open>which steps of the protocol a piece of code makes\<close>

lemma simulates_return [simulates_intro]: "T x s \<Longrightarrow> simulates backed s (ret x) T"
  by (simp add: simulates_def)

lemma simulates_bind_run:
  assumes m: "simulates backed s m M"
    and f: "\<And>x s' h h'. run_state m h = (x, h') \<Longrightarrow> M x s' \<Longrightarrow> simulates backed s' (f x) T"
  shows "simulates backed s (State_Monad.bind m f) T"
  unfolding simulates_def
proof
  fix h
  obtain x h1 where run: "run_state m h = (x, h1)" by fastforce
  with m obtain es s1 where 1: "h1 = h @ es" "upgrade_path backed s es s1" "M x s1"
    unfolding simulates_def by (metis fst_conv snd_conv)
  from f [OF run 1(3)] obtain es' s2 where
    2: "snd (run_state (f x) h1) = h1 @ es'" "upgrade_path backed s1 es' s2"
      "T (fst (run_state (f x) h1)) s2"
    unfolding simulates_def by blast
  from upgrade_path_append [OF 1(2) 2(2)] 1(1) 2(1,3) run
  show "\<exists>es s'. snd (run_state (State_Monad.bind m f) h) = h @ es \<and> upgrade_path backed s es s' \<and>
        T (fst (run_state (State_Monad.bind m f) h)) s'"
    by (intro exI [of _ "es @ es'"] exI [of _ s2]) simp
qed

lemma simulates_bindE_run:
  assumes m: "simulates backed s m M"
    and f: "\<And>x s' h h'. run_state m h = (Inr x, h') \<Longrightarrow> M (Inr x) s' \<Longrightarrow> simulates backed s' (f x) T"
    and e: "\<And>e s'. M (Inl e) s' \<Longrightarrow> T (Inl e) s'"
  shows "simulates backed s (bindE m f) T"
  unfolding bindE_def
proof (rule simulates_bind_run [OF m])
  fix r s' h h'
  assume "run_state m h = (r, h')" "M r s'"
  then show "simulates backed s' (case r of Inl e \<Rightarrow> fail e | Inr x \<Rightarrow> f x) T"
    by (cases r) (auto intro: f e simulates_return)
qed

lemma simulates_liftE [simulates_intro]:
  "(\<And>x. r = Inr x \<Longrightarrow> simulates backed s (f x) T) \<Longrightarrow> (\<And>e. r = Inl e \<Longrightarrow> T (Inl e) s) \<Longrightarrow>
     simulates backed s (liftE r f) T"
  by (cases r) (simp_all add: liftE_def simulates_return)

lemma simulates_if [simulates_intro]:
  "(b \<Longrightarrow> simulates backed s m T) \<Longrightarrow> (\<not> b \<Longrightarrow> simulates backed s m' T) \<Longrightarrow>
     simulates backed s (if b then m else m') T"
  by simp

lemma simulates_weaken:
  "simulates backed s m M \<Longrightarrow> (\<And>x s'. M x s' \<Longrightarrow> T x s') \<Longrightarrow> simulates backed s m T"
  unfolding simulates_def by blast

text \<open>Calls that do not write the cluster leave the state where it is.\<close>

lemma simulates_quiet:
  assumes "emits (\<lambda>e. writes_cluster e = None) m"
  shows "simulates backed s m (\<lambda>_ s'. s' = s)"
  using assms unfolding simulates_def emits_def by (metis upgrade_path_quiet)

lemma simulates_call:
  assumes "\<And>x. upgrade_path backed s [ev x] s'" and "\<And>x. T x s'"
  shows "simulates backed s (call ev f) T"
  unfolding simulates_def using assms by auto

text \<open>A patch moves to the state of the object it sends; if it fails it may not have been sent.\<close>

lemma simulates_patchCluster:
  assumes old: "upgrade_view old = s"
    and new: "upgrade_view new = s \<or> upgrade_step backed s (upgrade_view new)"
  shows "simulates backed s (patchCluster E old new)
    (\<lambda>r s'. s' = upgrade_view new \<or> (\<exists>e. r = Inl e) \<and> s' = s)" (is "simulates _ _ _ ?T")
proof -
  let ?s' = "upgrade_view new"
  have version: "spec_Version (status_Spec (asc_Status new)) = us_Recorded ?s'"
    by (simp add: upgrade_view_def)
  have update: "simulates backed ?s' (bindE (Clusters_UpdateStatus E (d\<lparr>asc_Status := asc_Status new\<rparr>))
      (\<lambda>_. ok ())) (\<lambda>_ s'. s' = ?s')" for d
    by (intro simulates_bindE_run [where M = "\<lambda>_ s'. s' = ?s'"] simulates_call)
      (auto simp: version intro: simulates_return)
  show ?thesis unfolding patchCluster_def Let_def
  proof (intro simulates_intro)
    fix b
    show "simulates backed s (bindE (Clusters_Patch E b old new) (\<lambda>new'.
        if asc_Status new' \<noteq> asc_Status new
        then bindE (Clusters_UpdateStatus E (new'\<lparr>asc_Status := asc_Status new\<rparr>)) (\<lambda>_. ok ())
        else ok ())) ?T"
      by (intro simulates_bindE_run [where M = "\<lambda>_ s'. s' = ?s'"] simulates_call)
        (use new in \<open>auto simp: old intro!: simulates_return simulates_weaken [OF update]\<close>)
  qed (use old in auto)
qed

section \<open>The signals\<close>

lemma upgrade_view_simps [simp]:
  "upgrade_view (appendCondition x c) = upgrade_view c"
  "upgrade_view (setAerospikeClusterAnnotation UpgradeStatusAnnotationKey v c) =
     (upgrade_view c)\<lparr>us_Phase := phase_of (Some v)\<rparr>"
  "upgrade_view (removeAerospikeClusterAnnotation UpgradeStatusAnnotationKey c) =
     (upgrade_view c)\<lparr>us_Phase := Idle\<rparr>"
  "upgrade_view (updateStatus c) = (upgrade_view c)\<lparr>us_Recorded := us_Wanted (upgrade_view c)\<rparr>"
  by (simp_all add: upgrade_view_def)

text \<open>After a signal: the object it leaves, and the state reached unless it failed.\<close>

definition signalled ::
    "upgrade_state \<Rightarrow> upgrade_state \<Rightarrow> AerospikeCluster \<times> (gerr + unit) \<Rightarrow> upgrade_state \<Rightarrow> bool" where
  "signalled s t x s' \<longleftrightarrow> upgrade_view (fst x) = t \<and> (s' = t \<or> s' = s \<and> (\<exists>e. snd x = Inl e))"

lemma simulates_patch_and_record:
  assumes "upgrade_view old = s" and "upgrade_view new = t" and "t = s \<or> upgrade_step backed s t"
  shows "simulates backed s (patch_and_record E old etype reason new) (signalled s t)"
  unfolding patch_and_record_def
proof (rule simulates_bind_run [OF simulates_patchCluster])
  fix r :: "gerr + unit" and s' h h'
  assume "s' = upgrade_view new \<or> (\<exists>e. r = Inl e) \<and> s' = s"
  then show "simulates backed s' (case r of
       Inl err \<Rightarrow> ret (new, Inl err)
     | Inr _ \<Rightarrow> do { Record etype reason; ret (new, Inr ()) }) (signalled s t)"
    using assms(2)
    by (cases r) (auto simp: signalled_def
      intro!: simulates_return simulates_bind_run [where M = "\<lambda>_ s'. s' = t"] simulates_call)
qed (use assms in auto)

text \<open>Reading the clock comes first in every signal.\<close>

lemma simulates_Now:
  "(\<And>t. simulates backed s (f t) T) \<Longrightarrow> simulates backed s (State_Monad.bind (Now E) f) T"
  by (rule simulates_bind_run [where M = "\<lambda>_ s'. s' = s"]) (auto intro: simulates_call)

lemma simulates_signals:
  assumes s: "s = upgrade_view c"
  shows "us_Phase s = Idle \<Longrightarrow> us_Recorded s \<noteq> [] \<Longrightarrow> us_Recorded s \<noteq> us_Wanted s \<Longrightarrow>
      simulates backed s (signalBackupStarted E c) (signalled s (s\<lparr>us_Phase := BackingUp\<rparr>))"
    and "simulates backed s (signalBackupFinished E c) (signalled s s)"
    and "simulates backed s (signalBackupFailed E c) (signalled s s)"
    and "us_Phase s = BackingUp \<Longrightarrow> us_Recorded s \<noteq> [] \<Longrightarrow> backed \<Longrightarrow>
      simulates backed s (signalUpgradeStarted E c u) (signalled s (s\<lparr>us_Phase := Rolling\<rparr>))"
    and "us_Phase s = BackingUp \<Longrightarrow> us_Recorded s \<noteq> [] \<Longrightarrow>
      simulates backed s (signalUpgradeFailed E c u) (signalled s (s\<lparr>us_Phase := Failed\<rparr>))"
    and "us_Phase s = Rolling \<Longrightarrow> us_Recorded s = us_Wanted s \<Longrightarrow>
      simulates backed s (signalUpgradeFinished E c u) (signalled s (s\<lparr>us_Phase := Idle\<rparr>))"
  unfolding signal_defs
  by (intro simulates_Now simulates_patch_and_record;
      simp add: s upgrade_annotation_values upgrade_step.intros)+

section \<open>A reconciliation\<close>

text \<open>Whatever a reconciliation returns, it leaves the wanted version alone.\<close>

abbreviation moves :: "bool \<Rightarrow> upgrade_state \<Rightarrow> unit acte \<Rightarrow> bool" where
  "moves backed s m \<equiv> simulates backed s m (\<lambda>_ s'. us_Wanted s' = us_Wanted s)"

lemma moves_quiet: "emits (\<lambda>e. writes_cluster e = None) m \<Longrightarrow> moves backed s m"
  by (rule simulates_weaken [OF simulates_quiet]) auto

lemma moves_bindE_quiet:
  assumes "emits (\<lambda>e. writes_cluster e = None) m" and "\<And>x. moves backed s (f x)"
  shows "moves backed s (bindE m f)"
  by (rule simulates_bindE_run [OF simulates_quiet [OF assms(1)]]) (use assms(2) in auto)

text \<open>After a signal, the code goes on with the object it leaves, or returns the error.\<close>

lemma moves_signal:
  assumes sig: "simulates backed s m (signalled s t)" and t: "us_Wanted t = us_Wanted s"
    and go_on: "\<And>c1. upgrade_view c1 = t \<Longrightarrow> moves backed t (f (c1, Inr ()))"
    and err: "\<And>c1 e. f (c1, Inl e) = fail e"
  shows "moves backed s (State_Monad.bind m f)"
proof (rule simulates_bind_run [OF sig])
  fix x s' h h'
  assume sx: "signalled s t x s'"
  obtain c1 r where x: "x = (c1, r)" by fastforce
  show "simulates backed s' (f x) (\<lambda>_ s'. us_Wanted s' = us_Wanted s)"
  proof (cases r)
    case (Inl e)
    then show ?thesis using sx t by (auto simp: x err signalled_def intro: simulates_return)
  next
    case (Inr u)
    then show ?thesis using sx t go_on [of c1] by (auto simp: x signalled_def)
  qed
qed

text \<open>
  The end of a reconciliation: the status is written, and the upgrade is finished if there is one.
\<close>

lemma moves_finish:
  assumes s: "s = upgrade_view c"
    and u: "us_Phase s = Rolling \<or> u = None \<and> us_Phase s \<noteq> Failed \<and>
      (us_Recorded s = [] \<or> us_Recorded s = us_Wanted s)"
  shows "moves backed s (bindE (patchCluster E c (updateStatus c)) (\<lambda>_. case u of
        None \<Rightarrow> ok ()
      | Some u \<Rightarrow> do { r \<leftarrow> signalUpgradeFinished E (updateStatus c) u;
                       case snd r of Inl err \<Rightarrow> fail err | Inr _ \<Rightarrow> ok () }))"
proof -
  let ?t = "upgrade_view (updateStatus c)"
  have t: "?t = s\<lparr>us_Recorded := us_Wanted s\<rparr>" by (simp add: s)
  then have "?t = s \<or> upgrade_step backed s ?t" using u by (auto intro: upgrade_step.record_version)
  note patch = simulates_patchCluster [OF s [symmetric] this]
  show ?thesis
  proof (rule simulates_bindE_run [OF patch])
    fix x :: unit and s' h h'
    assume "s' = ?t \<or> (\<exists>e. (Inr x :: gerr + unit) = Inl e) \<and> s' = s"
    then have s': "s' = ?t" by simp
    show "simulates backed s' (case u of
        None \<Rightarrow> ok ()
      | Some u \<Rightarrow> do { r \<leftarrow> signalUpgradeFinished E (updateStatus c) u;
                       case snd r of Inl err \<Rightarrow> fail err | Inr _ \<Rightarrow> ok () })
      (\<lambda>_ s'. us_Wanted s' = us_Wanted s)"
    proof (cases u)
      case None
      then show ?thesis using s' t by (auto intro: simulates_return)
    next
      case (Some v)
      then have "us_Phase s' = Rolling" "us_Recorded s' = us_Wanted s'" using u s' t by auto
      note sig = simulates_signals(6) [OF s' this]
      have "us_Wanted s' = us_Wanted s" using s' t by simp
      moreover have "moves backed s' (do { r \<leftarrow> signalUpgradeFinished E (updateStatus c) v;
                       case snd r of Inl err \<Rightarrow> fail err | Inr _ \<Rightarrow> ok () })"
        by (rule moves_signal [OF sig]) (auto intro: simulates_return)
      ultimately show ?thesis using Some by simp
    qed
  qed (use t in auto)
qed

text \<open>\<open>reconcile\<close>: everything before the end only reads or writes other objects.\<close>

lemma moves_reconcile:
  assumes s: "s = upgrade_view c"
    and u: "us_Phase s = Rolling \<or> u = None \<and> us_Phase s \<noteq> Failed \<and>
      (us_Recorded s = [] \<or> us_Recorded s = us_Wanted s)"
  shows "moves backed s (reconcile E c u)"
proof -
  let ?rest = "\<lambda>r. case r of
         Inl err \<Rightarrow> if err = PodUpgradeFailed
           then (case u of Some u \<Rightarrow> do { _ \<leftarrow> signalUpgradeFailed E c u; fail err } | None \<Rightarrow> fail NilPanic)
           else fail err
       | Inr _ \<Rightarrow> bindE (patchCluster E c (updateStatus c)) (\<lambda>_. case u of
            None \<Rightarrow> ok ()
          | Some u \<Rightarrow> do { s \<leftarrow> signalUpgradeFinished E (updateStatus c) u;
                           case snd s of Inl err \<Rightarrow> fail err | Inr _ \<Rightarrow> ok () })"
  have pods: "emits (\<lambda>e. writes_cluster e = None) (ensurePods E c cm u)" for cm
    by (rule emits_weaken [OF emits_ensurePods]) simp
  have "moves backed s (State_Monad.bind (ensurePods E c cm u) ?rest)" for cm
  proof (rule simulates_bind_run [OF simulates_quiet [OF pods]])
    fix r s' h h'
    assume run: "run_state (ensurePods E c cm u) h = (r, h')" and "s' = s"
    then show "simulates backed s' (?rest r) (\<lambda>_ s'. us_Wanted s' = us_Wanted s)"
      using avoidsD [OF avoids_ensurePods run] moves_finish [OF s u]
      by (cases r) (auto intro: simulates_return)
  qed
  then show ?thesis unfolding reconcile_def Let_def
    by (intro moves_bindE_quiet simulates_if) (auto intro!: emits_intro simulates_return)
qed

lemma view_phase:
  "us_Phase (upgrade_view c) = phase_of (gm_get (om_Annotations (asc_Meta c)) UpgradeStatusAnnotationKey)"
  "us_Recorded (upgrade_view c) = spec_Version (status_Spec (asc_Status c))"
  "us_Wanted (upgrade_view c) = spec_Version (asc_Spec c)"
  by (simp_all add: upgrade_view_def upgrade_status_def)

lemma upgrade_of_some: "upgrade_of c = Inr (Some u) \<Longrightarrow>
    us_Recorded (upgrade_view c) \<noteq> [] \<and> us_Recorded (upgrade_view c) \<noteq> us_Wanted (upgrade_view c)"
  by (auto simp: upgrade_of_def view_phase Let_def split: if_splits sum.splits)

lemma upgrade_of_none: "upgrade_of c = Inr None \<Longrightarrow>
    us_Recorded (upgrade_view c) = [] \<or> us_Recorded (upgrade_view c) = us_Wanted (upgrade_view c)"
  by (auto simp: upgrade_of_def view_phase Let_def split: if_splits sum.splits)

text \<open>A failed backup ends the upgrade, whether or not its own condition could be written.\<close>

lemma moves_backup_failed:
  assumes s: "s = upgrade_view c" and ph: "us_Phase s = BackingUp" and rec: "us_Recorded s \<noteq> []"
  shows "moves backed s (do { t \<leftarrow> signalBackupFailed E c; _ \<leftarrow> signalUpgradeFailed E (fst t) u; fail err })"
proof (rule simulates_bind_run [OF simulates_signals(3) [OF s]])
  fix x s' h h'
  assume "signalled s s x s'"
  then have s': "s' = upgrade_view (fst x)" "s' = s" by (auto simp: signalled_def)
  have "us_Phase s' = BackingUp" "us_Recorded s' \<noteq> []" using s' ph rec by simp_all
  note sig = simulates_signals(5) [OF s'(1) this]
  show "simulates backed s' (do { _ \<leftarrow> signalUpgradeFailed E (fst x) u; fail err })
      (\<lambda>_ s'. us_Wanted s' = us_Wanted s)"
    by (rule simulates_bind_run [OF sig]) (use s' in \<open>auto simp: signalled_def intro: simulates_return\<close>)
qed

lemma moves_before_upgrade:
  assumes s: "s = upgrade_view c" and rec: "us_Recorded s \<noteq> []" "us_Recorded s \<noteq> us_Wanted s"
    and ph: "us_Phase s \<noteq> Failed"
    and go_on: "\<And>c' s'. s' = upgrade_view c' \<Longrightarrow> us_Phase s' = Rolling \<Longrightarrow> us_Wanted s' = us_Wanted s \<Longrightarrow>
       moves (backups_complete E c) s' (go_on c')"
  shows "moves (backups_complete E c) s (before_upgrade E c u go_on)" (is "moves ?B s _")
proof -
  let ?key = "gm_get (om_Annotations (asc_Meta c)) UpgradeStatusAnnotationKey"
  have phase: "us_Phase s = phase_of ?key" by (simp add: s view_phase)
  have backup: "emits (\<lambda>e. writes_cluster e = None) (backupCluster E c1)" for c1
    by (auto intro!: emits_intro)
  consider "?key = None" | "?key = Some UpgradeStatusBackupAnnotationValue"
    | v where "?key = Some v" "v \<noteq> UpgradeStatusBackupAnnotationValue" by (cases ?key) auto
  then show ?thesis
  proof cases
    case 1
    then have "us_Phase s = Idle" using phase by simp
    note sig = simulates_signals(1) [OF s this rec]
    show ?thesis unfolding before_upgrade_def 1 option.case
      by (rule moves_signal [OF sig]) (auto intro: simulates_weaken [OF simulates_quiet [OF backup]])
  next
    case 2
    then have ph: "us_Phase s = BackingUp" using phase by simp
    note failed = moves_backup_failed [OF s ph rec(1)]
    have roll: "moves ?B s (do { s1 \<leftarrow> signalBackupFinished E c; case s1 of (c1, r) \<Rightarrow> case r of
           Inl err \<Rightarrow> fail err
         | Inr _ \<Rightarrow> do { s2 \<leftarrow> signalUpgradeStarted E c1 u; case s2 of (c2, r) \<Rightarrow>
             case r of Inl err \<Rightarrow> fail err | Inr _ \<Rightarrow> go_on c2 } })" if B: "backups_complete E c"
    proof (rule moves_signal [OF simulates_signals(2) [OF s]]; simp)
      fix c1 :: AerospikeCluster
      assume "upgrade_view c1 = s"
      note sig = simulates_signals(4) [OF this [symmetric] ph rec(1) B]
      show "moves ?B s (do { s2 \<leftarrow> signalUpgradeStarted E c1 u; case s2 of (c2, r) \<Rightarrow>
             case r of Inl err \<Rightarrow> fail err | Inr _ \<Rightarrow> go_on c2 })"
        by (rule moves_signal [OF sig]) (auto dest: go_on [OF sym])
    qed
    have fin: "emits (\<lambda>e. writes_cluster e = None) (isClusterBackupFinished E c)"
      by (auto intro!: emits_intro)
    have not: "UpgradeStatusBackupAnnotationValue \<noteq> UpgradeStatusFailedAnnotationValue"
      by (simp add: upgrade_annotation_values)
    show ?thesis unfolding before_upgrade_def 2 option.case
    proof (simp, rule simulates_bind_run [OF simulates_quiet [OF fin]], goal_cases)
      case (1 r s' h h')
      then show ?case using failed roll isClusterBackupFinished_true
        by (cases r) (auto intro: simulates_return)
    qed
  next
    case 3
    then have "us_Phase s = Rolling" using phase ph by (auto split: if_splits)
    then show ?thesis unfolding before_upgrade_def using 3 go_on [OF s] by simp
  qed
qed

lemma moves_MaybeReconcile: "moves (backups_complete E c) (upgrade_view c) (MaybeReconcile E c)"
proof (cases "gm_get (om_Annotations (asc_Meta c)) UpgradeStatusAnnotationKey
    = Some UpgradeStatusFailedAnnotationValue")
  case True
  then show ?thesis unfolding MaybeReconcile_def by (simp add: simulates_return)
next
  case False
  then have ph: "us_Phase (upgrade_view c) \<noteq> Failed"
    by (cases "gm_get (om_Annotations (asc_Meta c)) UpgradeStatusAnnotationKey")
      (auto simp: view_phase)
  show ?thesis unfolding MaybeReconcile_def if_not_P [OF False]
  proof (rule simulates_liftE)
    fix upgrade
    assume up: "upgrade_of c = Inr upgrade"
    show "moves (backups_complete E c) (upgrade_view c) (case upgrade of
        None \<Rightarrow> reconcile E c None
      | Some u \<Rightarrow> before_upgrade E c u (\<lambda>c'. reconcile E c' upgrade))"
    proof (cases upgrade)
      case None
      then show ?thesis using upgrade_of_none up ph by (auto intro!: moves_reconcile)
    next
      case (Some u)
      then have "us_Recorded (upgrade_view c) \<noteq> []"
        "us_Recorded (upgrade_view c) \<noteq> us_Wanted (upgrade_view c)" using upgrade_of_some up by auto
      then have "moves (backups_complete E c) (upgrade_view c)
          (before_upgrade E c u (\<lambda>c'. reconcile E c' upgrade))"
        by (intro moves_before_upgrade moves_reconcile) (use ph in auto)
      then show ?thesis using Some by simp
    qed
  qed simp
qed

text \<open>A path from a reachable state only sends objects in reachable states.\<close>

lemma path_reachable:
  "upgrade_path backed s es s' \<Longrightarrow> upgrade_reach s \<Longrightarrow> EvPatchCluster old new r \<in> set es \<Longrightarrow>
     upgrade_reach (upgrade_view new)"
  by (induction backed s es s' rule: upgrade_path.induct)
    (auto split: event.splits intro: upgrade_reach.moved)

section \<open>An upgrade left rolling\<close>

lemma no_creates_backup [simp]:
  "\<not> writes e \<Longrightarrow> \<not> creates_backup e" "pod_calls e \<Longrightarrow> \<not> creates_backup e"
  "signals_cluster e \<Longrightarrow> \<not> creates_backup e"
  by (cases e; simp)+

text \<open>In the phase after the backups, a reconciliation makes no backup.\<close>

lemma reconcile_no_backup: "emits (\<lambda>e. \<not> creates_backup e) (reconcile E c u)"
proof -
  have pods: "emits (\<lambda>e. \<not> creates_backup e) (ensurePods E c cm u)" for cm
    by (rule emits_weaken [OF emits_ensurePods]) simp
  show ?thesis unfolding reconcile_def Let_def
    by (auto intro!: emits_intro emits_patchCluster pods)
qed

lemma rolling_no_backup:
  assumes "us_Phase (upgrade_view c) = Rolling"
  shows "emits (\<lambda>e. \<not> creates_backup e) (MaybeReconcile E c)"
proof -
  from assms obtain v where
    v: "gm_get (om_Annotations (asc_Meta c)) UpgradeStatusAnnotationKey = Some v"
      "v \<noteq> UpgradeStatusBackupAnnotationValue"
    by (cases "gm_get (om_Annotations (asc_Meta c)) UpgradeStatusAnnotationKey")
      (auto simp: view_phase split: if_splits)
  then show ?thesis unfolding MaybeReconcile_def before_upgrade_def
    by (auto intro!: emits_intro reconcile_no_backup)
qed

text \<open>Without an upgrade to run, the annotation of every object sent is that of the object read.\<close>

fun keeps_annotation :: "string option \<Rightarrow> event \<Rightarrow> bool" where
  "keeps_annotation a (EvPatchCluster old new _) = (upgrade_status new = a)"
| "keeps_annotation a _ = True"

lemma not_patches [simp]:
  "\<not> writes e \<Longrightarrow> keeps_annotation a e" "pod_calls e \<Longrightarrow> keeps_annotation a e"
  by (cases e; simp)+

lemma recorded_keeps_annotation:
  assumes "us_Recorded (upgrade_view c) = us_Wanted (upgrade_view c)"
  shows "emits (keeps_annotation (upgrade_status c)) (MaybeReconcile E c)"
proof -
  let ?P = "keeps_annotation (upgrade_status c)"
  have up: "upgrade_of c = Inr None"
    using assms by (simp add: upgrade_of_def view_phase)
  have pods: "emits ?P (ensurePods E c cm None)" for cm
    by (rule emits_weaken [OF emits_ensurePods]) simp
  have patch: "emits ?P (patchCluster E c (updateStatus c))"
    by (rule emits_patchCluster) simp_all
  have avoid: "run_state (ensurePods E c cm None) h = (Inl e, h') \<Longrightarrow> e \<noteq> PodUpgradeFailed" for cm h e h'
    using avoidsD [OF avoids_ensurePods] by blast
  have "emits ?P (reconcile E c None)" unfolding reconcile_def Let_def
    by (auto intro!: emits_intro patch pods)
  then show ?thesis unfolding MaybeReconcile_def up
    by (auto intro!: emits_intro)
qed

text \<open>How it comes about: only the write that ends the upgrade fails, after the version was recorded.\<close>

definition env_interrupted :: env where
  "env_interrupted = env_running\<lparr>
     env_patch_cluster := (\<lambda>h ns n p. if list_ex (\<lambda>e. writes_cluster e \<noteq> None) h then Inl (OtherApi ''timeout'')
       else Inr (in_upgrade ''started'')),
     env_list_pods := (\<lambda>h ns l. Inr []),
     env_get_pod := (\<lambda>h ns n. Inl NotFound)\<rparr>"

fun accepted_status :: "event \<Rightarrow> bool" where
  "accepted_status (EvUpdateClusterStatus c accepted) =
     (accepted \<and> us_Phase (upgrade_view c) = Rolling \<and>
      us_Recorded (upgrade_view c) = us_Wanted (upgrade_view c))"
| "accepted_status e = False"

section \<open>Properties\<close>

text \<open>
  C3: a reconciliation follows the upgrade protocol. Whatever the environment answers, the cluster
  objects it sends lead from the state of the object it was given through steps of the abstract
  machine (an upgrade starts with the backups, rolls only once every backup is finished, records only
  the wanted version, ends only when that version is recorded, and is final once failed).
\<close>

theorem reconcile_follows_protocol:
  "simulates (backups_complete E c) (upgrade_view c) (MaybeReconcile E c)
     (\<lambda>_ s'. us_Wanted s' = spec_Version (asc_Spec c))"
  using moves_MaybeReconcile [of E c] by (simp add: view_phase)

text \<open>
  Every object a reconciliation sends keeps the invariants of the protocol: from a reachable state
  of the cluster, each patch carries a reachable one, so an object with an upgrade annotation always has
  a recorded version to upgrade from.
\<close>

theorem sent_states_reachable:
  assumes "upgrade_reach (upgrade_view c)" and "run_state (MaybeReconcile E c) h = (r, h @ es)"
    and "EvPatchCluster old new b \<in> set es"
  shows "upgrade_reach (upgrade_view new) \<and>
    (upgrade_status new \<noteq> None \<longrightarrow> spec_Version (status_Spec (asc_Status new)) \<noteq> [])"
proof -
  from moves_MaybeReconcile [of E c] assms(2) obtain s' where
    "upgrade_path (backups_complete E c) (upgrade_view c) es s'"
    unfolding simulates_def by (metis same_append_eq snd_conv)
  from path_reachable [OF this assms(1,3)] have "upgrade_reach (upgrade_view new)" .
  moreover have "us_Phase (upgrade_view new) \<noteq> Idle" if "upgrade_status new \<noteq> None"
    using that by (auto simp: upgrade_view_def split: if_splits)
  moreover have "us_Recorded (upgrade_view new) = spec_Version (status_Spec (asc_Status new))"
    by (simp add: view_phase)
  ultimately show ?thesis using reach_recorded [of "upgrade_view new"] by metis
qed

fun is_patch :: "event \<Rightarrow> bool" where
  "is_patch (EvPatchCluster _ _ _) = True"
| "is_patch _ = False"

theorem sent_states_reachable_witness:
  "\<exists>old new b. EvPatchCluster old new b \<in> set (snd (run_state (MaybeReconcile env0 cluster0) [])) \<and>
     upgrade_reach (upgrade_view new)"
proof -
  let ?run = "run_state (MaybeReconcile env0 cluster0) []"
  have "list_ex is_patch (snd ?run)" by code_simp
  then obtain e where e: "e \<in> set (snd ?run)" "is_patch e" by (auto simp: list_ex_iff)
  from e(2) obtain old new b where "e = EvPatchCluster old new b" by (cases e) simp_all
  with e(1) have sent: "EvPatchCluster old new b \<in> set (snd ?run)" by simp
  let ?s = "\<lambda>r w. \<lparr>us_Phase = Idle, us_Recorded = r, us_Wanted = w\<rparr>"
  have "upgrade_reach (?s [] ''4.1.0.1'')" by (intro upgrade_reach.fresh) simp
  then have "upgrade_reach (?s ''4.1.0.1'' ''4.1.0.1'')"
    using upgrade_reach.moved upgrade_step.record_version [of "?s [] ''4.1.0.1''"] by fastforce
  then have "upgrade_reach (?s ''4.1.0.1'' ''4.2.0.3'')"
    using upgrade_reach.asked [of "?s ''4.1.0.1'' ''4.1.0.1''" "''4.2.0.3''"] by simp
  moreover have "upgrade_view cluster0 = ?s ''4.1.0.1'' ''4.2.0.3''" by code_simp
  ultimately have "upgrade_reach (upgrade_view cluster0)" by simp
  moreover have "?run = (fst ?run, [] @ snd ?run)" by simp
  ultimately have "upgrade_reach (upgrade_view new)" using sent_states_reachable sent by blast
  then show ?thesis using sent by blast
qed

text \<open>
  C33: an upgrade whose last write is lost makes the next one skip its backups. While the annotation says
  that the upgrade has started, a reconciliation creates no backup; and once the version is recorded,
  nothing a reconciliation sends removes the annotation again.
\<close>

theorem started_upgrade_skips_backups:
  assumes "us_Phase (upgrade_view c) = Rolling"
  shows "emits (\<lambda>e. \<not> creates_backup e) (MaybeReconcile E c) \<and>
    (us_Recorded (upgrade_view c) = us_Wanted (upgrade_view c) \<longrightarrow>
       emits (keeps_annotation (upgrade_status c)) (MaybeReconcile E c))"
  using rolling_no_backup [OF assms] recorded_keeps_annotation [of c E] by simp

theorem started_upgrade_skips_backups_witness:
  "list_ex accepted_status (snd (run_state (MaybeReconcile env_interrupted (in_upgrade ''started'')) [])) \<and>
   \<not> is_ok (fst (run_state (MaybeReconcile env_interrupted (in_upgrade ''started'')) [])) \<and>
   is_ok (upgrade_of (in_upgrade ''started'')) \<and>
   emits (\<lambda>e. \<not> creates_backup e) (MaybeReconcile env0 (in_upgrade ''started''))"
proof -
  let ?run = "run_state (MaybeReconcile env_interrupted (in_upgrade ''started'')) []"
  have "case ?run of (r, h) \<Rightarrow> list_ex accepted_status h \<and> \<not> is_ok r \<and> is_ok (upgrade_of (in_upgrade ''started''))"
    by code_simp
  then have "list_ex accepted_status (snd ?run) \<and> \<not> is_ok (fst ?run) \<and> is_ok (upgrade_of (in_upgrade ''started''))"
    by (subst (asm) case_prod_beta)
  moreover have "us_Phase (upgrade_view (in_upgrade ''started'')) = Rolling" by code_simp
  from started_upgrade_skips_backups [OF this]
  have "emits (\<lambda>e. \<not> creates_backup e) (MaybeReconcile env0 (in_upgrade ''started''))" by blast
  ultimately show ?thesis by blast
qed

end
