(* ===== verification/Json.thy ===== *)
theory Json
  imports ApiTypes "HOL-Library.List_Lexorder" "HOL-Library.Char_ord"
begin

text \<open>
  JSON values, what \<open>encoding/json\<close> makes of the struct tags of the API types
  (\<^verbatim>\<open>pkg/apis/aerospike/v1alpha2\<close>) and the meaning of the OpenAPI schemas in which the resource
  definitions (\<^verbatim>\<open>pkg/crd/crds.go\<close>) describe them.
\<close>

section \<open>Values\<close>

datatype json =
    JNull
  | JBool bool
  | JInt int
  | JString string
  | JArray "json list"
  | JObject "(string \<times> json) list"

fun fields_of :: "json \<Rightarrow> (string \<times> json) list" where
  "fields_of (JObject kvs) = kvs"
| "fields_of _ = []"

definition has_key :: "json \<Rightarrow> string \<Rightarrow> bool" where
  "has_key j k \<longleftrightarrow> k \<in> fst ` set (fields_of j)"

subsection \<open>Encoding\<close>

text \<open>A field that is always written, and one with \<open>omitempty\<close> that is not when it is nil.\<close>

definition tag :: "string \<Rightarrow> json \<Rightarrow> (string \<times> json) list" where
  "tag k v = [(k, v)]"

definition omitempty :: "string \<Rightarrow> ('a \<Rightarrow> json) \<Rightarrow> 'a option \<Rightarrow> (string \<times> json) list" where
  "omitempty k f x = (case x of None \<Rightarrow> [] | Some y \<Rightarrow> [(k, f y)])"

subsection \<open>Decoding\<close>

text \<open>
  \<open>json.Unmarshal\<close>: a missing field and a null leave the zero value (nil for a pointer), another
  type than that of the field is an error. Field names are compared as they are written.
\<close>

definition decode_error :: "string \<Rightarrow> gerr" where
  "decode_error ty = Errorf ''json: cannot unmarshal into Go value of type %s'' [AStr ty]"

fun dec_string :: "json \<Rightarrow> gerr + string" where
  "dec_string (JString s) = Inr s"
| "dec_string JNull = Inr []"
| "dec_string _ = Inl (decode_error ''string'')"

fun dec_bool :: "json \<Rightarrow> gerr + bool" where
  "dec_bool (JBool b) = Inr b"
| "dec_bool JNull = Inr False"
| "dec_bool _ = Inl (decode_error ''bool'')"

definition int32 :: "int \<Rightarrow> bool" where
  "int32 i \<longleftrightarrow> - (2 ^ 31) \<le> i \<and> i < 2 ^ 31"

fun dec_int32 :: "json \<Rightarrow> gerr + int" where
  "dec_int32 (JInt i) = (if int32 i then Inr i else Inl (decode_error ''int32''))"
| "dec_int32 JNull = Inr 0"
| "dec_int32 _ = Inl (decode_error ''int32'')"

fun dec_list :: "(json \<Rightarrow> gerr + 'a) \<Rightarrow> json list \<Rightarrow> gerr + 'a list" where
  "dec_list f [] = Inr []"
| "dec_list f (x # xs) =
     (case f x of Inl e \<Rightarrow> Inl e
      | Inr y \<Rightarrow> (case dec_list f xs of Inl e \<Rightarrow> Inl e | Inr ys \<Rightarrow> Inr (y # ys)))"

fun dec_array :: "(json \<Rightarrow> gerr + 'a) \<Rightarrow> json \<Rightarrow> gerr + 'a list" where
  "dec_array f (JArray xs) = dec_list f xs"
| "dec_array f JNull = Inr []"
| "dec_array f _ = Inl (decode_error ''slice'')"

fun dec_object :: "((string \<times> json) list \<Rightarrow> gerr + 'a) \<Rightarrow> json \<Rightarrow> gerr + 'a" where
  "dec_object f (JObject kvs) = f kvs"
| "dec_object f JNull = f []"
| "dec_object f _ = Inl (decode_error ''struct'')"

definition field :: "'a \<Rightarrow> (json \<Rightarrow> gerr + 'a) \<Rightarrow> string \<Rightarrow> (string \<times> json) list \<Rightarrow> gerr + 'a" where
  "field zero f k kvs = (case map_of kvs k of None \<Rightarrow> Inr zero | Some v \<Rightarrow> f v)"

definition ptr_field :: "(json \<Rightarrow> gerr + 'a) \<Rightarrow> string \<Rightarrow> (string \<times> json) list \<Rightarrow> gerr + 'a option" where
  "ptr_field f k kvs = (case map_of kvs k of
     None \<Rightarrow> Inr None
   | Some v \<Rightarrow> if v = JNull then Inr None
       else (case f v of Inl e \<Rightarrow> Inl e | Inr y \<Rightarrow> Inr (Some y)))"

text \<open>\<open>x, err := f(); if err != nil { return err }\<close> without effects.\<close>

definition andThen :: "gerr + 'a \<Rightarrow> ('a \<Rightarrow> gerr + 'b) \<Rightarrow> gerr + 'b" where
  "andThen r f = (case r of Inl e \<Rightarrow> Inl e | Inr x \<Rightarrow> f x)"

lemma andThen_simps [simp]:
  "andThen (Inr x) f = f x" "andThen (Inl e) f = Inl e"
  by (simp_all add: andThen_def)

section \<open>OpenAPI schemas\<close>

text \<open>
  \<open>extsv1.JSONSchemaProps\<close>, the fields that the definitions use. An empty type, list or option is
  the zero value. The order of properties does not matter (it is a Go map).
\<close>

datatype schema = Schema
  (s_Title: string)
  (s_Type: string)
  (s_Properties: "(string \<times> schema) list")
  (s_Required: "string list")
  (s_Items: "schema option")
  (s_Enum: "string list")
  (s_MinLength: "int option")
  (s_Minimum: "int option")
  (s_Maximum: "int option")
  (s_Pattern: "string option")
  (s_XPreserveUnknownFields: bool)

text \<open>Abbreviations for the combinations of fields that occur.\<close>

definition plain_type :: "string \<Rightarrow> schema" where
  "plain_type t = Schema [] t [] [] None [] None None None None False"

definition string_min :: "int \<Rightarrow> schema" where
  "string_min n = Schema [] ''string'' [] [] None [] (Some n) None None None False"

definition string_pattern :: "string \<Rightarrow> schema" where
  "string_pattern p = Schema [] ''string'' [] [] None [] None None None (Some p) False"

definition string_enum :: "string list \<Rightarrow> schema" where
  "string_enum vs = Schema [] ''string'' [] [] None vs None None None None False"

definition integer_between :: "int \<Rightarrow> int \<Rightarrow> schema" where
  "integer_between lo hi = Schema [] ''integer'' [] [] None [] None (Some lo) (Some hi) None False"

definition object_with :: "(string \<times> schema) list \<Rightarrow> string list \<Rightarrow> schema" where
  "object_with props required = Schema [] ''object'' props required None [] None None None None False"

definition titled_object :: "string \<Rightarrow> (string \<times> schema) list \<Rightarrow> string list \<Rightarrow> schema" where
  "titled_object title props required =
     Schema title ''object'' props required None [] None None None None False"

definition open_object :: schema where
  "open_object = Schema [] ''object'' [] [] None [] None None None None True"

definition array_of :: "schema \<Rightarrow> schema" where
  "array_of s = Schema [] ''array'' [] [] (Some s) [] None None None None False"

lemmas schema_forms = plain_type_def string_min_def string_pattern_def string_enum_def
  integer_between_def object_with_def titled_object_def open_object_def array_of_def

text \<open>
  What a value conforming to a schema is, after OpenAPI v3: the type fits, required properties are
  present, properties and items conform to their schemas, and the bounds hold. \<open>matches\<close> is the
  regular expression engine. Properties that the schema does not list are not checked (the API
  server drops them, see \<open>drops_unspecified\<close> below).
\<close>

definition leaf_ok :: "(string \<Rightarrow> string \<Rightarrow> bool) \<Rightarrow> schema \<Rightarrow> json \<Rightarrow> bool" where
  "leaf_ok matches s j \<longleftrightarrow> (case j of
     JBool _ \<Rightarrow> s_Type s = ''boolean''
   | JInt i \<Rightarrow> s_Type s = ''integer'' \<and>
       (case s_Minimum s of None \<Rightarrow> True | Some lo \<Rightarrow> lo \<le> i) \<and>
       (case s_Maximum s of None \<Rightarrow> True | Some hi \<Rightarrow> i \<le> hi)
   | JString t \<Rightarrow> s_Type s = ''string'' \<and>
       (s_Enum s = [] \<or> t \<in> set (s_Enum s)) \<and>
       (case s_MinLength s of None \<Rightarrow> True | Some n \<Rightarrow> n \<le> int (length t)) \<and>
       (case s_Pattern s of None \<Rightarrow> True | Some p \<Rightarrow> matches p t)
   | JArray _ \<Rightarrow> s_Type s = ''array''
   | JObject kvs \<Rightarrow> s_Type s = ''object'' \<and> set (s_Required s) \<subseteq> fst ` set kvs
   | JNull \<Rightarrow> False)"

lemma size_value: "(k, v) \<in> set kvs \<Longrightarrow> size v < Suc (size_list (size_prod (\<lambda>x. 0) size) kvs)"
  by (rule le_imp_less_Suc, rule size_list_estimation') auto

lemma size_item: "x \<in> set xs \<Longrightarrow> size x < Suc (size_list size xs)"
  by (rule le_imp_less_Suc, rule size_list_estimation') auto

function conforms :: "(string \<Rightarrow> string \<Rightarrow> bool) \<Rightarrow> schema \<Rightarrow> json \<Rightarrow> bool" where
  "conforms matches s (JObject kvs) \<longleftrightarrow> leaf_ok matches s (JObject kvs) \<and>
     (\<forall>(k, v) \<in> set kvs. case map_of (s_Properties s) k of None \<Rightarrow> True | Some p \<Rightarrow> conforms matches p v)"
| "conforms matches s (JArray xs) \<longleftrightarrow> leaf_ok matches s (JArray xs) \<and>
     (\<forall>v \<in> set xs. case s_Items s of None \<Rightarrow> True | Some p \<Rightarrow> conforms matches p v)"
| "conforms matches s JNull \<longleftrightarrow> False"
| "conforms matches s (JBool b) \<longleftrightarrow> leaf_ok matches s (JBool b)"
| "conforms matches s (JInt i) \<longleftrightarrow> leaf_ok matches s (JInt i)"
| "conforms matches s (JString t) \<longleftrightarrow> leaf_ok matches s (JString t)"
  by pat_completeness auto
termination
  by (relation "measure (\<lambda>(_, _, j). size j)") (auto simp: size_value size_item)

text \<open>
  What of a stored object the API server keeps: at the top level, only the properties the schema
  lists, next to the three that every object has. \<open>store\<close> is the server; this is the documented
  pruning of \<^verbatim>\<open>apiextensions.k8s.io/v1\<close>.
\<close>

definition drops_unspecified :: "(schema \<Rightarrow> json \<Rightarrow> json) \<Rightarrow> bool" where
  "drops_unspecified store \<longleftrightarrow> (\<forall>s j k. \<not> s_XPreserveUnknownFields s \<longrightarrow>
     k \<notin> {''apiVersion'', ''kind'', ''metadata''} \<longrightarrow> map_of (s_Properties s) k = None \<longrightarrow>
     \<not> has_key (store s j) k)"

section \<open>Facts\<close>

lemma map_of_mem: "map_of kvs k = Some v \<Longrightarrow> (k, v) \<in> set kvs"
  by (rule map_of_SomeD)

lemma required_present: "k \<in> fst ` set kvs \<Longrightarrow> \<exists>v. map_of kvs k = Some v"
  by (metis map_of_eq_None_iff not_None_eq)

text \<open>Conforming values of each form of schema.\<close>

lemma conforms_object:
  assumes "conforms matches (object_with props req) j"
  obtains kvs where "j = JObject kvs"
    and "\<And>k. k \<in> set req \<Longrightarrow> \<exists>v. map_of kvs k = Some v"
    and "\<And>k v p. map_of kvs k = Some v \<Longrightarrow> map_of props k = Some p \<Longrightarrow> conforms matches p v"
proof (cases j)
  case (JObject kvs)
  show ?thesis
  proof (rule that [OF JObject])
    fix k assume "k \<in> set req"
    then show "\<exists>v. map_of kvs k = Some v"
      using assms JObject by (auto simp: object_with_def leaf_ok_def intro!: required_present)
  next
    fix k v p
    assume "map_of kvs k = Some v" "map_of props k = Some p"
    then show "conforms matches p v"
      using assms JObject by (fastforce simp: object_with_def dest: map_of_mem)
  qed
qed (use assms in \<open>auto simp: object_with_def leaf_ok_def\<close>)

lemma conforms_titled [simp]:
  "conforms matches (titled_object t props req) j = conforms matches (object_with props req) j"
  by (cases j) (auto simp: titled_object_def object_with_def leaf_ok_def)

lemma conforms_array:
  assumes "conforms matches (array_of s) j"
  obtains xs where "j = JArray xs" and "\<And>x. x \<in> set xs \<Longrightarrow> conforms matches s x"
  using assms that by (cases j) (auto simp: array_of_def leaf_ok_def)

lemma conforms_integer:
  "conforms matches (integer_between lo hi) j \<longleftrightarrow> (\<exists>i. j = JInt i \<and> lo \<le> i \<and> i \<le> hi)"
  by (cases j) (auto simp: integer_between_def leaf_ok_def)

lemma conforms_strings:
  "conforms matches (string_min n) j \<longleftrightarrow> (\<exists>t. j = JString t \<and> n \<le> int (length t))"
  "conforms matches (string_pattern p) j \<longleftrightarrow> (\<exists>t. j = JString t \<and> matches p t)"
  "vs \<noteq> [] \<Longrightarrow> conforms matches (string_enum vs) j \<longleftrightarrow> (\<exists>t. j = JString t \<and> t \<in> set vs)"
  "conforms matches (plain_type ''string'') j \<longleftrightarrow> (\<exists>t. j = JString t)"
  "conforms matches (plain_type ''boolean'') j \<longleftrightarrow> (\<exists>b. j = JBool b)"
  by (cases j; auto simp: schema_forms leaf_ok_def)+

text \<open>Values built from fields.\<close>

lemma conforms_JObject:
  "conforms matches (object_with props req) (JObject kvs) \<longleftrightarrow>
     set req \<subseteq> fst ` set kvs \<and>
     (\<forall>(k, v) \<in> set kvs. case map_of props k of None \<Rightarrow> True | Some p \<Rightarrow> conforms matches p v)"
  by (auto simp: object_with_def leaf_ok_def)

lemma dec_list_ok:
  "(\<And>x. x \<in> set xs \<Longrightarrow> \<exists>y. f x = Inr y \<and> P y) \<Longrightarrow> \<exists>ys. dec_list f xs = Inr ys \<and> list_all P ys"
  by (induction xs) fastforce+

lemma dec_list_map: "(\<And>y. y \<in> set ys \<Longrightarrow> f (g y) = Inr y) \<Longrightarrow> dec_list f (map g ys) = Inr ys"
  by (induction ys) auto

end
