(* ===== verification/ApiJson.thy ===== *)
theory ApiJson
  imports Json
begin

text \<open>
  The API types v1alpha1 (\<^verbatim>\<open>pkg/apis/aerospike/v1alpha1\<close>) and the JSON form of both versions, field
  by field after the struct tags. Structs that the two versions declare alike share one record here.
\<close>

section \<open>v1alpha1\<close>

type_synonym v1_StorageSpec = StorageSpec
type_synonym v1_AerospikeNamespaceSpec = AerospikeNamespaceSpec
type_synonym v1_BackupStorageSpec = BackupStorageSpec
type_synonym v1_AerospikeClusterBackupSpec = AerospikeClusterBackupSpec
type_synonym v1_TargetNamespace = TargetNamespace
type_synonym v1_AerospikeNamespaceBackupSpec = AerospikeNamespaceBackupSpec
type_synonym v1_AerospikeNamespaceBackupStatus = AerospikeNamespaceBackupStatus
type_synonym v1_AerospikeNamespaceBackup = AerospikeNamespaceBackup
type_synonym v1_AerospikeNamespaceRestoreSpec = AerospikeNamespaceRestoreSpec
type_synonym v1_AerospikeNamespaceRestoreStatus = AerospikeNamespaceRestoreStatus
type_synonym v1_AerospikeNamespaceRestore = AerospikeNamespaceRestore

record v1_AerospikeClusterSpec =
  v1_NodeCount :: int
  v1_Version :: string
  v1_Namespaces :: "v1_AerospikeNamespaceSpec list"
  v1_BackupSpec :: "v1_AerospikeClusterBackupSpec option"

record v1_AerospikeClusterStatus =
  v1_status_Spec :: v1_AerospikeClusterSpec
  v1_status_Conditions :: "Condition list"

record v1_AerospikeCluster =
  v1_Meta :: ObjectMeta
  v1_Spec :: v1_AerospikeClusterSpec
  v1_Status :: v1_AerospikeClusterStatus

text \<open>
  The methods of v1alpha1, which nothing outside the package calls. They are those of v1alpha2, on types
  that are declared alike.
\<close>

definition v1_GetSecret :: "v1_BackupStorageSpec \<Rightarrow> string" where
  "v1_GetSecret b = bs_Secret b"

definition v1_GetSecretKey :: "v1_BackupStorageSpec \<Rightarrow> string" where
  "v1_GetSecretKey b = (case bs_SecretKey b of Some k \<Rightarrow> k | None \<Rightarrow> DefaultSecretFilename)"

definition v1_GetSecretNamespace :: "v1_BackupStorageSpec \<Rightarrow> string \<Rightarrow> string" where
  "v1_GetSecretNamespace b fallbackNamespace =
     (let namespace = (case bs_SecretNamespace b of Some n \<Rightarrow> n | None \<Rightarrow> fallbackNamespace)
      in if namespace = [] then ''default'' else namespace)"

definition v1_Backup_SyncStatusWithSpec ::
    "v1_AerospikeNamespaceBackup \<Rightarrow> v1_AerospikeNamespaceBackup \<times> bool" where
  "v1_Backup_SyncStatusWithSpec b =
     (let sp = asnb_Spec b; st = bks_Spec (asnb_Status b);
          m1 = (bk_Storage st \<noteq> bk_Storage sp);
          st1 = (if m1 then st\<lparr>bk_Storage := bk_Storage sp\<rparr> else st);
          m2 = (bk_Target st1 \<noteq> bk_Target sp);
          st2 = (if m2 then st1\<lparr>bk_Target := bk_Target sp\<rparr> else st1);
          m3 = ptr_neq (bk_TTL st2) (bk_TTL sp);
          st3 = (if m3 then st2\<lparr>bk_TTL := bk_TTL sp\<rparr> else st2)
      in (b\<lparr>asnb_Status := (asnb_Status b)\<lparr>bks_Spec := st3\<rparr>\<rparr>, m1 \<or> m2 \<or> m3))"

definition v1_Restore_SyncStatusWithSpec ::
    "v1_AerospikeNamespaceRestore \<Rightarrow> v1_AerospikeNamespaceRestore \<times> bool" where
  "v1_Restore_SyncStatusWithSpec r =
     (let sp = asnr_Spec r; st = res_Spec (asnr_Status r);
          m1 = (re_Storage st \<noteq> re_Storage sp);
          st1 = (if m1 then st\<lparr>re_Storage := re_Storage sp\<rparr> else st);
          m2 = (re_Target st1 \<noteq> re_Target sp);
          st2 = (if m2 then st1\<lparr>re_Target := re_Target sp\<rparr> else st1)
      in (r\<lparr>asnr_Status := (asnr_Status r)\<lparr>res_Spec := st2\<rparr>\<rparr>, m1 \<or> m2))"

definition v1_Backup_methods :: "v1_AerospikeNamespaceBackup BackupRestoreObject" where
  "v1_Backup_methods = \<lparr>
     GetOperationType = OperationTypeBackup,
     GetKind = AerospikeNamespaceBackupKind,
     GetObjectMeta = asnb_Meta,
     GetStorage = (\<lambda>b. bk_Storage (asnb_Spec b)),
     SetStorage = (\<lambda>storage b. b\<lparr>asnb_Spec := (asnb_Spec b)\<lparr>bk_Storage := storage\<rparr>\<rparr>),
     GetTarget = (\<lambda>b. bk_Target (asnb_Spec b)),
     GetConditions = (\<lambda>b. bks_Conditions (asnb_Status b)),
     SetConditions = (\<lambda>cs b. b\<lparr>asnb_Status := (asnb_Status b)\<lparr>bks_Conditions := cs\<rparr>\<rparr>),
     GetFailedConditionType = ConditionBackupFailed,
     GetFinishedConditionType = ConditionBackupFinished,
     GetStartedConditionType = ConditionBackupStarted,
     SyncStatusWithSpec = v1_Backup_SyncStatusWithSpec,
     assert_backup = Some,
     assert_restore = (\<lambda>_. None)\<rparr>"

definition v1_Restore_methods :: "v1_AerospikeNamespaceRestore BackupRestoreObject" where
  "v1_Restore_methods = \<lparr>
     GetOperationType = OperationTypeRestore,
     GetKind = AerospikeNamespaceRestoreKind,
     GetObjectMeta = asnr_Meta,
     GetStorage = (\<lambda>r. re_Storage (asnr_Spec r)),
     SetStorage = (\<lambda>storage r. r\<lparr>asnr_Spec := (asnr_Spec r)\<lparr>re_Storage := storage\<rparr>\<rparr>),
     GetTarget = (\<lambda>r. re_Target (asnr_Spec r)),
     GetConditions = (\<lambda>r. res_Conditions (asnr_Status r)),
     SetConditions = (\<lambda>cs r. r\<lparr>asnr_Status := (asnr_Status r)\<lparr>res_Conditions := cs\<rparr>\<rparr>),
     GetFailedConditionType = ConditionRestoreFailed,
     GetFinishedConditionType = ConditionRestoreFinished,
     GetStartedConditionType = ConditionRestoreStarted,
     SyncStatusWithSpec = v1_Restore_SyncStatusWithSpec,
     assert_backup = (\<lambda>_. None),
     assert_restore = Some\<rparr>"

interpretation v1_backup: backup_restore_object v1_Backup_methods
  by unfold_locales
    (simp_all add: v1_Backup_methods_def v1_Backup_SyncStatusWithSpec_def Let_def condition_types)

interpretation v1_restore: backup_restore_object v1_Restore_methods
  by unfold_locales
    (simp_all add: v1_Restore_methods_def v1_Restore_SyncStatusWithSpec_def Let_def condition_types)

text \<open>On equal objects the methods of both versions agree.\<close>

lemma v1_methods:
  "v1_Backup_methods = Backup_methods" "v1_Restore_methods = Restore_methods"
  by (simp_all add: v1_Backup_methods_def Backup_methods_def v1_Restore_methods_def Restore_methods_def
      v1_Backup_SyncStatusWithSpec_def [abs_def] Backup_SyncStatusWithSpec_def [abs_def]
      v1_Restore_SyncStatusWithSpec_def [abs_def] Restore_SyncStatusWithSpec_def [abs_def])

lemma v1_secrets:
  "v1_GetSecret = GetSecret" "v1_GetSecretKey = GetSecretKey" "v1_GetSecretNamespace = GetSecretNamespace"
  by (intro ext; simp add: v1_GetSecret_def GetSecret_def v1_GetSecretKey_def GetSecretKey_def
      v1_GetSecretNamespace_def GetSecretNamespace_def)+

definition v1_SchemeGroupVersion_Version :: string where
  "v1_SchemeGroupVersion_Version = ''v1alpha1''"

text \<open>\<open>SchemeGroupVersion\<close> of v1alpha2, in its parts.\<close>

definition GroupName :: string where "GroupName = ''aerospike.travelaudience.com''"
definition SchemeGroupVersion_Version :: string where "SchemeGroupVersion_Version = ''v1alpha2''"

lemma SchemeGroupVersion_parts: "SchemeGroupVersion = GroupName @ ''/'' @ SchemeGroupVersion_Version"
  by (simp add: SchemeGroupVersion_def GroupName_def SchemeGroupVersion_Version_def)

section \<open>Encoding\<close>

text \<open>The JSON form of the types of other packages is a parameter.\<close>

record codec =
  enc_Meta :: "ObjectMeta \<Rightarrow> json"
  enc_Resources :: "ResourceRequirements \<Rightarrow> json"
  enc_Toleration :: "Toleration \<Rightarrow> json"
  enc_Condition :: "Condition \<Rightarrow> json"
  dec_Meta :: "json \<Rightarrow> gerr + ObjectMeta"
  dec_Condition :: "json \<Rightarrow> gerr + Condition"
  dec_Resources :: "json \<Rightarrow> gerr + ResourceRequirements"
  dec_Toleration :: "json \<Rightarrow> gerr + Toleration"

definition enc_StorageSpec :: "StorageSpec \<Rightarrow> json" where
  "enc_StorageSpec s = JObject (
     tag ''type'' (JString (st_Type s)) @
     tag ''size'' (JString (st_Size s)) @
     omitempty ''storageClassName'' JString (st_StorageClassName s) @
     omitempty ''persistentVolumeClaimTTL'' JString (st_PersistentVolumeClaimTTL s) @
     omitempty ''dataInMemory'' JBool (st_DataInMemory s))"

definition enc_AerospikeNamespaceSpec :: "AerospikeNamespaceSpec \<Rightarrow> json" where
  "enc_AerospikeNamespaceSpec n = JObject (
     tag ''name'' (JString (ns_Name n)) @
     omitempty ''replicationFactor'' JInt (ns_ReplicationFactor n) @
     omitempty ''memorySize'' JString (ns_MemorySize n) @
     omitempty ''defaultTTL'' JString (ns_DefaultTTL n) @
     tag ''storage'' (enc_StorageSpec (ns_Storage n)))"

definition enc_BackupStorageSpec :: "BackupStorageSpec \<Rightarrow> json" where
  "enc_BackupStorageSpec b = JObject (
     tag ''type'' (JString (bs_Type b)) @
     tag ''bucket'' (JString (bs_Bucket b)) @
     tag ''secret'' (JString (bs_Secret b)) @
     omitempty ''secretNamespace'' JString (bs_SecretNamespace b) @
     omitempty ''secretKey'' JString (bs_SecretKey b))"

definition enc_AerospikeClusterBackupSpec :: "AerospikeClusterBackupSpec \<Rightarrow> json" where
  "enc_AerospikeClusterBackupSpec b = JObject (
     omitempty ''ttl'' JString (cb_TTL b) @
     tag ''storage'' (enc_BackupStorageSpec (cb_Storage b)))"

definition enc_TargetNamespace :: "TargetNamespace \<Rightarrow> json" where
  "enc_TargetNamespace t = JObject (
     tag ''cluster'' (JString (tn_Cluster t)) @ tag ''namespace'' (JString (tn_Namespace t)))"

text \<open>
  \<open>AerospikeClusterSpec\<close>. A slice or a map is left out when it is empty; the entries of a map are
  written in the order of their keys.
\<close>

definition map_json :: "(string, string) fmap \<Rightarrow> json" where
  "map_json m = JObject (map (\<lambda>(k, v). (k, JString v)) (sorted_list_of_fmap m))"

definition spec_fields :: "codec \<Rightarrow> AerospikeClusterSpec \<Rightarrow> (string \<times> json) list" where
  "spec_fields C s =
     tag ''nodeCount'' (JInt (spec_NodeCount s)) @
     tag ''version'' (JString (spec_Version s)) @
     tag ''namespaces'' (JArray (map enc_AerospikeNamespaceSpec (spec_Namespaces s))) @
     omitempty ''backupSpec'' enc_AerospikeClusterBackupSpec (spec_BackupSpec s) @
     omitempty ''resources'' (enc_Resources C) (spec_Resources s) @
     omitempty ''nodeSelector'' map_json
       (case spec_NodeSelector s of None \<Rightarrow> None | Some m \<Rightarrow> if m = fmempty then None else Some m) @
     omitempty ''tolerations'' (\<lambda>ts. JArray (map (enc_Toleration C) ts))
       (if spec_Tolerations s = [] then None else Some (spec_Tolerations s))"

definition enc_AerospikeClusterSpec :: "codec \<Rightarrow> AerospikeClusterSpec \<Rightarrow> json" where
  "enc_AerospikeClusterSpec C s = JObject (spec_fields C s)"

text \<open>The embedded spec of a status puts its fields among those of the status.\<close>

definition enc_AerospikeClusterStatus :: "codec \<Rightarrow> AerospikeClusterStatus \<Rightarrow> json" where
  "enc_AerospikeClusterStatus C st = JObject (spec_fields C (status_Spec st) @
     tag ''conditions'' (JArray (map (enc_Condition C) (status_Conditions st))))"

definition enc_AerospikeCluster :: "codec \<Rightarrow> AerospikeCluster \<Rightarrow> json" where
  "enc_AerospikeCluster C c = JObject (
     tag ''metadata'' (enc_Meta C (asc_Meta c)) @
     tag ''spec'' (enc_AerospikeClusterSpec C (asc_Spec c)) @
     tag ''status'' (enc_AerospikeClusterStatus C (asc_Status c)))"

text \<open>
  Backups and restores. The tag of the conditions is written \<^verbatim>\<open>json="conditions"\<close>, which is no tag:
  the field goes by its own name.
\<close>

definition backup_spec_fields :: "AerospikeNamespaceBackupSpec \<Rightarrow> (string \<times> json) list" where
  "backup_spec_fields s =
     tag ''target'' (enc_TargetNamespace (bk_Target s)) @
     omitempty ''storage'' enc_BackupStorageSpec (bk_Storage s) @
     omitempty ''ttl'' (\<lambda>p. JString (deref p)) (bk_TTL s)"

definition enc_AerospikeNamespaceBackup :: "codec \<Rightarrow> AerospikeNamespaceBackup \<Rightarrow> json" where
  "enc_AerospikeNamespaceBackup C b = JObject (
     tag ''metadata'' (enc_Meta C (asnb_Meta b)) @
     tag ''spec'' (JObject (backup_spec_fields (asnb_Spec b))) @
     tag ''status'' (JObject (backup_spec_fields (bks_Spec (asnb_Status b)) @
       tag ''Conditions'' (JArray (map (enc_Condition C) (bks_Conditions (asnb_Status b)))))))"

definition restore_spec_fields :: "AerospikeNamespaceRestoreSpec \<Rightarrow> (string \<times> json) list" where
  "restore_spec_fields s =
     tag ''target'' (enc_TargetNamespace (re_Target s)) @
     omitempty ''storage'' enc_BackupStorageSpec (re_Storage s)"

definition enc_AerospikeNamespaceRestore :: "codec \<Rightarrow> AerospikeNamespaceRestore \<Rightarrow> json" where
  "enc_AerospikeNamespaceRestore C r = JObject (
     tag ''metadata'' (enc_Meta C (asnr_Meta r)) @
     tag ''spec'' (JObject (restore_spec_fields (asnr_Spec r))) @
     tag ''status'' (JObject (restore_spec_fields (res_Spec (asnr_Status r)) @
       tag ''Conditions'' (JArray (map (enc_Condition C) (res_Conditions (asnr_Status r)))))))"

text \<open>v1alpha1 clusters, without the last three fields of the spec.\<close>

definition v1_spec_fields :: "v1_AerospikeClusterSpec \<Rightarrow> (string \<times> json) list" where
  "v1_spec_fields s =
     tag ''nodeCount'' (JInt (v1_NodeCount s)) @
     tag ''version'' (JString (v1_Version s)) @
     tag ''namespaces'' (JArray (map enc_AerospikeNamespaceSpec (v1_Namespaces s))) @
     omitempty ''backupSpec'' enc_AerospikeClusterBackupSpec (v1_BackupSpec s)"

definition enc_v1_AerospikeCluster :: "codec \<Rightarrow> v1_AerospikeCluster \<Rightarrow> json" where
  "enc_v1_AerospikeCluster C c = JObject (
     tag ''metadata'' (enc_Meta C (v1_Meta c)) @
     tag ''spec'' (JObject (v1_spec_fields (v1_Spec c))) @
     tag ''status'' (JObject (v1_spec_fields (v1_status_Spec (v1_Status c)) @
       tag ''conditions'' (JArray (map (enc_Condition C) (v1_status_Conditions (v1_Status c)))))))"

section \<open>Decoding\<close>

definition dec_StorageSpec :: "json \<Rightarrow> gerr + StorageSpec" where
  "dec_StorageSpec = dec_object (\<lambda>kvs.
     andThen (field [] dec_string ''type'' kvs) (\<lambda>ty.
     andThen (field [] dec_string ''size'' kvs) (\<lambda>sz.
     andThen (ptr_field dec_string ''storageClassName'' kvs) (\<lambda>sc.
     andThen (ptr_field dec_string ''persistentVolumeClaimTTL'' kvs) (\<lambda>ttl.
     andThen (ptr_field dec_bool ''dataInMemory'' kvs) (\<lambda>mem.
     Inr \<lparr>st_Type = ty, st_Size = sz, st_StorageClassName = sc, st_PersistentVolumeClaimTTL = ttl,
          st_DataInMemory = mem\<rparr>))))))"

definition zero_StorageSpec :: StorageSpec where
  "zero_StorageSpec = \<lparr>st_Type = [], st_Size = [], st_StorageClassName = None,
     st_PersistentVolumeClaimTTL = None, st_DataInMemory = None\<rparr>"

definition dec_AerospikeNamespaceSpec :: "json \<Rightarrow> gerr + AerospikeNamespaceSpec" where
  "dec_AerospikeNamespaceSpec = dec_object (\<lambda>kvs.
     andThen (field [] dec_string ''name'' kvs) (\<lambda>name.
     andThen (ptr_field dec_int32 ''replicationFactor'' kvs) (\<lambda>rf.
     andThen (ptr_field dec_string ''memorySize'' kvs) (\<lambda>mem.
     andThen (ptr_field dec_string ''defaultTTL'' kvs) (\<lambda>ttl.
     andThen (field zero_StorageSpec dec_StorageSpec ''storage'' kvs) (\<lambda>st.
     Inr \<lparr>ns_Name = name, ns_ReplicationFactor = rf, ns_MemorySize = mem, ns_DefaultTTL = ttl,
          ns_Storage = st\<rparr>))))))"

definition dec_BackupStorageSpec :: "json \<Rightarrow> gerr + BackupStorageSpec" where
  "dec_BackupStorageSpec = dec_object (\<lambda>kvs.
     andThen (field [] dec_string ''type'' kvs) (\<lambda>ty.
     andThen (field [] dec_string ''bucket'' kvs) (\<lambda>bucket.
     andThen (field [] dec_string ''secret'' kvs) (\<lambda>secret.
     andThen (ptr_field dec_string ''secretNamespace'' kvs) (\<lambda>ns.
     andThen (ptr_field dec_string ''secretKey'' kvs) (\<lambda>key.
     Inr \<lparr>bs_Type = ty, bs_Bucket = bucket, bs_Secret = secret, bs_SecretNamespace = ns,
          bs_SecretKey = key\<rparr>))))))"

definition zero_BackupStorageSpec :: BackupStorageSpec where
  "zero_BackupStorageSpec = \<lparr>bs_Type = [], bs_Bucket = [], bs_Secret = [], bs_SecretNamespace = None,
     bs_SecretKey = None\<rparr>"

definition dec_AerospikeClusterBackupSpec :: "json \<Rightarrow> gerr + AerospikeClusterBackupSpec" where
  "dec_AerospikeClusterBackupSpec = dec_object (\<lambda>kvs.
     andThen (ptr_field dec_string ''ttl'' kvs) (\<lambda>ttl.
     andThen (field zero_BackupStorageSpec dec_BackupStorageSpec ''storage'' kvs) (\<lambda>st.
     Inr \<lparr>cb_TTL = ttl, cb_Storage = st\<rparr>)))"

text \<open>A map from strings to strings; of equal keys the last counts.\<close>

fun dec_map :: "(string \<times> json) list \<Rightarrow> gerr + (string, string) fmap" where
  "dec_map [] = Inr fmempty"
| "dec_map ((k, v) # kvs) =
     andThen (dec_string v) (\<lambda>s. andThen (dec_map kvs) (\<lambda>m.
       Inr (case fmlookup m k of Some _ \<Rightarrow> m | None \<Rightarrow> fmupd k s m)))"

definition dec_v1_AerospikeClusterSpec :: "json \<Rightarrow> gerr + v1_AerospikeClusterSpec" where
  "dec_v1_AerospikeClusterSpec = dec_object (\<lambda>kvs.
     andThen (field 0 dec_int32 ''nodeCount'' kvs) (\<lambda>n.
     andThen (field [] dec_string ''version'' kvs) (\<lambda>v.
     andThen (field [] (dec_array dec_AerospikeNamespaceSpec) ''namespaces'' kvs) (\<lambda>nss.
     andThen (ptr_field dec_AerospikeClusterBackupSpec ''backupSpec'' kvs) (\<lambda>b.
     Inr \<lparr>v1_NodeCount = n, v1_Version = v, v1_Namespaces = nss, v1_BackupSpec = b\<rparr>)))))"

definition dec_AerospikeClusterSpec :: "codec \<Rightarrow> json \<Rightarrow> gerr + AerospikeClusterSpec" where
  "dec_AerospikeClusterSpec C = dec_object (\<lambda>kvs.
     andThen (dec_v1_AerospikeClusterSpec (JObject kvs)) (\<lambda>s.
     andThen (ptr_field (dec_Resources C) ''resources'' kvs) (\<lambda>r.
     andThen (ptr_field (dec_object dec_map) ''nodeSelector'' kvs) (\<lambda>sel.
     andThen (field [] (dec_array (dec_Toleration C)) ''tolerations'' kvs) (\<lambda>ts.
     Inr \<lparr>spec_NodeCount = v1_NodeCount s, spec_Version = v1_Version s, spec_Namespaces = v1_Namespaces s,
          spec_BackupSpec = v1_BackupSpec s, spec_Resources = r, spec_NodeSelector = sel,
          spec_Tolerations = ts\<rparr>)))))"

definition zero_AerospikeClusterSpec :: AerospikeClusterSpec where
  "zero_AerospikeClusterSpec = \<lparr>spec_NodeCount = 0, spec_Version = [], spec_Namespaces = [],
     spec_BackupSpec = None, spec_Resources = None, spec_NodeSelector = None, spec_Tolerations = []\<rparr>"

definition dec_AerospikeClusterStatus :: "codec \<Rightarrow> json \<Rightarrow> gerr + AerospikeClusterStatus" where
  "dec_AerospikeClusterStatus C = dec_object (\<lambda>kvs.
     andThen (dec_AerospikeClusterSpec C (JObject kvs)) (\<lambda>s.
     andThen (field [] (dec_array (dec_Condition C)) ''conditions'' kvs) (\<lambda>cs.
     Inr \<lparr>status_Spec = s, status_Conditions = cs\<rparr>)))"

definition zero_AerospikeClusterStatus :: AerospikeClusterStatus where
  "zero_AerospikeClusterStatus = \<lparr>status_Spec = zero_AerospikeClusterSpec, status_Conditions = []\<rparr>"

definition dec_AerospikeCluster :: "codec \<Rightarrow> json \<Rightarrow> gerr + AerospikeCluster" where
  "dec_AerospikeCluster C = dec_object (\<lambda>kvs.
     andThen (field zero_meta (dec_Meta C) ''metadata'' kvs) (\<lambda>m.
     andThen (field zero_AerospikeClusterSpec (dec_AerospikeClusterSpec C) ''spec'' kvs) (\<lambda>s.
     andThen (field zero_AerospikeClusterStatus (dec_AerospikeClusterStatus C) ''status'' kvs) (\<lambda>st.
     Inr \<lparr>asc_Meta = m, asc_Spec = s, asc_Status = st\<rparr>))))"

section \<open>Round trips\<close>

text \<open>A value decodes again when its integers are in the range of their type.\<close>

definition reads_back_spec :: "codec \<Rightarrow> AerospikeClusterSpec \<Rightarrow> bool" where
  "reads_back_spec C s \<longleftrightarrow>
     (\<forall>r. spec_Resources s = Some r \<longrightarrow> dec_Resources C (enc_Resources C r) = Inr r \<and> enc_Resources C r \<noteq> JNull) \<and>
     (\<forall>t \<in> set (spec_Tolerations s). dec_Toleration C (enc_Toleration C t) = Inr t)"

definition reads_back :: "codec \<Rightarrow> AerospikeCluster \<Rightarrow> bool" where
  "reads_back C c \<longleftrightarrow> dec_Meta C (enc_Meta C (asc_Meta c)) = Inr (asc_Meta c) \<and>
     reads_back_spec C (asc_Spec c) \<and> reads_back_spec C (status_Spec (asc_Status c)) \<and>
     (\<forall>x \<in> set (status_Conditions (asc_Status c)). dec_Condition C (enc_Condition C x) = Inr x)"

definition in_range :: "AerospikeClusterSpec \<Rightarrow> bool" where
  "in_range s \<longleftrightarrow> int32 (spec_NodeCount s) \<and> spec_NodeSelector s \<noteq> Some fmempty \<and>
     (\<forall>n \<in> set (spec_Namespaces s). case ns_ReplicationFactor n of None \<Rightarrow> True | Some rf \<Rightarrow> int32 rf)"

lemmas field_defs = field_def ptr_field_def tag_def omitempty_def

text \<open>How the fields of an object are read back, one after the other.\<close>

lemma read_other:
  "k \<noteq> k' \<Longrightarrow> field z f k (tag k' v @ kvs) = field z f k kvs"
  "k \<noteq> k' \<Longrightarrow> field z f k (omitempty k' g x @ kvs) = field z f k kvs"
  "k \<noteq> k' \<Longrightarrow> ptr_field p k (tag k' v @ kvs) = ptr_field p k kvs"
  "k \<noteq> k' \<Longrightarrow> ptr_field p k (omitempty k' g x @ kvs) = ptr_field p k kvs"
  by (simp_all add: field_defs split: option.split)

lemma read_field: "field z f k (tag k v @ kvs) = f v" "field z f k (tag k v) = f v"
  by (simp_all add: field_defs)

lemma read_missing:
  "ptr_field p k [] = Inr None" "k \<noteq> k' \<Longrightarrow> ptr_field p k (tag k' v) = Inr None"
  "k \<noteq> k' \<Longrightarrow> ptr_field p k (omitempty k' g x) = Inr None"
  by (simp_all add: field_defs split: option.split)

lemma read_pointer:
  assumes "\<And>y. x = Some y \<Longrightarrow> g y \<noteq> JNull \<and> p (g y) = Inr y"
  shows "ptr_field p k kvs = Inr None \<Longrightarrow> ptr_field p k (omitempty k g x @ kvs) = Inr x"
    and "ptr_field p k (omitempty k g x) = Inr x"
  using assms by (cases x; simp add: field_defs)+

lemmas read_fields = read_other read_field read_missing read_pointer

lemma dec_enc_StorageSpec: "dec_StorageSpec (enc_StorageSpec s) = Inr s"
  by (simp add: dec_StorageSpec_def enc_StorageSpec_def read_fields)

lemma dec_enc_AerospikeNamespaceSpec:
  assumes "case ns_ReplicationFactor n of None \<Rightarrow> True | Some rf \<Rightarrow> int32 rf"
  shows "dec_AerospikeNamespaceSpec (enc_AerospikeNamespaceSpec n) = Inr n"
proof -
  have "\<And>rf. ns_ReplicationFactor n = Some rf \<Longrightarrow> int32 rf" using assms by simp
  then show ?thesis
    by (simp add: dec_AerospikeNamespaceSpec_def enc_AerospikeNamespaceSpec_def read_fields dec_enc_StorageSpec)
qed

lemma dec_enc_BackupStorageSpec: "dec_BackupStorageSpec (enc_BackupStorageSpec b) = Inr b"
  by (cases b) (simp add: dec_BackupStorageSpec_def enc_BackupStorageSpec_def field_defs split: option.splits)

lemma dec_enc_AerospikeClusterBackupSpec:
  "dec_AerospikeClusterBackupSpec (enc_AerospikeClusterBackupSpec b) = Inr b"
  by (cases b) (simp add: dec_AerospikeClusterBackupSpec_def enc_AerospikeClusterBackupSpec_def field_defs
      dec_enc_BackupStorageSpec split: option.splits)

lemma dec_map_JString:
  "distinct (map fst xs) \<Longrightarrow> dec_map (map (\<lambda>(k, v). (k, JString v)) xs) = Inr (fmap_of_list xs)"
proof (induction xs)
  case (Cons x xs)
  obtain k v where x: "x = (k, v)" by fastforce
  have "map_of xs k = None" using Cons.prems x by (auto simp: map_of_eq_None_iff)
  then show ?case using Cons x by (simp add: fmlookup_of_list)
qed simp

lemma dec_map_json: "dec_object dec_map (map_json m) = Inr m"
proof -
  have "map fst (sorted_list_of_fmap m) = sorted_list_of_fset (fmdom m)"
    by (simp add: sorted_list_of_fmap_def comp_def)
  then have "distinct (map fst (sorted_list_of_fmap m))" by (simp add: sorted_list_of_fset.rep_eq)
  moreover have "fmap_of_list (sorted_list_of_fmap m) = m"
    by (rule fmap_ext) (simp add: fmlookup_of_list)
  ultimately show ?thesis by (simp add: map_json_def dec_map_JString)
qed

lemma map_json_not_null: "map_json m \<noteq> JNull"
  by (simp add: map_json_def)

lemma not_null:
  "enc_AerospikeClusterBackupSpec b \<noteq> JNull" "enc_AerospikeNamespaceSpec n \<noteq> JNull"
  "enc_StorageSpec s \<noteq> JNull" "enc_BackupStorageSpec b' \<noteq> JNull"
  by (simp_all add: enc_AerospikeClusterBackupSpec_def enc_AerospikeNamespaceSpec_def enc_StorageSpec_def
      enc_BackupStorageSpec_def)

text \<open>The optional fields, whatever comes before and after them.\<close>

lemma map_of_append_tag [simp]:
  "map_of (tag k v @ kvs) k' = (if k' = k then Some v else map_of kvs k')"
  "map_of (tag k v) k' = (if k' = k then Some v else None)"
  "map_of (omitempty k f x @ kvs) k' =
     (if k' = k \<and> x \<noteq> None then map_option f x else map_of kvs k')"
  "map_of (omitempty k f x) k' = (if k' = k \<and> x \<noteq> None then map_option f x else None)"
  by (cases x; simp add: tag_def omitempty_def)+

lemma spec_fields_lookup:
  "map_of (spec_fields C s) ''nodeCount'' = Some (JInt (spec_NodeCount s))"
  "map_of (spec_fields C s) ''version'' = Some (JString (spec_Version s))"
  "map_of (spec_fields C s) ''namespaces'' =
     Some (JArray (map enc_AerospikeNamespaceSpec (spec_Namespaces s)))"
  "map_of (spec_fields C s) ''backupSpec'' = map_option enc_AerospikeClusterBackupSpec (spec_BackupSpec s)"
  "map_of (spec_fields C s) ''resources'' = map_option (enc_Resources C) (spec_Resources s)"
  "map_of (spec_fields C s) ''nodeSelector'' = map_option map_json
     (case spec_NodeSelector s of None \<Rightarrow> None | Some m \<Rightarrow> if m = fmempty then None else Some m)"
  "map_of (spec_fields C s) ''tolerations'' =
     (if spec_Tolerations s = [] then None
      else Some (JArray (map (enc_Toleration C) (spec_Tolerations s))))"
  "map_of (spec_fields C s) ''conditions'' = None"
  unfolding spec_fields_def by (simp_all only: map_of_append_tag append_assoc) (auto split: option.splits)

lemma dec_enc_spec:
  assumes C: "reads_back_spec C s" and s: "in_range s"
    and kvs: "\<And>k. k \<noteq> ''conditions'' \<Longrightarrow> map_of kvs k = map_of (spec_fields C s) k"
  shows "dec_AerospikeClusterSpec C (JObject kvs) = Inr s"
proof -
  have nss: "dec_list dec_AerospikeNamespaceSpec (map enc_AerospikeNamespaceSpec (spec_Namespaces s)) =
      Inr (spec_Namespaces s)"
    using s by (intro dec_list_map dec_enc_AerospikeNamespaceSpec) (simp add: in_range_def)
  have ts: "dec_list (dec_Toleration C) (map (enc_Toleration C) (spec_Tolerations s)) =
      Inr (spec_Tolerations s)"
    using C by (intro dec_list_map) (simp add: reads_back_spec_def)
  have "field 0 dec_int32 ''nodeCount'' kvs = Inr (spec_NodeCount s)"
    "field [] dec_string ''version'' kvs = Inr (spec_Version s)"
    "field [] (dec_array dec_AerospikeNamespaceSpec) ''namespaces'' kvs = Inr (spec_Namespaces s)"
    using s nss by (simp_all add: field_def kvs spec_fields_lookup in_range_def)
  moreover have "ptr_field dec_AerospikeClusterBackupSpec ''backupSpec'' kvs = Inr (spec_BackupSpec s)"
    by (cases "spec_BackupSpec s") (simp_all add: ptr_field_def kvs spec_fields_lookup not_null
        dec_enc_AerospikeClusterBackupSpec)
  moreover have "ptr_field (dec_Resources C) ''resources'' kvs = Inr (spec_Resources s)"
    using C by (cases "spec_Resources s") (simp_all add: ptr_field_def kvs spec_fields_lookup reads_back_spec_def)
  moreover have "ptr_field (dec_object dec_map) ''nodeSelector'' kvs = Inr (spec_NodeSelector s)"
    using s by (cases "spec_NodeSelector s") (simp_all add: ptr_field_def kvs spec_fields_lookup in_range_def
        dec_map_json map_json_not_null)
  moreover have "field [] (dec_array (dec_Toleration C)) ''tolerations'' kvs = Inr (spec_Tolerations s)"
    using ts by (cases "spec_Tolerations s") (simp_all add: field_def kvs spec_fields_lookup)
  ultimately show ?thesis
    unfolding dec_AerospikeClusterSpec_def dec_v1_AerospikeClusterSpec_def by simp
qed

lemma dec_enc_AerospikeClusterSpec:
  "reads_back_spec C s \<Longrightarrow> in_range s \<Longrightarrow> dec_AerospikeClusterSpec C (enc_AerospikeClusterSpec C s) = Inr s"
  unfolding enc_AerospikeClusterSpec_def by (rule dec_enc_spec) simp_all

lemma dec_enc_AerospikeCluster:
  assumes C: "reads_back C c" and s: "in_range (asc_Spec c)" "in_range (status_Spec (asc_Status c))"
  shows "dec_AerospikeCluster C (enc_AerospikeCluster C c) = Inr c"
proof -
  have spec: "dec_AerospikeClusterSpec C (enc_AerospikeClusterSpec C (asc_Spec c)) = Inr (asc_Spec c)"
    using C s(1) by (intro dec_enc_AerospikeClusterSpec) (simp_all add: reads_back_def)
  have cs: "dec_list (dec_Condition C) (map (enc_Condition C) (status_Conditions (asc_Status c))) =
      Inr (status_Conditions (asc_Status c))"
    using C by (intro dec_list_map) (simp add: reads_back_def)
  let ?kvs = "spec_fields C (status_Spec (asc_Status c)) @
      tag ''conditions'' (JArray (map (enc_Condition C) (status_Conditions (asc_Status c))))"
  have "dec_AerospikeClusterSpec C (JObject ?kvs) = Inr (status_Spec (asc_Status c))"
    using C s(2) by (intro dec_enc_spec) (auto simp: reads_back_def map_add_def split: option.splits)
  moreover have "map_of ?kvs ''conditions'' =
      Some (JArray (map (enc_Condition C) (status_Conditions (asc_Status c))))"
    by (simp add: map_add_def spec_fields_lookup)
  ultimately have status: "dec_AerospikeClusterStatus C (enc_AerospikeClusterStatus C (asc_Status c)) =
      Inr (asc_Status c)"
    unfolding enc_AerospikeClusterStatus_def dec_AerospikeClusterStatus_def
    by (simp add: field_def cs del: map_of_append)
  show ?thesis
    using C spec status unfolding dec_AerospikeCluster_def enc_AerospikeCluster_def
    by (simp add: field_def reads_back_def map_add_def)
qed

end
