(* ===== verification/Schemas.thy ===== *)
theory Schemas
  imports ApiJson
begin

text \<open>
  \<^verbatim>\<open>pkg/crd/crds.go\<close>: the custom resource definitions, as data. The schema of each version of each
  resource is a definition of its own; \<open>crds\<close> is the list the operator registers.
\<close>

section \<open>Definitions of resources\<close>

text \<open>
  \<open>extsv1.CustomResourceDefinition\<close> with the fields the repository sets or reads; the fields of the
  spec and of the status are next to each other.
\<close>

record Column =
  col_Name :: string
  col_Type :: string
  col_Description :: string
  col_JSONPath :: string

record Scale =
  SpecReplicasPath :: string
  StatusReplicasPath :: string
  LabelSelectorPath :: "string option"

record CRDVersion =
  cv_Name :: string
  cv_Served :: bool
  cv_Storage :: bool
  cv_Schema :: schema
  cv_StatusSubresource :: bool
  cv_Scale :: "Scale option"
  cv_Columns :: "Column list"

record CRDSpec =
  cs_Group :: string
  cs_Versions :: "CRDVersion list"
  cs_Scope :: string
  cs_Plural :: string
  cs_Kind :: string
  cs_ShortNames :: "string list"

record CRD =
  crd_Name :: string
  crd_Spec :: CRDSpec
  crd_Conditions :: "(string \<times> string) list"
  crd_StoredVersions :: "string list"

section \<open>Names\<close>

definition AerospikeClusterPlural :: string where "AerospikeClusterPlural = ''aerospikeclusters''"
definition AerospikeClusterShort :: string where "AerospikeClusterShort = ''asc''"
definition AerospikeNamespaceBackupPlural :: string where
  "AerospikeNamespaceBackupPlural = ''aerospikenamespacebackups''"
definition AerospikeNamespaceBackupShort :: string where "AerospikeNamespaceBackupShort = ''asnb''"
definition AerospikeNamespaceRestorePlural :: string where
  "AerospikeNamespaceRestorePlural = ''aerospikenamespacerestores''"
definition AerospikeNamespaceRestoreShort :: string where "AerospikeNamespaceRestoreShort = ''asnr''"
definition ttlPattern :: string where "ttlPattern = ''^([0-9]*[.])?[0-9]+d$''"

definition AerospikeClusterCRDName :: string where
  "AerospikeClusterCRDName = AerospikeClusterPlural @ ''.'' @ GroupName"
definition AerospikeNamespaceBackupCRDName :: string where
  "AerospikeNamespaceBackupCRDName = AerospikeNamespaceBackupPlural @ ''.'' @ GroupName"
definition AerospikeNamespaceRestoreCRDName :: string where
  "AerospikeNamespaceRestoreCRDName = AerospikeNamespaceRestorePlural @ ''.'' @ GroupName"

section \<open>Schemas shared by several resources\<close>

definition backupStorageSpecProps :: schema where
  "backupStorageSpecProps = object_with [
     (''type'', string_enum [StorageTypeGCS]),
     (''bucket'', string_min 1),
     (''secret'', string_min 1),
     (''secretNamespace'', string_min 1),
     (''secretKey'', string_min 1)]
     [''type'', ''bucket'', ''secret'']"

definition backupRestoreTargetProps :: schema where
  "backupRestoreTargetProps = object_with [
     (''cluster'', string_min 1),
     (''namespace'', string_min 1)]
     [''cluster'', ''namespace'']"

section \<open>Clusters\<close>

text \<open>The regular expressions \<^verbatim>\<open>\d\<close> and \<^verbatim>\<open>\.\<close>, spelled out.\<close>

definition digit :: string where "digit = [CHR 0x5C, CHR ''d'']"
definition dot :: string where "dot = [CHR 0x5C, CHR ''.'']"

definition size_pattern :: string where
  "size_pattern = ''^(20{3}|1?'' @ digit @ ''{1,3}|[1-9])G$''"
definition memory_pattern :: string where
  "memory_pattern = ''^'' @ digit @ ''+G$''"
definition default_ttl_pattern :: string where
  "default_ttl_pattern = ''^'' @ digit @ ''+s$''"
definition version_pattern :: string where
  "version_pattern = ''^'' @ digit @ ''+'' @ dot @ digit @ ''+'' @ dot @ digit @ ''+('' @
        dot @ digit @ ''+)?$''"

text \<open>The same in both versions, where it is written out twice.\<close>

definition storage_schema :: schema where
  "storage_schema = object_with [
     (''type'', string_enum [StorageTypeFile, StorageTypeDevice]),
     (''size'', string_pattern size_pattern),
     (''storageClassName'', plain_type ''string''),
     (''persistentVolumeClaimTTL'', string_pattern ttlPattern),
     (''dataInMemory'', plain_type ''boolean'')]
     [''type'', ''size'']"

definition namespace_schema :: schema where
  "namespace_schema = titled_object ''namespace'' [
     (''name'', string_min 1),
     (''replicationFactor'', integer_between 1 8),
     (''memorySize'', string_pattern memory_pattern),
     (''defaultTTL'', string_pattern default_ttl_pattern),
     (''storage'', storage_schema)]
     [''name'', ''storage'']"

definition cluster_backup_schema :: schema where
  "cluster_backup_schema = object_with [
     (''ttl'', string_pattern ttlPattern),
     (''storage'', backupStorageSpecProps)]
     [''storage'']"

definition cluster_spec_v1alpha2 :: schema where
  "cluster_spec_v1alpha2 = object_with [
     (''nodeCount'', integer_between 1 8),
     (''nodeSelector'', open_object),
     (''resources'', object_with [
        (''limits'', object_with [
           (''cpu'', plain_type ''string''), (''memory'', plain_type ''string'')] []),
        (''requests'', object_with [
           (''cpu'', plain_type ''string''), (''memory'', plain_type ''string'')] [])] []),
     (''tolerations'', array_of (object_with [
        (''effect'', plain_type ''string''),
        (''key'', plain_type ''string''),
        (''operator'', plain_type ''string''),
        (''tolerationSeconds'', plain_type ''integer''),
        (''value'', plain_type ''string'')] [])),
     (''version'', string_pattern version_pattern),
     (''namespaces'', array_of namespace_schema),
     (''backupSpec'', cluster_backup_schema)]
     [''nodeCount'', ''version'', ''namespaces'']"

definition cluster_spec_v1alpha1 :: schema where
  "cluster_spec_v1alpha1 = object_with [
     (''nodeCount'', integer_between 1 8),
     (''version'', string_pattern version_pattern),
     (''namespaces'', array_of namespace_schema),
     (''backupSpec'', cluster_backup_schema)]
     [''nodeCount'', ''version'', ''namespaces'']"

definition cluster_v1alpha2 :: CRDVersion where
  "cluster_v1alpha2 = \<lparr>
     cv_Name = SchemeGroupVersion_Version,
     cv_Served = True,
     cv_Storage = True,
     cv_Schema = object_with [(''spec'', cluster_spec_v1alpha2)] [],
     cv_StatusSubresource = True,
     cv_Scale = Some \<lparr>SpecReplicasPath = ''.spec.nodeCount'', StatusReplicasPath = ''.status.nodeCount'',
       LabelSelectorPath = None\<rparr>,
     cv_Columns = [
      \<lparr>col_Name = ''Version'', col_Type = ''string'',
        col_Description = ''The Aerospike version running in the Aerospike cluster'',
        col_JSONPath = ''.status.version''\<rparr>,
      \<lparr>col_Name = ''Node Count'', col_Type = ''integer'',
        col_Description = ''The number of nodes in the Aerospike cluster'',
        col_JSONPath = ''.status.nodeCount''\<rparr>,
      \<lparr>col_Name = ''Age'', col_Type = ''date'',
        col_Description = ''Time elapsed since the resource was created'',
        col_JSONPath = ''.metadata.creationTimestamp''\<rparr>]\<rparr>"

definition cluster_v1alpha1 :: CRDVersion where
  "cluster_v1alpha1 = \<lparr>
     cv_Name = v1_SchemeGroupVersion_Version,
     cv_Served = True,
     cv_Storage = False,
     cv_Schema = object_with [(''spec'', cluster_spec_v1alpha1)] [],
     cv_StatusSubresource = True,
     cv_Scale = Some \<lparr>SpecReplicasPath = ''.spec.nodeCount'', StatusReplicasPath = ''.status.nodeCount'',
       LabelSelectorPath = None\<rparr>,
     cv_Columns = [
      \<lparr>col_Name = ''Version'', col_Type = ''string'',
        col_Description = ''The Aerospike version running in the Aerospike cluster'',
        col_JSONPath = ''.status.version''\<rparr>,
      \<lparr>col_Name = ''Node Count'', col_Type = ''integer'',
        col_Description = ''The number of nodes in the Aerospike cluster'',
        col_JSONPath = ''.status.nodeCount''\<rparr>,
      \<lparr>col_Name = ''Age'', col_Type = ''date'',
        col_Description = ''Time elapsed since the resource was created'',
        col_JSONPath = ''.metadata.creationTimestamp''\<rparr>]\<rparr>"

definition cluster_crd :: CRD where
  "cluster_crd = \<lparr>
     crd_Name = AerospikeClusterCRDName,
     crd_Spec = \<lparr>
       cs_Group = GroupName,
       cs_Versions = [cluster_v1alpha2, cluster_v1alpha1],
       cs_Scope = ''Namespaced'',
       cs_Plural = AerospikeClusterPlural,
       cs_Kind = AerospikeClusterKind,
       cs_ShortNames = [AerospikeClusterShort]\<rparr>,
     crd_Conditions = [],
     crd_StoredVersions = []\<rparr>"

section \<open>Backups and restores\<close>

definition backup_spec_schema :: schema where
  "backup_spec_schema = object_with [(''target'', backupRestoreTargetProps), (''storage'', backupStorageSpecProps),
     (''ttl'', string_pattern ttlPattern)] [''target'']"

definition backup_v1alpha2 :: CRDVersion where
  "backup_v1alpha2 = \<lparr>
     cv_Name = SchemeGroupVersion_Version,
     cv_Served = True,
     cv_Storage = True,
     cv_Schema = object_with [(''spec'', backup_spec_schema)] [],
     cv_StatusSubresource = True,
     cv_Scale = None,
     cv_Columns = [
      \<lparr>col_Name = ''Target Cluster'', col_Type = ''string'',
        col_Description = ''The name of the Aerospike cluster targeted by the backup operation'',
        col_JSONPath = ''.status.target.cluster''\<rparr>,
      \<lparr>col_Name = ''Target Namespace'', col_Type = ''string'',
        col_Description = ''The name of the Aerospike namespace targeted by the backup operation'',
        col_JSONPath = ''.status.target.namespace''\<rparr>,
      \<lparr>col_Name = ''Age'', col_Type = ''date'',
        col_Description = ''Time elapsed since the resource was created'',
        col_JSONPath = ''.metadata.creationTimestamp''\<rparr>]\<rparr>"

definition backup_v1alpha1 :: CRDVersion where
  "backup_v1alpha1 = \<lparr>
     cv_Name = v1_SchemeGroupVersion_Version,
     cv_Served = True,
     cv_Storage = False,
     cv_Schema = object_with [(''spec'', backup_spec_schema)] [],
     cv_StatusSubresource = True,
     cv_Scale = None,
     cv_Columns = [
      \<lparr>col_Name = ''Target Cluster'', col_Type = ''string'',
        col_Description = ''The name of the Aerospike cluster targeted by the backup operation'',
        col_JSONPath = ''.status.target.cluster''\<rparr>,
      \<lparr>col_Name = ''Target Namespace'', col_Type = ''string'',
        col_Description = ''The name of the Aerospike namespace targeted by the backup operation'',
        col_JSONPath = ''.status.target.namespace''\<rparr>,
      \<lparr>col_Name = ''Age'', col_Type = ''date'',
        col_Description = ''Time elapsed since the resource was created'',
        col_JSONPath = ''.metadata.creationTimestamp''\<rparr>]\<rparr>"

definition backup_crd :: CRD where
  "backup_crd = \<lparr>
     crd_Name = ''aerospikenamespacebackups'' @ ''.'' @ GroupName,
     crd_Spec = \<lparr>
       cs_Group = GroupName,
       cs_Versions = [backup_v1alpha2, backup_v1alpha1],
       cs_Scope = ''Namespaced'',
       cs_Plural = AerospikeNamespaceBackupPlural,
       cs_Kind = AerospikeNamespaceBackupKind,
       cs_ShortNames = [AerospikeNamespaceBackupShort]\<rparr>,
     crd_Conditions = [],
     crd_StoredVersions = []\<rparr>"

definition restore_spec_schema :: schema where
  "restore_spec_schema = object_with [(''target'', backupRestoreTargetProps), (''storage'', backupStorageSpecProps)] [''target'']"

definition restore_v1alpha2 :: CRDVersion where
  "restore_v1alpha2 = \<lparr>
     cv_Name = SchemeGroupVersion_Version,
     cv_Served = True,
     cv_Storage = True,
     cv_Schema = object_with [(''spec'', restore_spec_schema)] [],
     cv_StatusSubresource = True,
     cv_Scale = None,
     cv_Columns = [
      \<lparr>col_Name = ''Target Cluster'', col_Type = ''string'',
        col_Description = ''The name of the Aerospike cluster targeted by the restore operation'',
        col_JSONPath = ''.status.target.cluster''\<rparr>,
      \<lparr>col_Name = ''Target Namespace'', col_Type = ''string'',
        col_Description = ''The name of the Aerospike namespace targeted by the restore operation'',
        col_JSONPath = ''.status.target.namespace''\<rparr>,
      \<lparr>col_Name = ''Age'', col_Type = ''date'',
        col_Description = ''Time elapsed since the resource was created'',
        col_JSONPath = ''.metadata.creationTimestamp''\<rparr>]\<rparr>"

definition restore_v1alpha1 :: CRDVersion where
  "restore_v1alpha1 = \<lparr>
     cv_Name = v1_SchemeGroupVersion_Version,
     cv_Served = True,
     cv_Storage = False,
     cv_Schema = object_with [(''spec'', restore_spec_schema)] [],
     cv_StatusSubresource = True,
     cv_Scale = None,
     cv_Columns = [
      \<lparr>col_Name = ''Target Cluster'', col_Type = ''string'',
        col_Description = ''The name of the Aerospike cluster targeted by the restore operation'',
        col_JSONPath = ''.status.target.cluster''\<rparr>,
      \<lparr>col_Name = ''Target Namespace'', col_Type = ''string'',
        col_Description = ''The name of the Aerospike namespace targeted by the restore operation'',
        col_JSONPath = ''.status.target.namespace''\<rparr>,
      \<lparr>col_Name = ''Age'', col_Type = ''date'',
        col_Description = ''Time elapsed since the resource was created'',
        col_JSONPath = ''.metadata.creationTimestamp''\<rparr>]\<rparr>"

definition restore_crd :: CRD where
  "restore_crd = \<lparr>
     crd_Name = ''aerospikenamespacerestores'' @ ''.'' @ GroupName,
     crd_Spec = \<lparr>
       cs_Group = GroupName,
       cs_Versions = [restore_v1alpha2, restore_v1alpha1],
       cs_Scope = ''Namespaced'',
       cs_Plural = AerospikeNamespaceRestorePlural,
       cs_Kind = AerospikeNamespaceRestoreKind,
       cs_ShortNames = [AerospikeNamespaceRestoreShort]\<rparr>,
     crd_Conditions = [],
     crd_StoredVersions = []\<rparr>"

definition crds :: "CRD list" where
  "crds = [cluster_crd, backup_crd, restore_crd]"

section \<open>What conforms to a schema decodes\<close>

text \<open>What the schemas promise of a decoded spec.\<close>

definition storage_wf :: "BackupStorageSpec \<Rightarrow> bool" where
  "storage_wf b \<longleftrightarrow> bs_Type b = StorageTypeGCS \<and> bs_Bucket b \<noteq> [] \<and> bs_Secret b \<noteq> [] \<and>
     bs_SecretNamespace b \<noteq> Some [] \<and> bs_SecretKey b \<noteq> Some []"

definition namespace_wf :: "AerospikeNamespaceSpec \<Rightarrow> bool" where
  "namespace_wf n \<longleftrightarrow> ns_Name n \<noteq> [] \<and> st_Type (ns_Storage n) \<in> {StorageTypeFile, StorageTypeDevice} \<and>
     (\<forall>rf. ns_ReplicationFactor n = Some rf \<longrightarrow> 1 \<le> rf \<and> rf \<le> 8)"

definition backup_spec_wf :: "(string \<Rightarrow> string \<Rightarrow> bool) \<Rightarrow> AerospikeClusterBackupSpec \<Rightarrow> bool" where
  "backup_spec_wf matches b \<longleftrightarrow> storage_wf (cb_Storage b) \<and> (\<forall>t. cb_TTL b = Some t \<longrightarrow> matches ttlPattern t)"

definition v1_spec_wf :: "(string \<Rightarrow> string \<Rightarrow> bool) \<Rightarrow> v1_AerospikeClusterSpec \<Rightarrow> bool" where
  "v1_spec_wf matches s \<longleftrightarrow> 1 \<le> v1_NodeCount s \<and> v1_NodeCount s \<le> 8 \<and>
     list_all namespace_wf (v1_Namespaces s) \<and>
     (\<forall>b. v1_BackupSpec s = Some b \<longrightarrow> backup_spec_wf matches b)"

definition spec_wf :: "(string \<Rightarrow> string \<Rightarrow> bool) \<Rightarrow> AerospikeClusterSpec \<Rightarrow> bool" where
  "spec_wf matches s \<longleftrightarrow> 1 \<le> spec_NodeCount s \<and> spec_NodeCount s \<le> 8 \<and>
     list_all namespace_wf (spec_Namespaces s) \<and>
     (\<forall>b. spec_BackupSpec s = Some b \<longrightarrow> backup_spec_wf matches b)"

text \<open>The fields of a conforming object.\<close>

definition fields_conform ::
    "(string \<Rightarrow> string \<Rightarrow> bool) \<Rightarrow> (string \<times> schema) list \<Rightarrow> string list \<Rightarrow> (string \<times> json) list \<Rightarrow> bool" where
  "fields_conform matches props req kvs \<longleftrightarrow>
     (\<forall>k \<in> set req. \<exists>v. map_of kvs k = Some v) \<and>
     (\<forall>k v p. map_of kvs k = Some v \<longrightarrow> map_of props k = Some p \<longrightarrow> conforms matches p v)"

lemma conforms_fields:
  assumes "conforms matches (object_with props req) j"
  obtains kvs where "j = JObject kvs" and "fields_conform matches props req kvs"
  using assms by (rule conforms_object) (auto simp: fields_conform_def intro: that)

lemma field_required:
  assumes "fields_conform matches props req kvs" and "k \<in> set req" and "map_of props k = Some p"
    and "\<And>v. conforms matches p v \<Longrightarrow> \<exists>y. f v = Inr y \<and> P y"
  shows "\<exists>y. field zero f k kvs = Inr y \<and> P y"
proof -
  from assms(1,2) obtain v where "map_of kvs k = Some v" unfolding fields_conform_def by blast
  moreover from this have "conforms matches p v" using assms(1,3) unfolding fields_conform_def by blast
  ultimately show ?thesis using assms(4) [of v] by (auto simp: field_def)
qed

lemma field_optional:
  assumes "fields_conform matches props req kvs" and "map_of props k = Some p"
    and "\<And>v. conforms matches p v \<Longrightarrow> \<exists>y. f v = Inr y \<and> P y"
  shows "\<exists>y. ptr_field f k kvs = Inr y \<and> (\<forall>z. y = Some z \<longrightarrow> P z)"
proof (cases "map_of kvs k")
  case (Some v)
  then have "conforms matches p v" using assms(1,2) unfolding fields_conform_def by blast
  then show ?thesis using Some assms(3) [of v] by (cases v) (auto simp: ptr_field_def)
qed (simp add: ptr_field_def)

lemma dec_strings:
  "conforms matches (string_min 1) v \<Longrightarrow> \<exists>y. dec_string v = Inr y \<and> y \<noteq> []"
  "conforms matches (string_pattern p) v \<Longrightarrow> \<exists>y. dec_string v = Inr y \<and> matches p y"
  "conforms matches (string_enum (x # xs)) v \<Longrightarrow> \<exists>y. dec_string v = Inr y \<and> y \<in> set (x # xs)"
  "conforms matches (plain_type ''string'') v \<Longrightarrow> \<exists>y. dec_string v = Inr y \<and> True"
  "conforms matches (plain_type ''boolean'') v \<Longrightarrow> \<exists>y. dec_bool v = Inr y \<and> True"
  "conforms matches (integer_between 1 8) v \<Longrightarrow> \<exists>y. dec_int32 v = Inr y \<and> 1 \<le> y \<and> y \<le> 8"
  by (auto simp: conforms_strings conforms_integer int32_def)

lemma dec_backup_storage:
  assumes "conforms matches backupStorageSpecProps j"
  shows "\<exists>b. dec_BackupStorageSpec j = Inr b \<and> storage_wf b"
proof -
  from assms obtain kvs where j: "j = JObject kvs" and fc: "fields_conform matches [
      (''type'', string_enum [StorageTypeGCS]), (''bucket'', string_min 1), (''secret'', string_min 1),
      (''secretNamespace'', string_min 1), (''secretKey'', string_min 1)]
      [''type'', ''bucket'', ''secret''] kvs"
    unfolding backupStorageSpecProps_def by (rule conforms_fields)
  have "\<exists>y. field [] dec_string ''type'' kvs = Inr y \<and> y \<in> set [StorageTypeGCS]"
    by (rule field_required [OF fc]) (simp, simp, erule dec_strings)
  moreover have "\<exists>y. field [] dec_string ''bucket'' kvs = Inr y \<and> y \<noteq> []"
    by (rule field_required [OF fc]) (simp, simp, erule dec_strings)
  moreover have "\<exists>y. field [] dec_string ''secret'' kvs = Inr y \<and> y \<noteq> []"
    by (rule field_required [OF fc]) (simp, simp, erule dec_strings)
  moreover have "\<exists>y. ptr_field dec_string ''secretNamespace'' kvs = Inr y \<and> (\<forall>z. y = Some z \<longrightarrow> z \<noteq> [])"
    by (rule field_optional [OF fc]) (simp, erule dec_strings)
  moreover have "\<exists>y. ptr_field dec_string ''secretKey'' kvs = Inr y \<and> (\<forall>z. y = Some z \<longrightarrow> z \<noteq> [])"
    by (rule field_optional [OF fc]) (simp, erule dec_strings)
  ultimately show ?thesis by (auto simp: dec_BackupStorageSpec_def j storage_wf_def)
qed

lemma dec_storage:
  assumes "conforms matches storage_schema j"
  shows "\<exists>s. dec_StorageSpec j = Inr s \<and> st_Type s \<in> {StorageTypeFile, StorageTypeDevice}"
proof -
  from assms obtain kvs where j: "j = JObject kvs" and fc: "fields_conform matches [
      (''type'', string_enum [StorageTypeFile, StorageTypeDevice]),
      (''size'', string_pattern size_pattern),
      (''storageClassName'', plain_type ''string''),
      (''persistentVolumeClaimTTL'', string_pattern ttlPattern),
      (''dataInMemory'', plain_type ''boolean'')] [''type'', ''size''] kvs"
    unfolding storage_schema_def by (rule conforms_fields)
  have "\<exists>y. field [] dec_string ''type'' kvs = Inr y \<and> y \<in> set [StorageTypeFile, StorageTypeDevice]"
    by (rule field_required [OF fc]) (simp, simp, erule dec_strings)
  moreover have "\<exists>y. field [] dec_string ''size'' kvs = Inr y \<and>
      matches size_pattern y"
    by (rule field_required [OF fc]) (simp, simp, erule dec_strings)
  moreover have "\<exists>y. ptr_field dec_string ''storageClassName'' kvs = Inr y \<and> (\<forall>z. y = Some z \<longrightarrow> True)"
    by (rule field_optional [OF fc]) (simp, erule dec_strings)
  moreover have "\<exists>y. ptr_field dec_string ''persistentVolumeClaimTTL'' kvs = Inr y \<and>
      (\<forall>z. y = Some z \<longrightarrow> matches ttlPattern z)"
    by (rule field_optional [OF fc]) (simp, erule dec_strings)
  moreover have "\<exists>y. ptr_field dec_bool ''dataInMemory'' kvs = Inr y \<and> (\<forall>z. y = Some z \<longrightarrow> True)"
    by (rule field_optional [OF fc]) (simp, erule dec_strings)
  ultimately show ?thesis by (auto simp: dec_StorageSpec_def j)
qed

lemma dec_namespace:
  assumes "conforms matches namespace_schema j"
  shows "\<exists>n. dec_AerospikeNamespaceSpec j = Inr n \<and> namespace_wf n"
proof -
  from assms obtain kvs where j: "j = JObject kvs" and fc: "fields_conform matches [
      (''name'', string_min 1), (''replicationFactor'', integer_between 1 8),
      (''memorySize'', string_pattern memory_pattern),
      (''defaultTTL'', string_pattern default_ttl_pattern), (''storage'', storage_schema)]
      [''name'', ''storage''] kvs"
    unfolding namespace_schema_def conforms_titled by (rule conforms_fields)
  have "\<exists>y. field [] dec_string ''name'' kvs = Inr y \<and> y \<noteq> []"
    by (rule field_required [OF fc]) (simp, simp, erule dec_strings)
  moreover have "\<exists>y. ptr_field dec_int32 ''replicationFactor'' kvs = Inr y \<and>
      (\<forall>z. y = Some z \<longrightarrow> 1 \<le> z \<and> z \<le> 8)"
    by (rule field_optional [OF fc]) (simp, erule dec_strings)
  moreover have "\<exists>y. ptr_field dec_string ''memorySize'' kvs = Inr y \<and>
      (\<forall>z. y = Some z \<longrightarrow> matches memory_pattern z)"
    by (rule field_optional [OF fc]) (simp, erule dec_strings)
  moreover have "\<exists>y. ptr_field dec_string ''defaultTTL'' kvs = Inr y \<and>
      (\<forall>z. y = Some z \<longrightarrow> matches default_ttl_pattern z)"
    by (rule field_optional [OF fc]) (simp, erule dec_strings)
  moreover have "\<exists>y. field zero_StorageSpec dec_StorageSpec ''storage'' kvs = Inr y \<and>
      st_Type y \<in> {StorageTypeFile, StorageTypeDevice}"
    by (rule field_required [OF fc]) (simp, simp, erule dec_storage)
  ultimately show ?thesis by (auto simp: dec_AerospikeNamespaceSpec_def j namespace_wf_def)
qed

lemma dec_backup_spec:
  assumes "conforms matches cluster_backup_schema j"
  shows "\<exists>b. dec_AerospikeClusterBackupSpec j = Inr b \<and> backup_spec_wf matches b"
proof -
  from assms obtain kvs where j: "j = JObject kvs" and fc: "fields_conform matches [
      (''ttl'', string_pattern ttlPattern), (''storage'', backupStorageSpecProps)] [''storage''] kvs"
    unfolding cluster_backup_schema_def by (rule conforms_fields)
  have "\<exists>y. ptr_field dec_string ''ttl'' kvs = Inr y \<and> (\<forall>z. y = Some z \<longrightarrow> matches ttlPattern z)"
    by (rule field_optional [OF fc]) (simp, erule dec_strings)
  moreover have "\<exists>y. field zero_BackupStorageSpec dec_BackupStorageSpec ''storage'' kvs = Inr y \<and> storage_wf y"
    by (rule field_required [OF fc]) (simp, simp, erule dec_backup_storage)
  ultimately show ?thesis by (auto simp: dec_AerospikeClusterBackupSpec_def j backup_spec_wf_def)
qed

text \<open>The four fields that both versions of a cluster spec share.\<close>

lemma dec_shared_fields:
  assumes fc: "fields_conform matches props req kvs"
    and req: "set [''nodeCount'', ''version'', ''namespaces''] \<subseteq> set req"
    and n: "map_of props ''nodeCount'' = Some (integer_between 1 8)"
    and v: "map_of props ''version'' = Some (string_pattern p)"
    and nss: "map_of props ''namespaces'' = Some (array_of namespace_schema)"
    and b: "map_of props ''backupSpec'' = Some cluster_backup_schema"
  shows "\<exists>s. dec_v1_AerospikeClusterSpec (JObject kvs) = Inr s \<and> v1_spec_wf matches s"
proof -
  have "\<exists>y. field 0 dec_int32 ''nodeCount'' kvs = Inr y \<and> 1 \<le> y \<and> y \<le> 8"
    by (rule field_required [OF fc _ n]) (use req in simp, erule dec_strings)
  moreover have "\<exists>y. field [] dec_string ''version'' kvs = Inr y \<and> matches p y"
    by (rule field_required [OF fc _ v]) (use req in simp, erule dec_strings)
  moreover have "\<exists>y. field [] (dec_array dec_AerospikeNamespaceSpec) ''namespaces'' kvs = Inr y \<and>
      list_all namespace_wf y"
  proof (rule field_required [OF fc _ nss])
    fix j assume "conforms matches (array_of namespace_schema) j"
    then show "\<exists>y. dec_array dec_AerospikeNamespaceSpec j = Inr y \<and> list_all namespace_wf y"
      by (rule conforms_array) (simp, rule dec_list_ok, blast intro: dec_namespace)
  qed (use req in simp)
  moreover have "\<exists>y. ptr_field dec_AerospikeClusterBackupSpec ''backupSpec'' kvs = Inr y \<and>
      (\<forall>z. y = Some z \<longrightarrow> backup_spec_wf matches z)"
    by (rule field_optional [OF fc b]) (erule dec_backup_spec)
  ultimately show ?thesis by (auto simp: dec_v1_AerospikeClusterSpec_def v1_spec_wf_def)
qed

lemma dec_v1alpha1:
  assumes "conforms matches cluster_spec_v1alpha1 j"
  shows "\<exists>s. dec_v1_AerospikeClusterSpec j = Inr s \<and> v1_spec_wf matches s"
  using assms unfolding cluster_spec_v1alpha1_def
  by (rule conforms_fields) (auto intro: dec_shared_fields)

lemma dec_v1alpha2:
  assumes "conforms matches cluster_spec_v1alpha2 j" and "dec_AerospikeClusterSpec C j = Inr s"
  shows "spec_wf matches s"
proof -
  have "\<exists>s. dec_v1_AerospikeClusterSpec j = Inr s \<and> v1_spec_wf matches s"
    using assms(1) unfolding cluster_spec_v1alpha2_def
    by (rule conforms_fields) (auto intro: dec_shared_fields)
  then show ?thesis
    using assms by (cases j)
      (auto simp: dec_AerospikeClusterSpec_def andThen_def spec_wf_def v1_spec_wf_def split: sum.splits)
qed

end
