(* ===== verification/SchemaProperties.thy ===== *)
theory SchemaProperties
  imports Schemas UpgradeProtocol
begin

text \<open>
  Properties of the resource definitions and of the JSON form of the resources, and what they mean
  for the reconciler.
\<close>

section \<open>Decoding what the API server lets through\<close>

text \<open>
  C18: whatever conforms to the schema of a v1alpha1 cluster spec decodes into the Go type, with between
  one and eight nodes, named namespaces on a known storage engine with replication factors between one
  and eight, and complete backup storage; whatever conforms to the v1alpha2 schema and decodes has the
  same properties (only the fields of foreign types can fail to decode).
\<close>

theorem conforming_specs_decode:
  assumes "conforms matches cluster_spec_v1alpha1 j" and "conforms matches cluster_spec_v1alpha2 j'"
    and "dec_AerospikeClusterSpec C j' = Inr s"
  shows "(\<exists>s. dec_v1_AerospikeClusterSpec j = Inr s \<and> v1_spec_wf matches s) \<and> spec_wf matches s"
  using dec_v1alpha1 [OF assms(1)] dec_v1alpha2 [OF assms(2,3)] by simp

text \<open>A concrete codec that knows one metadata and no resources, and an engine that accepts every text.\<close>

definition codec0 :: codec where
  "codec0 = \<lparr>enc_Meta = (\<lambda>_. JNull), enc_Resources = (\<lambda>_. JNull), enc_Toleration = (\<lambda>_. JNull),
     enc_Condition = (\<lambda>_. JNull), dec_Meta = (\<lambda>_. Inr (asc_Meta cluster0)),
     dec_Condition = (\<lambda>_. Inl (decode_error ''condition'')),
     dec_Resources = (\<lambda>_. Inl (decode_error ''resources'')),
     dec_Toleration = (\<lambda>_. Inl (decode_error ''toleration''))\<rparr>"

definition any_text :: "string \<Rightarrow> string \<Rightarrow> bool" where
  "any_text p t = True"

definition spec_json :: json where
  "spec_json = enc_AerospikeClusterSpec codec0 spec0"

theorem conforming_specs_decode_witness:
  "(\<exists>s. dec_v1_AerospikeClusterSpec spec_json = Inr s \<and> v1_spec_wf any_text s) \<and> spec_wf any_text spec0"
proof (rule conforming_specs_decode)
  show "conforms any_text cluster_spec_v1alpha1 spec_json" by code_simp
  show "conforms any_text cluster_spec_v1alpha2 spec_json" by code_simp
  have "reads_back_spec codec0 spec0" "in_range spec0"
    by (simp_all add: reads_back_spec_def in_range_def spec0_def ns0_def int32_def)
  then show "dec_AerospikeClusterSpec codec0 spec_json = Inr spec0"
    unfolding spec_json_def by (rule dec_enc_AerospikeClusterSpec)
qed

section \<open>The round trip\<close>



section \<open>The backups the operator creates\<close>

text \<open>What conforms to a backup schema, field by field.\<close>

lemma enc_backup_storage_conforms:
  "storage_wf b \<Longrightarrow> conforms matches backupStorageSpecProps (enc_BackupStorageSpec b)"
  unfolding backupStorageSpecProps_def enc_BackupStorageSpec_def conforms_JObject
  by (cases "bs_SecretNamespace b"; cases "bs_SecretKey b")
    (auto simp: tag_def omitempty_def conforms_strings storage_wf_def Suc_le_eq)

lemma enc_target_conforms:
  "tn_Cluster t \<noteq> [] \<Longrightarrow> tn_Namespace t \<noteq> [] \<Longrightarrow>
     conforms matches backupRestoreTargetProps (enc_TargetNamespace t)"
  unfolding backupRestoreTargetProps_def enc_TargetNamespace_def conforms_JObject
  by (auto simp: tag_def conforms_strings Suc_le_eq)

lemma enc_backup_conforms:
  assumes "tn_Cluster (bk_Target (asnb_Spec b)) \<noteq> []" and "tn_Namespace (bk_Target (asnb_Spec b)) \<noteq> []"
    and "\<And>s. bk_Storage (asnb_Spec b) = Some s \<Longrightarrow> storage_wf s"
    and "\<And>p. bk_TTL (asnb_Spec b) = Some p \<Longrightarrow> matches ttlPattern (deref p)"
  shows "conforms matches (cv_Schema backup_v1alpha2) (enc_AerospikeNamespaceBackup C b)"
proof -
  have "conforms matches backup_spec_schema (JObject (backup_spec_fields (asnb_Spec b)))"
    unfolding backup_spec_schema_def backup_spec_fields_def conforms_JObject
    using assms enc_target_conforms [OF assms(1,2)] enc_backup_storage_conforms
    by (cases "bk_Storage (asnb_Spec b)"; cases "bk_TTL (asnb_Spec b)")
      (auto simp: tag_def omitempty_def conforms_strings)
  then show ?thesis
    unfolding backup_v1alpha2_def enc_AerospikeNamespaceBackup_def
    by (simp add: conforms_JObject tag_def del: conforms.simps)
qed

text \<open>
  The backups the operator creates before an upgrade conform to the schema they are validated
  against: for a named cluster whose spec conforms and decodes, the backup of each of its namespaces
  has a target, a storage and a time to live that the API server accepts.
\<close>

theorem created_backup_conforms:
  assumes "conforms matches cluster_spec_v1alpha2 j" and "dec_AerospikeClusterSpec C j = Inr (asc_Spec c)"
    and "asc_Name c \<noteq> []" and "ns \<in> set (spec_Namespaces (asc_Spec c))"
    and "spec_BackupSpec (asc_Spec c) = Some spec"
  shows "conforms matches (cv_Schema backup_v1alpha2)
    (enc_AerospikeNamespaceBackup C (namespace_backup c (ns_Name ns) spec))"
proof -
  have wf: "spec_wf matches (asc_Spec c)" by (rule dec_v1alpha2 [OF assms(1,2)])
  then have "namespace_wf ns" "backup_spec_wf matches spec"
    using assms(4,5) by (auto simp: spec_wf_def list_all_iff)
  then have "ns_Name ns \<noteq> []" "storage_wf (cb_Storage spec)"
    "\<forall>t. cb_TTL spec = Some t \<longrightarrow> matches ttlPattern t"
    by (simp_all add: namespace_wf_def backup_spec_wf_def)
  then show ?thesis using assms(3)
    by (intro enc_backup_conforms)
      (auto simp: namespace_backup_def Let_def GetSecret_def storage_wf_def)
qed

theorem created_backup_conforms_witness:
  "conforms any_text (cv_Schema backup_v1alpha2)
     (enc_AerospikeNamespaceBackup codec0 (namespace_backup cluster0 ''as0'' \<lparr>cb_TTL = Some ''1d'', cb_Storage = storage0\<rparr>))"
proof -
  have "reads_back_spec codec0 spec0" "in_range spec0"
    by (simp_all add: reads_back_spec_def in_range_def spec0_def ns0_def int32_def)
  then have "dec_AerospikeClusterSpec codec0 spec_json = Inr spec0"
    unfolding spec_json_def by (rule dec_enc_AerospikeClusterSpec)
  then have "dec_AerospikeClusterSpec codec0 spec_json = Inr (asc_Spec cluster0)" by (simp add: cluster0_def)
  moreover have "conforms any_text cluster_spec_v1alpha2 spec_json" by code_simp
  moreover have "asc_Name cluster0 \<noteq> []" "ns0 \<in> set (spec_Namespaces (asc_Spec cluster0))"
    "spec_BackupSpec (asc_Spec cluster0) = Some \<lparr>cb_TTL = Some ''1d'', cb_Storage = storage0\<rparr>"
    "ns_Name ns0 = ''as0''"
    by (simp_all add: cluster0_def spec0_def ns0_def)
  ultimately show ?thesis using created_backup_conforms [of any_text spec_json codec0 cluster0 ns0] by simp
qed

section \<open>The status is not in the schema\<close>

text \<open>The columns and paths that read the status.\<close>

definition reads_status :: "CRDVersion \<Rightarrow> bool" where
  "reads_status v \<longleftrightarrow> cv_StatusSubresource v \<and>
     list_ex (\<lambda>col. take 8 (col_JSONPath col) = ''.status.'') (cv_Columns v)"

lemma status_unspecified:
  "list_all (\<lambda>crd. list_all (\<lambda>v. reads_status v \<and> map_of (s_Properties (cv_Schema v)) ''status'' = None \<and>
     \<not> s_XPreserveUnknownFields (cv_Schema v)) (cs_Versions (crd_Spec crd))) crds"
  by code_simp

lemma dec_without_status:
  assumes "\<not> has_key j ''status''" and "dec_AerospikeCluster C j = Inr c"
  shows "asc_Status c = zero_AerospikeClusterStatus"
proof -
  have *: "asc_Status c = zero_AerospikeClusterStatus"
    if "map_of kvs ''status'' = None" and "dec_AerospikeCluster C (JObject kvs) = Inr c" for kvs
    using that by (auto simp: dec_AerospikeCluster_def field_def andThen_def split: sum.splits)
  show ?thesis
  proof (cases j)
    case JNull
    then show ?thesis using * [of "[]"] assms(2) by (simp add: dec_AerospikeCluster_def)
  next
    case (JObject kvs)
    then show ?thesis using * assms by (simp add: has_key_def map_of_eq_None_iff)
  qed (use assms(2) in \<open>simp_all add: dec_AerospikeCluster_def\<close>)
qed

text \<open>
  C34: no version of any of the resources lists the status in its schema, although all of them enable the
  status subresource and read columns from it. An API server that drops unspecified fields therefore
  never returns one, and a cluster read back from it never starts an upgrade, whatever its spec asks for.
\<close>

theorem pruned_status_disables_upgrades:
  assumes "drops_unspecified store"
  shows "(\<forall>crd \<in> set crds. \<forall>v \<in> set (cs_Versions (crd_Spec crd)).
       reads_status v \<and> \<not> has_key (store (cv_Schema v) j) ''status'') \<and>
    (\<forall>c. dec_AerospikeCluster C (store (cv_Schema cluster_v1alpha2) j) = Inr c \<longrightarrow>
       upgrade_of c = Inr None \<and> emits (\<lambda>e. \<not> creates_backup e) (MaybeReconcile E c))"
proof (intro conjI ballI allI impI)
  fix crd v
  assume "crd \<in> set crds" "v \<in> set (cs_Versions (crd_Spec crd))"
  then have "reads_status v" and none: "map_of (s_Properties (cv_Schema v)) ''status'' = None"
    "\<not> s_XPreserveUnknownFields (cv_Schema v)"
    using status_unspecified by (auto simp: list_all_iff)
  then show "reads_status v" by simp
  show "\<not> has_key (store (cv_Schema v) j) ''status''"
    using assms none unfolding drops_unspecified_def by simp
next
  fix c
  assume dec: "dec_AerospikeCluster C (store (cv_Schema cluster_v1alpha2) j) = Inr c"
  have "cluster_v1alpha2 \<in> set (cs_Versions (crd_Spec cluster_crd))" "cluster_crd \<in> set crds"
    by (simp_all add: cluster_crd_def crds_def)
  then have "map_of (s_Properties (cv_Schema cluster_v1alpha2)) ''status'' = None"
    "\<not> s_XPreserveUnknownFields (cv_Schema cluster_v1alpha2)"
    using status_unspecified by (auto simp: list_all_iff)
  then have "\<not> has_key (store (cv_Schema cluster_v1alpha2) j) ''status''"
    using assms unfolding drops_unspecified_def by simp
  then have "asc_Status c = zero_AerospikeClusterStatus" using dec by (rule dec_without_status)
  then show up: "upgrade_of c = Inr None"
    by (simp add: upgrade_of_def zero_AerospikeClusterStatus_def zero_AerospikeClusterSpec_def)
  show "emits (\<lambda>e. \<not> creates_backup e) (MaybeReconcile E c)"
    unfolding MaybeReconcile_def up by (auto intro!: emits_intro reconcile_no_backup)
qed

text \<open>A server that drops them.\<close>

definition pruning_store :: "schema \<Rightarrow> json \<Rightarrow> json" where
  "pruning_store s j = JObject (filter (\<lambda>(k, _). k \<in> {''apiVersion'', ''kind'', ''metadata''} \<or>
     map_of (s_Properties s) k \<noteq> None) (fields_of j))"

theorem pruned_status_disables_upgrades_witness:
  "is_ok (dec_AerospikeCluster codec0
     (pruning_store (cv_Schema cluster_v1alpha2) (enc_AerospikeCluster codec0 cluster0))) \<and>
   \<not> has_key (pruning_store (cv_Schema cluster_v1alpha2) (enc_AerospikeCluster codec0 cluster0)) ''status''"
proof -
  have "drops_unspecified pruning_store"
    by (auto simp: drops_unspecified_def has_key_def pruning_store_def)
  note pruned = pruned_status_disables_upgrades [OF this, of "enc_AerospikeCluster codec0 cluster0"]
  have "cluster_v1alpha2 \<in> set (cs_Versions (crd_Spec cluster_crd))" "cluster_crd \<in> set crds"
    by (simp_all add: cluster_crd_def crds_def)
  then have "\<not> has_key (pruning_store (cv_Schema cluster_v1alpha2) (enc_AerospikeCluster codec0 cluster0)) ''status''"
    using pruned by blast
  moreover have "is_ok (dec_AerospikeCluster codec0
     (pruning_store (cv_Schema cluster_v1alpha2) (enc_AerospikeCluster codec0 cluster0)))" by code_simp
  ultimately show ?thesis by simp
qed

end
