(* ===== verification/BackupTool.thy ===== *)
theory BackupTool
  imports BackupRestore ApiJson
begin

text \<open>
  \<^verbatim>\<open>cmd/backup/main.go\<close>, \<^verbatim>\<open>pkg/backuprestore/gcs/gcs.go\<close> (the transfers) and
  \<^verbatim>\<open>pkg/utils/flags\<close>: the program that the jobs of backups and restores run. Cloud storage and the
  two Aerospike tools it starts are the environment; \<open>flag\<close>, \<open>io.Copy\<close> and \<open>defer\<close> are Go's.
\<close>

section \<open>Command line flags\<close>

text \<open>
  \<open>flag.FlagSet.Parse\<close>: the assignments in the order they are made, and the arguments left over. A
  name and its value are separated by an equals sign or, but for booleans, by being two arguments.
  \<open>valid\<close> is the \<open>Set\<close> method of the kind of flag.
\<close>

datatype flag_kind = FlagBool | FlagString | FlagInt

datatype flag_error = FlagHelp | FlagError string string

definition split_eq :: "string \<Rightarrow> string \<times> string option" where
  "split_eq s = (let name = takeWhile (\<lambda>c. c \<noteq> CHR ''='') s; rest = drop (length name) s
     in (name, case rest of [] \<Rightarrow> None | _ # v \<Rightarrow> Some v))"

fun parse_flags ::
    "(string \<times> flag_kind) list \<Rightarrow> (flag_kind \<Rightarrow> string \<Rightarrow> bool) \<Rightarrow> string list
     \<Rightarrow> flag_error + (string \<times> string) list \<times> string list" where
  "parse_flags formal valid [] = Inr ([], [])"
| "parse_flags formal valid (s # args) =
     (if length s < 2 \<or> hd s \<noteq> CHR ''-'' then Inr ([], s # args)
      else if s = ''--'' then Inr ([], args)
      else
        let text = (if s ! 1 = CHR ''-'' then drop 2 s else drop 1 s) in
        if text = [] \<or> hd text = CHR ''-'' \<or> hd text = CHR ''='' then Inl (FlagError ''bad flag syntax: %s'' s)
        else
          (case split_eq text of (name, value) \<Rightarrow>
             (case map_of formal name of
                None \<Rightarrow>
                  if name = ''help'' \<or> name = ''h'' then Inl FlagHelp
                  else Inl (FlagError ''flag provided but not defined: -%s'' name)
              | Some kind \<Rightarrow>
                  let bare = (if kind = FlagBool then Some ''true''
                              else case args of [] \<Rightarrow> None | v # _ \<Rightarrow> Some v);
                      rest = (if value \<noteq> None \<or> kind = FlagBool then args else drop 1 args)
                  in
                  (case (case value of None \<Rightarrow> bare | Some v \<Rightarrow> Some v) of
                     None \<Rightarrow> Inl (FlagError ''flag needs an argument: -%s'' name)
                   | Some v \<Rightarrow>
                       if \<not> valid kind v then Inl (FlagError ''invalid value for flag -%s'' name)
                       else (case parse_flags formal valid rest of
                               Inl e \<Rightarrow> Inl e
                             | Inr (assigned, left) \<Rightarrow> Inr ((name, v) # assigned, left))))))"

text \<open>\<open>strconv.ParseBool\<close>\<close>

definition true_texts :: "string list" where
  "true_texts = [''1'', ''t'', ''T'', ''TRUE'', ''true'', ''True'']"
definition false_texts :: "string list" where
  "false_texts = [''0'', ''f'', ''F'', ''FALSE'', ''false'', ''False'']"

text \<open>
  \<open>DeprecateFlags\<close>: the warnings, by the name of the flag. \<open>Visit\<close> goes over the flags that were set, in
  lexicographical order.
\<close>

definition DeprecateFlags :: "(string \<times> string) list \<Rightarrow> string list \<Rightarrow> string list" where
  "DeprecateFlags assigned names =
     concat (map (\<lambda>f. filter (\<lambda>name. f = name) names) (sort (remdups (map fst assigned))))"

section \<open>The environment\<close>

text \<open>
  Events: what is sent to and read from cloud storage, and what passes through the pipes. Closing the
  writer of an object is what stores its content; the event tells whether that worked.
\<close>

datatype tool_event =
    TeClient string
  | TeBucketAttrs string
  | TeCloseObject string string string bool
  | TeOpenObject string string
  | TePipe
  | TeStart "string list" bool
  | TeStdout string
  | TeWrite string
  | TeStdin string
  | TeCloseStdin
  | TeWait bool

type_synonym tool_history = "tool_event list"
type_synonym 'a tool = "(tool_event, gerr + 'a) io"

record tool_env =
  te_client :: "tool_history \<Rightarrow> string \<Rightarrow> string + unit"
  te_bucket_attrs :: "tool_history \<Rightarrow> string \<Rightarrow> string + unit"
  te_open_object :: "tool_history \<Rightarrow> string \<Rightarrow> string \<Rightarrow> string + string"
  te_close_object :: "tool_history \<Rightarrow> string \<Rightarrow> string \<Rightarrow> string \<Rightarrow> string + unit"
  te_pipe :: "tool_history \<Rightarrow> string + unit"
  te_start :: "tool_history \<Rightarrow> string list \<Rightarrow> string + unit"
  te_stdout :: "tool_history \<Rightarrow> string"
  te_close_stdin :: "tool_history \<Rightarrow> string + unit"
  te_wait :: "tool_history \<Rightarrow> string + unit"
  \<comment> \<open>io.Copy: what of the source gets through, and the error that stopped it\<close>
  te_copy :: "tool_history \<Rightarrow> string \<Rightarrow> string \<times> string option"
  \<comment> \<open>gzip, the JSON text of a value, strconv.ParseInt with base 0\<close>
  te_gzip :: "string \<Rightarrow> string"
  te_gunzip :: "string \<Rightarrow> string + string"
  te_render :: "json \<Rightarrow> string"
  te_parse :: "string \<Rightarrow> string + json"
  te_parse_int :: "string \<Rightarrow> string + int"

section \<open>gcs.go\<close>

definition tool_GetObject :: "tool_env \<Rightarrow> string \<Rightarrow> string \<Rightarrow> unit tool" where
  "tool_GetObject E bucketName objectName =
     bindE (call (\<lambda>_. TeBucketAttrs bucketName) (\<lambda>h. of_client (te_bucket_attrs E h bucketName))) (\<lambda>_. ok ())"

definition NewGCSClientFromCredentials :: "tool_env \<Rightarrow> string \<Rightarrow> unit tool" where
  "NewGCSClientFromCredentials E credentialsFilePath =
     call (\<lambda>_. TeClient credentialsFilePath) (\<lambda>h. of_client (te_client E h credentialsFilePath))"

text \<open>
  The deferred \<open>gz.Close()\<close> and \<open>w.Close()\<close> run on every return, and their errors are dropped.
\<close>

abbreviation close_object :: "tool_env \<Rightarrow> string \<Rightarrow> string \<Rightarrow> string \<Rightarrow> (tool_event, string + unit) io" where
  "close_object E bucket object data \<equiv>
     call (\<lambda>r. TeCloseObject bucket object data (is_ok r)) (\<lambda>h. te_close_object E h bucket object data)"

definition TransferToGCS :: "tool_env \<Rightarrow> string \<Rightarrow> string \<Rightarrow> string \<Rightarrow> unit tool" where
  "TransferToGCS E r bucketName objectName =
     bindE (tool_GetObject E bucketName objectName) (\<lambda>_. do {
       copied \<leftarrow> call (\<lambda>_. TeStdout r) (\<lambda>h. te_copy E h r);
       case copied of (s, err) \<Rightarrow> do {
         _ \<leftarrow> close_object E bucketName objectName (te_gzip E s);
         case err of Some e \<Rightarrow> fail (ClientErr e) | None \<Rightarrow> ok ()
       }
     })"

text \<open>The writer is the standard input of the other tool, nil when its pipe could not be made.\<close>

definition TransferFromGCS :: "tool_env \<Rightarrow> bool \<Rightarrow> string \<Rightarrow> string \<Rightarrow> unit tool" where
  "TransferFromGCS E w bucketName objectName =
     bindE (tool_GetObject E bucketName objectName) (\<lambda>_.
     bindE (call (\<lambda>_. TeOpenObject bucketName objectName)
         (\<lambda>h. of_client (te_open_object E h bucketName objectName))) (\<lambda>r.
     liftE (of_client (te_gunzip E r)) (\<lambda>gz.
     if \<not> w then fail NilPanic
     else do {
       copied \<leftarrow> call (\<lambda>c. TeStdin (fst c)) (\<lambda>h. te_copy E h gz);
       case snd copied of Some e \<Rightarrow> fail (ClientErr e) | None \<Rightarrow> ok ()
     })))"

section \<open>main.go\<close>

record tool_params =
  tp_debug :: bool
  tp_bucketName :: string
  tp_name :: string
  tp_secretPath :: string
  tp_host :: string
  tp_port :: int
  tp_namespace :: string

text \<open>The flags of both commands, and their defaults.\<close>

definition tool_flags :: "(string \<times> flag_kind) list" where
  "tool_flags = [(''debug'', FlagBool), (''bucket-name'', FlagString), (''name'', FlagString),
     (''secret-path'', FlagString), (''host'', FlagString), (''port'', FlagInt), (''namespace'', FlagString)]"

definition default_params :: tool_params where
  "default_params = \<lparr>tp_debug = False, tp_bucketName = [], tp_name = [], tp_secretPath = ''/secret/key.json'',
     tp_host = [], tp_port = 3000, tp_namespace = []\<rparr>"

definition flag_valid :: "tool_env \<Rightarrow> flag_kind \<Rightarrow> string \<Rightarrow> bool" where
  "flag_valid E kind v = (case kind of
     FlagBool \<Rightarrow> v \<in> set true_texts \<or> v \<in> set false_texts
   | FlagString \<Rightarrow> True
   | FlagInt \<Rightarrow> is_ok (te_parse_int E v))"

definition set_flag :: "tool_env \<Rightarrow> string \<times> string \<Rightarrow> tool_params \<Rightarrow> tool_params" where
  "set_flag E a p = (case a of (name, v) \<Rightarrow>
     if name = ''debug'' then p\<lparr>tp_debug := v \<in> set true_texts\<rparr>
     else if name = ''bucket-name'' then p\<lparr>tp_bucketName := v\<rparr>
     else if name = ''name'' then p\<lparr>tp_name := v\<rparr>
     else if name = ''secret-path'' then p\<lparr>tp_secretPath := v\<rparr>
     else if name = ''host'' then p\<lparr>tp_host := v\<rparr>
     else if name = ''port''
     then (case te_parse_int E v of Inl _ \<Rightarrow> p | Inr i \<Rightarrow> p\<lparr>tp_port := i\<rparr>)
     else if name = ''namespace'' then p\<lparr>tp_namespace := v\<rparr>
     else p)"

definition parse_params :: "tool_env \<Rightarrow> string list \<Rightarrow> flag_error + tool_params" where
  "parse_params E args = (case parse_flags tool_flags (flag_valid E) args of
     Inl e \<Rightarrow> Inl e
   | Inr (assigned, left) \<Rightarrow> Inr (fold (set_flag E) assigned default_params))"

record backupMetadata =
  bm_Namespace :: string

definition enc_backupMetadata :: "backupMetadata \<Rightarrow> json" where
  "enc_backupMetadata m = JObject (tag ''namespace'' (JString (bm_Namespace m)))"

definition dec_backupMetadata :: "json \<Rightarrow> gerr + backupMetadata" where
  "dec_backupMetadata = dec_object (\<lambda>kvs.
     andThen (field [] dec_string ''namespace'' kvs) (\<lambda>n. Inr \<lparr>bm_Namespace = n\<rparr>))"

text \<open>
  \<open>Encode\<close> writes the text into the writer of the object, which keeps it until it is closed.
\<close>

definition dumpMetadata :: "tool_env \<Rightarrow> tool_params \<Rightarrow> unit tool" where
  "dumpMetadata E p =
     bindE (tool_GetObject E (tp_bucketName p) (GetMetadataObjectName (tp_name p))) (\<lambda>_. do {
       let text = te_render E (enc_backupMetadata \<lparr>bm_Namespace = tp_namespace p\<rparr>);
       copied \<leftarrow> call (\<lambda>_. TeWrite text) (\<lambda>h. te_copy E h text);
       case copied of (s, err) \<Rightarrow> do {
         _ \<leftarrow> close_object E (tp_bucketName p) (GetMetadataObjectName (tp_name p)) s;
         case err of Some e \<Rightarrow> fail (ClientErr e) | None \<Rightarrow> ok ()
       }
     })"

definition readMetadata :: "tool_env \<Rightarrow> tool_params \<Rightarrow> backupMetadata tool" where
  "readMetadata E p =
     bindE (tool_GetObject E (tp_bucketName p) (GetMetadataObjectName (tp_name p))) (\<lambda>_.
     bindE (call (\<lambda>_. TeOpenObject (tp_bucketName p) (GetMetadataObjectName (tp_name p)))
         (\<lambda>h. of_client (te_open_object E h (tp_bucketName p) (GetMetadataObjectName (tp_name p))))) (\<lambda>r.
     liftE (of_client (te_parse E r)) (\<lambda>j.
     liftE (dec_backupMetadata j) (\<lambda>m. ok m))))"

text \<open>What a process that has been started prints until it closes its standard output.\<close>

abbreviation tool_peek :: "(tool_history \<Rightarrow> 'a) \<Rightarrow> (tool_event, 'a) io" where
  "tool_peek f \<equiv> State (\<lambda>h. (f h, h))"

abbreviation start_process :: "tool_env \<Rightarrow> string list \<Rightarrow> unit tool" where
  "start_process E args \<equiv> call (\<lambda>r. TeStart args (is_ok r)) (\<lambda>h. of_client (te_start E h args))"

abbreviation wait_process :: "tool_env \<Rightarrow> unit tool" where
  "wait_process E \<equiv> call (\<lambda>r. TeWait (is_ok r)) (\<lambda>h. of_client (te_wait E h))"

definition backup_command :: "tool_params \<Rightarrow> string list" where
  "backup_command p = [''asbackup'', ''-h'', tp_host p, ''-p'', itoa (tp_port p), ''-n'', tp_namespace p,
     ''-o'', ''-'', ''-c'', ''-v'']"

definition restore_command :: "tool_params \<Rightarrow> backupMetadata \<Rightarrow> string list" where
  "restore_command p m = [''asrestore'', ''-h'', tp_host p, ''-p'', itoa (tp_port p), ''-i'', ''-'',
     ''-n'', bm_Namespace m @ '','' @ tp_namespace p, ''-v'']"

definition doBackup :: "tool_env \<Rightarrow> tool_params \<Rightarrow> unit tool" where
  "doBackup E p =
     bindE (NewGCSClientFromCredentials E (tp_secretPath p)) (\<lambda>_.
     bindE (dumpMetadata E p) (\<lambda>_.
     bindE (call (\<lambda>_. TePipe) (\<lambda>h. of_client (te_pipe E h))) (\<lambda>_.
     bindE (start_process E (backup_command p)) (\<lambda>_.
     State_Monad.bind (tool_peek (te_stdout E)) (\<lambda>r.
     bindE (TransferToGCS E r (tp_bucketName p) (GetBackupObjectName (tp_name p))) (\<lambda>_.
     wait_process E))))))"

text \<open>The error of \<open>StdinPipe\<close> is overwritten before it is looked at.\<close>

definition doRestore :: "tool_env \<Rightarrow> tool_params \<Rightarrow> unit tool" where
  "doRestore E p =
     bindE (NewGCSClientFromCredentials E (tp_secretPath p)) (\<lambda>_.
     bindE (readMetadata E p) (\<lambda>n.
     State_Monad.bind (call (\<lambda>_. TePipe) (te_pipe E)) (\<lambda>i.
     bindE (start_process E (restore_command p n)) (\<lambda>_.
     bindE (TransferFromGCS E (is_ok i) (tp_bucketName p) (GetBackupObjectName (tp_name p))) (\<lambda>_.
     bindE (call (\<lambda>_. TeCloseStdin) (\<lambda>h. of_client (te_close_stdin E h))) (\<lambda>_.
     wait_process E))))))"

text \<open>
  The exit code: \<open>log.Fatal\<close> exits with 1, a flag set with \<open>ExitOnError\<close> with 2 on an error and 0
  when help was asked for, and an unhandled panic with 2.
\<close>

definition exit_of :: "(tool_event, gerr + unit) io \<Rightarrow> (tool_event, int) io" where
  "exit_of m = do {
     r \<leftarrow> m;
     ret (case r of Inr _ \<Rightarrow> 0 | Inl err \<Rightarrow> if err = NilPanic then 2 else 1)
   }"

definition run_command ::
    "tool_env \<Rightarrow> (tool_env \<Rightarrow> tool_params \<Rightarrow> unit tool) \<Rightarrow> string list \<Rightarrow> (tool_event, int) io" where
  "run_command E command args =
     (case parse_params E args of
        Inl FlagHelp \<Rightarrow> ret 0
      | Inl (FlagError _ _) \<Rightarrow> ret 2
      | Inr p \<Rightarrow> exit_of (command E p))"

definition tool_main :: "tool_env \<Rightarrow> string list \<Rightarrow> (tool_event, int) io" where
  "tool_main E args =
     (if length args = 1 then ret 1
      else if args ! 1 = ''backup'' then run_command E doBackup (drop 2 args)
      else if args ! 1 = ''restore'' then run_command E doRestore (drop 2 args)
      else ret 1)"

section \<open>Facts\<close>

subsection \<open>The command line of a job\<close>

lemma split_eq_append:
  "CHR ''='' \<notin> set name \<Longrightarrow> split_eq (name @ CHR ''='' # v) = (name, Some v)"
  by (induction name) (auto simp: split_eq_def Let_def)

text \<open>One argument of the form \<^verbatim>\<open>-name=value\<close>.\<close>

lemma parse_flags_eq:
  assumes "map_of formal name = Some kind" and "CHR ''='' \<notin> set name" and "name \<noteq> []" and "hd name \<noteq> CHR ''-''"
    and "valid kind v"
  shows "parse_flags formal valid ((''-'' @ name @ ''='' @ v) # args) =
    (case parse_flags formal valid args of Inl e \<Rightarrow> Inl e | Inr (assigned, left) \<Rightarrow> Inr ((name, v) # assigned, left))"
proof -
  obtain c cs where name: "name = c # cs" using assms(3) by (cases name) auto
  have "split_eq (name @ ''='' @ v) = (name, Some v)" using split_eq_append [OF assms(2)] by simp
  moreover have "c \<noteq> CHR ''=''" using assms(2) name by auto
  ultimately show ?thesis using assms unfolding name by (simp add: Let_def)
qed

definition job_params :: "'o BackupRestoreObject \<Rightarrow> env \<Rightarrow> 'o \<Rightarrow> BackupStorageSpec \<Rightarrow> tool_params" where
  "job_params I K obj storage = \<lparr>
     tp_debug = env_DebugEnabled K,
     tp_bucketName = bs_Bucket storage,
     tp_name = GetName I obj,
     tp_secretPath = ''/secret/'' @ GetSecretKey storage,
     tp_host = tn_Cluster (GetTarget I obj) @ ''.'' @ GetNamespace I obj,
     tp_port = 3000,
     tp_namespace = tn_Namespace (GetTarget I obj)\<rparr>"

definition job_command :: "Job \<Rightarrow> string list" where
  "job_command job = ct_Command (hd (job_Containers job))"

lemma job_command_eq:
  "job_command (build_job I K obj storage secret) = [''backup'', op_string (GetOperationType I),
     ''-'' @ ''debug'' @ ''='' @ (if env_DebugEnabled K then ''true'' else ''false''),
     ''-'' @ ''bucket-name'' @ ''='' @ bs_Bucket storage,
     ''-'' @ ''name'' @ ''='' @ GetName I obj,
     ''-'' @ ''secret-path'' @ ''='' @ ''/secret/'' @ GetSecretKey storage,
     ''-'' @ ''host'' @ ''='' @ tn_Cluster (GetTarget I obj) @ ''.'' @ GetNamespace I obj,
     ''-'' @ ''namespace'' @ ''='' @ tn_Namespace (GetTarget I obj)]"
  by (simp add: job_command_def build_job_def Let_def GetName_def secretVolumeMountPath_def)

lemma parse_job_command:
  "parse_params E (drop 2 (job_command (build_job I K obj storage secret))) = Inr (job_params I K obj storage)"
proof -
  note eq = parse_flags_eq [of tool_flags _ _ "flag_valid E"]
  have valid: "flag_valid E FlagBool (if env_DebugEnabled K then ''true'' else ''false'')"
    "flag_valid E FlagString v" for v
    by (simp_all add: flag_valid_def true_texts_def false_texts_def)
  have formal: "map_of tool_flags ''debug'' = Some FlagBool"
    "map_of tool_flags ''bucket-name'' = Some FlagString" "map_of tool_flags ''name'' = Some FlagString"
    "map_of tool_flags ''secret-path'' = Some FlagString" "map_of tool_flags ''host'' = Some FlagString"
    "map_of tool_flags ''namespace'' = Some FlagString"
    by (simp_all add: tool_flags_def)
  have "parse_flags tool_flags (flag_valid E) (drop 2 (job_command (build_job I K obj storage secret))) = Inr (
     [(''debug'', if env_DebugEnabled K then ''true'' else ''false''), (''bucket-name'', bs_Bucket storage),
      (''name'', GetName I obj), (''secret-path'', ''/secret/'' @ GetSecretKey storage),
      (''host'', tn_Cluster (GetTarget I obj) @ ''.'' @ GetNamespace I obj),
      (''namespace'', tn_Namespace (GetTarget I obj))], [])"
    unfolding job_command_eq
    by (simp add: eq [OF formal(1) _ _ _ valid(1)] eq [OF formal(2) _ _ _ valid(2)]
        eq [OF formal(3) _ _ _ valid(2)] eq [OF formal(4) _ _ _ valid(2)]
        eq [OF formal(5) _ _ _ valid(2)] eq [OF formal(6) _ _ _ valid(2)] del: append.simps parse_flags.simps(2))
  then show ?thesis
    by (simp add: parse_params_def job_params_def default_params_def set_flag_def true_texts_def)
qed

lemma tool_main_job:
  "tool_main E (job_command (build_job I K obj storage secret)) =
     exit_of ((case GetOperationType I of OperationTypeBackup \<Rightarrow> doBackup | OperationTypeRestore \<Rightarrow> doRestore)
       E (job_params I K obj storage))"
proof -
  let ?args = "job_command (build_job I K obj storage secret)"
  have "length ?args \<noteq> 1" "?args ! 1 = op_string (GetOperationType I)" unfolding job_command_eq by simp_all
  then show ?thesis
    using parse_job_command [of E I K obj storage secret]
    by (cases "GetOperationType I") (simp_all add: tool_main_def run_command_def)
qed

subsection \<open>From a backup to a restore\<close>

text \<open>The content an object has after some calls.\<close>

definition stored :: "string \<Rightarrow> string \<Rightarrow> tool_history \<Rightarrow> string option" where
  "stored bucket object h = foldl (\<lambda>content e. case e of
     TeCloseObject b n data accepted \<Rightarrow> if b = bucket \<and> n = object \<and> accepted then Some data else content
   | _ \<Rightarrow> content) None h"

text \<open>What is relied on: a copy without error is complete, what is read is what was stored, gzip and the JSON
  of the metadata give back what they were given.\<close>

definition tool_laws :: "tool_env \<Rightarrow> bool" where
  "tool_laws E \<longleftrightarrow>
     (\<forall>h s. snd (te_copy E h s) = None \<longrightarrow> fst (te_copy E h s) = s) \<and>
     (\<forall>h b n r d. te_open_object E h b n = Inr r \<longrightarrow> stored b n h = Some d \<longrightarrow> r = d) \<and>
     (\<forall>s. te_gunzip E (te_gzip E s) = Inr s) \<and>
     (\<forall>m. te_parse E (te_render E (enc_backupMetadata m)) = Inr (enc_backupMetadata m))"

definition backup_calls :: "tool_env \<Rightarrow> tool_params \<Rightarrow> string \<Rightarrow> bool \<Rightarrow> bool \<Rightarrow> tool_history" where
  "backup_calls E p r b1 b2 =
     (let text = te_render E (enc_backupMetadata \<lparr>bm_Namespace = tp_namespace p\<rparr>) in
      [TeClient (tp_secretPath p), TeBucketAttrs (tp_bucketName p), TeWrite text,
       TeCloseObject (tp_bucketName p) (GetMetadataObjectName (tp_name p)) text b1,
       TePipe, TeStart (backup_command p) True, TeBucketAttrs (tp_bucketName p), TeStdout r,
       TeCloseObject (tp_bucketName p) (GetBackupObjectName (tp_name p)) (te_gzip E r) b2, TeWait True])"

lemma is_ok_iff: "is_ok r \<longleftrightarrow> (\<exists>x. r = Inr x)"
  by (cases r) (simp_all add: is_ok_def)

lemma doBackup_ok:
  assumes "tool_laws E" and "run_state (doBackup E p) h = (Inr u, h')"
  shows "\<exists>r b1 b2. h' = h @ backup_calls E p r b1 b2"
proof -
  have "\<forall>h s s'. te_copy E h s = (s', None) \<longrightarrow> s' = s"
    using assms(1) unfolding tool_laws_def by (metis fst_conv snd_conv)
  then show ?thesis
    using assms(2)
  by (fastforce simp: doBackup_def NewGCSClientFromCredentials_def dumpMetadata_def tool_GetObject_def
      TransferToGCS_def backup_calls_def Let_def is_ok_iff split: sum.splits prod.splits option.splits)
qed

text \<open>The calls of a restore before and after the content is opened.\<close>

definition restore_calls1 :: "tool_params \<Rightarrow> tool_history" where
  "restore_calls1 q = [TeClient (tp_secretPath q), TeBucketAttrs (tp_bucketName q)]"

definition restore_calls2 :: "tool_params \<Rightarrow> backupMetadata \<Rightarrow> tool_history" where
  "restore_calls2 q m = [TeOpenObject (tp_bucketName q) (GetMetadataObjectName (tp_name q)), TePipe,
     TeStart (restore_command q m) True, TeBucketAttrs (tp_bucketName q)]"

definition restore_calls3 :: "tool_params \<Rightarrow> string \<Rightarrow> tool_history" where
  "restore_calls3 q s = [TeOpenObject (tp_bucketName q) (GetBackupObjectName (tp_name q)), TeStdin s,
     TeCloseStdin, TeWait True]"

lemma of_client_Inr: "of_client r = Inr x \<longleftrightarrow> r = Inr x"
  by (cases r) auto

lemma doRestore_ok:
  assumes laws: "tool_laws E" and run: "run_state (doRestore E q) h = (Inr u, h')"
  shows "\<exists>r1 j m r2 s.
    te_open_object E (h @ restore_calls1 q) (tp_bucketName q) (GetMetadataObjectName (tp_name q)) = Inr r1 \<and>
    te_parse E r1 = Inr j \<and> dec_backupMetadata j = Inr m \<and>
    te_open_object E (h @ restore_calls1 q @ restore_calls2 q m) (tp_bucketName q)
      (GetBackupObjectName (tp_name q)) = Inr r2 \<and>
    te_gunzip E r2 = Inr s \<and> h' = h @ restore_calls1 q @ restore_calls2 q m @ restore_calls3 q s"
  using run laws unfolding tool_laws_def
  by (auto simp: doRestore_def NewGCSClientFromCredentials_def readMetadata_def tool_GetObject_def
      TransferFromGCS_def restore_calls1_def restore_calls2_def restore_calls3_def Let_def is_ok_iff of_client_Inr
      split: sum.splits prod.splits option.splits if_splits)

lemma stored_append:
  "stored b n (h @ es) = (case stored b n es of Some d \<Rightarrow> Some d | None \<Rightarrow> stored b n h)"
proof (induction es rule: rev_induct)
  case (snoc e es)
  then show ?case unfolding append_assoc [symmetric] by (auto simp: stored_def split: tool_event.splits option.splits)
qed (simp add: stored_def)

lemma object_names_differ: "GetMetadataObjectName n \<noteq> GetBackupObjectName n"
  by (simp add: GetMetadataObjectName_def GetBackupObjectName_def)

lemma backup_stores:
  assumes "\<forall>b n d. TeCloseObject b n d False \<notin> set (backup_calls E p r b1 b2)"
  shows "stored (tp_bucketName p) (GetMetadataObjectName (tp_name p)) (backup_calls E p r b1 b2) =
      Some (te_render E (enc_backupMetadata \<lparr>bm_Namespace = tp_namespace p\<rparr>))"
    and "stored (tp_bucketName p) (GetBackupObjectName (tp_name p)) (backup_calls E p r b1 b2) =
      Some (te_gzip E r)"
proof -
  have "b1" "b2" using assms by (auto simp: backup_calls_def Let_def)
  then show "stored (tp_bucketName p) (GetMetadataObjectName (tp_name p)) (backup_calls E p r b1 b2) =
      Some (te_render E (enc_backupMetadata \<lparr>bm_Namespace = tp_namespace p\<rparr>))"
    and "stored (tp_bucketName p) (GetBackupObjectName (tp_name p)) (backup_calls E p r b1 b2) =
      Some (te_gzip E r)"
    using object_names_differ [of "tp_name p"] object_names_differ [of "tp_name p", symmetric]
    by (simp_all add: backup_calls_def Let_def stored_def)
qed

lemma restore_after_backup:
  assumes laws: "tool_laws E"
    and backup: "run_state (doBackup E p) h = (Inr (), h @ es)"
    and accepted: "\<forall>b n d. TeCloseObject b n d False \<notin> set es"
    and same: "tp_bucketName q = tp_bucketName p" "tp_name q = tp_name p"
    and between: "stored (tp_bucketName p) (GetMetadataObjectName (tp_name p)) us = None"
      "stored (tp_bucketName p) (GetBackupObjectName (tp_name p)) us = None"
    and restore: "run_state (doRestore E q) (h @ es @ us) = (Inr (), h @ es @ us @ es')"
  shows "TeStart (restore_command q \<lparr>bm_Namespace = tp_namespace p\<rparr>) True \<in> set es' \<and>
    (\<exists>data. TeStdout data \<in> set es \<and> TeStdin data \<in> set es')"
proof -
  from doBackup_ok [OF laws backup] obtain r b1 b2 where es: "es = backup_calls E p r b1 b2" by auto
  let ?h = "h @ es @ us"
  let ?meta = "GetMetadataObjectName (tp_name p)" and ?data = "GetBackupObjectName (tp_name p)"
  have quiet: "stored b n (restore_calls1 q) = None" "stored b n (restore_calls2 q m) = None" for b n m
    by (simp_all add: stored_def restore_calls1_def restore_calls2_def)
  note kept = backup_stores [OF accepted [unfolded es]]
  have stored_meta: "stored (tp_bucketName p) ?meta (?h @ restore_calls1 q) =
      Some (te_render E (enc_backupMetadata \<lparr>bm_Namespace = tp_namespace p\<rparr>))"
    and stored_data: "stored (tp_bucketName p) ?data (?h @ restore_calls1 q @ restore_calls2 q m) =
      Some (te_gzip E r)" for m
    using kept between by (simp_all add: stored_append quiet es)
  from doRestore_ok [OF laws restore] obtain r1 j m r2 s where
    1: "te_open_object E (?h @ restore_calls1 q) (tp_bucketName q) (GetMetadataObjectName (tp_name q)) = Inr r1"
      "te_parse E r1 = Inr j" "dec_backupMetadata j = Inr m"
    and 2: "te_open_object E (?h @ restore_calls1 q @ restore_calls2 q m) (tp_bucketName q)
      (GetBackupObjectName (tp_name q)) = Inr r2" "te_gunzip E r2 = Inr s"
    and es': "?h @ es' = ?h @ restore_calls1 q @ restore_calls2 q m @ restore_calls3 q s"
    by auto
  have "r1 = te_render E (enc_backupMetadata \<lparr>bm_Namespace = tp_namespace p\<rparr>)"
    using laws 1(1) stored_meta unfolding tool_laws_def same by blast
  then have "j = enc_backupMetadata \<lparr>bm_Namespace = tp_namespace p\<rparr>"
    using laws 1(2) unfolding tool_laws_def by simp
  then have m: "m = \<lparr>bm_Namespace = tp_namespace p\<rparr>"
    using 1(3) by (simp add: dec_backupMetadata_def enc_backupMetadata_def field_def)
  have "r2 = te_gzip E r" using laws 2(1) stored_data unfolding tool_laws_def same by blast
  then have "s = r" using laws 2(2) unfolding tool_laws_def by simp
  then show ?thesis using es' m
    by (auto simp: es backup_calls_def restore_calls2_def restore_calls3_def Let_def)
qed

end
