(* ===== verification/ToolProperties.thy ===== *)
theory ToolProperties
  imports BackupTool Examples
begin

text \<open>
  Properties of the backup tool and of the jobs that run it.
\<close>

section \<open>Jobs and the tool\<close>

text \<open>
  C23: the command line of a job is understood by the tool as it is meant. For every backup or restore,
  running the command of its job backs up or restores with exactly the bucket, object name, credentials
  path, host and namespace of the object, on the default port; no value is mistaken for a flag.
\<close>

theorem job_runs_tool:
  "tool_main T (job_command (build_job I K obj storage secret)) =
     exit_of ((case GetOperationType I of OperationTypeBackup \<Rightarrow> doBackup | OperationTypeRestore \<Rightarrow> doRestore)
       T (job_params I K obj storage)) \<and>
   tp_port (job_params I K obj storage) = cServicePort"
  by (simp add: tool_main_job job_params_def cServicePort_def)

section \<open>Restoring what was backed up\<close>


text \<open>
  A store that keeps what it is given, with JSON texts of one field and the identity for gzip.
\<close>

definition json_text :: "json \<Rightarrow> string" where
  "json_text j = (case fields_of j of [(k, JString s)] \<Rightarrow> s | _ \<Rightarrow> [])"

definition tool_env0 :: tool_env where
  "tool_env0 = \<lparr>
     te_client = (\<lambda>h path. Inr ()),
     te_bucket_attrs = (\<lambda>h b. Inr ()),
     te_open_object = (\<lambda>h b n. case stored b n h of None \<Rightarrow> Inl ''storage: object doesn't exist'' | Some d \<Rightarrow> Inr d),
     te_close_object = (\<lambda>h b n d. Inr ()),
     te_pipe = (\<lambda>h. Inr ()),
     te_start = (\<lambda>h args. Inr ()),
     te_stdout = (\<lambda>h. ''records''),
     te_close_stdin = (\<lambda>h. Inr ()),
     te_wait = (\<lambda>h. Inr ()),
     te_copy = (\<lambda>h s. (s, None)),
     te_gzip = (\<lambda>s. s),
     te_gunzip = Inr,
     te_render = json_text,
     te_parse = (\<lambda>s. Inr (enc_backupMetadata \<lparr>bm_Namespace = s\<rparr>)),
     te_parse_int = int_of\<rparr>"

definition params0 :: tool_params where
  "params0 = default_params\<lparr>tp_bucketName := ''bucket'', tp_name := ''b0'', tp_host := ''c0.k'',
     tp_namespace := ''as0''\<rparr>"



section \<open>An upload that is not accepted\<close>

text \<open>Everything works, but for what closing the objects says.\<close>

definition all_else_works :: "tool_env \<Rightarrow> bool" where
  "all_else_works E \<longleftrightarrow> (\<forall>h x. te_client E h x = Inr () \<and> te_bucket_attrs E h x = Inr ()) \<and>
     (\<forall>h. te_pipe E h = Inr () \<and> te_wait E h = Inr ()) \<and> (\<forall>h args. te_start E h args = Inr ()) \<and>
     (\<forall>h s. te_copy E h s = (s, None))"

text \<open>
  C36: a backup whose upload was never accepted ends as a success. The errors of closing the writers, which
  is when cloud storage takes an object, are dropped: with every close failing, the tool still exits with 0,
  so that its job completes and the backup is marked as finished, while neither object has been stored.
\<close>

theorem lost_backup_reported_finished:
  assumes "all_else_works E" and "\<And>h b n d. te_close_object E h b n d = Inl e"
  shows "fst (run_state (exit_of (doBackup E p)) []) = 0 \<and>
    (\<forall>b n. stored b n (snd (run_state (exit_of (doBackup E p)) [])) = None)"
  using assms unfolding all_else_works_def
  by (simp add: exit_of_def doBackup_def NewGCSClientFromCredentials_def dumpMetadata_def tool_GetObject_def
      TransferToGCS_def Let_def stored_def is_ok_def)

theorem lost_backup_reported_finished_witness:
  "fst (run_state (exit_of (doBackup (tool_env0\<lparr>te_close_object := (\<lambda>h b n d. Inl ''quota exceeded'')\<rparr>) params0)) []) = 0"
proof -
  let ?E = "tool_env0\<lparr>te_close_object := (\<lambda>h b n d. Inl ''quota exceeded'')\<rparr>"
  have "all_else_works ?E" by (simp add: all_else_works_def tool_env0_def)
  moreover have "te_close_object ?E h b n d = Inl ''quota exceeded''" for h b n d by simp
  ultimately show ?thesis using lost_backup_reported_finished by blast
qed

end
