(* ===== verification/SetupEnv.thy ===== *)
theory SetupEnv
  imports Schemas KubeEnv
begin

text \<open>
  The environment in which the operator starts: the API server as the registration of the resource
  definitions, the conversion of resources and the admission webhook see it, the clock, and the
  process itself. As in \<open>KubeEnv\<close>, an answer is a function of the history of calls.
\<close>

section \<open>Webhook configurations\<close>

text \<open>\<open>admissionregistrationv1.ValidatingWebhookConfiguration\<close>, the fields that are set.\<close>

record WebhookRule =
  wr_Operations :: "string list"
  wr_APIGroups :: "string list"
  wr_APIVersions :: "string list"
  wr_Resources :: "string list"

record Webhook =
  wh_Name :: string
  wh_Rules :: "WebhookRule list"
  wh_ServiceName :: string
  wh_ServiceNamespace :: string
  wh_Path :: string
  wh_CABundle :: string
  wh_FailurePolicy :: string
  wh_MatchPolicy :: string
  wh_TimeoutSeconds :: int
  wh_SideEffects :: string
  wh_ReviewVersions :: "string list"

record WebhookConfiguration =
  wc_Name :: string
  wc_ResourceVersion :: string
  wc_Webhooks :: "Webhook list"

text \<open>The fields of an \<open>x509.Certificate\<close> that differ from one certificate to the next.\<close>

record CertificateTemplate =
  x_CommonName :: string
  x_NotBefore :: int
  x_NotAfter :: int
  x_SerialNumber :: int
  x_IsCA :: bool
  x_DNSNames :: "string list"

section \<open>The calls\<close>

datatype setup_event =
    SeCreateCRD CRD bool
  | SeGetCRD string
  | SeUpdateCRD CRD bool
  | SeUpdateCRDStatus CRD bool
  | SeWatchCRD string int
  | SeListClusters
  | SeUpdateCluster v1_AerospikeCluster bool
  | SeListBackups
  | SeUpdateBackup v1_AerospikeNamespaceBackup bool
  | SeListRestores
  | SeUpdateRestore v1_AerospikeNamespaceRestore bool
  | SeClock
  | SeWaitUntil int
  | SeGenerateKey
  | SeSignCertificate CertificateTemplate
  | SeCreateSecret string Secret bool
  | SeGetSecret string string
  | SeCreateWebhook WebhookConfiguration bool
  | SeGetWebhook string
  | SeUpdateWebhook WebhookConfiguration bool
  | SeGetEndpoints string string
  | SeServeWebhook "string \<times> string"
  | SeElect
  | SeStartInformers
  | SeRunController string
  | SeFatal string
  | SeExit int

type_synonym setup_history = "setup_event list"
type_synonym 'a setup_act = "(setup_event, 'a) io"
type_synonym 'a setupE = "(setup_event, gerr + 'a) io"

record setup_env =
  se_create_crd :: "setup_history \<Rightarrow> CRD \<Rightarrow> api_err + CRD"
  se_get_crd :: "setup_history \<Rightarrow> string \<Rightarrow> api_err + CRD"
  se_update_crd :: "setup_history \<Rightarrow> CRD \<Rightarrow> api_err + CRD"
  se_update_crd_status :: "setup_history \<Rightarrow> CRD \<Rightarrow> api_err + CRD"
  se_watch_crd :: "setup_history \<Rightarrow> string \<Rightarrow> int \<Rightarrow> CRD list \<times> string"
  se_list_clusters :: "setup_history \<Rightarrow> api_err + v1_AerospikeCluster list"
  se_update_cluster :: "setup_history \<Rightarrow> v1_AerospikeCluster \<Rightarrow> api_err + v1_AerospikeCluster"
  se_list_backups :: "setup_history \<Rightarrow> api_err + v1_AerospikeNamespaceBackup list"
  se_update_backup :: "setup_history \<Rightarrow> v1_AerospikeNamespaceBackup \<Rightarrow> api_err + v1_AerospikeNamespaceBackup"
  se_list_restores :: "setup_history \<Rightarrow> api_err + v1_AerospikeNamespaceRestore list"
  se_update_restore ::
    "setup_history \<Rightarrow> v1_AerospikeNamespaceRestore \<Rightarrow> api_err + v1_AerospikeNamespaceRestore"
  \<comment> \<open>the clock, in seconds; a new private key and a self-signed certificate, in PEM;
     whether a certificate and a key make a pair\<close>
  se_clock :: "setup_history \<Rightarrow> int"
  se_generate_key :: "setup_history \<Rightarrow> string + string"
  se_self_sign :: "setup_history \<Rightarrow> CertificateTemplate \<Rightarrow> string \<Rightarrow> string + string"
  se_key_pair_ok :: "string \<Rightarrow> string \<Rightarrow> string + unit"
  se_create_secret :: "setup_history \<Rightarrow> string \<Rightarrow> Secret \<Rightarrow> api_err + Secret"
  se_get_secret :: "setup_history \<Rightarrow> string \<Rightarrow> string \<Rightarrow> api_err + Secret"
  se_create_webhook :: "setup_history \<Rightarrow> WebhookConfiguration \<Rightarrow> api_err + WebhookConfiguration"
  se_get_webhook :: "setup_history \<Rightarrow> string \<Rightarrow> api_err + WebhookConfiguration"
  se_update_webhook :: "setup_history \<Rightarrow> WebhookConfiguration \<Rightarrow> api_err + WebhookConfiguration"
  \<comment> \<open>the number of subsets of the endpoints of a service\<close>
  se_get_endpoints :: "setup_history \<Rightarrow> string \<Rightarrow> string \<Rightarrow> api_err + nat"
  \<comment> \<open>the process: its environment, its configuration, the client sets made from it\<close>
  se_getenv :: "string \<Rightarrow> string"
  se_hostname :: "string + string"
  se_config :: "string \<Rightarrow> string + unit"
  se_kube_client :: "string + unit"
  se_aerospike_client :: "string + unit"
  se_exts_client :: "string + unit"
  \<comment> \<open>leader election: whether the process has become the leader\<close>
  se_elected :: "setup_history \<Rightarrow> bool"

abbreviation CRDs_Create :: "setup_env \<Rightarrow> CRD \<Rightarrow> CRD setupE" where
  "CRDs_Create E c \<equiv> call (\<lambda>r. SeCreateCRD c (is_ok r)) (\<lambda>h. of_api (se_create_crd E h c))"

abbreviation CRDs_Get :: "setup_env \<Rightarrow> string \<Rightarrow> CRD setupE" where
  "CRDs_Get E n \<equiv> call (\<lambda>_. SeGetCRD n) (\<lambda>h. of_api (se_get_crd E h n))"

abbreviation CRDs_Update :: "setup_env \<Rightarrow> CRD \<Rightarrow> CRD setupE" where
  "CRDs_Update E c \<equiv> call (\<lambda>r. SeUpdateCRD c (is_ok r)) (\<lambda>h. of_api (se_update_crd E h c))"

abbreviation CRDs_UpdateStatus :: "setup_env \<Rightarrow> CRD \<Rightarrow> CRD setupE" where
  "CRDs_UpdateStatus E c \<equiv>
     call (\<lambda>r. SeUpdateCRDStatus c (is_ok r)) (\<lambda>h. of_api (se_update_crd_status E h c))"

abbreviation CRDs_Watch :: "setup_env \<Rightarrow> string \<Rightarrow> int \<Rightarrow> (CRD list \<times> string) setup_act" where
  "CRDs_Watch E n t \<equiv> call (\<lambda>_. SeWatchCRD n t) (\<lambda>h. se_watch_crd E h n t)"

abbreviation Clock :: "setup_env \<Rightarrow> int setup_act" where
  "Clock E \<equiv> call (\<lambda>_. SeClock) (se_clock E)"

abbreviation SetupSecrets_Create :: "setup_env \<Rightarrow> string \<Rightarrow> Secret \<Rightarrow> Secret setupE" where
  "SetupSecrets_Create E ns s \<equiv>
     call (\<lambda>r. SeCreateSecret ns s (is_ok r)) (\<lambda>h. of_api (se_create_secret E h ns s))"

abbreviation SetupSecrets_Get :: "setup_env \<Rightarrow> string \<Rightarrow> string \<Rightarrow> Secret setupE" where
  "SetupSecrets_Get E ns n \<equiv> call (\<lambda>_. SeGetSecret ns n) (\<lambda>h. of_api (se_get_secret E h ns n))"

abbreviation Webhooks_Create :: "setup_env \<Rightarrow> WebhookConfiguration \<Rightarrow> WebhookConfiguration setupE" where
  "Webhooks_Create E c \<equiv> call (\<lambda>r. SeCreateWebhook c (is_ok r)) (\<lambda>h. of_api (se_create_webhook E h c))"

abbreviation Webhooks_Get :: "setup_env \<Rightarrow> string \<Rightarrow> WebhookConfiguration setupE" where
  "Webhooks_Get E n \<equiv> call (\<lambda>_. SeGetWebhook n) (\<lambda>h. of_api (se_get_webhook E h n))"

abbreviation Webhooks_Update :: "setup_env \<Rightarrow> WebhookConfiguration \<Rightarrow> WebhookConfiguration setupE" where
  "Webhooks_Update E c \<equiv> call (\<lambda>r. SeUpdateWebhook c (is_ok r)) (\<lambda>h. of_api (se_update_webhook E h c))"

abbreviation Endpoints_Get :: "setup_env \<Rightarrow> string \<Rightarrow> string \<Rightarrow> nat setupE" where
  "Endpoints_Get E ns n \<equiv> call (\<lambda>_. SeGetEndpoints ns n) (\<lambda>h. of_api (se_get_endpoints E h ns n))"

abbreviation WaitUntil :: "int \<Rightarrow> unit setup_act" where
  "WaitUntil t \<equiv> call (\<lambda>_. SeWaitUntil t) (\<lambda>_. ())"

end
