(* ===== verification/Registry.thy ===== *)
theory Registry
  imports SetupEnv
begin

text \<open>
  \<^verbatim>\<open>pkg/crd/registry.go\<close> and \<^verbatim>\<open>pkg/crd/converters/v1alpha2\<close>: registering the resource
  definitions, and moving stored v1alpha1 resources to the current storage version.
\<close>

section \<open>registry.go\<close>

definition watchTimeout :: int where "watchTimeout = 15"

text \<open>
  The specs are compared with \<open>reflect.DeepEqual\<close>; the answer of the API server lists the properties
  of a schema in the order of the definitions.
\<close>

definition createCRD :: "setup_env \<Rightarrow> CRD \<Rightarrow> unit setupE" where
  "createCRD E crd = do {
     r \<leftarrow> CRDs_Create E crd;
     case r of
       Inr _ \<Rightarrow> ok ()
     | Inl err \<Rightarrow>
         if \<not> IsAlreadyExists err then fail err
         else do {
           g \<leftarrow> CRDs_Get E (crd_Name crd);
           case g of
             Inl err \<Rightarrow> ok ()
           | Inr d \<Rightarrow>
               if crd_Spec d = crd_Spec crd then ok ()
               else bindE (CRDs_Update E (d\<lparr>crd_Spec := crd_Spec crd\<rparr>)) (\<lambda>_. ok ())
         }
   }"

fun established :: "(string \<times> string) list \<Rightarrow> bool" where
  "established [] = False"
| "established ((ty, status) # conds) =
     (if ty = ''Established'' then (if status = ''True'' then True else established conds)
      else established conds)"

definition isCRDEstablished :: "CRD \<Rightarrow> bool" where
  "isCRDEstablished crd = established (crd_Conditions crd)"

text \<open>\<open>watch.UntilWithSync\<close> with the condition of \<open>awaitCRD\<close>, which never fails.\<close>

fun until_established :: "string \<Rightarrow> CRD list \<Rightarrow> gerr + CRD option" where
  "until_established end_err [] = Inl (ClientErr end_err)"
| "until_established end_err (e # es) =
     (if isCRDEstablished e then Inr (Some e) else until_established end_err es)"

definition awaitCRD :: "setup_env \<Rightarrow> CRD \<Rightarrow> int \<Rightarrow> unit setupE" where
  "awaitCRD E crd timeout = do {
     w \<leftarrow> CRDs_Watch E (crd_Name crd) watchTimeout;
     case w of (evs, end_err) \<Rightarrow>
       liftE (until_established end_err evs) (\<lambda>last_ev.
       if last_ev = None then fail (Errorf ''no events received for crd %q'' [AStr (crd_Name crd)])
       else ok ())
   }"

definition RegisterCRDs :: "setup_env \<Rightarrow> unit setupE" where
  "RegisterCRDs E = forE crds (\<lambda>crd.
     bindE (createCRD E crd) (\<lambda>_. bindE (awaitCRD E crd watchTimeout) (\<lambda>_. ok ())))"

section \<open>converters/v1alpha2\<close>

definition convertedFromAnnotationKey :: string where
  "convertedFromAnnotationKey = ''aerospike.travelaudience.com/converted-from''"

text \<open>\<open>idx\<close>: the index of the last occurrence of the version, -1 when there is none.\<close>

fun stored_index :: "int \<Rightarrow> int \<Rightarrow> string list \<Rightarrow> int" where
  "stored_index i idx [] = idx"
| "stored_index i idx (v # vs) =
     stored_index (i + 1) (if v = v1_SchemeGroupVersion_Version then i else idx) vs"

text \<open>
  The three converters are the same code over three types of objects; \<open>meta\<close> and \<open>set_meta\<close> are the
  field \<open>ObjectMeta\<close>, \<open>list\<close> and \<open>update\<close> the calls of the typed client.
\<close>

definition convert_item ::
    "('o \<Rightarrow> ObjectMeta) \<Rightarrow> (ObjectMeta \<Rightarrow> 'o \<Rightarrow> 'o) \<Rightarrow> ('o \<Rightarrow> unit setupE) \<Rightarrow> 'o \<Rightarrow> unit setupE" where
  "convert_item meta set_meta update obj =
     (let annotations = gm_make (om_Annotations (meta obj)) in
      if fmlookup annotations convertedFromAnnotationKey \<noteq> None then ok ()
      else update (set_meta ((meta obj)\<lparr>om_Annotations :=
             Some (fmupd convertedFromAnnotationKey v1_SchemeGroupVersion_Version annotations)\<rparr>) obj))"

definition convert_stored ::
    "setup_env \<Rightarrow> string \<Rightarrow> 'o list setupE \<Rightarrow> ('o \<Rightarrow> ObjectMeta) \<Rightarrow> (ObjectMeta \<Rightarrow> 'o \<Rightarrow> 'o)
     \<Rightarrow> ('o \<Rightarrow> unit setupE) \<Rightarrow> unit setupE" where
  "convert_stored E crd_name list meta set_meta update = do {
     g \<leftarrow> CRDs_Get E crd_name;
     case g of
       Inl err \<Rightarrow> ok ()
     | Inr crd \<Rightarrow>
         (let idx = stored_index 0 (-1) (crd_StoredVersions crd) in
          if idx < 0 then ok ()
          else do {
            l \<leftarrow> list;
            case l of
              Inl err \<Rightarrow> ok ()
            | Inr items \<Rightarrow>
                bindE (forE items (convert_item meta set_meta update)) (\<lambda>_.
                bindE (CRDs_UpdateStatus E (crd\<lparr>crd_StoredVersions :=
                    take (nat idx) (crd_StoredVersions crd) @ drop (nat idx + 1) (crd_StoredVersions crd)\<rparr>))
                  (\<lambda>_. ok ()))
          })
   }"

definition convertAerospikeClusters :: "setup_env \<Rightarrow> unit setupE" where
  "convertAerospikeClusters E =
     convert_stored E AerospikeClusterCRDName
       (call (\<lambda>_. SeListClusters) (\<lambda>h. of_api (se_list_clusters E h)))
       v1_Meta (\<lambda>m. v1_Meta_update (\<lambda>_. m))
       (\<lambda>asc. bindE (call (\<lambda>r. SeUpdateCluster asc (is_ok r)) (\<lambda>h. of_api (se_update_cluster E h asc)))
          (\<lambda>_. ok ()))"

definition convertAerospikeNamespaceBackups :: "setup_env \<Rightarrow> unit setupE" where
  "convertAerospikeNamespaceBackups E =
     convert_stored E AerospikeNamespaceBackupCRDName
       (call (\<lambda>_. SeListBackups) (\<lambda>h. of_api (se_list_backups E h)))
       asnb_Meta (\<lambda>m. asnb_Meta_update (\<lambda>_. m))
       (\<lambda>asnb. bindE (call (\<lambda>r. SeUpdateBackup asnb (is_ok r)) (\<lambda>h. of_api (se_update_backup E h asnb)))
          (\<lambda>_. ok ()))"

definition convertAerospikeNamespaceRestores :: "setup_env \<Rightarrow> unit setupE" where
  "convertAerospikeNamespaceRestores E =
     convert_stored E AerospikeNamespaceRestoreCRDName
       (call (\<lambda>_. SeListRestores) (\<lambda>h. of_api (se_list_restores E h)))
       asnr_Meta (\<lambda>m. asnr_Meta_update (\<lambda>_. m))
       (\<lambda>asnr. bindE (call (\<lambda>r. SeUpdateRestore asnr (is_ok r)) (\<lambda>h. of_api (se_update_restore E h asnr)))
          (\<lambda>_. ok ()))"

definition ConvertResources :: "setup_env \<Rightarrow> unit setupE" where
  "ConvertResources E =
     bindE (convertAerospikeClusters E) (\<lambda>_.
     bindE (convertAerospikeNamespaceBackups E) (\<lambda>_.
     bindE (convertAerospikeNamespaceRestores E) (\<lambda>_. ok ())))"

section \<open>Facts\<close>

text \<open>When the registration succeeds, every definition was there and had become established.\<close>

lemma until_established_some:
  "until_established end_err evs = Inr x \<Longrightarrow> \<exists>d \<in> set evs. x = Some d \<and> isCRDEstablished d"
  by (induction evs) (auto split: if_splits)

lemma emits_createCRD: "emits (\<lambda>_. True) (createCRD E crd)"
  unfolding createCRD_def by (auto intro!: emits_intro)

lemma emits_awaitCRD: "emits (\<lambda>_. True) (awaitCRD E crd t)"
  unfolding awaitCRD_def by (auto intro!: emits_intro)

lemma awaitCRD_ok:
  assumes "run_state (awaitCRD E crd t) h = (Inr x, h')"
  shows "\<exists>d \<in> set (fst (se_watch_crd E h (crd_Name crd) watchTimeout)). isCRDEstablished d"
  using assms unfolding awaitCRD_def
  by (auto split: prod.splits sum.splits if_splits dest!: until_established_some)

text \<open>
  How a definition came to be registered: created, updated to the current spec, found with that spec, or
  found without being read.
\<close>

definition crd_present :: "setup_env \<Rightarrow> CRD \<Rightarrow> setup_history \<Rightarrow> bool" where
  "crd_present E crd es \<longleftrightarrow> SeCreateCRD crd True \<in> set es \<or>
     (\<exists>d. SeUpdateCRD d True \<in> set es \<and> crd_Spec d = crd_Spec crd) \<or>
     (\<exists>h d. se_get_crd E h (crd_Name crd) = Inr d \<and> crd_Spec d = crd_Spec crd) \<or>
     (\<exists>h a. se_get_crd E h (crd_Name crd) = Inl a)"

lemma crd_present_mono: "crd_present E crd es \<Longrightarrow> set es \<subseteq> set es' \<Longrightarrow> crd_present E crd es'"
  unfolding crd_present_def by blast

lemma createCRD_ok:
  assumes "run_state (createCRD E crd) h = (Inr u, h @ es)"
  shows "crd_present E crd es"
proof -
  let ?h1 = "h @ [SeCreateCRD crd False]"
  show ?thesis
  proof (cases "se_create_crd E h crd")
    case (Inr c)
    then show ?thesis using assms by (auto simp: createCRD_def crd_present_def)
  next
    case (Inl a)
    then have a: "a = AlreadyExists" using assms by (auto simp: createCRD_def split: if_splits)
    show ?thesis
    proof (cases "se_get_crd E ?h1 (crd_Name crd)")
      case (Inl b)
      then show ?thesis unfolding crd_present_def by blast
    next
      case (Inr d)
      show ?thesis
      proof (cases "crd_Spec d = crd_Spec crd")
        case True
        then show ?thesis using Inr unfolding crd_present_def by blast
      next
        case False
        then have "SeUpdateCRD (d\<lparr>crd_Spec := crd_Spec crd\<rparr>) True \<in> set es"
          using assms \<open>se_create_crd E h crd = Inl a\<close> a Inr
          by (auto simp: createCRD_def is_ok_def split: sum.splits)
        then show ?thesis unfolding crd_present_def
          by (intro disjI2 disjI1 exI [of _ "d\<lparr>crd_Spec := crd_Spec crd\<rparr>"]) simp
      qed
    qed
  qed
qed

lemma RegisterCRDs_ok:
  assumes "run_state (RegisterCRDs E) h = (Inr u, h @ es)" and "crd \<in> set crds"
  shows "crd_present E crd es \<and>
    (\<exists>h1. \<exists>d \<in> set (fst (se_watch_crd E h1 (crd_Name crd) watchTimeout)). isCRDEstablished d)"
proof -
  let ?step = "\<lambda>crd. bindE (createCRD E crd) (\<lambda>_. bindE (awaitCRD E crd watchTimeout) (\<lambda>_. ok ()))"
  have "emits (\<lambda>_. True) (?step c)" for c
    by (intro emits_intro emits_createCRD emits_awaitCRD)
  from forE_ok [OF this assms(1) [unfolded RegisterCRDs_def] assms(2)]
  obtain es0 es1 es2 where step: "run_state (?step crd) (h @ es0) = (Inr (), h @ es0 @ es1)"
    and es: "h @ es = h @ es0 @ es1 @ es2" by blast
  from step obtain u h1 where 1: "run_state (createCRD E crd) (h @ es0) = (Inr u, h1)"
    and rest: "run_state (bindE (awaitCRD E crd watchTimeout) (\<lambda>_. ok ())) h1 = (Inr (), h @ es0 @ es1)"
    by (rule bindE_ok)
  from rest obtain v h2 where 2: "run_state (awaitCRD E crd watchTimeout) h1 = (Inr v, h2)"
    by (rule bindE_ok)
  from emits_extends [OF emits_createCRD 1] obtain us where us: "h1 = (h @ es0) @ us" by blast
  have "emits (\<lambda>_. True) (bindE (awaitCRD E crd watchTimeout) (\<lambda>_. ok ()))"
    by (intro emits_intro emits_awaitCRD)
  from emits_extends [OF this rest] obtain vs where "h @ es0 @ es1 = h1 @ vs" by blast
  then have "set us \<subseteq> set es" using us es by auto
  moreover have "crd_present E crd us" by (rule createCRD_ok [where h = "h @ es0"]) (use 1 us in simp)
  ultimately show ?thesis using crd_present_mono awaitCRD_ok [OF 2] by blast
qed

text \<open>The loop over the stored versions finds the last occurrence.\<close>

lemma stored_index_absent: "v1_SchemeGroupVersion_Version \<notin> set vs \<Longrightarrow> stored_index i idx vs = idx"
  by (induction vs arbitrary: i) auto

lemma stored_index_last:
  "v1_SchemeGroupVersion_Version \<notin> set ys \<Longrightarrow>
     stored_index i idx (xs @ v1_SchemeGroupVersion_Version # ys) = i + int (length xs)"
  by (induction xs arbitrary: i idx) (simp_all add: stored_index_absent)

text \<open>Without the last occurrence of v1alpha1.\<close>

definition drops_v1 :: "string list \<Rightarrow> string list \<Rightarrow> bool" where
  "drops_v1 vs vs' \<longleftrightarrow> (\<exists>xs ys. vs = xs @ v1_SchemeGroupVersion_Version # ys \<and>
     v1_SchemeGroupVersion_Version \<notin> set ys \<and> vs' = xs @ ys)"

lemma stored_index_drops:
  assumes "\<not> stored_index 0 (-1) vs < 0"
  shows "drops_v1 vs (take (nat (stored_index 0 (-1) vs)) vs @ drop (nat (stored_index 0 (-1) vs) + 1) vs)"
proof (cases "v1_SchemeGroupVersion_Version \<in> set vs")
  case True
  then obtain xs ys where vs: "vs = xs @ v1_SchemeGroupVersion_Version # ys"
    "v1_SchemeGroupVersion_Version \<notin> set ys" by (metis split_list_last)
  then have "stored_index 0 (-1) vs = int (length xs)" using stored_index_last by simp
  then show ?thesis unfolding drops_v1_def using vs
    by (intro exI [of _ xs] exI [of _ ys]) simp
next
  case False
  then show ?thesis using assms by (simp add: stored_index_absent)
qed

text \<open>
  A conversion that reaches the definition has updated every listed object that was not yet converted.
  \<open>sent\<close> is the event that the update of an object records.
\<close>

definition annotated :: "ObjectMeta \<Rightarrow> ObjectMeta" where
  "annotated m = m\<lparr>om_Annotations :=
     Some (fmupd convertedFromAnnotationKey v1_SchemeGroupVersion_Version (gm_make (om_Annotations m)))\<rparr>"

definition unconverted :: "ObjectMeta \<Rightarrow> bool" where
  "unconverted m \<longleftrightarrow> gm_get (om_Annotations m) convertedFromAnnotationKey = None"

lemma convert_item_simp:
  "convert_item meta set_meta update obj =
     (if unconverted (meta obj) then update (set_meta (annotated (meta obj)) obj) else ok ())"
  by (simp add: convert_item_def unconverted_def annotated_def)

text \<open>
  The calls before a definition's status was written contain an accepted update of every listed object
  that was not yet converted, and the new status drops the old version.
\<close>

definition all_converted ::
    "('o \<Rightarrow> ObjectMeta) \<Rightarrow> (ObjectMeta \<Rightarrow> 'o \<Rightarrow> 'o) \<Rightarrow> (setup_history \<Rightarrow> gerr + 'o list)
     \<Rightarrow> ('o \<Rightarrow> bool \<Rightarrow> setup_event) \<Rightarrow> setup_history \<Rightarrow> CRD \<Rightarrow> bool" where
  "all_converted meta set_meta list_fn update_ev pre d \<longleftrightarrow> (\<exists>h items (crd :: CRD). list_fn h = Inr items \<and>
     (\<forall>x \<in> set items. unconverted (meta x) \<longrightarrow>
        update_ev (set_meta (annotated (meta x)) x) True \<in> set pre) \<and>
     drops_v1 (crd_StoredVersions crd) (crd_StoredVersions d))"

text \<open>
  The contract of the typed clients: the metadata can be read and replaced, and neither listing nor
  updating objects touches the status of a definition.
\<close>

fun updates_crd_status :: "setup_event \<Rightarrow> bool" where
  "updates_crd_status (SeUpdateCRDStatus _ _) = True"
| "updates_crd_status _ = False"

locale stored_objects =
  fixes meta :: "'o \<Rightarrow> ObjectMeta" and set_meta :: "ObjectMeta \<Rightarrow> 'o \<Rightarrow> 'o"
    and list_ev :: setup_event and list_fn :: "setup_history \<Rightarrow> gerr + 'o list"
    and update_ev :: "'o \<Rightarrow> bool \<Rightarrow> setup_event" and update_fn :: "'o \<Rightarrow> setup_history \<Rightarrow> gerr + 'o"
  assumes meta_set: "meta (set_meta m x) = m"
    and list_ev: "\<not> updates_crd_status list_ev"
    and update_ev: "\<not> updates_crd_status (update_ev x b)"
begin

abbreviation list :: "'o list setupE" where
  "list \<equiv> call (\<lambda>_. list_ev) list_fn"

abbreviation update :: "'o \<Rightarrow> unit setupE" where
  "update x \<equiv> bindE (call (\<lambda>r. update_ev x (is_ok r)) (update_fn x)) (\<lambda>_. ok ())"

abbreviation converted :: "'o \<Rightarrow> 'o" where
  "converted x \<equiv> set_meta (annotated (meta x)) x"

lemma emits_item: "emits (\<lambda>e. \<not> updates_crd_status e) (convert_item meta set_meta update x)"
  unfolding convert_item_simp by (auto intro!: emits_intro simp: update_ev)

lemma items_sent:
  assumes run: "run_state (forE items (convert_item meta set_meta update)) h = (Inr u, h @ es)"
    and x: "x \<in> set items" "unconverted (meta x)"
  shows "update_ev (converted x) True \<in> set es"
proof -
  have "emits (\<lambda>_. True) (convert_item meta set_meta update c)" for c
    by (rule emits_weaken [OF emits_item]) simp
  from forE_ok [OF this run x(1)] obtain es0 es1 es2 where
    r: "run_state (convert_item meta set_meta update x) (h @ es0) = (Inr (), h @ es0 @ es1)"
    and h: "h @ es = h @ es0 @ es1 @ es2" by blast
  from r x(2) have "h @ es0 @ es1 = (h @ es0) @ [update_ev (converted x) True]"
    unfolding convert_item_simp by (auto simp: is_ok_def split: sum.splits)
  then show ?thesis using h by simp
qed

text \<open>The status of the definition is only written last, after all objects have been converted.\<close>

lemma convert_drops:
  assumes run: "run_state (convert_stored E name list meta set_meta update) h = (r, h @ es)"
    and d: "SeUpdateCRDStatus d b \<in> set es"
  shows "\<exists>pre. es = pre @ [SeUpdateCRDStatus d b] \<and> all_converted meta set_meta list_fn update_ev pre d"
proof -
  let ?h1 = "h @ [SeGetCRD name]"
  let ?h2 = "?h1 @ [list_ev]"
  obtain crd where crd: "se_get_crd E h name = Inr crd"
    using run d by (cases "se_get_crd E h name") (auto simp: convert_stored_def)
  let ?idx = "stored_index 0 (-1) (crd_StoredVersions crd)"
  let ?d = "crd\<lparr>crd_StoredVersions :=
      take (nat ?idx) (crd_StoredVersions crd) @ drop (nat ?idx + 1) (crd_StoredVersions crd)\<rparr>"
  have idx: "\<not> ?idx < 0" using run d crd by (auto simp: convert_stored_def split: if_splits)
  obtain items where items: "list_fn ?h1 = Inr items"
    using run d crd idx list_ev by (cases "list_fn ?h1") (auto simp: convert_stored_def Let_def)
  obtain p h3 where loop: "run_state (forE items (convert_item meta set_meta update)) ?h2 = (p, h3)"
    by fastforce
  have "emits (\<lambda>e. \<not> updates_crd_status e) (forE items (convert_item meta set_meta update))"
    by (intro emits_forE emits_item)
  from emits_extends [OF this loop] obtain us where
    us: "h3 = ?h2 @ us" "list_all (\<lambda>e. \<not> updates_crd_status e) us" by blast
  have not_us: "SeUpdateCRDStatus d b \<notin> set us" using us(2) by (auto simp: list_all_iff)
  show ?thesis
  proof (cases p)
    case (Inl err)
    then have "es = [SeGetCRD name, list_ev] @ us"
      using run crd idx items loop us(1) by (auto simp: convert_stored_def Let_def)
    then show ?thesis using d not_us list_ev by auto
  next
    case (Inr u)
    then obtain ok' where es: "es = [SeGetCRD name, list_ev] @ us @ [SeUpdateCRDStatus ?d ok']"
      using run crd idx items loop us(1)
      by (auto simp: convert_stored_def Let_def split: sum.splits prod.splits)
    then have d': "d = ?d" "b = ok'" using d not_us list_ev by auto
    have "run_state (forE items (convert_item meta set_meta update)) ?h2 = (Inr u, ?h2 @ us)"
      using loop us(1) Inr by simp
    then have "\<forall>x \<in> set items. unconverted (meta x) \<longrightarrow> update_ev (converted x) True \<in> set us"
      using items_sent by blast
    then have "all_converted meta set_meta list_fn update_ev ([SeGetCRD name, list_ev] @ us) ?d"
      unfolding all_converted_def using items stored_index_drops [OF idx]
      by (intro exI [of _ ?h1] exI [of _ items] exI [of _ crd]) auto
    then show ?thesis using es d' by auto
  qed
qed

end

interpretation clusters: stored_objects v1_Meta "\<lambda>m. v1_Meta_update (\<lambda>_. m)"
    SeListClusters "\<lambda>h. of_api (se_list_clusters E h)"
    SeUpdateCluster "\<lambda>x h. of_api (se_update_cluster E h x)" for E
  by unfold_locales simp_all

interpretation backups: stored_objects asnb_Meta "\<lambda>m. asnb_Meta_update (\<lambda>_. m)"
    SeListBackups "\<lambda>h. of_api (se_list_backups E h)"
    SeUpdateBackup "\<lambda>x h. of_api (se_update_backup E h x)" for E
  by unfold_locales simp_all

interpretation restores: stored_objects asnr_Meta "\<lambda>m. asnr_Meta_update (\<lambda>_. m)"
    SeListRestores "\<lambda>h. of_api (se_list_restores E h)"
    SeUpdateRestore "\<lambda>x h. of_api (se_update_restore E h x)" for E
  by unfold_locales simp_all

text \<open>What a v1alpha1 object says of the fields that only v1alpha2 has.\<close>

lemma v1_lookup:
  "map_of (v1_spec_fields s) ''resources'' = None" "map_of (v1_spec_fields s) ''nodeSelector'' = None"
  "map_of (v1_spec_fields s) ''tolerations'' = None"
  unfolding v1_spec_fields_def by (simp_all only: map_of_append_tag append_assoc) simp_all

lemma v1_body_without_new_fields:
  assumes "dec_AerospikeClusterSpec C (JObject (v1_spec_fields s)) = Inr s'"
  shows "spec_Resources s' = None \<and> spec_NodeSelector s' = None \<and> spec_Tolerations s' = []"
  using assms by (auto simp: dec_AerospikeClusterSpec_def andThen_def field_def ptr_field_def v1_lookup
      split: sum.splits)

lemma enc_v1_spec:
  "map_of (fields_of (enc_v1_AerospikeCluster C c)) ''spec'' = Some (JObject (v1_spec_fields (v1_Spec c)))"
  unfolding enc_v1_AerospikeCluster_def by (simp only: fields_of.simps map_of_append_tag) simp

text \<open>Every cluster a conversion sends carries the annotation.\<close>

fun sends_annotated :: "setup_event \<Rightarrow> bool" where
  "sends_annotated (SeUpdateCluster c _) =
     (gm_get (om_Annotations (v1_Meta c)) convertedFromAnnotationKey = Some v1_SchemeGroupVersion_Version)"
| "sends_annotated _ = True"

lemma conversion_annotates: "emits sends_annotated (convertAerospikeClusters E)"
  unfolding convertAerospikeClusters_def convert_stored_def convert_item_simp Let_def
  by (auto intro!: emits_intro simp: annotated_def)

end
