(* ===== verification/WebhookServer.thy ===== *)
theory WebhookServer
  imports SetupEnv Admission Constants
begin

text \<open>
  \<^verbatim>\<open>pkg/admission/webhook.go\<close>: registering the validating webhook, answering its requests and
  waiting for it to be reachable. The decisions themselves are in \<open>Admission\<close>.
\<close>

section \<open>Constants\<close>

definition aerospikeOperatorWebhookName :: string where
  "aerospikeOperatorWebhookName = ''aerospike-operator.'' @ GroupName"
definition aerospikeClusterWebhookPath :: string where
  "aerospikeClusterWebhookPath = ''/admission/reviews/aerospikeclusters''"
definition aerospikeNamespaceBackupWebhookPath :: string where
  "aerospikeNamespaceBackupWebhookPath = ''/admission/reviews/aerospikenamespacebackups''"
definition aerospikeNamespaceRestoreWebhookPath :: string where
  "aerospikeNamespaceRestoreWebhookPath = ''/admission/reviews/aerospikenamespacerestores''"
definition healthzPath :: string where "healthzPath = ''/healthz''"

definition failurePolicy :: string where "failurePolicy = ''Fail''"
definition matchPolicy :: string where "matchPolicy = ''Exact''"
definition timeoutSeconds :: int where "timeoutSeconds = 30"
definition sideEffects :: string where "sideEffects = ''None''"
definition admissionReviewVersions :: "string list" where "admissionReviewVersions = [''v1beta1'']"

definition serviceName :: string where "serviceName = ''aerospike-operator''"
definition tlsSecretName :: string where "tlsSecretName = ''aerospike-operator-tls''"

text \<open>Seconds.\<close>

definition whReadyTimeout :: int where "whReadyTimeout = 30"
definition ticker_period :: int where "ticker_period = 1"

lemmas webhook_paths = aerospikeClusterWebhookPath_def aerospikeNamespaceBackupWebhookPath_def
  aerospikeNamespaceRestoreWebhookPath_def healthzPath_def

section \<open>Registration\<close>

text \<open>The data of a secret: a missing entry is an empty slice.\<close>

definition secret_data :: "Secret \<Rightarrow> string \<Rightarrow> string" where
  "secret_data sec k = (case gm_get (sec_Data sec) k of None \<Rightarrow> [] | Some v \<Rightarrow> v)"

definition TLSCertKey :: string where "TLSCertKey = ''tls.crt''"
definition TLSPrivateKeyKey :: string where "TLSPrivateKeyKey = ''tls.key''"

definition ensureTLSSecret :: "setup_env \<Rightarrow> string \<Rightarrow> Secret setupE" where
  "ensureTLSSecret E namespace =
     (let svc = serviceName @ ''.'' @ namespace @ ''.svc'' in do {
        now \<leftarrow> Clock E;
        let crt = \<lparr>x_CommonName = svc, x_NotBefore = now, x_NotAfter = now + 365 * 24 * 3600,
                   x_SerialNumber = now, x_IsCA = True, x_DNSNames = [svc]\<rparr>;
        bindE (call (\<lambda>_. SeGenerateKey) (\<lambda>h. of_client (se_generate_key E h))) (\<lambda>key.
        bindE (call (\<lambda>_. SeSignCertificate crt) (\<lambda>h. of_client (se_self_sign E h crt key))) (\<lambda>sig. do {
          sec \<leftarrow> SetupSecrets_Create E namespace
            \<lparr>sec_Meta = zero_meta\<lparr>om_Name := tlsSecretName,
               om_Labels := Some (map_lit [(LabelAppKey, ''aerospike-operator'')]),
               om_Namespace := namespace\<rparr>,
             sec_Data = Some (map_lit [(TLSCertKey, sig), (TLSPrivateKeyKey, key)]),
             sec_Type = ''kubernetes.io/tls''\<rparr>;
          case sec of
            Inr s \<Rightarrow> ok s
          | Inl err \<Rightarrow>
              if IsAlreadyExists err then SetupSecrets_Get E namespace tlsSecretName
              else fail err
        }))
      })"

text \<open>One entry of the configuration; the source writes it out three times.\<close>

definition webhook_for :: "string \<Rightarrow> string \<Rightarrow> string \<Rightarrow> string \<Rightarrow> string \<Rightarrow> Webhook" where
  "webhook_for name plural path namespace caBundle = \<lparr>
     wh_Name = name,
     wh_Rules = [\<lparr>
       wr_Operations = [''CREATE'', ''UPDATE''],
       wr_APIGroups = [GroupName, GroupName],
       wr_APIVersions = [SchemeGroupVersion_Version, v1_SchemeGroupVersion_Version],
       wr_Resources = [plural]\<rparr>],
     wh_ServiceName = serviceName,
     wh_ServiceNamespace = namespace,
     wh_Path = path,
     wh_CABundle = caBundle,
     wh_FailurePolicy = failurePolicy,
     wh_MatchPolicy = matchPolicy,
     wh_TimeoutSeconds = timeoutSeconds,
     wh_SideEffects = sideEffects,
     wh_ReviewVersions = admissionReviewVersions\<rparr>"

definition webhook_config :: "string \<Rightarrow> string \<Rightarrow> WebhookConfiguration" where
  "webhook_config namespace caBundle = \<lparr>
     wc_Name = aerospikeOperatorWebhookName,
     wc_ResourceVersion = [],
     wc_Webhooks = [
       webhook_for AerospikeClusterCRDName AerospikeClusterPlural
         aerospikeClusterWebhookPath namespace caBundle,
       webhook_for AerospikeNamespaceBackupCRDName AerospikeNamespaceBackupPlural
         aerospikeNamespaceBackupWebhookPath namespace caBundle,
       webhook_for AerospikeNamespaceRestoreCRDName AerospikeNamespaceRestorePlural
         aerospikeNamespaceRestoreWebhookPath namespace caBundle]\<rparr>"

definition ensureWebhookConfig :: "setup_env \<Rightarrow> string \<Rightarrow> string \<Rightarrow> unit setupE" where
  "ensureWebhookConfig E namespace caBundle =
     (let vwConfig = webhook_config namespace caBundle in do {
        r \<leftarrow> Webhooks_Create E vwConfig;
        case r of
          Inr _ \<Rightarrow> ok ()
        | Inl err \<Rightarrow>
            if \<not> IsAlreadyExists err then fail err
            else bindE (Webhooks_Get E aerospikeOperatorWebhookName) (\<lambda>currCfg.
              if wc_Webhooks currCfg = wc_Webhooks vwConfig then ok ()
              else bindE (Webhooks_Update E (currCfg\<lparr>wc_Webhooks := wc_Webhooks vwConfig\<rparr>)) (\<lambda>_. ok ()))
      })"

text \<open>The result is the certificate the webhook then serves with.\<close>

definition Register :: "setup_env \<Rightarrow> string \<Rightarrow> bool \<Rightarrow> (string \<times> string) setupE" where
  "Register E namespace Enabled =
     bindE (ensureTLSSecret E namespace) (\<lambda>sec.
     liftE (of_client (se_key_pair_ok E (secret_data sec TLSCertKey) (secret_data sec TLSPrivateKeyKey))) (\<lambda>_.
     let cert = (secret_data sec TLSCertKey, secret_data sec TLSPrivateKeyKey) in
     if Enabled
     then bindE (ensureWebhookConfig E namespace (secret_data sec TLSCertKey)) (\<lambda>_. ok cert)
     else ok cert))"

section \<open>Serving\<close>

text \<open>
  What a request gets: a status without a body, a review response, nothing when the response cannot be
  marshalled, or a panic of the handler (the HTTP server recovers from it and closes the connection).
\<close>

datatype http_answer = HttpStatus int | HttpReview AdmissionResponse | HttpNothing | HttpPanic

text \<open>
  The API machinery as a parameter: decoding a body gives an error or not, and whatever it put into
  the review, whose request is a pointer; marshalling the response may fail.
\<close>

record review_codec =
  rc_decode :: "string \<Rightarrow> string option \<times> AdmissionRequest option"
  rc_marshals :: "AdmissionResponse \<Rightarrow> bool"

definition handle ::
    "review_codec \<Rightarrow> (AdmissionRequest \<Rightarrow> AdmissionResponse act) \<Rightarrow> string \<Rightarrow> string \<Rightarrow> http_answer act" where
  "handle R admit contentType body =
     (if contentType \<noteq> ''application/json'' then ret (HttpStatus 415)
      else case rc_decode R body of
        (err, request) \<Rightarrow>
          (case request of
             None \<Rightarrow> ret HttpPanic
           | Some ar \<Rightarrow> do {
               reviewResponse \<leftarrow> (case err of
                  Some e \<Rightarrow> ret (admissionResponseFromError (ClientErr e))
                | None \<Rightarrow> admit ar);
               let response = reviewResponse\<lparr>resp_UID := req_UID ar\<rparr>;
               if \<not> rc_marshals R response then ret HttpNothing
               else ret (HttpReview response)
             }))"

text \<open>The handlers behind the paths of \<open>Run\<close>; another path is not found.\<close>

datatype handler = HandleCluster | HandleBackup | HandleRestore | HandleHealthz

definition routes :: "(string \<times> handler) list" where
  "routes = [(aerospikeClusterWebhookPath, HandleCluster),
     (aerospikeNamespaceBackupWebhookPath, HandleBackup),
     (aerospikeNamespaceRestoreWebhookPath, HandleRestore),
     (healthzPath, HandleHealthz)]"

definition serve ::
    "env \<Rightarrow> decoders \<Rightarrow> review_codec \<Rightarrow> string \<Rightarrow> string \<Rightarrow> string \<Rightarrow> http_answer act" where
  "serve E D R path contentType body =
     (case map_of routes path of
        None \<Rightarrow> ret (HttpStatus 404)
      | Some HandleCluster \<Rightarrow> handle R (admitAerospikeCluster E D) contentType body
      | Some HandleBackup \<Rightarrow> handle R (admitAerospikeNamespaceBackup E D) contentType body
      | Some HandleRestore \<Rightarrow> handle R (admitAerospikeNamespaceRestore E D) contentType body
      | Some HandleHealthz \<Rightarrow> ret (HttpStatus 200))"

section \<open>Waiting for the webhook\<close>

definition isReady :: "setup_env \<Rightarrow> string \<Rightarrow> bool setupE" where
  "isReady E namespace =
     bindE (Endpoints_Get E namespace serviceName) (\<lambda>subsets.
     if subsets = 0 then ok False else ok True)"

text \<open>
  The loop of \<open>WaitReady\<close>. A select waits for the first of two channels: the ticker, whose next tick
  is (or has been) at \<open>tick\<close>, and a timer made by \<open>time.After\<close> when the select begins, so at
  \<open>now + whReadyTimeout\<close>. A tick that is taken late is followed by the next one on the ticker's grid.
  The first argument bounds the number of ticks; running out of them (None) is to be still waiting.
\<close>

definition next_tick :: "int \<Rightarrow> int \<Rightarrow> int" where
  "next_tick taken tick = tick + ticker_period * ((taken - tick) div ticker_period + 1)"

fun wait_loop :: "setup_env \<Rightarrow> string \<Rightarrow> nat \<Rightarrow> int \<Rightarrow> (gerr + unit) option setup_act" where
  "wait_loop E namespace 0 tick = ret None"
| "wait_loop E namespace (Suc n) tick = do {
     now \<leftarrow> Clock E;
     if max now tick \<le> now + whReadyTimeout
     then do {
       WaitUntil (max now tick);
       r \<leftarrow> isReady E namespace;
       case r of
         Inl err \<Rightarrow> ret (Some (Inl err))
       | Inr ready \<Rightarrow>
           if ready then ret (Some (Inr ()))
           else wait_loop E namespace n (next_tick (max now tick) tick)
     }
     else ret (Some (Inl (Errorf ''timed out waiting for the validating admission webhook to be ready'' [])))
   }"

definition WaitReady :: "setup_env \<Rightarrow> string \<Rightarrow> nat \<Rightarrow> (gerr + unit) option setup_act" where
  "WaitReady E namespace n = do {
     start \<leftarrow> Clock E;
     wait_loop E namespace n (start + ticker_period)
   }"

section \<open>Facts\<close>

text \<open>The clock does not go back, and shows at least the time that was waited for.\<close>

definition clock_ok :: "setup_env \<Rightarrow> bool" where
  "clock_ok E \<longleftrightarrow> (\<forall>h es. se_clock E h \<le> se_clock E (h @ es)) \<and>
     (\<forall>h t. t \<le> se_clock E (h @ [SeWaitUntil t]))"

lemma next_tick_soon: "tick \<le> t \<Longrightarrow> next_tick t tick \<le> t + ticker_period"
  by (simp add: next_tick_def ticker_period_def)

lemma next_tick_clock:
  assumes "clock_ok E" and "tick \<le> t"
  shows "next_tick t tick \<le> se_clock E (h @ SeWaitUntil t # es) + ticker_period"
proof -
  have "t \<le> se_clock E (h @ [SeWaitUntil t])" "se_clock E (h @ [SeWaitUntil t]) \<le>
      se_clock E ((h @ [SeWaitUntil t]) @ es)" using assms(1) unfolding clock_ok_def by blast+
  then show ?thesis using next_tick_soon [OF assms(2)] by simp
qed

text \<open>
  One iteration. When the timer is made, the next tick is at most a period away, so the timer never
  comes first.
\<close>

lemma wait_loop_step:
  assumes clock: "clock_ok E" and tick: "tick \<le> se_clock E h + ticker_period"
  obtains h' tick' where
    "h' = h @ [SeClock, SeWaitUntil (max (se_clock E h) tick), SeGetEndpoints namespace serviceName]"
    and "tick' \<le> se_clock E h' + ticker_period"
    and "run_state (wait_loop E namespace (Suc n) tick) h =
      (case se_get_endpoints E (h @ [SeClock, SeWaitUntil (max (se_clock E h) tick)]) namespace serviceName of
         Inl a \<Rightarrow> (Some (Inl (ApiErr a)), h')
       | Inr subsets \<Rightarrow> if subsets = 0 then run_state (wait_loop E namespace n tick') h'
           else (Some (Inr ()), h'))"
proof -
  let ?t = "max (se_clock E h) tick"
  let ?h' = "h @ [SeClock, SeWaitUntil ?t, SeGetEndpoints namespace serviceName]"
  have "?t \<le> se_clock E h + whReadyTimeout"
    using tick by (simp add: ticker_period_def whReadyTimeout_def)
  then have "run_state (wait_loop E namespace (Suc n) tick) h =
      (case se_get_endpoints E (h @ [SeClock, SeWaitUntil ?t]) namespace serviceName of
         Inl a \<Rightarrow> (Some (Inl (ApiErr a)), ?h')
       | Inr subsets \<Rightarrow> if subsets = 0 then run_state (wait_loop E namespace n (next_tick ?t tick)) ?h'
           else (Some (Inr ()), ?h'))"
    by (simp add: isReady_def split: sum.splits)
  moreover have "next_tick ?t tick \<le> se_clock E ?h' + ticker_period"
    using next_tick_clock [OF clock, of tick ?t "h @ [SeClock]" "[SeGetEndpoints namespace serviceName]"]
    by simp
  ultimately show ?thesis using that by blast
qed

text \<open>What the loop can return: never the error of the timer.\<close>

definition wait_result :: "setup_env \<Rightarrow> string \<Rightarrow> (gerr + unit) option \<Rightarrow> bool" where
  "wait_result E namespace r \<longleftrightarrow> r = None \<or> r = Some (Inr ()) \<or>
     (\<exists>h a. se_get_endpoints E h namespace serviceName = Inl a \<and> r = Some (Inl (ApiErr a)))"

lemma wait_loop_result:
  assumes clock: "clock_ok E"
  shows "tick \<le> se_clock E h + ticker_period \<Longrightarrow>
    wait_result E namespace (fst (run_state (wait_loop E namespace n tick) h))"
proof (induction n arbitrary: tick h)
  case (Suc n)
  from wait_loop_step [OF clock Suc.prems] obtain h' tick' where
    "tick' \<le> se_clock E h' + ticker_period"
    "run_state (wait_loop E namespace (Suc n) tick) h =
      (case se_get_endpoints E (h @ [SeClock, SeWaitUntil (max (se_clock E h) tick)]) namespace serviceName of
         Inl a \<Rightarrow> (Some (Inl (ApiErr a)), h')
       | Inr subsets \<Rightarrow> if subsets = 0 then run_state (wait_loop E namespace n tick') h'
           else (Some (Inr ()), h'))" by blast
  then show ?case using Suc.IH [of tick' h'] by (auto simp: wait_result_def split: sum.splits)
qed (simp add: wait_result_def)

lemma start_tick: "clock_ok E \<Longrightarrow> se_clock E h + ticker_period \<le> se_clock E (h @ [SeClock]) + ticker_period"
  by (simp add: clock_ok_def)

lemma WaitReady_result: "clock_ok E \<Longrightarrow> wait_result E namespace (fst (run_state (WaitReady E namespace n) h))"
  using wait_loop_result start_tick by (simp add: WaitReady_def)

text \<open>
  The loop ends: when the endpoints are there at the latest from the \<open>k\<close>-th reading on, after that
  many ticks.
\<close>

definition endpoint_reads :: "setup_history \<Rightarrow> nat" where
  "endpoint_reads h = length (filter (\<lambda>e. case e of SeGetEndpoints _ _ \<Rightarrow> True | _ \<Rightarrow> False) h)"

definition ready_after :: "setup_env \<Rightarrow> string \<Rightarrow> nat \<Rightarrow> bool" where
  "ready_after E namespace k \<longleftrightarrow>
     (\<forall>h. k \<le> endpoint_reads h \<longrightarrow> (\<exists>n. se_get_endpoints E h namespace serviceName = Inr n \<and> 0 < n))"

lemma wait_loop_returns:
  assumes clock: "clock_ok E" and ready: "ready_after E namespace k"
  shows "tick \<le> se_clock E h + ticker_period \<Longrightarrow> n \<noteq> 0 \<Longrightarrow> k < endpoint_reads h + n \<Longrightarrow>
    fst (run_state (wait_loop E namespace n tick) h) \<noteq> None"
proof (induction n arbitrary: tick h)
  case (Suc n)
  let ?h1 = "h @ [SeClock, SeWaitUntil (max (se_clock E h) tick)]"
  from wait_loop_step [OF clock Suc.prems(1)] obtain h' tick' where
    h': "h' = h @ [SeClock, SeWaitUntil (max (se_clock E h) tick), SeGetEndpoints namespace serviceName]"
    and tick': "tick' \<le> se_clock E h' + ticker_period"
    and step: "run_state (wait_loop E namespace (Suc n) tick) h =
      (case se_get_endpoints E ?h1 namespace serviceName of
         Inl a \<Rightarrow> (Some (Inl (ApiErr a)), h')
       | Inr subsets \<Rightarrow> if subsets = 0 then run_state (wait_loop E namespace n tick') h'
           else (Some (Inr ()), h'))" by blast
  have reads: "endpoint_reads ?h1 = endpoint_reads h" "endpoint_reads h' = Suc (endpoint_reads h)"
    by (simp_all add: endpoint_reads_def h')
  show ?case
  proof (cases "k \<le> endpoint_reads h")
    case True
    then obtain m where "se_get_endpoints E ?h1 namespace serviceName = Inr m" "0 < m"
      using ready reads(1) unfolding ready_after_def by metis
    then show ?thesis using step by simp
  next
    case False
    then have "n \<noteq> 0" "k < endpoint_reads h' + n" using Suc.prems(3) reads(2) by simp_all
    then show ?thesis using Suc.IH [OF tick'] step by (simp split: sum.splits)
  qed
qed simp

lemma WaitReady_returns:
  assumes "clock_ok E" and "ready_after E namespace k"
  shows "fst (run_state (WaitReady E namespace (Suc k)) h) \<noteq> None"
  using wait_loop_returns [OF assms start_tick [OF assms(1)], of "Suc k" h] by (simp add: WaitReady_def)

text \<open>Without endpoints, and without an error, it waits for ever.\<close>

lemma wait_loop_waits:
  assumes clock: "clock_ok E" and none: "\<And>h. se_get_endpoints E h namespace serviceName = Inr 0"
  shows "tick \<le> se_clock E h + ticker_period \<Longrightarrow> fst (run_state (wait_loop E namespace n tick) h) = None"
proof (induction n arbitrary: tick h)
  case (Suc n)
  from wait_loop_step [OF clock Suc.prems] obtain h' tick' where
    "tick' \<le> se_clock E h' + ticker_period"
    "run_state (wait_loop E namespace (Suc n) tick) h =
      (case se_get_endpoints E (h @ [SeClock, SeWaitUntil (max (se_clock E h) tick)]) namespace serviceName of
         Inl a \<Rightarrow> (Some (Inl (ApiErr a)), h')
       | Inr subsets \<Rightarrow> if subsets = 0 then run_state (wait_loop E namespace n tick') h'
           else (Some (Inr ()), h'))" by blast
  then show ?case using Suc.IH [of tick' h'] by (simp add: none)
qed simp

lemma WaitReady_waits:
  assumes "clock_ok E" and "\<And>h. se_get_endpoints E h namespace serviceName = Inr 0"
  shows "fst (run_state (WaitReady E namespace n) h) = None"
  using wait_loop_waits [OF assms start_tick [OF assms(1)]] by (simp add: WaitReady_def)

text \<open>Registration: what every successful run has found or left in the API server.\<close>

definition configured :: "setup_env \<Rightarrow> WebhookConfiguration \<Rightarrow> setup_history \<Rightarrow> bool" where
  "configured E want es \<longleftrightarrow> (\<exists>c. wc_Webhooks c = wc_Webhooks want \<and>
     (SeCreateWebhook c True \<in> set es \<or> SeUpdateWebhook c True \<in> set es \<or>
      (\<exists>h. se_get_webhook E h aerospikeOperatorWebhookName = Inr c)))"

lemma ensureWebhookConfig_ok:
  assumes "run_state (ensureWebhookConfig E namespace ca) h = (Inr u, h @ es)"
  shows "configured E (webhook_config namespace ca) es"
proof -
  let ?want = "webhook_config namespace ca"
  let ?h1 = "h @ [SeCreateWebhook ?want False]"
  show ?thesis
  proof (cases "se_create_webhook E h ?want")
    case (Inr c)
    then show ?thesis using assms by (auto simp: ensureWebhookConfig_def Let_def configured_def)
  next
    case (Inl a)
    then have "a = AlreadyExists" using assms by (auto simp: ensureWebhookConfig_def Let_def split: if_splits)
    then obtain c where c: "se_get_webhook E ?h1 aerospikeOperatorWebhookName = Inr c"
      using assms Inl by (cases "se_get_webhook E ?h1 aerospikeOperatorWebhookName")
        (auto simp: ensureWebhookConfig_def Let_def)
    show ?thesis
    proof (cases "wc_Webhooks c = wc_Webhooks ?want")
      case True
      then show ?thesis using c unfolding configured_def by blast
    next
      case False
      then have "SeUpdateWebhook (c\<lparr>wc_Webhooks := wc_Webhooks ?want\<rparr>) True \<in> set es"
        using assms Inl c \<open>a = AlreadyExists\<close>
        by (auto simp: ensureWebhookConfig_def Let_def split: sum.splits)
      then show ?thesis unfolding configured_def
        by (intro exI [of _ "c\<lparr>wc_Webhooks := wc_Webhooks ?want\<rparr>"]) simp
    qed
  qed
qed

lemma emits_ensureTLSSecret: "emits (\<lambda>_. True) (ensureTLSSecret E namespace)"
  unfolding ensureTLSSecret_def Let_def by (auto intro!: emits_intro)

lemma emits_ensureWebhookConfig: "emits (\<lambda>_. True) (ensureWebhookConfig E namespace ca)"
  unfolding ensureWebhookConfig_def Let_def by (auto intro!: emits_intro)

lemma configured_mono: "configured E want es \<Longrightarrow> set es \<subseteq> set es' \<Longrightarrow> configured E want es'"
  unfolding configured_def by blast

lemma Register_ok:
  assumes "run_state (Register E namespace True) h = (Inr cert, h @ es)"
  shows "configured E (webhook_config namespace (fst cert)) es \<and> se_key_pair_ok E (fst cert) (snd cert) = Inr ()"
proof -
  from assms obtain sec h1 where 1: "run_state (ensureTLSSecret E namespace) h = (Inr sec, h1)"
    and rest: "run_state (liftE (of_client (se_key_pair_ok E (secret_data sec TLSCertKey)
       (secret_data sec TLSPrivateKeyKey))) (\<lambda>_.
     let cert = (secret_data sec TLSCertKey, secret_data sec TLSPrivateKeyKey) in
     if True then bindE (ensureWebhookConfig E namespace (secret_data sec TLSCertKey)) (\<lambda>_. ok cert)
     else ok cert)) h1 = (Inr cert, h @ es)"
    unfolding Register_def by (rule bindE_ok)
  from emits_extends [OF emits_ensureTLSSecret 1] obtain es1 where es1: "h1 = h @ es1" by blast
  from rest have pair: "se_key_pair_ok E (secret_data sec TLSCertKey) (secret_data sec TLSPrivateKeyKey) = Inr ()"
    and cert: "cert = (secret_data sec TLSCertKey, secret_data sec TLSPrivateKeyKey)"
    and 2: "run_state (ensureWebhookConfig E namespace (fst cert)) h1 = (Inr (), h @ es)"
    by (cases "se_key_pair_ok E (secret_data sec TLSCertKey) (secret_data sec TLSPrivateKeyKey)";
      auto simp: Let_def split: sum.splits prod.splits)+
  from emits_extends [OF emits_ensureWebhookConfig 2] obtain es2 where es2: "h @ es = h1 @ es2" by blast
  have "configured E (webhook_config namespace (fst cert)) es2"
    by (rule ensureWebhookConfig_ok [where h = h1]) (use 2 es2 in simp)
  moreover have "set es2 \<subseteq> set es" using es1 es2 by auto
  ultimately show ?thesis using pair cert configured_mono by auto
qed

end
