(* ===== verification/Operator.thy ===== *)
theory Operator
  imports Registry WebhookServer BackupTool
begin

text \<open>
  \<^verbatim>\<open>cmd/operator/main.go\<close>: the start of the operator, from its command line to the controllers.
\<close>

section \<open>Model\<close>

definition admissionEnabledFlag :: string where "admissionEnabledFlag = ''admission-enabled''"
definition debugEnabledFlag :: string where "debugEnabledFlag = ''debug''"
definition kubeconfigFlag :: string where "kubeconfigFlag = ''kubeconfig''"

record operator_params =
  op_DebugEnabled :: bool
  op_kubeconfig :: string
  op_Enabled :: bool

definition operator_flags :: "(string \<times> flag_kind) list" where
  "operator_flags = [(debugEnabledFlag, FlagBool), (kubeconfigFlag, FlagString),
     (admissionEnabledFlag, FlagBool)]"

definition operator_flag_valid :: "flag_kind \<Rightarrow> string \<Rightarrow> bool" where
  "operator_flag_valid kind v = (kind = FlagBool \<longrightarrow> v \<in> set true_texts \<or> v \<in> set false_texts)"

definition set_operator_flag :: "string \<times> string \<Rightarrow> operator_params \<Rightarrow> operator_params" where
  "set_operator_flag a p = (case a of (name, v) \<Rightarrow>
     if name = debugEnabledFlag then p\<lparr>op_DebugEnabled := v \<in> set true_texts\<rparr>
     else if name = kubeconfigFlag then p\<lparr>op_kubeconfig := v\<rparr>
     else if name = admissionEnabledFlag then p\<lparr>op_Enabled := v \<in> set true_texts\<rparr>
     else p)"

definition parse_operator_flags :: "string list \<Rightarrow> flag_error + operator_params" where
  "parse_operator_flags args = (case parse_flags operator_flags operator_flag_valid args of
     Inl e \<Rightarrow> Inl e
   | Inr (assigned, left) \<Rightarrow>
       Inr (fold set_operator_flag assigned \<lparr>op_DebugEnabled = False, op_kubeconfig = [], op_Enabled = True\<rparr>))"

text \<open>
  How the process ends, or that it is still waiting (for the lease or for the webhook).
  \<open>log.Fatalf\<close> exits with 1.
\<close>

datatype process = Exited int | Waiting

definition fatal :: "string \<Rightarrow> process setup_act" where
  "fatal msg = do { call (\<lambda>_. SeFatal msg) (\<lambda>_. ()); ret (Exited 1) }"

definition controllers :: "string list" where
  "controllers = [''AerospikeCluster'', ''AerospikeNamespaceBackup'', ''AerospikeNamespaceRestore'',
     ''GarbageCollector'']"

text \<open>
  The controllers run at the same time, each until the stop channel is closed; an error of one is
  logged. The events are their starts, in the order of the loop.
\<close>

fun start_controllers :: "string list \<Rightarrow> unit setup_act" where
  "start_controllers [] = ret ()"
| "start_controllers (c # cs) = do { call (\<lambda>_. SeRunController c) (\<lambda>_. ()); start_controllers cs }"

definition run :: "setup_env \<Rightarrow> string \<Rightarrow> nat \<Rightarrow> process setup_act" where
  "run E namespace n =
     (case se_exts_client E of
        Inl err \<Rightarrow> fatal ''failed to create apiextensions clientset''
      | Inr _ \<Rightarrow> do {
          r \<leftarrow> RegisterCRDs E;
          case r of
            Inl err \<Rightarrow> fatal ''failed to create custom resource definitions''
          | Inr _ \<Rightarrow> do {
              w \<leftarrow> WaitReady E namespace n;
              case w of
                None \<Rightarrow> ret Waiting
              | Some (Inl err) \<Rightarrow> fatal ''failed to wait for webhook to be ready''
              | Some (Inr _) \<Rightarrow> do {
                  c \<leftarrow> ConvertResources E;
                  case c of
                    Inl err \<Rightarrow> fatal ''failed to upgrade existing resources to v1alpha2''
                  | Inr _ \<Rightarrow> do {
                      call (\<lambda>_. SeStartInformers) (\<lambda>_. ());
                      start_controllers controllers;
                      call (\<lambda>_. SeExit 0) (\<lambda>_. ());
                      ret (Exited 0)
                    }
                }
            }
        })"

text \<open>
  \<open>main\<close>: the lock of the election is made with its error ignored; only an elected process gets to
  \<open>run\<close>.
\<close>

definition operator_main :: "setup_env \<Rightarrow> string list \<Rightarrow> nat \<Rightarrow> process setup_act" where
  "operator_main E args n =
     (case parse_operator_flags (drop 1 args) of
        Inl FlagHelp \<Rightarrow> ret (Exited 0)
      | Inl (FlagError _ _) \<Rightarrow> ret (Exited 2)
      | Inr p \<Rightarrow>
          let namespace = se_getenv E ''POD_NAMESPACE''; name = se_getenv E ''POD_NAME'' in
          if namespace = [] then fatal ''POD_NAMESPACE must be set''
          else if name = [] then fatal ''POD_NAME must be set''
          else if \<not> is_ok (se_hostname E) then fatal ''failed to get hostname''
          else if \<not> is_ok (se_config E (op_kubeconfig p)) then fatal ''error building kubeconfig''
          else if \<not> is_ok (se_kube_client E) then fatal ''error building kubernetes clientset''
          else if \<not> is_ok (se_aerospike_client E) then fatal ''failed to create aerospike clientset''
          else do {
            r \<leftarrow> Register E namespace (op_Enabled p);
            case r of
              Inl err \<Rightarrow> fatal ''failed to register admission webhook''
            | Inr cert \<Rightarrow> do {
                call (\<lambda>_. SeServeWebhook cert) (\<lambda>_. ());
                elected \<leftarrow> call (\<lambda>_. SeElect) (se_elected E);
                if elected then run E namespace n else ret Waiting
              }
          })"

section \<open>Facts\<close>

text \<open>No step before them starts a controller.\<close>

fun starts_controller :: "setup_event \<Rightarrow> bool" where
  "starts_controller (SeRunController _) = True"
| "starts_controller _ = False"

lemma quiet_setup:
  "emits (\<lambda>e. \<not> starts_controller e) (fatal msg)"
  "emits (\<lambda>e. \<not> starts_controller e) (RegisterCRDs E)"
  "emits (\<lambda>e. \<not> starts_controller e) (ConvertResources E)"
  "emits (\<lambda>e. \<not> starts_controller e) (Register E namespace enabled)"
  unfolding fatal_def RegisterCRDs_def createCRD_def awaitCRD_def Register_def ensureTLSSecret_def Let_def
    ensureWebhookConfig_def ConvertResources_def convertAerospikeClusters_def
    convertAerospikeNamespaceBackups_def convertAerospikeNamespaceRestores_def convert_stored_def
    convert_item_def
  by (auto intro!: emits_intro)

lemma quiet_wait: "emits (\<lambda>e. \<not> starts_controller e) (wait_loop E namespace n tick)"
  by (induction n arbitrary: tick) (auto simp: isReady_def intro!: emits_intro)

lemma quiet_WaitReady: "emits (\<lambda>e. \<not> starts_controller e) (WaitReady E namespace n)"
  unfolding WaitReady_def by (auto intro!: emits_intro quiet_wait)

lemma quiet_run:
  "emits (\<lambda>e. \<not> starts_controller e) m \<Longrightarrow> run_state m h = (r, h') \<Longrightarrow>
     filter starts_controller h' = filter starts_controller h"
  by (auto dest!: emits_extends simp: list_all_iff filter_empty_conv)

text \<open>
  A run that starts controllers, stage by stage: the resource definitions, the wait for the webhook, the
  conversion, and then nothing but the informers, the controllers and the exit.
\<close>

definition prepared :: "setup_env \<Rightarrow> string \<Rightarrow> nat \<Rightarrow> setup_history \<Rightarrow> setup_history \<Rightarrow> bool" where
  "prepared E namespace n h h' \<longleftrightarrow> (\<exists>h1 h2 h3.
     run_state (RegisterCRDs E) h = (Inr (), h1) \<and>
     run_state (WaitReady E namespace n) h1 = (Some (Inr ()), h2) \<and>
     run_state (ConvertResources E) h2 = (Inr (), h3) \<and>
     h' = h3 @ SeStartInformers # map SeRunController controllers @ [SeExit 0])"

lemma run_prepared:
  assumes run: "run_state (run E namespace n) h = (r, h')"
    and started: "filter starts_controller h' \<noteq> filter starts_controller h"
  shows "prepared E namespace n h h'"
proof -
  note quiet = quiet_setup [THEN quiet_run] quiet_WaitReady [THEN quiet_run]
  obtain r1 h1 where 1: "run_state (RegisterCRDs E) h = (r1, h1)" by fastforce
  obtain r2 h2 where 2: "run_state (WaitReady E namespace n) h1 = (r2, h2)" by fastforce
  obtain r3 h3 where 3: "run_state (ConvertResources E) h2 = (r3, h3)" by fastforce
  have same: "filter starts_controller h1 = filter starts_controller h"
    "filter starts_controller h2 = filter starts_controller h1"
    "filter starts_controller h3 = filter starts_controller h2"
    using quiet(2) [OF 1] quiet(5) [OF 2] quiet(3) [OF 3] .
  have "\<exists>u. r1 = Inr u" "\<exists>u. r2 = Some (Inr u)" "\<exists>u. r3 = Inr u"
    using run started 1 2 3 same
    by (auto simp: run_def fatal_def split: sum.splits option.splits)
  then show ?thesis
    using run started 1 2 3 by (auto simp: prepared_def run_def fatal_def controllers_def split: sum.splits)
qed

text \<open>And \<open>main\<close> first registers the webhook, serves it and is elected.\<close>

definition registered :: "setup_env \<Rightarrow> string \<Rightarrow> bool \<Rightarrow> setup_history \<Rightarrow> setup_history \<Rightarrow> bool" where
  "registered E namespace enabled h h' \<longleftrightarrow> (\<exists>cert h1.
     run_state (Register E namespace enabled) h = (Inr cert, h1) \<and> h' = h1 @ [SeServeWebhook cert, SeElect])"

lemma main_prepared:
  assumes run: "run_state (operator_main E args n) h = (r, h')"
    and started: "filter starts_controller h' \<noteq> filter starts_controller h"
  shows "\<exists>p h1. parse_operator_flags (drop 1 args) = Inr p \<and>
    registered E (se_getenv E ''POD_NAMESPACE'') (op_Enabled p) h h1 \<and>
    prepared E (se_getenv E ''POD_NAMESPACE'') n h1 h'"
proof -
  let ?ns = "se_getenv E ''POD_NAMESPACE''"
  obtain p where p: "parse_operator_flags (drop 1 args) = Inr p"
    using run started by (auto simp: operator_main_def split: sum.splits flag_error.splits)
  obtain r1 h1 where 1: "run_state (Register E ?ns (op_Enabled p)) h = (r1, h1)" by fastforce
  have same: "filter starts_controller h1 = filter starts_controller h"
    by (rule quiet_run [OF quiet_setup(4) 1])
  then obtain cert where cert: "r1 = Inr cert"
    using run started p 1 by (auto simp: operator_main_def Let_def fatal_def split: sum.splits if_splits)
  have "run_state (run E ?ns n) (h1 @ [SeServeWebhook cert, SeElect]) = (r, h')"
    using run started p 1 same cert by (auto simp: operator_main_def Let_def fatal_def split: if_splits)
  from run_prepared [OF this] started same have "prepared E ?ns n (h1 @ [SeServeWebhook cert, SeElect]) h'" by simp
  then show ?thesis using p 1 cert unfolding registered_def by blast
qed

end
