(* ===== verification/StartupProperties.thy ===== *)
theory StartupProperties
  imports Operator SchemaProperties
begin

text \<open>
  Properties of the operator's start: resource definitions, stored versions, the webhook and the order in
  which they come.
\<close>

section \<open>An environment\<close>

definition established_crd :: "string \<Rightarrow> CRD" where
  "established_crd n = \<lparr>crd_Name = n, crd_Spec = crd_Spec cluster_crd,
     crd_Conditions = [(''NamesAccepted'', ''True''), (''Established'', ''True'')],
     crd_StoredVersions = [''v1alpha1'', ''v1alpha2'']\<rparr>"

definition v1_cluster0 :: v1_AerospikeCluster where
  "v1_cluster0 = (let sp = \<lparr>v1_NodeCount = 2, v1_Version = ''4.2.0.3'', v1_Namespaces = [ns0], v1_BackupSpec = None\<rparr>
     in \<lparr>v1_Meta = asc_Meta cluster0, v1_Spec = sp,
         v1_Status = \<lparr>v1_status_Spec = sp, v1_status_Conditions = []\<rparr>\<rparr>)"

definition webhook0 :: WebhookConfiguration where
  "webhook0 = \<lparr>wc_Name = [], wc_ResourceVersion = [], wc_Webhooks = []\<rparr>"

text \<open>
  The definitions exist and become established, one v1alpha1 cluster is stored, the endpoints of the
  webhook are there on the third reading; the clock is the time that was waited for.
\<close>

definition waited :: "setup_history \<Rightarrow> int" where
  "waited h = foldl (\<lambda>t e. case e of SeWaitUntil u \<Rightarrow> max t u | _ \<Rightarrow> t) 0 h"

definition setup0 :: setup_env where
  "setup0 = \<lparr>
     se_create_crd = (\<lambda>h c. Inl AlreadyExists),
     se_get_crd = (\<lambda>h n. Inr (established_crd n)),
     se_update_crd = (\<lambda>h c. Inr c),
     se_update_crd_status = (\<lambda>h c. Inr c),
     se_watch_crd = (\<lambda>h n t. ([(established_crd n)\<lparr>crd_Conditions := []\<rparr>, established_crd n], ''timed out'')),
     se_list_clusters = (\<lambda>h. Inr [v1_cluster0]),
     se_update_cluster = (\<lambda>h c. Inr c),
     se_list_backups = (\<lambda>h. Inr [backup0]),
     se_update_backup = (\<lambda>h b. Inr b),
     se_list_restores = (\<lambda>h. Inr [restore0]),
     se_update_restore = (\<lambda>h r. Inr r),
     se_clock = waited,
     se_generate_key = (\<lambda>h. Inr ''key''),
     se_self_sign = (\<lambda>h t k. Inr ''certificate''),
     se_key_pair_ok = (\<lambda>c k. Inr ()),
     se_create_secret = (\<lambda>h ns s. Inr s),
     se_get_secret = (\<lambda>h ns n. Inl NotFound),
     se_create_webhook = (\<lambda>h c. Inl AlreadyExists),
     se_get_webhook = (\<lambda>h n. Inr webhook0),
     se_update_webhook = (\<lambda>h c. Inr c),
     se_get_endpoints = (\<lambda>h ns n. Inr (if endpoint_reads h < 2 then 0 else 1)),
     se_getenv = (\<lambda>v. ''operator''),
     se_hostname = Inr ''host'',
     se_config = (\<lambda>k. Inr ()),
     se_kube_client = Inr (),
     se_aerospike_client = Inr (),
     se_exts_client = Inr (),
     se_elected = (\<lambda>h. True)\<rparr>"

lemma waited_append: "waited (h @ es) = foldl (\<lambda>t e. case e of SeWaitUntil u \<Rightarrow> max t u | _ \<Rightarrow> t) (waited h) es"
  by (simp add: waited_def)

lemma waited_mono: "(t :: int) \<le> foldl (\<lambda>t e. case e of SeWaitUntil u \<Rightarrow> max t u | _ \<Rightarrow> t) t es"
proof (induction es rule: rev_induct)
  case (snoc e es)
  then show ?case by (cases e) auto
qed simp

lemma setup0_clock: "se_clock E = waited \<Longrightarrow> clock_ok E"
  by (auto simp: clock_ok_def waited_append waited_mono)

section \<open>The webhook\<close>

text \<open>Requests about a version of a resource, as the rules of a configuration select them.\<close>

definition reviews :: "Webhook \<Rightarrow> CRD \<Rightarrow> CRDVersion \<Rightarrow> string \<Rightarrow> bool" where
  "reviews w crd v operation \<longleftrightarrow> list_ex (\<lambda>r. operation \<in> set (wr_Operations r) \<and>
     cs_Group (crd_Spec crd) \<in> set (wr_APIGroups r) \<and> cv_Name v \<in> set (wr_APIVersions r) \<and>
     cs_Plural (crd_Spec crd) \<in> set (wr_Resources r)) (wh_Rules w)"

definition handler_for :: "string \<Rightarrow> handler option" where
  "handler_for plural =
     (if plural = AerospikeClusterPlural then Some HandleCluster
      else if plural = AerospikeNamespaceBackupPlural then Some HandleBackup
      else if plural = AerospikeNamespaceRestorePlural then Some HandleRestore
      else None)"

definition every_version_reviewed :: "Webhook list \<Rightarrow> bool" where
  "every_version_reviewed ws \<longleftrightarrow>
     list_all (\<lambda>crd. list_all (\<lambda>v. cv_Served v \<longrightarrow> list_all (\<lambda>operation.
        list_ex (\<lambda>w. reviews w crd v operation \<and> wh_FailurePolicy w = ''Fail'' \<and>
          wh_ServiceName w = serviceName \<and> handler_for (cs_Plural (crd_Spec crd)) \<noteq> None \<and>
          map_of routes (wh_Path w) = handler_for (cs_Plural (crd_Spec crd))) ws)
        [''CREATE'', ''UPDATE'']) (cs_Versions (crd_Spec crd))) crds"

lemma config_reviews: "every_version_reviewed (wc_Webhooks (webhook_config namespace ca))"
  by (simp add: every_version_reviewed_def crds_def cluster_crd_def backup_crd_def restore_crd_def
      cluster_v1alpha2_def cluster_v1alpha1_def backup_v1alpha2_def backup_v1alpha1_def
      restore_v1alpha2_def restore_v1alpha1_def webhook_config_def webhook_for_def reviews_def
      handler_for_def routes_def webhook_paths failurePolicy_def AerospikeClusterPlural_def
      AerospikeNamespaceBackupPlural_def AerospikeNamespaceRestorePlural_def)

text \<open>
  C28: a successful registration leaves no way around the webhook. The configuration then in the API server,
  created, updated or found there, sends every creation and update of every served version of every
  resource the operator defines to the webhook service, refusing it when the service cannot be reached, and
  the path it is sent to is served by the handler for that resource; the certificate in the configuration is
  the one the webhook serves with.
\<close>

theorem registered_webhook_covers_resources:
  assumes "run_state (Register E namespace True) h = (Inr cert, h @ es)"
  shows "\<exists>c. (SeCreateWebhook c True \<in> set es \<or> SeUpdateWebhook c True \<in> set es \<or>
       (\<exists>h. se_get_webhook E h aerospikeOperatorWebhookName = Inr c)) \<and>
     every_version_reviewed (wc_Webhooks c) \<and> (\<forall>w \<in> set (wc_Webhooks c). wh_CABundle w = fst cert)"
proof -
  from Register_ok [OF assms] obtain c where c: "wc_Webhooks c = wc_Webhooks (webhook_config namespace (fst cert))"
    "SeCreateWebhook c True \<in> set es \<or> SeUpdateWebhook c True \<in> set es \<or>
     (\<exists>h. se_get_webhook E h aerospikeOperatorWebhookName = Inr c)"
    unfolding configured_def by blast
  have "\<forall>w \<in> set (wc_Webhooks c). wh_CABundle w = fst cert"
    unfolding c(1) by (auto simp: webhook_config_def webhook_for_def)
  then show ?thesis using c config_reviews [of namespace "fst cert"] by (intro exI [of _ c]) simp
qed

theorem registered_webhook_covers_resources_witness:
  "\<exists>c :: WebhookConfiguration. every_version_reviewed (wc_Webhooks c) \<and> (\<forall>w \<in> set (wc_Webhooks c). wh_CABundle w = ''certificate'')"
proof -
  let ?run = "run_state (Register setup0 ''ns'' True) []"
  have "is_ok (fst ?run)" by code_simp
  moreover have "fst ?run = Inr (''certificate'', ''key'')" by code_simp
  ultimately have "?run = (Inr (''certificate'', ''key''), [] @ snd ?run)" by (simp add: prod_eq_iff)
  from registered_webhook_covers_resources [OF this] show ?thesis by (metis fst_conv)
qed

text \<open>A body that holds no request makes the handler panic, where it means to refuse.\<close>

lemma undecodable_body_panics:
  "rc_decode R body = (Some err, None) \<Longrightarrow>
     run_state (handle R admit ''application/json'' body) h = (HttpPanic, h)"
  by (simp add: handle_def)

section \<open>Waiting for the webhook\<close>

text \<open>
  C29: waiting for the webhook ends. When the endpoints are there at the latest from the \<open>k\<close>-th reading on,
  \<open>k + 1\<close> ticks are enough for \<open>WaitReady\<close> to return, with success unless a reading failed.
\<close>

theorem wait_ready_returns:
  assumes "clock_ok E" and "ready_after E namespace k"
  shows "fst (run_state (WaitReady E namespace (Suc k)) h) = Some (Inr ()) \<or>
    (\<exists>h' a. se_get_endpoints E h' namespace serviceName = Inl a \<and>
       fst (run_state (WaitReady E namespace (Suc k)) h) = Some (Inl (ApiErr a)))"
  using WaitReady_returns [OF assms, of h] WaitReady_result [OF assms(1), of namespace "Suc k" h]
  unfolding wait_result_def by auto

theorem wait_ready_returns_witness:
  "fst (run_state (WaitReady setup0 ''ns'' 3) []) = Some (Inr ())"
proof -
  have "clock_ok setup0" by (rule setup0_clock) (simp add: setup0_def)
  moreover have "ready_after setup0 ''ns'' 2" by (simp add: ready_after_def setup0_def)
  ultimately have "fst (run_state (WaitReady setup0 ''ns'' (Suc 2)) []) = Some (Inr ()) \<or>
    (\<exists>h' a. se_get_endpoints setup0 h' ''ns'' serviceName = Inl a \<and>
       fst (run_state (WaitReady setup0 ''ns'' (Suc 2)) []) = Some (Inl (ApiErr a)))"
    by (rule wait_ready_returns)
  then show ?thesis by (auto simp: setup0_def numeral_3_eq_3 numeral_2_eq_2)
qed

text \<open>
  The timeout of 30 seconds never takes effect. A new timer is made for every tick, and the next tick
  always comes first: while the service has no endpoints, no number of ticks makes \<open>WaitReady\<close> return.
\<close>

theorem wait_ready_never_times_out:
  assumes "clock_ok E" and "\<And>h. se_get_endpoints E h namespace serviceName = Inr 0"
  shows "fst (run_state (WaitReady E namespace n) h) = None"
  using assms by (rule WaitReady_waits)

theorem wait_ready_never_times_out_witness:
  "fst (run_state (WaitReady (setup0\<lparr>se_get_endpoints := (\<lambda>h ns n. Inr 0)\<rparr>) ''ns'' 1000) []) = None"
proof (rule wait_ready_never_times_out)
  show "clock_ok (setup0\<lparr>se_get_endpoints := (\<lambda>h ns n. Inr 0)\<rparr>)"
    by (rule setup0_clock) (simp add: setup0_def)
qed simp

section \<open>Resource definitions and stored versions\<close>

text \<open>
  When the registration of the resource definitions succeeds, each of them has been created, updated to
  the current spec or found with it, and has been seen established. The one gap: a definition that exists
  and cannot be read counts as registered, whatever its spec.
\<close>

theorem registered_crds_established:
  assumes "run_state (RegisterCRDs E) h = (Inr (), h @ es)" and "crd \<in> set crds"
  shows "crd_present E crd es \<and>
    (\<exists>h1. \<exists>d \<in> set (fst (se_watch_crd E h1 (crd_Name crd) watchTimeout)). isCRDEstablished d)"
  using assms by (rule RegisterCRDs_ok)

theorem registered_crds_established_witness:
  "crd_present setup0 backup_crd (snd (run_state (RegisterCRDs setup0) []))"
proof -
  have "is_ok (fst (run_state (RegisterCRDs setup0) []))" by code_simp
  then have "run_state (RegisterCRDs setup0) [] = (Inr (), [] @ snd (run_state (RegisterCRDs setup0) []))"
    by (auto simp: is_ok_iff prod_eq_iff)
  moreover have "backup_crd \<in> set crds" by (simp add: crds_def)
  ultimately show ?thesis using registered_crds_established by blast
qed

text \<open>A definition that could not be read back is taken for registered and left as it is.\<close>

lemma unread_crd_left_stale:
  assumes "se_create_crd E h crd = Inl AlreadyExists"
    and "se_get_crd E (h @ [SeCreateCRD crd False]) (crd_Name crd) = Inl a"
  shows "run_state (createCRD E crd) h = (Inr (), h @ [SeCreateCRD crd False, SeGetCRD (crd_Name crd)])"
  using assms by (simp add: createCRD_def)




text \<open>
  C35: converting a cluster writes it as a v1alpha1 object, which has no resources, node selector or
  tolerations: read as v1alpha2, the spec that is sent has none of them, so a cluster that was created
  with them while the old version was still listed as stored loses them.
\<close>

theorem conversion_drops_fields:
  assumes "run_state (convertAerospikeClusters E) h = (r, h @ es)" and "SeUpdateCluster c b \<in> set es"
    and "map_of (fields_of (enc_v1_AerospikeCluster C c)) ''spec'' = Some j"
    and "dec_AerospikeClusterSpec C j = Inr s"
  shows "spec_Resources s = None \<and> spec_NodeSelector s = None \<and> spec_Tolerations s = [] \<and>
    gm_get (om_Annotations (v1_Meta c)) convertedFromAnnotationKey = Some v1_SchemeGroupVersion_Version"
proof -
  from emits_extends [OF conversion_annotates assms(1)] assms(2) have "sends_annotated (SeUpdateCluster c b)"
    by (auto simp: list_all_iff)
  moreover have "dec_AerospikeClusterSpec C (JObject (v1_spec_fields (v1_Spec c))) = Inr s"
    using assms(3,4) by (simp add: enc_v1_spec)
  ultimately show ?thesis using v1_body_without_new_fields [of C "v1_Spec c" s] by simp
qed

fun sent_cluster :: "setup_event \<Rightarrow> v1_AerospikeCluster option" where
  "sent_cluster (SeUpdateCluster c _) = Some c"
| "sent_cluster _ = None"

theorem conversion_drops_fields_witness:
  "\<exists>s. dec_AerospikeClusterSpec codec0 (JObject (v1_spec_fields (v1_Spec v1_cluster0))) = Inr s \<and>
     spec_Version s = ''4.2.0.3'' \<and> spec_Tolerations s = []"
proof -
  let ?es = "snd (run_state (convertAerospikeClusters setup0) [])"
  let ?j = "JObject (v1_spec_fields (v1_Spec v1_cluster0))"
  have "list_ex (\<lambda>e. map_option v1_Spec (sent_cluster e) = Some (v1_Spec v1_cluster0)) ?es" by code_simp
  then obtain e where e: "e \<in> set ?es" "map_option v1_Spec (sent_cluster e) = Some (v1_Spec v1_cluster0)"
    by (auto simp: list_ex_iff)
  from e(2) obtain c b where c: "e = SeUpdateCluster c b" "v1_Spec c = v1_Spec v1_cluster0"
    by (cases e) simp_all
  have "(case dec_AerospikeClusterSpec codec0 ?j of Inl _ \<Rightarrow> False | Inr s \<Rightarrow> spec_Version s = ''4.2.0.3'')"
    by code_simp
  then obtain s where s: "dec_AerospikeClusterSpec codec0 ?j = Inr s" "spec_Version s = ''4.2.0.3''"
    by (auto split: sum.splits)
  have run: "run_state (convertAerospikeClusters setup0) [] =
      (fst (run_state (convertAerospikeClusters setup0) []), [] @ ?es)" by simp
  have "SeUpdateCluster c b \<in> set ?es" using e(1) c(1) by simp
  moreover have "map_of (fields_of (enc_v1_AerospikeCluster codec0 c)) ''spec'' = Some ?j"
    by (simp add: enc_v1_spec c(2))
  ultimately show ?thesis using conversion_drops_fields [OF run] s by blast
qed

section \<open>The start as a whole\<close>



end
