(* ===== verification/ControllerRun.thy ===== *)
theory ControllerRun
  imports Controllers Examples
begin

text \<open>
  \<^verbatim>\<open>pkg/controller\<close> as a running process: what each constructor wires together, the start and the
  end of \<open>Run\<close>, and the four controllers of \<^verbatim>\<open>cmd/operator/main.go\<close> side by side, with their workers.
\<close>

section \<open>Constructors\<close>

datatype informer =
    PodInformer | ConfigMapInformer | ServiceInformer | PVCInformer | StorageClassInformer
  | JobInformer | ClusterInformer | BackupInformer | RestoreInformer

text \<open>\<open>cache.ResourceEventHandlerFuncs\<close>: a function that is not given is not called.\<close>

record event_handlers =
  AddFunc :: "informer_object \<Rightarrow> queue_call list act"
  UpdateFunc :: "ObjectMeta \<Rightarrow> ObjectMeta \<Rightarrow> queue_call list act"
  DeleteFunc :: "(informer_object \<Rightarrow> queue_call list act) option"

record controller =
  ctl_name :: string
  ctl_threadiness :: nat
  ctl_hasSyncedFuncs :: "informer list"
  ctl_syncHandler :: "string \<Rightarrow> unit acte"
  ctl_handlers :: "(informer \<times> event_handlers) list"

text \<open>\<open>enqueue\<close> on whatever it is given: only an object has a key.\<close>

definition enqueue_object :: "env \<Rightarrow> informer_object \<Rightarrow> queue_call list act" where
  "enqueue_object E obj = ret (case obj of Object m \<Rightarrow> enqueue E m | _ \<Rightarrow> [])"

definition enqueue_with_prefix :: "env \<Rightarrow> string \<Rightarrow> informer_object \<Rightarrow> queue_call list act" where
  "enqueue_with_prefix E prefix obj =
     ret (case obj of Object m \<Rightarrow> enqueueWithPrefix E m prefix | _ \<Rightarrow> [])"

definition clusterControllerDefaultThreadiness :: nat where "clusterControllerDefaultThreadiness = 6"
definition backupControllerDefaultThreadiness :: nat where "backupControllerDefaultThreadiness = 2"
definition restoreControllerDefaultThreadiness :: nat where "restoreControllerDefaultThreadiness = 2"
definition garbageCollectorControllerDefaultThreadiness :: nat where
  "garbageCollectorControllerDefaultThreadiness = 2"

definition NewAerospikeClusterController :: "env \<Rightarrow> controller" where
  "NewAerospikeClusterController E = \<lparr>
     ctl_name = ''aerospikecluster'',
     ctl_threadiness = clusterControllerDefaultThreadiness,
     ctl_hasSyncedFuncs = [PodInformer, ConfigMapInformer, ServiceInformer, PVCInformer,
       StorageClassInformer, ClusterInformer],
     ctl_syncHandler = Cluster_processQueueItem E,
     ctl_handlers = [
       (ClusterInformer, \<lparr>
          AddFunc = enqueue_object E,
          UpdateFunc = (\<lambda>_ new. enqueue_object E (Object new)),
          DeleteFunc = None\<rparr>),
       (PodInformer, \<lparr>
          AddFunc = Cluster_handleObject E,
          UpdateFunc = update_handler (Cluster_handleObject E),
          DeleteFunc = Some (Cluster_handleObject E)\<rparr>)]\<rparr>"

definition NewAerospikeNamespaceBackupController :: "env \<Rightarrow> controller" where
  "NewAerospikeNamespaceBackupController E = \<lparr>
     ctl_name = ''aerospikenamespacebackup'',
     ctl_threadiness = backupControllerDefaultThreadiness,
     ctl_hasSyncedFuncs = [BackupInformer],
     ctl_syncHandler = Backup_processQueueItem E,
     ctl_handlers = [
       (BackupInformer, \<lparr>
          AddFunc = enqueue_object E,
          UpdateFunc = (\<lambda>_ new. enqueue_object E (Object new)),
          DeleteFunc = None\<rparr>),
       (JobInformer, \<lparr>
          AddFunc = Backup_handleObject E,
          UpdateFunc = update_handler (Backup_handleObject E),
          DeleteFunc = None\<rparr>)]\<rparr>"

definition NewAerospikeNamespaceRestoreController :: "env \<Rightarrow> controller" where
  "NewAerospikeNamespaceRestoreController E = \<lparr>
     ctl_name = ''aerospikenamespacerestore'',
     ctl_threadiness = restoreControllerDefaultThreadiness,
     ctl_hasSyncedFuncs = [RestoreInformer],
     ctl_syncHandler = Restore_processQueueItem E,
     ctl_handlers = [
       (RestoreInformer, \<lparr>
          AddFunc = enqueue_object E,
          UpdateFunc = (\<lambda>_ new. enqueue_object E (Object new)),
          DeleteFunc = None\<rparr>),
       (JobInformer, \<lparr>
          AddFunc = Restore_handleObject E,
          UpdateFunc = update_handler (Restore_handleObject E),
          DeleteFunc = None\<rparr>)]\<rparr>"

definition NewGarbageCollectorController :: "env \<Rightarrow> controller" where
  "NewGarbageCollectorController E = \<lparr>
     ctl_name = ''aerospikegarbagecollector'',
     ctl_threadiness = garbageCollectorControllerDefaultThreadiness,
     ctl_hasSyncedFuncs = [BackupInformer, PVCInformer],
     ctl_syncHandler = GC_processQueueItem E,
     ctl_handlers = [
       (BackupInformer, \<lparr>
          AddFunc = enqueue_with_prefix E asnbPrefix,
          UpdateFunc = (\<lambda>_ new. enqueue_with_prefix E asnbPrefix (Object new)),
          DeleteFunc = None\<rparr>),
       (PVCInformer, \<lparr>
          AddFunc = (\<lambda>obj. ret (GC_handleObject E obj)),
          UpdateFunc = (\<lambda>_ new. ret (GC_handleObject E (Object new))),
          DeleteFunc = None\<rparr>)]\<rparr>"

text \<open>The controllers that \<open>run\<close> starts.\<close>

definition operator_controllers :: "env \<Rightarrow> controller list" where
  "operator_controllers E = [NewAerospikeClusterController E, NewAerospikeNamespaceBackupController E,
     NewAerospikeNamespaceRestoreController E, NewGarbageCollectorController E]"

section \<open>The running process\<close>

text \<open>What an informer tells its handlers.\<close>

datatype informer_event = Added informer_object | Updated ObjectMeta ObjectMeta | Deleted informer_object

definition notify :: "controller \<Rightarrow> informer \<Rightarrow> informer_event \<Rightarrow> queue_call list act" where
  "notify C source ev =
     (case map_of (ctl_handlers C) source of
        None \<Rightarrow> ret []
      | Some hs \<Rightarrow>
          (case ev of
             Added obj \<Rightarrow> AddFunc hs obj
           | Updated old new \<Rightarrow> UpdateFunc hs old new
           | Deleted obj \<Rightarrow> (case DeleteFunc hs of None \<Rightarrow> ret [] | Some f \<Rightarrow> f obj)))"

text \<open>Where a call of \<open>Run\<close> is: waiting for the caches, serving, or returned.\<close>

datatype phase = Syncing | Serving | Returned "gerr + unit"

text \<open>
  The state of a controller: the keys that have been put into its queue so far, and its workers, each
  idle or working on a key.
\<close>

record controller_state =
  ct_phase :: phase
  ct_added :: "string list"
  ct_workers :: "string option list"

record operator_state =
  os_history :: history
  os_synced :: "informer list"
  os_stopped :: bool
  os_exited :: bool
  os_controllers :: "controller_state list"

definition initial_controller :: controller_state where
  "initial_controller = \<lparr>ct_phase = Syncing, ct_added = [], ct_workers = []\<rparr>"

definition initial_operator :: "controller list \<Rightarrow> operator_state" where
  "initial_operator Cs = \<lparr>os_history = [], os_synced = [], os_stopped = False, os_exited = False,
     os_controllers = map (\<lambda>_. initial_controller) Cs\<rparr>"

definition keys_added :: "queue_call list \<Rightarrow> string list" where
  "keys_added calls = concat (map (\<lambda>q. case q of QAddRateLimited key \<Rightarrow> [key] | _ \<Rightarrow> []) calls)"

text \<open>\<open>Run\<close>, once \<open>cache.WaitForCacheSync\<close> has answered.\<close>

definition after_sync :: "controller \<Rightarrow> bool \<Rightarrow> controller_state \<Rightarrow> controller_state" where
  "after_sync C synced ct =
     (if \<not> synced
      then ct\<lparr>ct_phase := Returned (Inl (Errorf ''failed to wait for caches to sync'' []))\<rparr>
      else ct\<lparr>ct_phase := Serving, ct_workers := replicate (ctl_threadiness C) None\<rparr>)"

text \<open>
  The steps of the process. What the libraries do is left open as far as their documentation leaves it
  open: informers fill their caches and deliver events in any order; \<open>WaitForCacheSync\<close> answers true
  only when the caches it was given are filled and false only after the stop; the queue hands out only
  keys that were added to it, never one that a worker has not marked as done, and takes no more keys
  after \<open>Run\<close> has returned and shut it down, while the workers go on with what it still holds. A
  handler runs in one step; since the answers of the environment are arbitrary, that leaves out nothing
  of what it can be told in between.
\<close>

inductive operator_step :: "controller list \<Rightarrow> operator_state \<Rightarrow> operator_state \<Rightarrow> bool" for Cs where
  cache_fills: "\<not> os_exited s \<Longrightarrow> operator_step Cs s (s\<lparr>os_synced := source # os_synced s\<rparr>)"
| stop: "\<not> os_exited s \<Longrightarrow> operator_step Cs s (s\<lparr>os_stopped := True\<rparr>)"
| event: "\<not> os_exited s \<Longrightarrow> i < length Cs \<Longrightarrow> os_controllers s ! i = ct \<Longrightarrow>
    run_state (notify (Cs ! i) source ev) (os_history s) = (calls, h') \<Longrightarrow>
    (\<And>r. ct_phase ct \<noteq> Returned r) \<Longrightarrow>
    operator_step Cs s (s\<lparr>os_history := h', os_controllers := (os_controllers s)
      [i := ct\<lparr>ct_added := ct_added ct @ keys_added calls\<rparr>]\<rparr>)"
| synced: "\<not> os_exited s \<Longrightarrow> i < length Cs \<Longrightarrow> os_controllers s ! i = ct \<Longrightarrow> ct_phase ct = Syncing \<Longrightarrow>
    (if full then set (ctl_hasSyncedFuncs (Cs ! i)) \<subseteq> set (os_synced s) else os_stopped s) \<Longrightarrow>
    operator_step Cs s (s\<lparr>os_controllers := (os_controllers s)[i := after_sync (Cs ! i) full ct]\<rparr>)"
| take_item: "\<not> os_exited s \<Longrightarrow> i < length Cs \<Longrightarrow> os_controllers s ! i = ct \<Longrightarrow>
    w < length (ct_workers ct) \<Longrightarrow> ct_workers ct ! w = None \<Longrightarrow>
    key \<in> set (ct_added ct) \<Longrightarrow> Some key \<notin> set (ct_workers ct) \<Longrightarrow>
    operator_step Cs s (s\<lparr>os_controllers := (os_controllers s)
      [i := ct\<lparr>ct_workers := (ct_workers ct)[w := Some key]\<rparr>]\<rparr>)"
| process_item: "\<not> os_exited s \<Longrightarrow> i < length Cs \<Longrightarrow> os_controllers s ! i = ct \<Longrightarrow>
    w < length (ct_workers ct) \<Longrightarrow> ct_workers ct ! w = Some key \<Longrightarrow>
    run_state (processNextWorkItem (ctl_syncHandler (Cs ! i)) (StringItem key)) (os_history s) = (calls, h') \<Longrightarrow>
    operator_step Cs s (s\<lparr>os_history := h', os_controllers := (os_controllers s)
      [i := ct\<lparr>ct_workers := (ct_workers ct)[w := None]\<rparr>]\<rparr>)"
| return: "\<not> os_exited s \<Longrightarrow> i < length Cs \<Longrightarrow> os_controllers s ! i = ct \<Longrightarrow> ct_phase ct = Serving \<Longrightarrow>
    os_stopped s \<Longrightarrow>
    operator_step Cs s (s\<lparr>os_controllers := (os_controllers s)[i := ct\<lparr>ct_phase := Returned (Inr ())\<rparr>]\<rparr>)"
| exit: "\<not> os_exited s \<Longrightarrow> (\<forall>ct \<in> set (os_controllers s). \<exists>r. ct_phase ct = Returned r) \<Longrightarrow>
    operator_step Cs s (s\<lparr>os_exited := True\<rparr>)"

inductive operator_reach :: "controller list \<Rightarrow> operator_state \<Rightarrow> bool" for Cs where
  init: "operator_reach Cs (initial_operator Cs)"
| step: "operator_reach Cs s \<Longrightarrow> operator_step Cs s s' \<Longrightarrow> operator_reach Cs s'"


section \<open>Which handler makes which calls\<close>



fun reconciler_calls :: "event \<Rightarrow> bool" where
  "reconciler_calls (EvDeletePVC _ _ _) = False"
| "reconciler_calls (EvCreateSecret _ _ _) = False"
| "reconciler_calls (EvDeleteSecret _ _ _) = False"
| "reconciler_calls (EvCreateJob _ _) = False"
| "reconciler_calls (EvUpdateBackupStatus _ _) = False"
| "reconciler_calls (EvUpdateRestoreStatus _ _) = False"
| "reconciler_calls (EvDeleteBackup _ _ _) = False"
| "reconciler_calls (EvDeleteObject _ _ _) = False"
| "reconciler_calls _ = True"

lemma reads_reconciler_calls [simp]: "\<not> writes e \<Longrightarrow> reconciler_calls e"
  by (cases e) simp_all

lemma pod_calls_reconciler [simp]: "pod_calls e \<Longrightarrow> reconciler_calls e"
  by (cases e) simp_all

lemma signals_reconciler [simp]: "signals_cluster e \<Longrightarrow> reconciler_calls e"
  by (cases e) simp_all



text \<open>What makes the reconciler of a cluster create or delete pods, or write claims.\<close>

definition node_gate :: "env \<Rightarrow> AerospikeCluster \<Rightarrow> event \<Rightarrow> bool" where
  "node_gate E c e \<longleftrightarrow> (touches_nodes e \<longrightarrow>
     upgrade_status c \<noteq> Some UpgradeStatusFailedAnnotationValue \<and>
     (upgrade_of c \<noteq> Inr None \<and> upgrade_status c \<in> {None, Some UpgradeStatusBackupAnnotationValue} \<longrightarrow>
        upgrade_status c \<noteq> None \<and> backups_complete E c))"


fun job_calls :: "event \<Rightarrow> bool" where
  "job_calls (EvCreateSecret _ _ _) = True"
| "job_calls (EvDeleteSecret _ _ _) = True"
| "job_calls (EvCreateJob _ _) = True"
| "job_calls (EvUpdateBackupStatus _ _) = True"
| "job_calls (EvUpdateRestoreStatus _ _) = True"
| "job_calls e = (\<not> writes e)"

lemma reads_job_calls [simp]: "\<not> writes e \<Longrightarrow> job_calls e"
  by (cases e) simp_all



definition backup_deletion :: "AerospikeNamespaceBackup \<Rightarrow> event \<Rightarrow> bool" where
  "backup_deletion b e \<longleftrightarrow> \<not> writes e \<or>
     (\<exists>bucket n r. e = EvDeleteObject bucket n r \<and>
        n \<in> {GetMetadataObjectName (om_Name (asnb_Meta b)), GetBackupObjectName (om_Name (asnb_Meta b))}) \<or>
     (\<exists>r. e = EvDeleteBackup (om_Namespace (asnb_Meta b)) (om_Name (asnb_Meta b)) r)"


definition claim_deletion :: "PersistentVolumeClaim \<Rightarrow> event \<Rightarrow> bool" where
  "claim_deletion pvc e \<longleftrightarrow> \<not> writes e \<or>
     (\<exists>r. e = EvDeletePVC (om_Namespace (pvc_Meta pvc)) (pvc_Name pvc) r)"

text \<open>A claim that may go: its lease is over and no pod of its name mounts it.\<close>

definition claim_unused :: "env \<Rightarrow> PersistentVolumeClaim \<Rightarrow> bool" where
  "claim_unused E pvc \<longleftrightarrow>
     (\<exists>h. lease_over E pvc (env_now E h) \<and> \<not> reusable E (env_now E h) pvc) \<and>
     (\<exists>podName h. pvc_Annotation pvc PodAnnotation = Some podName \<and>
        (env_get_pod E h (om_Namespace (pvc_Meta pvc)) podName = Inl NotFound \<or>
         (\<exists>pod. env_get_pod E h (om_Namespace (pvc_Meta pvc)) podName = Inr pod \<and>
            \<not> mounts_claim pod (pvc_Name pvc))))"


section \<open>What the operator does to the world\<close>

fun deletes_pvc :: "event \<Rightarrow> bool" where
  "deletes_pvc (EvDeletePVC _ _ _) = True"
| "deletes_pvc _ = False"

fun deletes_backup :: "event \<Rightarrow> bool" where
  "deletes_backup (EvDeleteBackup _ _ _) = True"
| "deletes_backup (EvDeleteObject _ _ _) = True"
| "deletes_backup _ = False"

text \<open>
  The calls the four controllers may make between them, in terms of what they had read before: pods
  and claims are created, deleted or marked on account of a cluster in the right stage of its upgrade,
  claims are deleted when unused, backups and their objects when expired, and a job is created for a
  backup or restore that is not done.
\<close>

definition pods_for_cluster :: "env \<Rightarrow> event \<Rightarrow> bool" where
  "pods_for_cluster E e \<longleftrightarrow> (touches_nodes e \<and> \<not> deletes_pvc e \<longrightarrow>
     (\<exists>h ns n c. env_get_cluster E h ns n = Inr c \<and> node_gate E c e))"

definition deletions_due :: "env \<Rightarrow> event \<Rightarrow> bool" where
  "deletions_due E e \<longleftrightarrow>
     (deletes_pvc e \<longrightarrow>
        (\<exists>h ns n pvc. env_get_pvc E h ns n = Inr pvc \<and> claim_deletion pvc e \<and> claim_unused E pvc)) \<and>
     (deletes_backup e \<longrightarrow>
        (\<exists>h ns n b. env_get_backup E h ns n = Inr b \<and> backup_deletion b e \<and> backup_expired E b))"

definition jobs_for_unfinished :: "env \<Rightarrow> event \<Rightarrow> bool" where
  "jobs_for_unfinished E e \<longleftrightarrow> (job_calls e \<and> writes e \<longrightarrow>
     (\<exists>h ns n b. env_get_backup E h ns n = Inr b \<and> handler_call Backup_methods E b e) \<or>
     (\<exists>h ns n r. env_get_restore E h ns n = Inr r \<and> handler_call Restore_methods E r e))"

definition operator_event :: "env \<Rightarrow> event \<Rightarrow> bool" where
  "operator_event E e \<longleftrightarrow> pods_for_cluster E e \<and> deletions_due E e \<and> jobs_for_unfinished E e"


lemma operator_event_reads [simp]: "\<not> writes e \<Longrightarrow> operator_event E e"
  by (cases e) (auto simp: operator_event_def pods_for_cluster_def deletions_due_def jobs_for_unfinished_def)

















section \<open>Invariants of the process\<close>

text \<open>What holds of each controller, given the caches that are filled.\<close>

definition asked_for :: "controller \<Rightarrow> string \<Rightarrow> bool" where
  "asked_for C key \<longleftrightarrow> (\<exists>source ev h. QAddRateLimited key \<in> set (fst (run_state (notify C source ev) h)))"

definition exclusive :: "string option list \<Rightarrow> bool" where
  "exclusive ws \<longleftrightarrow> (\<forall>w < length ws. \<forall>w' < length ws. ws ! w = ws ! w' \<and> ws ! w \<noteq> None \<longrightarrow> w = w')"

definition controller_inv :: "controller \<Rightarrow> informer list \<Rightarrow> controller_state \<Rightarrow> bool" where
  "controller_inv C caches ct \<longleftrightarrow>
     length (ct_workers ct) \<in> {0, ctl_threadiness C} \<and>
     (ct_phase ct = Syncing \<longleftrightarrow> ct_workers ct = [] \<and> (\<forall>r. ct_phase ct \<noteq> Returned r)) \<and>
     (ct_workers ct \<noteq> [] \<longrightarrow> set (ctl_hasSyncedFuncs C) \<subseteq> set caches) \<and>
     (\<forall>key \<in> set (ct_added ct). asked_for C key) \<and>
     (\<forall>key. Some key \<in> set (ct_workers ct) \<longrightarrow> key \<in> set (ct_added ct)) \<and>
     exclusive (ct_workers ct)"

lemma keys_added_iff: "key \<in> set (keys_added calls) \<longleftrightarrow> QAddRateLimited key \<in> set calls"
  by (induction calls) (auto simp: keys_added_def split: queue_call.splits)

lemma exclusive_idle: "exclusive ws \<Longrightarrow> exclusive (ws[w := None])"
  by (cases "w < length ws") (auto simp: exclusive_def nth_list_update)

lemma exclusive_take: "exclusive ws \<Longrightarrow> Some key \<notin> set ws \<Longrightarrow> exclusive (ws[w := Some key])"
  by (cases "w < length ws") (auto simp: exclusive_def nth_list_update in_set_conv_nth)

lemma exclusive_replicate: "exclusive (replicate n None)"
  by (simp add: exclusive_def)

lemma in_update: "x \<in> set (ws[w := y]) \<Longrightarrow> x = y \<or> x \<in> set ws"
  using set_update_subset_insert by fastforce

text \<open>Each sort of step keeps it.\<close>

lemma inv_caches: "controller_inv C caches ct \<Longrightarrow> controller_inv C (source # caches) ct"
  by (auto simp: controller_inv_def)

lemma inv_event:
  assumes "controller_inv C caches ct" and "run_state (notify C source ev) h = (calls, h')"
  shows "controller_inv C caches (ct\<lparr>ct_added := ct_added ct @ keys_added calls\<rparr>)"
proof -
  have "asked_for C key" if "key \<in> set (keys_added calls)" for key
    using that assms(2) unfolding asked_for_def keys_added_iff by (metis fst_conv)
  then show ?thesis using assms(1) by (auto simp: controller_inv_def)
qed

lemma inv_synced:
  assumes "controller_inv C caches ct" and "ct_phase ct = Syncing"
    and "full \<Longrightarrow> set (ctl_hasSyncedFuncs C) \<subseteq> set caches" and "0 < ctl_threadiness C"
  shows "controller_inv C caches (after_sync C full ct)"
  using assms by (auto simp: controller_inv_def after_sync_def exclusive_replicate)

lemma inv_take:
  assumes "controller_inv C caches ct" and "key \<in> set (ct_added ct)" and "Some key \<notin> set (ct_workers ct)"
  shows "controller_inv C caches (ct\<lparr>ct_workers := (ct_workers ct)[w := Some key]\<rparr>)"
  using assms by (auto simp: controller_inv_def exclusive_take dest!: in_update)

lemma inv_done:
  "controller_inv C caches ct \<Longrightarrow> controller_inv C caches (ct\<lparr>ct_workers := (ct_workers ct)[w := None]\<rparr>)"
  by (auto simp: controller_inv_def exclusive_idle dest!: in_update)

lemma inv_return:
  "controller_inv C caches ct \<Longrightarrow> controller_inv C caches (ct\<lparr>ct_phase := Returned r\<rparr>)"
  by (auto simp: controller_inv_def)

definition operator_inv :: "controller list \<Rightarrow> operator_state \<Rightarrow> bool" where
  "operator_inv Cs s \<longleftrightarrow> length (os_controllers s) = length Cs \<and>
     (\<forall>i < length Cs. controller_inv (Cs ! i) (os_synced s) (os_controllers s ! i))"

lemma operator_invD:
  "operator_inv Cs s \<Longrightarrow> i < length Cs \<Longrightarrow> os_controllers s ! i = ct \<Longrightarrow>
     controller_inv (Cs ! i) (os_synced s) ct"
  by (auto simp: operator_inv_def)

lemma operator_inv_update:
  assumes "operator_inv Cs s" and "i < length Cs" and "controller_inv (Cs ! i) (os_synced s) ct"
  shows "operator_inv Cs (s\<lparr>os_history := h, os_controllers := (os_controllers s)[i := ct]\<rparr>)"
    and "operator_inv Cs (s\<lparr>os_controllers := (os_controllers s)[i := ct]\<rparr>)"
  using assms by (auto simp: operator_inv_def nth_list_update)

lemma operator_inv_step:
  assumes "operator_step Cs s s'" and inv: "operator_inv Cs s" and pos: "\<forall>C \<in> set Cs. 0 < ctl_threadiness C"
  shows "operator_inv Cs s'"
  using assms(1)
proof cases
  case (cache_fills source)
  then show ?thesis using inv by (auto simp: operator_inv_def inv_caches)
next
  case stop
  then show ?thesis using inv by (simp add: operator_inv_def)
next
  case (event i ct source ev calls h')
  then show ?thesis
    using operator_inv_update(1) [OF inv event(3) inv_event [OF operator_invD [OF inv event(3,4)] event(5)]]
    by simp
next
  case (synced i ct full)
  have "0 < ctl_threadiness (Cs ! i)" using pos synced(3) by simp
  with synced(6) have "controller_inv (Cs ! i) (os_synced s) (after_sync (Cs ! i) full ct)"
    by (intro inv_synced [OF operator_invD [OF inv synced(3,4)] synced(5)]) simp_all
  from operator_inv_update(2) [OF inv synced(3) this] show ?thesis by (simp add: synced(1))
next
  case (take_item i ct w key)
  then show ?thesis
    using operator_inv_update(2) [OF inv take_item(3) inv_take [OF operator_invD [OF inv take_item(3,4)]]]
    by simp
next
  case (process_item i ct w key calls h')
  then show ?thesis
    using operator_inv_update(1) [OF inv process_item(3) inv_done [OF operator_invD [OF inv process_item(3,4)]]]
    by simp
next
  case (return i ct)
  then show ?thesis
    using operator_inv_update(2) [OF inv return(3) inv_return [OF operator_invD [OF inv return(3,4)]]]
    by simp
next
  case exit
  then show ?thesis using inv by (simp add: operator_inv_def)
qed

lemma operator_inv_reach:
  "operator_reach Cs s \<Longrightarrow> \<forall>C \<in> set Cs. 0 < ctl_threadiness C \<Longrightarrow> operator_inv Cs s"
proof (induction rule: operator_reach.induct)
  case init
  then show ?case
    by (auto simp: operator_inv_def initial_operator_def initial_controller_def controller_inv_def exclusive_def)
qed (rule operator_inv_step)


section \<open>Runs of the process\<close>

text \<open>The steps as functions, with what they need.\<close>

definition tell :: "controller list \<Rightarrow> nat \<Rightarrow> informer \<Rightarrow> informer_event \<Rightarrow> operator_state \<Rightarrow> operator_state" where
  "tell Cs i source ev s = (case run_state (notify (Cs ! i) source ev) (os_history s) of (calls, h') \<Rightarrow>
     s\<lparr>os_history := h', os_controllers := (os_controllers s)[i := (os_controllers s ! i)
       \<lparr>ct_added := ct_added (os_controllers s ! i) @ keys_added calls\<rparr>]\<rparr>)"

definition start_serving :: "controller list \<Rightarrow> nat \<Rightarrow> operator_state \<Rightarrow> operator_state" where
  "start_serving Cs i s =
     s\<lparr>os_controllers := (os_controllers s)[i := after_sync (Cs ! i) True (os_controllers s ! i)]\<rparr>"

definition hand_out :: "nat \<Rightarrow> nat \<Rightarrow> string \<Rightarrow> operator_state \<Rightarrow> operator_state" where
  "hand_out i w key s = s\<lparr>os_controllers := (os_controllers s)[i := (os_controllers s ! i)
     \<lparr>ct_workers := (ct_workers (os_controllers s ! i))[w := Some key]\<rparr>]\<rparr>"

definition work :: "controller list \<Rightarrow> nat \<Rightarrow> nat \<Rightarrow> string \<Rightarrow> operator_state \<Rightarrow> operator_state" where
  "work Cs i w key s =
     (case run_state (processNextWorkItem (ctl_syncHandler (Cs ! i)) (StringItem key)) (os_history s) of (calls, h') \<Rightarrow>
        s\<lparr>os_history := h', os_controllers := (os_controllers s)[i := (os_controllers s ! i)
          \<lparr>ct_workers := (ct_workers (os_controllers s ! i))[w := None]\<rparr>]\<rparr>)"

definition can_return :: "controller_state \<Rightarrow> bool" where
  "can_return ct \<longleftrightarrow> (case ct_phase ct of Returned _ \<Rightarrow> False | _ \<Rightarrow> True)"

definition can_take :: "nat \<Rightarrow> string \<Rightarrow> controller_state \<Rightarrow> bool" where
  "can_take w key ct \<longleftrightarrow> w < length (ct_workers ct) \<and> ct_workers ct ! w = None \<and>
     key \<in> set (ct_added ct) \<and> Some key \<notin> set (ct_workers ct)"

lemma tell_step:
  "\<not> os_exited s \<Longrightarrow> i < length Cs \<Longrightarrow> can_return (os_controllers s ! i) \<Longrightarrow>
     operator_step Cs s (tell Cs i source ev s)"
  unfolding tell_def can_return_def
  by (auto intro!: operator_step.event split: prod.split phase.splits)

lemma start_step:
  "\<not> os_exited s \<Longrightarrow> i < length Cs \<Longrightarrow> ct_phase (os_controllers s ! i) = Syncing \<Longrightarrow>
     set (ctl_hasSyncedFuncs (Cs ! i)) \<subseteq> set (os_synced s) \<Longrightarrow> operator_step Cs s (start_serving Cs i s)"
  unfolding start_serving_def by (rule operator_step.synced) simp_all

lemma take_step:
  "\<not> os_exited s \<Longrightarrow> i < length Cs \<Longrightarrow> can_take w key (os_controllers s ! i) \<Longrightarrow>
     operator_step Cs s (hand_out i w key s)"
  unfolding hand_out_def can_take_def by (rule operator_step.take_item) simp_all

lemma work_step:
  "\<not> os_exited s \<Longrightarrow> i < length Cs \<Longrightarrow> w < length (ct_workers (os_controllers s ! i)) \<Longrightarrow>
     ct_workers (os_controllers s ! i) ! w = Some key \<Longrightarrow> operator_step Cs s (work Cs i w key s)"
  unfolding work_def by (auto intro!: operator_step.process_item split: prod.split)

text \<open>The caches filled, one controller serving, and an event it was told of.\<close>

definition all_synced :: "informer list" where
  "all_synced = [PodInformer, ConfigMapInformer, ServiceInformer, PVCInformer, StorageClassInformer,
     JobInformer, ClusterInformer, BackupInformer, RestoreInformer]"

definition filled :: "controller list \<Rightarrow> informer list \<Rightarrow> operator_state" where
  "filled Cs caches = (initial_operator Cs)\<lparr>os_synced := caches\<rparr>"

lemma filled_reach: "operator_reach Cs (filled Cs caches)"
proof (induction caches)
  case Nil
  have "filled Cs [] = initial_operator Cs" by (simp add: filled_def initial_operator_def)
  then show ?case by (simp add: operator_reach.init)
next
  case (Cons source caches)
  have "operator_step Cs (filled Cs caches) ((filled Cs caches)\<lparr>os_synced := source # os_synced (filled Cs caches)\<rparr>)"
    by (rule operator_step.cache_fills) (simp add: filled_def initial_operator_def)
  moreover have "(filled Cs caches)\<lparr>os_synced := source # os_synced (filled Cs caches)\<rparr> = filled Cs (source # caches)"
    by (simp add: filled_def)
  ultimately show ?case using operator_reach.step [OF Cons.IH] by simp
qed

definition serving :: "controller list \<Rightarrow> informer list \<Rightarrow> nat \<Rightarrow> informer \<Rightarrow> informer_event \<Rightarrow> operator_state" where
  "serving Cs caches i source ev = tell Cs i source ev (start_serving Cs i (filled Cs caches))"

lemma serving_reach:
  assumes "i < length Cs" and "set (ctl_hasSyncedFuncs (Cs ! i)) \<subseteq> set caches"
  shows "operator_reach Cs (serving Cs caches i source ev)"
proof -
  have "operator_step Cs (filled Cs caches) (start_serving Cs i (filled Cs caches))"
    using assms by (intro start_step) (simp_all add: filled_def initial_operator_def initial_controller_def)
  with filled_reach have "operator_reach Cs (start_serving Cs i (filled Cs caches))"
    by (rule operator_reach.step)
  moreover have "operator_step Cs (start_serving Cs i (filled Cs caches)) (serving Cs caches i source ev)"
    using assms(1) unfolding serving_def
    by (intro tell_step)
      (simp_all add: start_serving_def after_sync_def can_return_def filled_def initial_operator_def)
  ultimately show ?thesis by (rule operator_reach.step)
qed

section \<open>Properties\<close>

lemma operator_threadiness: "\<forall>C \<in> set (operator_controllers E). 0 < ctl_threadiness C"
  by (simp add: operator_controllers_def NewAerospikeClusterController_def
      NewAerospikeNamespaceBackupController_def NewAerospikeNamespaceRestoreController_def
      NewGarbageCollectorController_def clusterControllerDefaultThreadiness_def
      backupControllerDefaultThreadiness_def restoreControllerDefaultThreadiness_def
      garbageCollectorControllerDefaultThreadiness_def)




text \<open>A run in which the collector is told of a backup that has expired.\<close>

definition collecting :: operator_state where
  "collecting = hand_out 3 0 ''asnb:k/b0''
     (serving (operator_controllers env0) all_synced 3 BackupInformer (Added (Object (asnb_Meta backup0))))"

lemma served_backup:
  "serving (operator_controllers env0) all_synced 3 BackupInformer (Added (Object (asnb_Meta backup0))) =
     \<lparr>os_history = [], os_synced = all_synced, os_stopped = False, os_exited = False,
       os_controllers = [initial_controller, initial_controller, initial_controller,
         \<lparr>ct_phase = Serving, ct_added = [''asnb:k/b0''], ct_workers = [None, None]\<rparr>]\<rparr>"
  by code_simp

lemma collecting_eq:
  "collecting =
     \<lparr>os_history = [], os_synced = all_synced, os_stopped = False, os_exited = False,
       os_controllers = [initial_controller, initial_controller, initial_controller,
         \<lparr>ct_phase = Serving, ct_added = [''asnb:k/b0''], ct_workers = [Some ''asnb:k/b0'', None]\<rparr>]\<rparr>"
  by (simp add: collecting_def served_backup hand_out_def)

lemma collector_in_place [simp]:
  "length (operator_controllers E) = 4" "operator_controllers E ! 3 = NewGarbageCollectorController E"
  by (simp_all add: operator_controllers_def)

lemma collecting_started: "operator_reach (operator_controllers env0) collecting"
proof -
  let ?Cs = "operator_controllers env0"
  let ?s = "serving ?Cs all_synced 3 BackupInformer (Added (Object (asnb_Meta backup0)))"
  have "operator_reach ?Cs ?s"
    by (rule serving_reach) (simp_all add: NewGarbageCollectorController_def all_synced_def)
  moreover have "operator_step ?Cs ?s collecting"
    unfolding collecting_def by (rule take_step) (simp_all add: served_backup can_take_def)
  ultimately show ?thesis by (rule operator_reach.step)
qed






text \<open>
  The pod an event is about, when the handlers of the controller of clusters look at it: an update
  with the version unchanged is one of a periodic resync.
\<close>

definition about_pod :: "informer_event \<Rightarrow> ObjectMeta option" where
  "about_pod ev =
     (case ev of
        Updated old new \<Rightarrow> if om_ResourceVersion new = om_ResourceVersion old then None else Some new
      | Added obj \<Rightarrow> (case obj of Object m \<Rightarrow> Some m | Tombstone m \<Rightarrow> m | NotAnObject \<Rightarrow> None)
      | Deleted obj \<Rightarrow> (case obj of Object m \<Rightarrow> Some m | Tombstone m \<Rightarrow> m | NotAnObject \<Rightarrow> None))"

lemma notify_pod:
  assumes "about_pod ev = Some m" and "env_controller_of E m = Some ref" and "or_Kind ref = ''AerospikeCluster''"
    and "env_get_cluster E h (om_Namespace m) (or_Name ref) = Inr c" and "env_meta_key E (asc_Meta c) = Inr key"
  shows "run_state (notify (NewAerospikeClusterController E) PodInformer ev) h =
    ([QAddRateLimited key], h @ [EvGet KCluster (om_Namespace m) (or_Name ref)])"
proof -
  have "run_state (Cluster_handleObject E obj) h = ([QAddRateLimited key], h @ [EvGet KCluster (om_Namespace m) (or_Name ref)])"
    if "(case obj of Object x \<Rightarrow> Some x | Tombstone x \<Rightarrow> x | NotAnObject \<Rightarrow> None) = Some m" for obj
    using assms(2-5) that by (simp add: Cluster_handleObject_def handle_owned_def enqueue_def)
  then show ?thesis
    using assms(1)
    by (cases ev) (auto simp: about_pod_def notify_def NewAerospikeClusterController_def update_handler_def split: if_splits)
qed

definition reconciles :: "env \<Rightarrow> ObjectMeta \<Rightarrow> history \<Rightarrow> history \<Rightarrow> bool" where
  "reconciles E m h h' \<longleftrightarrow>
     (case env_get_cluster E h (om_Namespace m) (om_Name m) of
        Inl err \<Rightarrow> h' = h @ [EvGet KCluster (om_Namespace m) (om_Name m)]
      | Inr c \<Rightarrow> h' = snd (run_state (MaybeReconcile E c) (h @ [EvGet KCluster (om_Namespace m) (om_Name m)])))"

lemma Cluster_item_reconciles:
  assumes "env_split_key E key = Inr (om_Namespace m, om_Name m)"
  shows "reconciles E m h
    (snd (run_state (processNextWorkItem (Cluster_processQueueItem E) (StringItem key)) h))"
  using assms unfolding reconciles_def processNextWorkItem_def Cluster_processQueueItem_def
  by (auto split: sum.split prod.split)

text \<open>
  A pod of a cluster that is created, changes or goes away has the cluster reconciled. When the
  controller of clusters is serving with a worker to spare, and is told of a pod whose owner is found,
  three steps of the process (the event, a worker taking the key, the worker processing it) read that
  cluster again and reconcile it as it is then; only a cluster that is gone, or cannot be read, is not.
\<close>

lemma pod_event_reconciles:
  assumes live: "\<not> os_exited s" "length (os_controllers s) = 4"
    and ct: "ct_phase (os_controllers s ! 0) = Serving" "w < length (ct_workers (os_controllers s ! 0))"
      "ct_workers (os_controllers s ! 0) ! w = None"
    and pod: "about_pod ev = Some m" "env_controller_of E m = Some ref" "or_Kind ref = ''AerospikeCluster''"
      "env_get_cluster E (os_history s) (om_Namespace m) (or_Name ref) = Inr c"
    and key: "env_meta_key E (asc_Meta c) = Inr key"
      "env_split_key E key = Inr (om_Namespace (asc_Meta c), om_Name (asc_Meta c))"
      "Some key \<notin> set (ct_workers (os_controllers s ! 0))"
  obtains s1 s2 s3 where "s1 = tell (operator_controllers E) 0 PodInformer ev s"
    "operator_step (operator_controllers E) s s1" "operator_step (operator_controllers E) s1 s2"
    "operator_step (operator_controllers E) s2 s3"
    "os_history s1 = os_history s @ [EvGet KCluster (om_Namespace m) (or_Name ref)]"
    "reconciles E (asc_Meta c) (os_history s1) (os_history s3)"
proof -
  let ?Cs = "operator_controllers E"
  let ?s1 = "tell ?Cs 0 PodInformer ev s"
  let ?s2 = "hand_out 0 w key ?s1" and ?s3 = "work ?Cs 0 w key (hand_out 0 w key ?s1)"
  have Cs: "0 < length ?Cs" "?Cs ! 0 = NewAerospikeClusterController E"
    "ctl_syncHandler (?Cs ! 0) = Cluster_processQueueItem E"
    by (simp_all add: operator_controllers_def NewAerospikeClusterController_def)
  note told = notify_pod [OF pod key(1)]
  have s1: "ct_workers (os_controllers ?s1 ! 0) = ct_workers (os_controllers s ! 0)"
    "key \<in> set (ct_added (os_controllers ?s1 ! 0))" "length (os_controllers ?s1) = 4" "\<not> os_exited ?s1"
    "os_history ?s1 = os_history s @ [EvGet KCluster (om_Namespace m) (or_Name ref)]"
    using live by (simp_all add: tell_def Cs(2) told keys_added_def)
  have "operator_step ?Cs s ?s1"
    using live ct Cs(1) by (intro tell_step) (simp_all add: can_return_def)
  moreover have "operator_step ?Cs ?s1 ?s2"
    using s1 ct key(3) Cs(1) by (intro take_step) (simp_all add: can_take_def)
  moreover have "operator_step ?Cs ?s2 ?s3"
    using s1 ct Cs(1) by (intro work_step) (simp_all add: hand_out_def)
  moreover have "os_history ?s3 = snd (run_state (processNextWorkItem (Cluster_processQueueItem E)
      (StringItem key)) (os_history ?s1))"
    by (simp add: work_def hand_out_def Cs(3) split: prod.split)
  then have "reconciles E (asc_Meta c) (os_history ?s1) (os_history ?s3)"
    using Cluster_item_reconciles [OF key(2)] by simp
  ultimately show thesis using that s1(5) by blast
qed


text \<open>Once the process is to stop, the calls of \<open>Run\<close> can return one after the other.\<close>

lemma return_one:
  assumes "operator_reach Cs s" and "os_stopped s" and "\<not> os_exited s" and "i < length Cs"
    and "length (os_controllers s) = length Cs"
  shows "\<exists>r. operator_reach Cs (s\<lparr>os_controllers := (os_controllers s)
    [i := (os_controllers s ! i)\<lparr>ct_phase := Returned r\<rparr>]\<rparr>)"
proof (cases "ct_phase (os_controllers s ! i)")
  case Syncing
  have "operator_step Cs s (s\<lparr>os_controllers := (os_controllers s)
      [i := after_sync (Cs ! i) False (os_controllers s ! i)]\<rparr>)"
    by (rule operator_step.synced) (simp_all add: assms Syncing)
  from operator_reach.step [OF assms(1) this] show ?thesis by (auto simp: after_sync_def)
next
  case Serving
  have "operator_step Cs s (s\<lparr>os_controllers := (os_controllers s)
      [i := (os_controllers s ! i)\<lparr>ct_phase := Returned (Inr ())\<rparr>]\<rparr>)"
    by (rule operator_step.return) (simp_all add: assms Serving)
  from operator_reach.step [OF assms(1) this] show ?thesis by blast
next
  case (Returned r)
  then have "(os_controllers s ! i)\<lparr>ct_phase := Returned r\<rparr> = os_controllers s ! i" by simp
  then have "s\<lparr>os_controllers := (os_controllers s)
      [i := (os_controllers s ! i)\<lparr>ct_phase := Returned r\<rparr>]\<rparr> = s" by simp
  then show ?thesis using assms(1) by metis
qed

lemma return_all:
  assumes "operator_reach Cs s" and "os_stopped s" and "\<not> os_exited s"
    and "length (os_controllers s) = length Cs" and "n \<le> length Cs"
  shows "\<exists>cts. operator_reach Cs (s\<lparr>os_controllers := cts\<rparr>) \<and> map ct_workers cts = map ct_workers (os_controllers s) \<and>
    (\<forall>i < n. \<exists>r. ct_phase (cts ! i) = Returned r)"
  using assms(5)
proof (induction n)
  case 0
  have "s\<lparr>os_controllers := os_controllers s\<rparr> = s" by simp
  then show ?case using assms(1) by (metis not_less0)
next
  case (Suc n)
  then obtain cts where cts: "operator_reach Cs (s\<lparr>os_controllers := cts\<rparr>)"
    "map ct_workers cts = map ct_workers (os_controllers s)"
    "\<forall>i < n. \<exists>r. ct_phase (cts ! i) = Returned r" by auto
  from cts(2) assms(4) have len: "length cts = length Cs" by (metis length_map)
  obtain r where r: "operator_reach Cs (s\<lparr>os_controllers := cts[n := (cts ! n)\<lparr>ct_phase := Returned r\<rparr>]\<rparr>)"
    using return_one [OF cts(1), of n] assms(2,3) len Suc.prems by auto
  have "map ct_workers (cts[n := (cts ! n)\<lparr>ct_phase := Returned r\<rparr>]) = map ct_workers cts"
    by (simp add: map_update) (metis list_update_id map_update)
  moreover have "\<forall>i < Suc n. \<exists>r'. ct_phase (cts[n := (cts ! n)\<lparr>ct_phase := Returned r\<rparr>] ! i) = Returned r'"
    using cts(3) len Suc.prems by (auto simp: nth_list_update less_Suc_eq)
  ultimately show ?case using r cts(2) by metis
qed

text \<open>
  C39: nobody waits for the workers. From any state of the process, whatever its workers are in the middle
  of, it can be stopped and exit with all of them as they are: \<open>Run\<close> returns as soon as the stop channel
  is closed, and the main program exits once all calls of \<open>Run\<close> have returned.
\<close>

theorem exit_does_not_wait_for_workers:
  assumes "operator_reach (operator_controllers E) s" and "\<not> os_exited s"
  shows "\<exists>s'. operator_reach (operator_controllers E) s' \<and> os_exited s' \<and> os_history s' = os_history s \<and>
    map ct_workers (os_controllers s') = map ct_workers (os_controllers s)"
proof -
  let ?Cs = "operator_controllers E" and ?s = "s\<lparr>os_stopped := True\<rparr>"
  have len: "length (os_controllers s) = length ?Cs"
    using operator_inv_reach [OF assms(1) operator_threadiness] by (simp add: operator_inv_def)
  have "operator_reach ?Cs ?s"
    using operator_reach.step [OF assms(1) operator_step.stop [OF assms(2)]] .
  from return_all [OF this _ _ _ order_refl] len assms(2) obtain cts where
    cts: "operator_reach ?Cs (?s\<lparr>os_controllers := cts\<rparr>)" "map ct_workers cts = map ct_workers (os_controllers s)"
      "\<forall>i < length ?Cs. \<exists>r. ct_phase (cts ! i) = Returned r" by auto
  have "length cts = length ?Cs" using cts(2) len by (metis length_map)
  then have "\<forall>ct \<in> set cts. \<exists>r. ct_phase ct = Returned r" using cts(3) by (metis in_set_conv_nth)
  then have "operator_step ?Cs (?s\<lparr>os_controllers := cts\<rparr>) (?s\<lparr>os_controllers := cts, os_exited := True\<rparr>)"
    using operator_step.exit [of "?s\<lparr>os_controllers := cts\<rparr>"] assms(2) by simp
  with operator_reach.step [OF cts(1)] have "operator_reach ?Cs (?s\<lparr>os_controllers := cts, os_exited := True\<rparr>)" .
  with cts(2) show ?thesis by (intro exI [of _ "?s\<lparr>os_controllers := cts, os_exited := True\<rparr>"] conjI) simp_all
qed

theorem exit_does_not_wait_for_workers_witness:
  "\<exists>s. operator_reach (operator_controllers env0) s \<and> os_exited s \<and>
     map ct_workers (os_controllers s) = [[], [], [], [Some ''asnb:k/b0'', None]]"
proof -
  have "\<not> os_exited collecting" by (simp add: collecting_eq)
  moreover have "map ct_workers (os_controllers collecting) = [[], [], [], [Some ''asnb:k/b0'', None]]"
    by (simp add: collecting_eq initial_controller_def)
  ultimately show ?thesis using collecting_started exit_does_not_wait_for_workers by metis
qed

definition env_new_backup :: env where
  "env_new_backup = env0\<lparr>env_get_backup := (\<lambda>h ns n. Inr backup0)\<rparr>"

text \<open>
  The controllers of backups and restores do not wait for the caches their handler reads. There is a
  run in which a backup is handled, and a job created for it, after looking for the job in a cache that has
  not been filled.
\<close>

theorem job_cache_read_unsynced:
  "\<exists>s. operator_reach (operator_controllers env_new_backup) s \<and> JobInformer \<notin> set (os_synced s) \<and>
     EvGet KJob ''k'' (getJobName Backup_methods backup0) \<in> set (os_history s) \<and>
     list_ex creates_job (os_history s)"
proof -
  let ?Cs = "operator_controllers env_new_backup"
  let ?s = "serving ?Cs [BackupInformer] 1 BackupInformer (Added (Object (asnb_Meta backup0)))"
  let ?s1 = "hand_out 1 0 ''k/b0'' ?s" and ?s2 = "work ?Cs 1 0 ''k/b0'' (hand_out 1 0 ''k/b0'' ?s)"
  have s: "?s = \<lparr>os_history = [], os_synced = [BackupInformer], os_stopped = False, os_exited = False,
      os_controllers = [initial_controller, \<lparr>ct_phase = Serving, ct_added = [''k/b0''], ct_workers = [None, None]\<rparr>,
        initial_controller, initial_controller]\<rparr>"
    by code_simp
  have "operator_reach ?Cs ?s"
    by (rule serving_reach) (simp_all add: operator_controllers_def NewAerospikeNamespaceBackupController_def)
  moreover have "operator_step ?Cs ?s ?s1" unfolding s by (rule take_step) (simp_all add: can_take_def)
  moreover have "operator_step ?Cs ?s1 ?s2" unfolding s by (rule work_step) (simp_all add: hand_out_def)
  ultimately have "operator_reach ?Cs ?s2" by (blast intro: operator_reach.step)
  moreover have "JobInformer \<notin> set (os_synced ?s2)" unfolding s by (simp add: work_def hand_out_def split: prod.split)
  moreover have "EvGet KJob ''k'' (getJobName Backup_methods backup0) \<in> set (os_history ?s2) \<and>
      list_ex creates_job (os_history ?s2)" by code_simp
  ultimately show ?thesis by blast
qed

end
