(* ===== verification/PodStore.thy ===== *)
theory PodStore
  imports Reconciler
begin

text \<open>
  The pods of an API server that remembers what it was told: those of a start list to which the
  calls of the history have been applied. The locale \<open>pod_store\<close> states the laws such a server
  obeys, which are documented behaviour of Kubernetes. The rest is about lists of pods: which pods
  belong to a cluster, what the rounds of the reconciler make of them, and what they converge to.
\<close>

section \<open>The pods a history leaves\<close>

abbreviation pod_key :: "Pod \<Rightarrow> string \<times> string" where
  "pod_key p \<equiv> (pod_Namespace p, pod_Name p)"

text \<open>\<open>start\<close> makes of the object that is posted the pod that is seen once it has started.\<close>

fun store_pod :: "(Pod \<Rightarrow> Pod) \<Rightarrow> event \<Rightarrow> Pod list \<Rightarrow> Pod list" where
  "store_pod start (EvCreatePod p True) ps = ps @ [start p]"
| "store_pod start (EvDeletePod ns n g True) ps = filter (\<lambda>p. pod_key p \<noteq> (ns, n)) ps"
| "store_pod start e ps = ps"

definition pods_at :: "(Pod \<Rightarrow> Pod) \<Rightarrow> Pod list \<Rightarrow> history \<Rightarrow> Pod list" where
  "pods_at start P h = fold (store_pod start) h P"

definition find_pod :: "string \<times> string \<Rightarrow> Pod list \<Rightarrow> Pod option" where
  "find_pod k ps = find (\<lambda>p. pod_key p = k) ps"

definition pod_selected :: "string \<Rightarrow> labels \<Rightarrow> Pod \<Rightarrow> bool" where
  "pod_selected ns sel p \<longleftrightarrow> pod_Namespace p = ns \<and> selects sel (gm_make (om_Labels (pod_Meta p)))"

definition drop_pod :: "string \<times> string \<Rightarrow> Pod list \<Rightarrow> Pod list" where
  "drop_pod k ps = filter (\<lambda>p. pod_key p \<noteq> k) ps"

lemma set_drop_pod [simp]: "set (drop_pod k ps) = {p \<in> set ps. pod_key p \<noteq> k}"
  by (simp add: drop_pod_def)

lemma drop_absent [simp]: "find_pod k ps = None \<Longrightarrow> drop_pod k ps = ps"
  by (auto simp: drop_pod_def find_pod_def find_None_iff filter_id_conv)

lemma pods_at_simps [simp]:
  "pods_at start P [] = P"
  "pods_at start P (h @ es) = fold (store_pod start) es (pods_at start P h)"
  by (simp_all add: pods_at_def)

lemma store_pod_other [simp]: "\<not> touches_pods e \<Longrightarrow> store_pod start e ps = ps"
  by (cases e) simp_all

lemma not_writes_touches [simp]: "\<not> writes e \<Longrightarrow> \<not> touches_pods e"
  by (cases e) simp_all

lemma pods_at_quiet:
  assumes "emits (\<lambda>e. \<not> touches_pods e) m" and "run_state m h = (r, h')"
  shows "pods_at start P h' = pods_at start P h"
proof -
  from emits_extends [OF assms] obtain es where es: "h' = h @ es" "list_all (\<lambda>e. \<not> touches_pods e) es"
    by blast
  from es(2) have "fold (store_pod start) es ps = ps" for ps by (induction es) simp_all
  then show ?thesis by (simp add: es(1) pods_at_def)
qed

lemma find_pod_none: "find_pod k ps = None \<longleftrightarrow> k \<notin> pod_key ` set ps"
  by (auto simp: find_pod_def find_None_iff)

lemma find_pod_append: "find_pod k (ps @ qs) = (case find_pod k ps of None \<Rightarrow> find_pod k qs | Some p \<Rightarrow> Some p)"
  by (induction ps) (simp_all add: find_pod_def)

lemma find_pod_single [simp]: "find_pod k [p] = (if pod_key p = k then Some p else None)"
  by (simp add: find_pod_def)

lemma find_pod_some: "find_pod k ps = Some p \<Longrightarrow> p \<in> set ps \<and> pod_key p = k"
  by (auto simp: find_pod_def find_Some_iff)

lemma find_pod_eq: "distinct (map pod_key ps) \<Longrightarrow> p \<in> set ps \<Longrightarrow> find_pod (pod_key p) ps = Some p"
  by (induction ps) (auto simp: find_pod_def rev_image_eqI)

section \<open>Pods that start and stop\<close>

lemma post_keep:
  "emits (\<lambda>e. \<not> touches_pods e) m \<Longrightarrow>
     post (\<lambda>h. pods_at start P h = ps) m (\<lambda>_ h. pods_at start P h = ps)"
  by (rule postI) (simp add: pods_at_quiet)

text \<open>What a watch may show of a pod that is on its way to being ready.\<close>

fun starting :: "env \<Rightarrow> Pod watch_event \<Rightarrow> bool" where
  "starting E (WatchAdded p) = (\<not> isPodInFailureState p \<and> \<not> isPodRunningAndReady E p)"
| "starting E (WatchModified p) = (\<not> isPodInFailureState p \<and> \<not> isPodRunningAndReady E p)"
| "starting E _ = False"

lemma run_until_started:
  assumes "\<forall>e \<in> set pre. starting E e" and "\<not> isPodInFailureState p" and "isPodRunningAndReady E p"
  shows "run_state (UntilWithSync (pod_started E c) err s (pre @ WatchModified p # rest)) h =
     ((p, Inr (Some (WatchModified p))), h)"
  using assms(1)
proof (induction pre arbitrary: s)
  case Nil
  then show ?case using assms(2,3) by simp
next
  case (Cons e pre)
  then show ?case by (cases e) simp_all
qed

lemma run_until_deleted:
  assumes "\<forall>e \<in> set pre. \<not> is_deleted e"
  shows "run_state (UntilWithSync (\<lambda>s event. ret ((), Inr (is_deleted event))) err () (pre @ WatchDeleted p # rest)) h =
     (((), Inr (Some (WatchDeleted p))), h)"
  using assms by (induction pre) simp_all

text \<open>
  The laws of the pod store. A started pod has the name, the labels, the annotations and the spec
  it was posted with; a watch of a pod that exists shows it ready after some events that do not
  yet, and a watch of one that does not exist shows its deletion.
\<close>

locale pod_store =
  fixes E :: env and start :: "Pod \<Rightarrow> Pod" and P :: "Pod list"
  assumes start_meta: "pod_Meta (start p) = pod_Meta p" "pod_Spec (start p) = pod_Spec p"
    and start_up: "isPodRunningAndReady E (start p)" "\<not> isPodInFailureState (start p)"
    and list_pods: "env_list_pods E h ns sel = Inr (filter (pod_selected ns sel) (pods_at start P h))"
    and get_pod: "env_get_pod E h ns n =
      (case find_pod (ns, n) (pods_at start P h) of None \<Rightarrow> Inl NotFound | Some p \<Rightarrow> Inr p)"
    and create_pod: "find_pod (pod_key p) (pods_at start P h) = None \<Longrightarrow>
      \<exists>res. env_create_pod E h p = Inr res \<and> pod_key res = pod_key p"
    and delete_pod: "find_pod (ns, n) (pods_at start P h) \<noteq> None \<Longrightarrow> env_delete_pod E h ns n = Inr ()"
    and watch_present: "find_pod (ns, n) (pods_at start P h) = Some p \<Longrightarrow>
      isPodRunningAndReady E p \<Longrightarrow> \<not> isPodInFailureState p \<Longrightarrow>
      \<exists>pre rest err. env_watch_pod E h ns n t = (pre @ WatchModified p # rest, err) \<and>
        (\<forall>e \<in> set pre. starting E e)"
    and watch_gone: "find_pod (ns, n) (pods_at start P h) = None \<Longrightarrow>
      \<exists>pre q rest err. env_watch_pod E h ns n t = (pre @ WatchDeleted q # rest, err) \<and>
        (\<forall>e \<in> set pre. \<not> is_deleted e)"
begin

abbreviation pods :: "history \<Rightarrow> Pod list" where
  "pods \<equiv> pods_at start P"

lemma returns_quiet:
  assumes "\<And>h. pods h = ps \<Longrightarrow> \<exists>x. f h = Inr x" and "\<And>r. \<not> touches_pods (ev r)"
  shows "returns (\<lambda>h. pods h = ps) (call ev (\<lambda>h. map_sum g id (f h))) (\<lambda>_ h. pods h = ps)"
proof (rule returns_call)
  fix h
  assume "pods h = ps"
  moreover from this obtain x where "f h = Inr x" using assms(1) by blast
  ultimately show "\<exists>x. map_sum g id (f h) = Inr x \<and> pods (h @ [ev (Inr x)]) = ps"
    by (simp add: assms(2))
qed

lemma returns_list:
  "returns (\<lambda>h. pods h = ps) (listClusterPods E c) (\<lambda>r h. pods h = ps \<and>
     r = byIndex (filter (pod_selected (asc_Namespace c) (ResourcesByClusterName (asc_Name c))) ps))"
  by (simp add: returns_def listClusterPods_def list_pods)

lemma returns_running:
  "returns (\<lambda>h. pods h = ps) (listClusterRunningPods E c) (\<lambda>r h. pods h = ps \<and>
     r = filter (\<lambda>p. \<not> isPodInFailureState p)
       (filter (pod_selected (asc_Namespace c) (ResourcesByClusterName (asc_Name c))) ps))"
  by (simp add: returns_def listClusterRunningPods_def list_pods)

lemma returns_getPod:
  "returns (\<lambda>h. pods h = ps) (getPodWithIndex E c i)
     (\<lambda>r h. pods h = ps \<and> r = find_pod (asc_Namespace c, pod_name c i) ps)"
  by (auto simp: returns_def getPodWithIndex_def get_pod split: option.splits)

lemma returns_delete_call:
  assumes "p \<in> set ps"
  shows "returns (\<lambda>h. pods h = ps) (Pods_Delete E (pod_Namespace p) (pod_Name p) g)
     (\<lambda>_ h. pods h = drop_pod (pod_key p) ps)"
proof (rule returns_call)
  fix h
  assume h: "pods h = ps"
  then have "find_pod (pod_key p) (pods h) \<noteq> None" using assms by (auto simp: find_pod_none)
  then show "\<exists>x. of_api (env_delete_pod E h (pod_Namespace p) (pod_Name p)) = Inr x \<and>
      pods (h @ [EvDeletePod (pod_Namespace p) (pod_Name p) g (is_ok (Inr x))]) =
        drop_pod (pod_key p) ps"
    using h delete_pod by (simp add: drop_pod_def)
qed

lemma wait_gone:
  assumes "pods h = ps" and "pod_key p \<notin> pod_key ` set ps"
  shows "\<exists>h'. run_state (waitForPodCondition E p (\<lambda>s event. ret (s, Inr (is_deleted event))) () t) h =
      (((), Inr ()), h') \<and> pods h' = ps"
proof -
  have "find_pod (pod_key p) (pods h) = None" using assms by (simp add: find_pod_none)
  from watch_gone [OF this] obtain pre q rest err where
    w: "env_watch_pod E h (pod_Namespace p) (pod_Name p) t = (pre @ WatchDeleted q # rest, err)"
    and "\<forall>e \<in> set pre. \<not> is_deleted e" by blast
  then show ?thesis using assms(1) by (simp add: waitForPodCondition_def run_until_deleted)
qed

lemma wait_started:
  assumes "pods h = ps" and "find_pod (pod_key p) ps = Some q"
    and "isPodRunningAndReady E q" "\<not> isPodInFailureState q"
  shows "\<exists>h'. run_state (waitForPodCondition E p (pod_started E c) s t) h = ((q, Inr ()), h') \<and> pods h' = ps"
proof -
  have "find_pod (pod_key p) (pods h) = Some q" using assms by simp
  from watch_present [OF this assms(3,4)] obtain pre rest err where
    w: "env_watch_pod E h (pod_Namespace p) (pod_Name p) t = (pre @ WatchModified q # rest, err)"
    and "\<forall>e \<in> set pre. starting E e" by blast
  then show ?thesis
    using assms(1,3,4) by (simp add: waitForPodCondition_def run_until_started)
qed

text \<open>A pod that is posted under a free name is started.\<close>

lemma returns_start:
  assumes "pod_key pod \<notin> pod_key ` set ps"
  shows "returns (\<lambda>h. pods h = ps) (start_pod E c pod) (\<lambda>r h. r = start pod \<and> pods h = ps @ [start pod])"
  unfolding returns_def
proof (intro allI impI)
  fix h
  assume h: "pods h = ps"
  have "find_pod (pod_key pod) (pods h) = None" using assms h by (simp add: find_pod_none)
  from create_pod [OF this] obtain res where
    res: "env_create_pod E h pod = Inr res" "pod_key res = pod_key pod" by blast
  let ?h = "h @ [EvCreatePod pod True]"
  have "find_pod (pod_key res) (ps @ [start pod]) = Some (start pod)"
    using assms by (simp add: find_pod_append find_pod_none [THEN iffD2] res(2) start_meta)
  moreover have "pods ?h = ps @ [start pod]" using h by simp
  ultimately obtain h' where
    "run_state (waitForPodCondition E res (pod_started E c) res watchCreatePodTimeout) ?h =
       ((start pod, Inr ()), h')" and "pods h' = ps @ [start pod]"
    using wait_started start_up by blast
  then show "\<exists>x h'. run_state (start_pod E c pod) h = (Inr x, h') \<and> x = start pod \<and> pods h' = ps @ [start pod]"
    by (simp add: start_pod_def res)
qed

end

section \<open>The pods of a cluster\<close>

text \<open>The pods of a cluster, as the operator lists them.\<close>

definition cluster_pods :: "AerospikeCluster \<Rightarrow> Pod list \<Rightarrow> Pod list" where
  "cluster_pods c ps = filter (pod_selected (asc_Namespace c) (ResourcesByClusterName (asc_Name c))) ps"

abbreviation slot :: "AerospikeCluster \<Rightarrow> int \<Rightarrow> string \<times> string" where
  "slot c i \<equiv> (asc_Namespace c, pod_name c i)"


text \<open>
  A pod with the current configuration, a pod that runs the version of the spec, and one just started
  for an index. \<open>G\<close> is what the rounds of a pass want of a pod: the configuration outside an
  upgrade, the version during one.
\<close>

definition up_to_date :: "ConfigMap \<Rightarrow> Pod \<Rightarrow> bool" where
  "up_to_date cm p \<longleftrightarrow> \<not> isPodInFailureState p \<and>
     str_at (om_Annotations (pod_Meta p)) configMapHashAnnotation = config_hash cm"

definition server_version :: "Pod \<Rightarrow> string" where
  "server_version p = trim_prefix ''aerospike/aerospike-server:'' (ct_Image (hd (ps_Containers (pod_Spec p))))"

definition upgraded :: "AerospikeCluster \<Rightarrow> Pod \<Rightarrow> bool" where
  "upgraded c p \<longleftrightarrow> \<not> isPodInFailureState p \<and> server_version p = spec_Version (asc_Spec c)"

definition fresh_pod :: "env \<Rightarrow> AerospikeCluster \<Rightarrow> (Pod \<Rightarrow> bool) \<Rightarrow> int \<Rightarrow> Pod \<Rightarrow> bool" where
  "fresh_pod E c G i p \<longleftrightarrow> pod_key p = slot c i \<and> om_Labels (pod_Meta p) = Some (cluster_labels c) \<and>
     G p \<and> upgraded c p \<and> isPodRunningAndReady E p"

text \<open>What a round for an index makes of the pods: nothing when its pod is as wanted, else a new pod.\<close>

definition has_current :: "AerospikeCluster \<Rightarrow> (Pod \<Rightarrow> bool) \<Rightarrow> int \<Rightarrow> Pod list \<Rightarrow> bool" where
  "has_current c G i ps \<longleftrightarrow> (\<exists>p. find_pod (slot c i) ps = Some p \<and> G p)"

definition ensured :: "env \<Rightarrow> AerospikeCluster \<Rightarrow> (Pod \<Rightarrow> bool) \<Rightarrow> int \<Rightarrow> Pod list \<Rightarrow> Pod list \<Rightarrow> bool" where
  "ensured E c G i ps ps' \<longleftrightarrow>
     (if has_current c G i ps then ps' = ps
      else \<exists>q. fresh_pod E c G i q \<and> ps' = drop_pod (slot c i) ps @ [q])"

section \<open>What the rounds make of the pods\<close>

abbreviation ours :: "AerospikeCluster \<Rightarrow> Pod \<Rightarrow> bool" where
  "ours c \<equiv> pod_selected (asc_Namespace c) (ResourcesByClusterName (asc_Name c))"

text \<open>
  Names are unique, and a pod is one of the cluster, by its labels, exactly when its name is that
  of one of the cluster's indices.
\<close>

definition wf_pods :: "AerospikeCluster \<Rightarrow> Pod list \<Rightarrow> bool" where
  "wf_pods c ps \<longleftrightarrow> distinct (map pod_key ps) \<and>
     (\<forall>p \<in> set ps. ours c p \<longleftrightarrow> (\<exists>i. 0 \<le> i \<and> i < 2 ^ 31 \<and> pod_key p = slot c i))"

lemma wf_pods_map:
  assumes "distinct is" and "\<And>i. i \<in> set is \<Longrightarrow> pod_key (f i) = slot c i \<and> ours c (f i) \<and> 0 \<le> i \<and> i < 2 ^ 31"
  shows "wf_pods c (map f is)"
proof -
  have "inj_on (\<lambda>i. pod_key (f i)) (set is)" using assms(2) by (auto intro!: inj_onI dest: pod_name_inj)
  then show ?thesis using assms unfolding wf_pods_def by (auto simp: distinct_map o_def)
qed

lemma wf_pods_drop: "wf_pods c ps \<Longrightarrow> wf_pods c (filter f ps)"
  by (auto simp: wf_pods_def distinct_map_filter)

lemma ours_index:
  assumes "ours c p" and "pod_key p = slot c i" and "0 \<le> i" "i < 2 ^ 31"
  shows "podIndex p = i"
proof -
  have "str_at (om_Labels (pod_Meta p)) LabelClusterKey = asc_Name c"
    using assms(1) by (auto simp: pod_selected_def selects_def ResourcesByClusterName_def label_keys str_at_def gm_get_def
        gm_make_def fmlookup_dom_iff dest!: fmpredD [of _ _ LabelClusterKey] split: option.splits)
  then show ?thesis using assms by (intro podIndex_named [of _ "asc_Name c"]) (simp_all add: pod_name_def)
qed

lemma fresh_ours: "fresh_pod E c G i p \<Longrightarrow> ours c p"
  by (auto simp: fresh_pod_def pod_selected_def selects_def ResourcesByClusterName_def gm_make_def label_keys)

lemma fresh_key: "fresh_pod E c G i p \<Longrightarrow> pod_key p = slot c i"
  by (simp add: fresh_pod_def)

lemma find_drop: "find_pod k (drop_pod k' ps) = (if k = k' then None else find_pod k ps)"
  by (induction ps) (auto simp: find_pod_def drop_pod_def)

lemma ensured_find:
  assumes "ensured E c G i ps ps'"
  shows "find_pod (slot c j) ps' = (if j = i \<and> \<not> has_current c G i ps then find_pod (slot c j) ps' else find_pod (slot c j) ps)"
  using assms
  by (auto simp: ensured_def find_pod_append find_drop dest!: fresh_key pod_name_inj split: if_splits option.splits)

lemma ensured_current: "ensured E c G i ps ps' \<Longrightarrow> has_current c G i ps'"
  by (auto simp: ensured_def has_current_def find_pod_append find_drop fresh_pod_def split: if_splits)

lemma ensured_new: "ensured E c G i ps ps' \<Longrightarrow> \<not> has_current c G i ps \<Longrightarrow> has_current c (upgraded c) i ps'"
  unfolding ensured_def by (auto simp: has_current_def [of c "upgraded c"] find_pod_append find_drop fresh_pod_def)

lemma ensured_others:
  assumes "ensured E c G i ps ps'" and "wf_pods c ps" and "0 \<le> i" "i < 2 ^ 31"
  shows "filter (\<lambda>p. \<not> ours c p) ps' = filter (\<lambda>p. \<not> ours c p) ps"
proof (cases "has_current c G i ps")
  case True
  then show ?thesis using assms(1) by (simp add: ensured_def)
next
  case False
  then obtain q where q: "fresh_pod E c G i q" "ps' = drop_pod (slot c i) ps @ [q]"
    using assms(1) by (auto simp: ensured_def)
  have "pod_key p \<noteq> slot c i" if "p \<in> set ps" "\<not> ours c p" for p
    using that assms(2-4) by (auto simp: wf_pods_def)
  then have "filter (\<lambda>p. \<not> ours c p) (drop_pod (slot c i) ps) = filter (\<lambda>p. \<not> ours c p) ps"
    unfolding drop_pod_def filter_filter by (intro filter_cong) auto
  then show ?thesis using fresh_ours [OF q(1)] by (simp add: q(2))
qed

lemma ensured_wf:
  assumes "ensured E c G i ps ps'" and "wf_pods c ps" and "0 \<le> i" "i < 2 ^ 31"
  shows "wf_pods c ps'"
proof (cases "has_current c G i ps")
  case True
  then show ?thesis using assms by (simp add: ensured_def)
next
  case False
  then obtain q where q: "fresh_pod E c G i q" "ps' = drop_pod (slot c i) ps @ [q]"
    using assms(1) by (auto simp: ensured_def)
  have "wf_pods c (drop_pod (slot c i) ps)" using wf_pods_drop [OF assms(2)] by (simp add: drop_pod_def)
  moreover have "pod_key q \<notin> pod_key ` set (drop_pod (slot c i) ps)" using fresh_key [OF q(1)] by auto
  ultimately show ?thesis
    using fresh_ours [OF q(1)] fresh_key [OF q(1)] assms(3,4) by (auto simp: wf_pods_def q(2))
qed

lemma ensured_all:
  assumes "steps (ensured E c G) xs ps ps'" and "wf_pods c ps" and "set xs \<subseteq> {0 ..< 2 ^ 31}"
  shows "wf_pods c ps' \<and> (\<forall>i \<in> set xs. has_current c G i ps') \<and>
    (\<forall>j. j \<notin> set xs \<or> has_current c G j ps \<longrightarrow> find_pod (slot c j) ps' = find_pod (slot c j) ps) \<and>
    (\<forall>i \<in> set xs. \<not> has_current c G i ps \<longrightarrow> has_current c (upgraded c) i ps') \<and>
    filter (\<lambda>p. \<not> ours c p) ps' = filter (\<lambda>p. \<not> ours c p) ps"
  using assms
proof (induction xs arbitrary: ps)
  case Nil
  then show ?case by simp
next
  case (Cons i xs)
  then obtain m where m: "ensured E c G i ps m" "steps (ensured E c G) xs m ps'" by auto
  have i: "0 \<le> i" "i < 2 ^ 31" using Cons.prems(3) by auto
  have "wf_pods c m" using ensured_wf [OF m(1) Cons.prems(2) i] .
  with Cons.IH [OF m(2)] Cons.prems(3) have IH: "wf_pods c ps'" "\<forall>i \<in> set xs. has_current c G i ps'"
    "\<forall>j. j \<notin> set xs \<or> has_current c G j m \<longrightarrow> find_pod (slot c j) ps' = find_pod (slot c j) m"
    "\<forall>i \<in> set xs. \<not> has_current c G i m \<longrightarrow> has_current c (upgraded c) i ps'"
    "filter (\<lambda>p. \<not> ours c p) ps' = filter (\<lambda>p. \<not> ours c p) m" by auto
  have "has_current c G i ps'" using IH(3) ensured_current [OF m(1)] by (metis has_current_def)
  moreover have "find_pod (slot c j) ps' = find_pod (slot c j) ps"
    if "j \<notin> set (i # xs) \<or> has_current c G j ps" for j
  proof -
    have "find_pod (slot c j) m = find_pod (slot c j) ps" using ensured_find [OF m(1), of j] that by (auto split: if_splits)
    moreover from this have "j \<notin> set xs \<or> has_current c G j m" using that by (auto simp: has_current_def)
    ultimately show ?thesis using IH(3) by metis
  qed
  moreover have "has_current c (upgraded c) j ps'" if "j \<in> set (i # xs)" "\<not> has_current c G j ps" for j
  proof (cases "has_current c G j m")
    case True
    then have "j = i" using ensured_find [OF m(1), of j] that(2) by (auto simp: has_current_def split: if_splits)
    then have "has_current c (upgraded c) i m" using ensured_new [OF m(1)] that(2) by simp
    moreover have "find_pod (slot c i) ps' = find_pod (slot c i) m" using IH(3) True \<open>j = i\<close> by blast
    ultimately show ?thesis using \<open>j = i\<close> by (simp add: has_current_def)
  next
    case False
    then show ?thesis using that(1) IH(4) ensured_current [OF m(1)] by auto
  qed
  ultimately show ?case
    using IH ensured_others [OF m(1) Cons.prems(2) i] by auto
qed

text \<open>The pods of the cluster and its indices correspond.\<close>

lemma cluster_pod_slot:
  assumes wf: "wf_pods c ps" and p: "p \<in> set (cluster_pods c ps)"
  obtains i where "0 \<le> i" and "i < 2 ^ 31" and "pod_key p = slot c i" and "podIndex p = i"
    and "find_pod (slot c i) ps = Some p"
proof -
  from p have ps: "p \<in> set ps" "ours c p" by (auto simp: cluster_pods_def)
  then obtain i where i: "0 \<le> i" "i < 2 ^ 31" "pod_key p = slot c i" using wf by (auto simp: wf_pods_def)
  moreover have "find_pod (slot c i) ps = Some p"
    using find_pod_eq [of ps p] wf ps(1) i(3) by (simp add: wf_pods_def)
  ultimately show ?thesis using that ours_index [OF ps(2) i(3,1,2)] by blast
qed

lemma slot_cluster_pod:
  assumes "wf_pods c ps" and "find_pod (slot c i) ps = Some p" and "0 \<le> i" "i < 2 ^ 31"
  shows "p \<in> set (cluster_pods c ps) \<and> podIndex p = i"
proof -
  from assms(2) have p: "p \<in> set ps" "pod_key p = slot c i" using find_pod_some by blast+
  then have "ours c p" using assms(1,3,4) by (auto simp: wf_pods_def intro!: exI [of _ i])
  then show ?thesis using ours_index [OF _ p(2)] p(1) assms(3,4) by (simp add: cluster_pods_def)
qed

lemma podIndex_inj:
  assumes "wf_pods c ps"
  shows "inj_on podIndex (set (cluster_pods c ps))"
proof (rule inj_onI)
  fix p q
  assume p: "p \<in> set (cluster_pods c ps)" and q: "q \<in> set (cluster_pods c ps)" and eq: "podIndex p = podIndex q"
  from assms p obtain i where "podIndex p = i" "find_pod (slot c i) ps = Some p" by (rule cluster_pod_slot)
  moreover from assms q obtain j where "podIndex q = j" "find_pod (slot c j) ps = Some q" by (rule cluster_pod_slot)
  ultimately show "p = q" using eq by simp
qed

lemma distinct_cluster_pods: "wf_pods c ps \<Longrightarrow> distinct (cluster_pods c ps)"
  by (auto simp: wf_pods_def cluster_pods_def distinct_map)

lemma cluster_pods_bound:
  assumes "wf_pods c ps"
  shows "int (length (cluster_pods c ps)) \<le> 2 ^ 31"
proof -
  have "podIndex ` set (cluster_pods c ps) \<subseteq> {0 ..< 2 ^ 31}"
  proof (rule image_subsetI)
    fix p
    assume "p \<in> set (cluster_pods c ps)"
    with assms show "podIndex p \<in> {0 ..< 2 ^ 31}" by (rule cluster_pod_slot) simp
  qed
  then have "card (set (cluster_pods c ps)) \<le> card {0 ..< 2 ^ 31 :: int}"
    using podIndex_inj [OF assms] by (intro card_inj_on_le) auto
  then show ?thesis using distinct_card [OF distinct_cluster_pods [OF assms]] by simp
qed

lemma fold_drop: "fold (\<lambda>i. drop_pod (k i)) is ps = filter (\<lambda>p. pod_key p \<notin> k ` set is) ps"
  by (induction "is" arbitrary: ps) (auto simp: drop_pod_def intro!: filter_cong)

lemma find_filter_key: "find_pod k (filter (\<lambda>p. pod_key p \<notin> K) ps) = (if k \<in> K then None else find_pod k ps)"
  by (induction ps) (auto simp: find_pod_def)

text \<open>
  The pods a pass is meant to reach: exactly those of the indices below the size, in their order,
  each as wanted.
\<close>

definition converged :: "AerospikeCluster \<Rightarrow> (Pod \<Rightarrow> bool) \<Rightarrow> Pod list \<Rightarrow> bool" where
  "converged c G ps \<longleftrightarrow>
     map pod_Name (byIndex (cluster_pods c ps)) = map (pod_name c) [0..spec_NodeCount (asc_Spec c) - 1] \<and>
     (\<forall>p \<in> set (cluster_pods c ps). G p)"

text \<open>
  The pods above the desired size can be scaled down: their indices leave no gap, since scaling down
  only looks at the indices below the number of pods, and their nodes have not failed, since the
  node of a pod is asked for its migrations before the pod is deleted.
\<close>

definition scalable :: "AerospikeCluster \<Rightarrow> Pod list \<Rightarrow> bool" where
  "scalable c ps \<longleftrightarrow> (\<forall>p \<in> set (cluster_pods c ps). podIndex p < spec_NodeCount (asc_Spec c) \<or>
     podIndex p < int (length (cluster_pods c ps)) \<and> \<not> isPodInFailureState p)"

text \<open>What a pass leaves alone: the pods of others, and those of the cluster that are as wanted.\<close>

definition undisturbed :: "AerospikeCluster \<Rightarrow> (Pod \<Rightarrow> bool) \<Rightarrow> Pod list \<Rightarrow> Pod list \<Rightarrow> bool" where
  "undisturbed c G ps ps' \<longleftrightarrow>
     (\<forall>i \<in> {0 ..< spec_NodeCount (asc_Spec c)}. has_current c G i ps \<longrightarrow>
        find_pod (slot c i) ps' = find_pod (slot c i) ps) \<and>
     filter (\<lambda>p. \<not> ours c p) ps' = filter (\<lambda>p. \<not> ours c p) ps"

text \<open>The pods a pass has made run the version of the spec, whatever it wanted of them.\<close>

definition renewed :: "AerospikeCluster \<Rightarrow> (Pod \<Rightarrow> bool) \<Rightarrow> Pod list \<Rightarrow> Pod list \<Rightarrow> bool" where
  "renewed c G ps ps' \<longleftrightarrow> (\<forall>i \<in> {0 ..< spec_NodeCount (asc_Spec c)}.
     \<not> has_current c G i ps \<longrightarrow> has_current c (upgraded c) i ps')"

lemma convergedI:
  assumes wf: "wf_pods c ps" and n: "spec_NodeCount (asc_Spec c) < 2 ^ 31"
    and all: "\<forall>i \<in> {0 ..< spec_NodeCount (asc_Spec c)}. has_current c G i ps"
    and none: "\<forall>i. spec_NodeCount (asc_Spec c) \<le> i \<and> 0 \<le> i \<and> i < 2 ^ 31 \<longrightarrow> find_pod (slot c i) ps = None"
  shows "converged c G ps"
proof -
  let ?n = "spec_NodeCount (asc_Spec c)" and ?l = "byIndex (cluster_pods c ps)"
  have set: "set ?l = set (cluster_pods c ps)" by (simp add: byIndex_def)
  have mine: "podIndex p \<in> {0 ..< ?n} \<and> pod_Name p = pod_name c (podIndex p) \<and> G p"
    if "p \<in> set (cluster_pods c ps)" for p
  proof -
    from wf that obtain i where i: "0 \<le> i" "i < 2 ^ 31" "pod_key p = slot c i" "podIndex p = i" "find_pod (slot c i) ps = Some p"
      by (rule cluster_pod_slot)
    have "i < ?n" using none i(1,2,5) by (cases "i < ?n") auto
    then have "has_current c G i ps" using all i(1) by simp
    then show ?thesis using i \<open>i < ?n\<close> by (simp add: has_current_def)
  qed
  have "i \<in> podIndex ` set (cluster_pods c ps)" if "i \<in> {0 ..< ?n}" for i
  proof -
    from all that have "has_current c G i ps" by blast
    then obtain p where "find_pod (slot c i) ps = Some p" by (auto simp: has_current_def)
    from slot_cluster_pod [OF wf this] that n show ?thesis by auto
  qed
  then have "set (map podIndex ?l) = set [0..?n - 1]" using mine set by fastforce
  moreover have "distinct (map podIndex ?l)"
    using podIndex_inj [OF wf] distinct_cluster_pods [OF wf] by (simp add: distinct_map byIndex_def)
  moreover have "sorted (map podIndex ?l)" by (simp add: byIndex_def)
  ultimately have "map podIndex ?l = [0..?n - 1]" by (intro sorted_distinct_set_unique) simp_all
  moreover have "map pod_Name ?l = map (pod_name c) (map podIndex ?l)" using mine set by simp
  ultimately show ?thesis using mine by (auto simp: converged_def)
qed

text \<open>
  What the rounds of a pass bring about in any case: below the desired size the pods are as wanted,
  those above it and below the number of pods are gone, the others are as before.
\<close>

definition surplus_up :: "AerospikeCluster \<Rightarrow> Pod list \<Rightarrow> bool" where
  "surplus_up c ps \<longleftrightarrow> (\<forall>p \<in> set (cluster_pods c ps). spec_NodeCount (asc_Spec c) \<le> podIndex p \<longrightarrow>
     podIndex p < int (length (cluster_pods c ps)) \<longrightarrow> \<not> isPodInFailureState p)"

definition brought :: "AerospikeCluster \<Rightarrow> (Pod \<Rightarrow> bool) \<Rightarrow> Pod list \<Rightarrow> Pod list \<Rightarrow> bool" where
  "brought c G ps ps' \<longleftrightarrow> wf_pods c ps' \<and>
     (\<forall>i \<in> {0 ..< spec_NodeCount (asc_Spec c)}. has_current c G i ps') \<and>
     (\<forall>i. spec_NodeCount (asc_Spec c) \<le> i \<longrightarrow> find_pod (slot c i) ps' =
        (if i < int (length (cluster_pods c ps)) then None else find_pod (slot c i) ps)) \<and>
     undisturbed c G ps ps' \<and> renewed c G ps ps'"

lemma scalable_up: "scalable c ps \<Longrightarrow> surplus_up c ps"
  by (auto simp: scalable_def surplus_up_def)

lemma brought_converged:
  assumes wf: "wf_pods c ps" and scalable: "scalable c ps" and n: "spec_NodeCount (asc_Spec c) < 2 ^ 31"
    and "brought c G ps ps'"
  shows "converged c G ps'"
proof -
  have "find_pod (slot c i) ps = None"
    if i: "0 \<le> i" "i < 2 ^ 31" "spec_NodeCount (asc_Spec c) \<le> i" "int (length (cluster_pods c ps)) \<le> i" for i
  proof (rule ccontr)
    assume "find_pod (slot c i) ps \<noteq> None"
    then obtain p where "find_pod (slot c i) ps = Some p" by blast
    from slot_cluster_pod [OF wf this i(1,2)] scalable i(3,4) show False by (fastforce simp: scalable_def)
  qed
  with assms(4) n show ?thesis unfolding brought_def by (intro convergedI) auto
qed

text \<open>Conversely, once the pods are as desired, there are as many as asked for and each is current.\<close>

lemma converged_length:
  assumes "converged c G ps" and "0 \<le> spec_NodeCount (asc_Spec c)"
  shows "int (length (cluster_pods c ps)) = spec_NodeCount (asc_Spec c)"
proof -
  have "length (map pod_Name (byIndex (cluster_pods c ps))) = length [0..spec_NodeCount (asc_Spec c) - 1]"
    using assms(1) by (simp add: converged_def)
  then show ?thesis using assms(2) by (simp add: byIndex_def)
qed

lemma converged_current:
  assumes wf: "wf_pods c ps" and conv: "converged c G ps" and i: "0 \<le> i" "i < spec_NodeCount (asc_Spec c)"
  shows "has_current c G i ps"
proof -
  have "pod_name c i \<in> set (map pod_Name (byIndex (cluster_pods c ps)))"
    using conv i by (simp add: converged_def)
  then obtain p where p: "p \<in> set (cluster_pods c ps)" "pod_Name p = pod_name c i" by (auto simp: byIndex_def)
  then have "p \<in> set ps" "pod_key p = slot c i" by (auto simp: cluster_pods_def pod_selected_def)
  then have "find_pod (slot c i) ps = Some p" using find_pod_eq [of ps p] wf by (simp add: wf_pods_def)
  then show ?thesis using conv p(1) by (simp add: has_current_def converged_def)
qed

text \<open>Pods that have converged have the indices below the size, so they can be scaled.\<close>

lemma converged_index:
  assumes wf: "wf_pods c ps" and conv: "converged c G ps" and p: "p \<in> set (cluster_pods c ps)"
  shows "podIndex p < spec_NodeCount (asc_Spec c)"
proof -
  have "pod_Name p \<in> set (map pod_Name (byIndex (cluster_pods c ps)))" using p by (simp add: byIndex_def)
  also have "map pod_Name (byIndex (cluster_pods c ps)) = map (pod_name c) [0..spec_NodeCount (asc_Spec c) - 1]"
    using conv by (simp add: converged_def)
  finally obtain j where "pod_Name p = pod_name c j" "j < spec_NodeCount (asc_Spec c)" by auto
  moreover from wf p obtain i where "pod_key p = slot c i" "podIndex p = i" by (rule cluster_pod_slot)
  ultimately show ?thesis by (auto dest: pod_name_inj)
qed

lemma converged_scalable: "wf_pods c ps \<Longrightarrow> converged c G ps \<Longrightarrow> scalable c ps"
  by (simp add: scalable_def converged_index)

text \<open>Pods that ran the version before the pass do so after it.\<close>

lemma converged_upgraded:
  assumes wf: "wf_pods c ps" "wf_pods c ps'" and conv: "converged c (upgraded c) ps" "converged c G ps'"
    and "undisturbed c G ps ps'" "renewed c G ps ps'"
  shows "converged c (upgraded c) ps'"
  unfolding converged_def
proof (intro conjI ballI)
  show "map pod_Name (byIndex (cluster_pods c ps')) = map (pod_name c) [0..spec_NodeCount (asc_Spec c) - 1]"
    using conv(2) by (simp add: converged_def)
  fix p
  assume p: "p \<in> set (cluster_pods c ps')"
  from wf(2) p obtain i where i: "0 \<le> i" "podIndex p = i" "find_pod (slot c i) ps' = Some p" by (rule cluster_pod_slot)
  have n: "i < spec_NodeCount (asc_Spec c)" using converged_index [OF wf(2) conv(2) p] i(2) by simp
  have "has_current c (upgraded c) i ps" using converged_current [OF wf(1) conv(1) i(1) n] .
  then have "has_current c (upgraded c) i ps'"
    using assms(5,6) i(1) n by (cases "has_current c G i ps") (auto simp: undisturbed_def renewed_def has_current_def)
  then show "upgraded c p" using i(3) by (simp add: has_current_def)
qed

section \<open>A pod above a gap\<close>

text \<open>The pod of the highest index, above an index without a pod, both at or above the size.\<close>

definition above_gap :: "AerospikeCluster \<Rightarrow> int \<Rightarrow> int \<Rightarrow> Pod \<Rightarrow> Pod list \<Rightarrow> bool" where
  "above_gap c g i p ps \<longleftrightarrow> spec_NodeCount (asc_Spec c) \<le> g \<and> g < i \<and> find_pod (slot c g) ps = None \<and>
     find_pod (slot c i) ps = Some p \<and> (\<forall>q \<in> set (cluster_pods c ps). podIndex q \<le> i)"

text \<open>There are then at most as many pods as its index says.\<close>

lemma above_gap_length:
  assumes wf: "wf_pods c ps" and n: "0 \<le> spec_NodeCount (asc_Spec c)" and gap: "above_gap c g i p ps"
  shows "int (length (cluster_pods c ps)) \<le> i"
proof -
  have "podIndex ` set (cluster_pods c ps) \<subseteq> {0..i} - {g}"
  proof (rule image_subsetI)
    fix q
    assume q: "q \<in> set (cluster_pods c ps)"
    with wf obtain j where "0 \<le> j" "podIndex q = j" "find_pod (slot c j) ps = Some q" by (rule cluster_pod_slot)
    with q gap show "podIndex q \<in> {0..i} - {g}" by (auto simp: above_gap_def)
  qed
  then have "card (set (cluster_pods c ps)) \<le> card ({0..i} - {g})"
    using podIndex_inj [OF wf] by (intro card_inj_on_le) auto
  also have "card ({0..i} - {g}) = nat i" using gap n by (subst card_Diff_singleton) (auto simp: above_gap_def)
  finally have "length (cluster_pods c ps) \<le> nat i" using distinct_card [OF distinct_cluster_pods [OF wf]] by simp
  moreover have "0 \<le> i" using gap n by (simp add: above_gap_def)
  ultimately show ?thesis by linarith
qed

text \<open>So the rounds of a pass leave it there, and above the gap.\<close>

lemma brought_above_gap:
  assumes wf: "wf_pods c ps" and n: "0 \<le> spec_NodeCount (asc_Spec c)"
    and gap: "above_gap c g i p ps" and brought: "brought c G ps ps'"
  shows "above_gap c g i p ps'"
proof -
  let ?n = "spec_NodeCount (asc_Spec c)" and ?m = "int (length (cluster_pods c ps))"
  have m: "?m \<le> i" by (rule above_gap_length [OF wf n gap])
  have wf': "wf_pods c ps'" and find: "find_pod (slot c j) ps' = (if j < ?m then None else find_pod (slot c j) ps)" if "?n \<le> j" for j
    using brought that by (auto simp: brought_def)
  have "podIndex q \<le> i" if "q \<in> set (cluster_pods c ps')" for q
  proof -
    have "wf_pods c ps'" using brought by (simp add: brought_def)
    from this that obtain j where j: "0 \<le> j" "j < 2 ^ 31" "podIndex q = j" "find_pod (slot c j) ps' = Some q" by (rule cluster_pod_slot)
    show ?thesis
    proof (cases "?n \<le> j")
      case True
      then have "find_pod (slot c j) ps = Some q" using j(4) find by (simp split: if_splits)
      from slot_cluster_pod [OF wf this j(1,2)] gap j(3) show ?thesis by (auto simp: above_gap_def)
    next
      case False
      then show ?thesis using gap j(3) by (auto simp: above_gap_def)
    qed
  qed
  then show ?thesis using gap m find [of g] find [of i] by (auto simp: above_gap_def)
qed

end
