(* ===== verification/WorkingNodes.thy ===== *)
theory WorkingNodes
  imports PodStore
begin

text \<open>
  Nodes and claims that work, on a store of pods that obeys its laws. Inside the locale every
  operation on the pods of a cluster is followed through to its result and to the pods it leaves: a
  pass over them succeeds and reaches what is wanted, outside an upgrade and during one.
\<close>

section \<open>Nodes and claims that work\<close>

text \<open>The times recorded on a claim can be read.\<close>

definition readable_lease :: "env \<Rightarrow> PersistentVolumeClaim \<Rightarrow> bool" where
  "readable_lease E x \<longleftrightarrow>
     (\<forall>s. pvc_Annotation x LastUnmountedOnAnnotation = Some s \<longrightarrow> (\<exists>t. env_parse_rfc3339 E s = Inr t)) \<and>
     (\<forall>s. pvc_Annotation x PVCTTLAnnotation = Some s \<longrightarrow> (\<exists>d. ParseDuration E s = Inr d))"

text \<open>The storage of a namespace is of a known type and has a size.\<close>

definition storage_ok :: "env \<Rightarrow> AerospikeNamespaceSpec \<Rightarrow> bool" where
  "storage_ok E ns \<longleftrightarrow> st_Type (ns_Storage ns) \<in> {StorageTypeDevice, StorageTypeFile} \<and>
     (\<exists>q. env_parse_quantity E (st_Size (ns_Storage ns)) = Inr q)"

lemma attach_volume_ok:
  assumes "st_Type (ns_Storage ns) = StorageTypeDevice \<or> st_Type (ns_Storage ns) = StorageTypeFile"
  shows "\<exists>pod'. attach_volume k ns pvc pod = Inr pod'"
  using assms by (cases "st_Type (ns_Storage ns) = StorageTypeDevice") (simp_all add: attach_volume_def Let_def)

lemma attach_volume_version: "attach_volume k ns pvc pod = Inr pod' \<Longrightarrow> server_version pod' = server_version pod"
  by (auto simp: attach_volume_def Let_def server_version_def split: if_splits)

lemma build_pod_version [simp]: "server_version (build_pod E c cm i l) = spec_Version (asc_Spec c)"
  using trim_prefix_append [of "''aerospike/aerospike-server:''" "spec_Version (asc_Spec c)"]
  by (simp add: server_version_def build_pod_def Let_def server_container_def)

text \<open>A node reports at least as many nodes in its cluster as the operator counts running pods.\<close>

definition sees_cluster :: "env \<Rightarrow> AerospikeCluster \<Rightarrow> Pod list \<Rightarrow> history \<Rightarrow> Pod \<Rightarrow> bool" where
  "sees_cluster E c ps h p \<longleftrightarrow>
     (\<exists>r str s. env_info E h (pt_PodIP (pod_Status p)) ''statistics'' = Inr r \<and>
        fmlookup (ParseStatistics (str_at (Some r) ''statistics'')) ''cluster_size'' = Some str \<and>
        atoi str = Inr s \<and>
        int (length (filter (\<lambda>q. \<not> isPodInFailureState q) (cluster_pods c ps))) \<le> s)"

locale working_nodes = pod_store +
  fixes c :: AerospikeCluster
  assumes connects: "p \<in> set (pods h) \<Longrightarrow> \<not> isPodInFailureState p \<Longrightarrow>
      env_connect E h (pt_PodIP (pod_Status p)) cServicePort = Inr ()"
    and own_node: "p \<in> set (pods h) \<Longrightarrow> \<not> isPodInFailureState p \<Longrightarrow> \<exists>n \<in> set (env_nodes E h (pt_PodIP (pod_Status p))).
      equal_fold n (str_at (om_Annotations (pod_Meta p)) nodeIdAnnotation)"
    and migrating: "\<exists>b. env_migrating E h n = Inr b"
    and migrations_end: "env_wait_migrations E h n t = Inr ()"
    and sees: "p \<in> set (pods h) \<Longrightarrow> \<not> isPodInFailureState p \<Longrightarrow>
      int (length (cluster_pods c (pods h))) < 2 ^ 63 \<Longrightarrow> sees_cluster E c (pods h) h p"
    and reports: "p \<in> set (pods h) \<Longrightarrow> \<not> isPodInFailureState p \<Longrightarrow> distinct (map pod_key (pods h)) \<Longrightarrow>
      \<exists>r. env_info E h (pt_PodIP (pod_Status p)) ''build'' = Inr r \<and> fmlookup r ''build'' = Some (server_version p)"
    and ticks: "env_ticks E h \<noteq> 0"
    and claim_of_pod: "p \<in> set (pods h) \<Longrightarrow> v \<in> set (ps_Volumes (pod_Spec p)) \<Longrightarrow>
      vol_Source v = PersistentVolumeClaimVolume claim \<Longrightarrow> \<exists>x. env_get_pvc E h (pod_Namespace p) claim = Inr x"
    and claims_listed: "\<exists>xs. env_list_pvcs E h ns sel = Inr xs \<and> (\<forall>x \<in> set xs. readable_lease E x)"
    and claim_patch: "\<exists>b. env_pvc_patch E x y = Inr b" "env_patch_pvc E h ns n b = Inr ()"
    and claim_create: "\<exists>y. env_create_pvc E h x = Inr y"
    and storage: "nspec \<in> set (spec_Namespaces (asc_Spec c)) \<Longrightarrow> storage_ok E nspec"
begin

lemma returns_on_own_node:
  assumes "p \<in> set ps" "\<not> isPodInFailureState p" and "\<And>n. returns (\<lambda>h. pods h = ps) (f n) Q"
  shows "returns (\<lambda>h. pods h = ps) (on_own_node E p f) Q"
  unfolding returns_def
proof (intro allI impI)
  fix h
  assume h: "pods h = ps"
  let ?h = "h @ [EvConnect (pt_PodIP (pod_Status p)) cServicePort]"
  have h': "pods ?h = ps" using h by simp
  let ?node = "find (\<lambda>n. equal_fold n (str_at (om_Annotations (pod_Meta p)) nodeIdAnnotation))
    (env_nodes E ?h (pt_PodIP (pod_Status p)))"
  have "?node \<noteq> None" using own_node [of p ?h] assms(1,2) h' by (auto simp: find_None_iff)
  then obtain n where n: "?node = Some n" by blast
  from assms(3) h' obtain x h2 where "run_state (f n) ?h = (Inr x, h2)" "Q x h2" by (rule returnsD)
  then show "\<exists>x h'. run_state (on_own_node E p f) h = (Inr x, h') \<and> Q x h'"
    using n connects [of p h] assms(1,2) h by (simp add: on_own_node_def)
qed

lemma returns_patchPVC: "returns (\<lambda>h. pods h = ps) (patchPVC E x y) (\<lambda>_ h. pods h = ps)"
proof -
  obtain b where "env_pvc_patch E x y = Inr b" using claim_patch(1) by blast
  then show ?thesis using claim_patch(2) by (simp add: patchPVC_def returns_def)
qed

lemma returns_signalUnmounted: "returns (\<lambda>h. pods h = ps) (signalUnmounted E x) (\<lambda>_ h. pods h = ps)"
  unfolding signalUnmounted_def by (rule returns_bind [OF post_keep]) (auto intro: emits_intro returns_patchPVC)

lemma returns_unmount:
  assumes "p \<in> set ps"
  shows "returns (\<lambda>h. pods h = ps) (unmount_claims E p) (\<lambda>_ h. pods h = ps)"
proof -
  have "returns (\<lambda>h. pods h = ps)
      (bindE (PVCs_Get E (pod_Namespace p) claim) (\<lambda>pvc. signalUnmounted E pvc)) (\<lambda>_ h. pods h = ps)"
    if v: "v \<in> set (ps_Volumes (pod_Spec p))" "vol_Source v = PersistentVolumeClaimVolume claim" for v claim
    by (rule returns_bindE [OF returns_quiet returns_signalUnmounted])
      (use claim_of_pod [OF _ v] assms in auto)
  then show ?thesis
    unfolding unmount_claims_def
    by (intro returns_forE) (auto split: VolumeSource.split intro: returns_ok)
qed

lemma returns_deletePod:
  assumes "p \<in> set ps"
  shows "returns (\<lambda>h. pods h = ps) (deletePod E c p) (\<lambda>_ h. pods h = drop_pod (pod_key p) ps)"
  unfolding deletePod_def
proof (rule returns_bindE [OF returns_unmount [OF assms]], rule returns_bindE [OF returns_delete_call [OF assms]])
  let ?ps = "drop_pod (pod_key p) ps"
  show "returns (\<lambda>h. pods h = ?ps) (do {
       r \<leftarrow> waitForPodCondition E p (\<lambda>s event. ret (s, Inr (is_deleted event))) () watchDeletePodTimeout;
       case snd r of Inl err \<Rightarrow> fail err | Inr _ \<Rightarrow> ok () }) (\<lambda>_ h. pods h = ?ps)"
    unfolding returns_def
  proof (intro allI impI)
    fix h
    assume "pods h = ?ps"
    moreover have "pod_key p \<notin> pod_key ` set ?ps" by auto
    ultimately obtain h' where "run_state (waitForPodCondition E p
         (\<lambda>s event. ret (s, Inr (is_deleted event))) () watchDeletePodTimeout) h = (((), Inr ()), h')"
      and "pods h' = ?ps" using wait_gone by blast
    then show "\<exists>x h'. run_state (do {
       r \<leftarrow> waitForPodCondition E p (\<lambda>s event. ret (s, Inr (is_deleted event))) () watchDeletePodTimeout;
       case snd r of Inl err \<Rightarrow> fail err | Inr _ \<Rightarrow> ok () }) h = (Inr x, h') \<and> pods h' = ?ps"
      by simp
  qed
qed

lemma returns_migrations:
  assumes "p \<in> set ps" "\<not> isPodInFailureState p"
  shows "returns (\<lambda>h. pods h = ps) (podHasMigrationsInProgress E p) (\<lambda>_ h. pods h = ps)"
    and "returns (\<lambda>h. pods h = ps) (wait_migrations E p) (\<lambda>_ h. pods h = ps)"
proof -
  have "returns (\<lambda>h. pods h = ps) (As_Migrating E n) (\<lambda>_ h. pods h = ps)" for n
    by (rule returns_quiet) (simp_all add: migrating)
  then show "returns (\<lambda>h. pods h = ps) (podHasMigrationsInProgress E p) (\<lambda>_ h. pods h = ps)"
    unfolding podHasMigrationsInProgress_def by (intro returns_on_own_node assms)
  have "returns (\<lambda>h. pods h = ps) (As_WaitMigrations E n t) (\<lambda>_ h. pods h = ps)" for n t
    by (rule returns_quiet) (simp_all add: migrations_end)
  then have "returns (\<lambda>h. pods h = ps) (waitForMigrationsToFinishOnPod E p) (\<lambda>_ h. pods h = ps)"
    unfolding waitForMigrationsToFinishOnPod_def by (intro returns_on_own_node assms)
  then show "returns (\<lambda>h. pods h = ps) (wait_migrations E p) (\<lambda>_ h. pods h = ps)"
    unfolding wait_migrations_def
    by (intro returns_bind [OF post_call] returns_bind_ok) (auto intro: returns_def [THEN iffD2])
qed

lemma returns_safeDelete:
  assumes "\<And>p. find_pod (slot c i) ps = Some p \<Longrightarrow> \<not> isPodInFailureState p"
  shows "returns (\<lambda>h. pods h = ps) (safeDeletePodWithIndex E c i) (\<lambda>_ h. pods h = drop_pod (slot c i) ps)"
  unfolding safeDeletePodWithIndex_def
proof (rule returns_bindE [OF returns_getPod])
  fix r
  have forget: "returns (\<lambda>h. pods h = qs) (do { forget_pod E host l; ok () }) (\<lambda>_ h. pods h = qs)" for host l qs
    by (rule returns_bind [OF post_keep]) (auto intro!: emits_intro returns_ok)
  have after: "returns (\<lambda>h. pods h = qs)
      (bindE (listClusterPods E c) (\<lambda>pods. do { forget_pod E host pods; ok () })) (\<lambda>_ h. pods h = qs)" for host qs
    by (rule returns_bindE [OF returns_list]) (rule returns_weaken [OF forget]; simp)
  show "returns (\<lambda>h. pods h = ps \<and> r = find_pod (slot c i) ps)
     (case r of None \<Rightarrow> ok () | Some pod \<Rightarrow> bindE (podHasMigrationsInProgress E pod) (\<lambda>migrations.
         bindE (if migrations then wait_migrations E pod else ok ()) (\<lambda>_.
         bindE (deletePod E c pod) (\<lambda>_. bindE (listClusterPods E c) (\<lambda>pods. do {
           forget_pod E (pod_host c pod) pods; ok () })))))
     (\<lambda>_ h. pods h = drop_pod (slot c i) ps)"
  proof (cases r)
    case None
    then show ?thesis by (simp add: returns_def)
  next
    case (Some p)
    show ?thesis
    proof (cases "r = find_pod (slot c i) ps")
      case True
      then have p: "p \<in> set ps" "pod_key p = slot c i" using Some find_pod_some by metis+
      have up: "\<not> isPodInFailureState p" using assms True Some by simp
      have "returns (\<lambda>h. pods h = ps)
        (bindE (podHasMigrationsInProgress E p) (\<lambda>migrations.
         bindE (if migrations then wait_migrations E p else ok ()) (\<lambda>_.
         bindE (deletePod E c p) (\<lambda>_. bindE (listClusterPods E c) (\<lambda>pods. do {
           forget_pod E (pod_host c p) pods; ok () })))))
        (\<lambda>_ h. pods h = drop_pod (pod_key p) ps)"
        by (intro returns_bindE [OF returns_migrations(1)] returns_bindE [OF _ returns_bindE [OF returns_deletePod]])
          (use up in \<open>auto intro: returns_migrations returns_ok p after\<close>)
      then show ?thesis using Some p(2) by (auto intro: returns_weaken)
    qed (simp add: returns_def)
  qed
qed

subsection \<open>Claims\<close>

lemma returns_available:
  assumes "\<forall>x \<in> set xs. readable_lease E x"
  shows "returns (\<lambda>h. pods h = ps) (available_pvcs E n xs) (\<lambda>_ h. pods h = ps)"
  using assms
proof (induction xs)
  case Nil
  then show ?case by (simp add: returns_ok)
next
  case (Cons x xs)
  then have IH: "returns (\<lambda>h. pods h = ps) (available_pvcs E n xs) (\<lambda>_ h. pods h = ps)" by simp
  then have more: "returns (\<lambda>h. pods h = ps) (bindE (available_pvcs E n xs) (\<lambda>rest. ok (x # rest))) (\<lambda>_ h. pods h = ps)"
    by (rule returns_bindE) (rule returns_ok)
  show ?case
  proof (cases "pvc_lease E x")
    case None
    then show ?thesis
      using Cons.prems IH by (auto simp: readable_lease_def pvc_lease_def returns_liftE split: option.splits sum.splits)
  next
    case (Some td)
    then obtain s t ttl d where
      "pvc_Annotation x LastUnmountedOnAnnotation = Some s" "env_parse_rfc3339 E s = Inr t"
      "pvc_Annotation x PVCTTLAnnotation = Some ttl" "ParseDuration E ttl = Inr d"
      by (auto simp: pvc_lease_def split: option.splits sum.splits)
    then show ?thesis
      using IH more by (auto intro!: returns_liftE returns_bind [OF post_keep] emits_intro)
  qed
qed

lemma returns_claim_for:
  assumes "nspec \<in> set (spec_Namespaces (asc_Spec c))"
  shows "returns (\<lambda>h. pods h = ps) (claim_for E c strategy pod nspec) (\<lambda>_ h. pods h = ps)"
proof -
  let ?keep = "\<lambda>_ h. pods h = ps"
  have create: "returns (\<lambda>h. pods h = ps) (createPersistentVolumeClaim E c pod nspec) ?keep"
  proof -
    obtain q where "env_parse_quantity E (st_Size (ns_Storage nspec)) = Inr q"
      using storage [OF assms] by (auto simp: storage_ok_def)
    moreover have "returns (\<lambda>h. pods h = ps) (PVCs_Create E x) ?keep" for x
      by (rule returns_quiet) (simp_all add: claim_create)
    ultimately show ?thesis by (simp add: createPersistentVolumeClaim_def liftE_def)
  qed
  have find: "returns (\<lambda>h. pods h = ps) (getPersistentVolumeClaim E c pod) ?keep"
    unfolding getPersistentVolumeClaim_def
  proof (rule returns_bindE)
    show "returns (\<lambda>h. pods h = ps) (PVCs_List E (asc_Namespace c) (ResourcesByClusterName (asc_Name c)))
       (\<lambda>xs h. (\<forall>x \<in> set xs. readable_lease E x) \<and> pods h = ps)"
    proof (rule returns_call)
      fix h
      assume "pods h = ps"
      then show "\<exists>x. of_api (env_list_pvcs E h (asc_Namespace c) (ResourcesByClusterName (asc_Name c))) = Inr x \<and>
          (\<forall>y \<in> set x. readable_lease E y) \<and>
          pods (h @ [EvList KPVC (asc_Namespace c) (ResourcesByClusterName (asc_Name c))]) = ps"
        using claims_listed [of h "asc_Namespace c" "ResourcesByClusterName (asc_Name c)"] by auto
    qed
    show "returns (\<lambda>h. (\<forall>x \<in> set xs. readable_lease E x) \<and> pods h = ps)
       (if length xs = 0 then ok None
        else bindE (available_pvcs E (pod_Name pod) xs) (\<lambda>podPVCs.
          if length podPVCs = 0 then ok None else ok (Some (hd (fromMostRecent podPVCs))))) ?keep" for xs
      by (rule returns_pre) (auto intro!: returns_ok returns_bindE [OF returns_available])
  qed
  have mount: "returns (\<lambda>h. pods h = ps) (bindE (signalMounted E x) (\<lambda>_. ok (f x))) ?keep" for x and f :: "PersistentVolumeClaim \<Rightarrow> PersistentVolumeClaim"
    unfolding signalMounted_def by (rule returns_bindE [OF returns_patchPVC]) (rule returns_ok)
  show ?thesis
    unfolding claim_for_def
    by (auto intro!: returns_bindE [OF find] split: option.split intro: create mount)
qed

lemma returns_attach:
  assumes "set nss \<subseteq> set (spec_Namespaces (asc_Spec c))"
  shows "returns (\<lambda>h. pods h = ps) (attach_volumes E c strategy k nss pod)
     (\<lambda>pod' h. pods h = ps \<and> pod_Meta pod' = pod_Meta pod \<and> server_version pod' = server_version pod)"
  using assms
proof (induction nss arbitrary: k pod)
  case Nil
  then show ?case by (simp add: returns_ok)
next
  case (Cons x nss)
  then have x: "x \<in> set (spec_Namespaces (asc_Spec c))" by simp
  have "returns (\<lambda>h. pods h = ps) (liftE (attach_volume k x pvc pod) (attach_volumes E c strategy (Suc k) nss))
      (\<lambda>pod' h. pods h = ps \<and> pod_Meta pod' = pod_Meta pod \<and> server_version pod' = server_version pod)" for pvc
  proof -
    obtain pod1 where pod1: "attach_volume k x pvc pod = Inr pod1"
      using storage [OF x] attach_volume_ok [of x k pvc pod] by (auto simp: storage_ok_def)
    show ?thesis
      by (rule returns_liftE [OF pod1], rule returns_weaken [OF Cons.IH])
        (use Cons.prems attach_volume_meta [OF pod1] attach_volume_version [OF pod1] in auto)
  qed
  then show ?case by (auto intro!: returns_bindE [OF returns_claim_for [OF x]])
qed

subsection \<open>The round for one index\<close>

text \<open>A created pod has the current configuration and runs the version of the spec.\<close>

definition new_pod :: "ConfigMap \<Rightarrow> int \<Rightarrow> Pod \<Rightarrow> bool" where
  "new_pod cm i p \<longleftrightarrow> fresh_pod E c (up_to_date cm) i p \<and> upgraded c p"

lemma start_version: "server_version (start p) = server_version p"
  by (simp add: server_version_def start_meta)

lemma returns_create:
  assumes "slot c i \<notin> pod_key ` set ps" and strategy: "upgrade_strategy u = Inr strategy"
  shows "returns (\<lambda>h. pods h = ps) (createPodWithIndex E c cm i u) (\<lambda>q h. new_pod cm i q \<and> pods h = ps @ [q])"
proof -
  let ?like = "\<lambda>l pod. pod_Meta pod = pod_Meta (build_pod E c cm i l) \<and>
    server_version pod = server_version (build_pod E c cm i l)"
  have key: "pod_key pod \<notin> pod_key ` set ps" and new: "new_pod cm i (start pod)" if "?like l pod" for pod l
  proof -
    have "pod_Meta (start pod) = pod_Meta (build_pod E c cm i l)" "server_version (start pod) = spec_Version (asc_Spec c)"
      using that start_version [of pod] by (simp_all add: start_meta)
    moreover have "om_Labels (pod_Meta (build_pod E c cm i l)) = Some (cluster_labels c)"
      by (simp add: build_pod_def Let_def)
    ultimately show "new_pod cm i (start pod)"
      using start_up by (simp add: new_pod_def fresh_pod_def up_to_date_def upgraded_def)
    show "pod_key pod \<notin> pod_key ` set ps" using assms(1) that by simp
  qed
  have "returns (\<lambda>h. pods h = ps \<and> ?like l pod) (start_pod E c pod) (\<lambda>q h. new_pod cm i q \<and> pods h = ps @ [q])" for pod l
  proof (cases "?like l pod")
    case True
    show ?thesis by (rule returns_weaken [OF returns_start [OF key [OF True]]]) (use new [OF True] in auto)
  qed (auto simp: returns_def)
  then have "returns (\<lambda>h. pods h = ps) (bindE (attach_volumes E c strategy 0 (spec_Namespaces (asc_Spec c))
      (build_pod E c cm i l)) (start_pod E c)) (\<lambda>q h. new_pod cm i q \<and> pods h = ps @ [q])" for l
    by (intro returns_bindE [OF returns_attach]) simp_all
  then show ?thesis
    unfolding createPodWithIndex_def Let_def
    by (intro returns_bindE [OF returns_list] returns_liftE [OF strategy]) (auto intro: returns_weaken)
qed

text \<open>A new pod is what a round wants, outside an upgrade and during one.\<close>

definition wanted :: "ConfigMap \<Rightarrow> (Pod \<Rightarrow> bool) \<Rightarrow> bool" where
  "wanted cm G \<longleftrightarrow> G = up_to_date cm \<or> G = upgraded c"

lemma new_pod_wanted: "wanted cm G \<Longrightarrow> new_pod cm i q \<Longrightarrow> fresh_pod E c G i q"
  by (auto simp: wanted_def new_pod_def fresh_pod_def)

lemma run_cluster_size:
  assumes "p \<in> set (pods h)" "\<not> isPodInFailureState p" and "wf_pods c (pods h)"
  shows "run_state (ensureClusterSize E c p) h = (Inr (),
     h @ [EvList KPod (asc_Namespace c) (ResourcesByClusterName (asc_Name c)),
          EvConnect (pt_PodIP (pod_Status p)) cServicePort, EvInfo (pt_PodIP (pod_Status p)) ''statistics'' True])"
proof -
  obtain n where n: "env_ticks E h = Suc n" using ticks not0_implies_Suc by blast
  let ?ip = "pt_PodIP (pod_Status p)"
  let ?h1 = "h @ [EvList KPod (asc_Namespace c) (ResourcesByClusterName (asc_Name c))]"
  let ?h2 = "?h1 @ [EvConnect ?ip cServicePort]"
  have "sees_cluster E c (pods h) ?h2 p" using sees [of p ?h2] assms cluster_pods_bound [OF assms(3)] by simp
  then obtain r str s where "env_info E ?h2 ?ip ''statistics'' = Inr r"
    "fmlookup (ParseStatistics (str_at (Some r) ''statistics'')) ''cluster_size'' = Some str"
    "atoi str = Inr s" "int (length (filter (\<lambda>q. \<not> isPodInFailureState q) (cluster_pods c (pods h)))) \<le> s"
    by (auto simp: sees_cluster_def)
  moreover have "env_connect E ?h1 ?ip cServicePort = Inr ()" using connects [of p ?h1] assms by simp
  ultimately show ?thesis
    using n by (simp add: ensureClusterSize_def listClusterRunningPods_def GetClusterSize_def list_pods cluster_pods_def)
qed

lemma returns_cluster_size:
  assumes "p \<in> set ps" "\<not> isPodInFailureState p" and "wf_pods c ps"
  shows "returns (\<lambda>h. pods h = ps) (ensureClusterSize E c p) (\<lambda>_ h. pods h = ps)"
  unfolding returns_def using assms run_cluster_size by auto

text \<open>The round of a pod that is current only reads.\<close>

lemma run_ensure_current:
  assumes "has_current c (up_to_date cm) i (pods h)" and "wf_pods c (pods h)"
  shows "\<exists>es. run_state (ensure_pod E c cm None i) h = (Inr (), h @ es) \<and> list_all (\<lambda>e. \<not> writes e) es"
proof -
  from assms(1) obtain p where p: "find_pod (slot c i) (pods h) = Some p" and cur: "up_to_date cm p"
    by (auto simp: has_current_def)
  let ?h = "h @ [EvGet KPod (asc_Namespace c) (pod_name c i)]"
  have "p \<in> set (pods ?h)" using find_pod_some [OF p] by simp
  moreover have "\<not> isPodInFailureState p" using cur by (simp add: up_to_date_def)
  moreover have "wf_pods c (pods ?h)" using assms(2) by simp
  ultimately have "run_state (ensureClusterSize E c p) ?h = (Inr (),
     ?h @ [EvList KPod (asc_Namespace c) (ResourcesByClusterName (asc_Name c)),
          EvConnect (pt_PodIP (pod_Status p)) cServicePort, EvInfo (pt_PodIP (pod_Status p)) ''statistics'' True])"
    by (rule run_cluster_size)
  then show ?thesis
    using p cur by (simp add: ensure_pod_def getPodWithIndex_def get_pod up_to_date_def)
qed

lemma wanted_up: "wanted cm G \<Longrightarrow> G p \<Longrightarrow> \<not> isPodInFailureState p"
  by (auto simp: wanted_def up_to_date_def upgraded_def)

lemma returns_recreate:
  assumes "wanted cm G" and "slot c i \<notin> pod_key ` set (drop_pod (slot c i) ps)" and "\<not> has_current c G i ps"
  shows "returns (\<lambda>h. pods h = drop_pod (slot c i) ps) (bindE (createPodWithIndex E c cm i None) (\<lambda>_. ok ()))
     (\<lambda>_ h. ensured E c G i ps (pods h))"
  by (rule returns_bindE [OF returns_create [OF assms(2), of None None]])
    (use new_pod_wanted [OF assms(1)] assms(3) in \<open>auto intro!: returns_ok simp: ensured_def upgrade_strategy_def\<close>)

lemma returns_restart:
  assumes "find_pod (slot c i) ps = Some p" "\<not> isPodInFailureState p" and "upgrade_strategy u = Inr strategy"
  shows "returns (\<lambda>h. pods h = ps) (safeRestartPodWithIndex E c cm i u)
     (\<lambda>q h. new_pod cm i q \<and> pods h = drop_pod (slot c i) ps @ [q])"
  unfolding safeRestartPodWithIndex_def
  by (rule returns_bindE [OF returns_safeDelete returns_create [OF _ assms(3)]]) (use assms(1,2) in auto)

text \<open>The round up to the point where a pod is found that has not failed: \<open>present\<close> is the rest.\<close>

lemma returns_round:
  assumes "wanted cm G"
    and "\<And>p. find_pod (slot c i) ps = Some p \<Longrightarrow> \<not> isPodInFailureState p \<Longrightarrow>
      returns (\<lambda>h. pods h = ps) (present p) (\<lambda>_ h. ensured E c G i ps (pods h))"
  shows "returns (\<lambda>h. pods h = ps) (bindE (getPodWithIndex E c i) (\<lambda>pod.
     bindE (case pod of None \<Rightarrow> ok None
        | Some p \<Rightarrow> if isPodInFailureState p then bindE (deletePod E c p) (\<lambda>_. ok None) else ok (Some p))
       (\<lambda>pod. case pod of None \<Rightarrow> bindE (createPodWithIndex E c cm i None) (\<lambda>_. ok ()) | Some p \<Rightarrow> present p)))
     (\<lambda>_ h. ensured E c G i ps (pods h))"
proof -
  let ?Q = "\<lambda>_ h. ensured E c G i ps (pods h)" and ?k = "slot c i"
  let ?rest = "\<lambda>pod. case pod of None \<Rightarrow> bindE (createPodWithIndex E c cm i None) (\<lambda>_. ok ()) | Some p \<Rightarrow> present p"
  let ?failed = "\<lambda>pod. case pod of None \<Rightarrow> ok None
     | Some p \<Rightarrow> if isPodInFailureState p then bindE (deletePod E c p) (\<lambda>_. ok None) else ok (Some p)"
  have absent: "?k \<notin> pod_key ` set (drop_pod ?k ps)" by auto
  have "returns (\<lambda>h. pods h = ps) (bindE (?failed (find_pod ?k ps)) ?rest) ?Q"
  proof (cases "find_pod ?k ps")
    case None
    then have "\<not> has_current c G i ps" by (simp add: has_current_def)
    from returns_recreate [OF assms(1) absent this] None show ?thesis by (simp add: bindE_def)
  next
    case (Some p)
    then have p: "p \<in> set ps" "pod_key p = ?k" using find_pod_some by blast+
    show ?thesis
    proof (cases "isPodInFailureState p")
      case True
      then have "\<not> has_current c G i ps" using Some wanted_up [OF assms(1)] by (auto simp: has_current_def)
      note create = returns_recreate [OF assms(1) absent this]
      have failed: "returns (\<lambda>h. pods h = ps) (?failed (Some p)) (\<lambda>r h. r = None \<and> pods h = drop_pod ?k ps)"
        by (simp add: True) (rule returns_bindE [OF returns_deletePod [OF p(1)]], rule returns_ok, simp add: p(2))
      show ?thesis unfolding Some
        by (rule returns_bindE [OF failed], rule returns_pre) (use create in simp)
    next
      case False
      with assms(2) [OF Some False] Some show ?thesis by (simp add: bindE_def)
    qed
  qed
  then show ?thesis by (intro returns_bindE [OF returns_getPod]) (auto simp: returns_def)
qed

lemma returns_ensure_pod:
  assumes "wf_pods c ps"
  shows "returns (\<lambda>h. pods h = ps) (ensure_pod E c cm None i) (\<lambda>_ h. ensured E c (up_to_date cm) i ps (pods h))"
  unfolding ensure_pod_def option.case
proof (rule returns_round)
  show w: "wanted cm (up_to_date cm)" by (simp add: wanted_def)
  fix p
  assume p: "find_pod (slot c i) ps = Some p" "\<not> isPodInFailureState p"
  then have p_in: "p \<in> set ps" using find_pod_some by blast
  show "returns (\<lambda>h. pods h = ps)
     (if config_hash cm \<noteq> str_at (om_Annotations (pod_Meta p)) configMapHashAnnotation
      then bindE (safeRestartPodWithIndex E c cm i None) (\<lambda>_. ok ()) else ensureClusterSize E c p)
     (\<lambda>_ h. ensured E c (up_to_date cm) i ps (pods h))"
  proof (cases "up_to_date cm p")
    case True
    then have "ensured E c (up_to_date cm) i ps ps" using p by (simp add: ensured_def has_current_def)
    then show ?thesis
      using True returns_weaken [OF returns_cluster_size [OF p_in p(2) assms]] by (simp add: up_to_date_def)
  next
    case False
    then have "\<not> has_current c (up_to_date cm) i ps" using p by (simp add: has_current_def)
    then have "returns (\<lambda>h. pods h = ps) (bindE (safeRestartPodWithIndex E c cm i None) (\<lambda>_. ok ()))
        (\<lambda>_ h. ensured E c (up_to_date cm) i ps (pods h))"
      by (intro returns_bindE [OF returns_restart [OF p]] returns_ok)
        (auto simp: ensured_def upgrade_strategy_def dest: new_pod_wanted [OF w])
    then show ?thesis using False p by (simp add: up_to_date_def)
  qed
qed

text \<open>The round of an upgrade.\<close>

lemma returns_version:
  assumes "p \<in> set ps" "\<not> isPodInFailureState p" and "distinct (map pod_key ps)"
  shows "returns (\<lambda>h. pods h = ps) (getAerospikeServerVersionFromPod E p) (\<lambda>v h. v = server_version p \<and> pods h = ps)"
  unfolding returns_def
proof (intro allI impI)
  fix h
  assume h: "pods h = ps"
  let ?h = "h @ [EvConnect (pt_PodIP (pod_Status p)) cServicePort]"
  obtain r where "env_info E ?h (pt_PodIP (pod_Status p)) ''build'' = Inr r" "fmlookup r ''build'' = Some (server_version p)"
    using reports [of p ?h] assms h by auto
  then show "\<exists>v h'. run_state (getAerospikeServerVersionFromPod E p) h = (Inr v, h') \<and> v = server_version p \<and> pods h' = ps"
    using connects [of p h] assms(1,2) h by (simp add: getAerospikeServerVersionFromPod_def runInfoCommandOnPod_def)
qed

lemma returns_upgrade_pod:
  assumes "wf_pods c ps" and p: "find_pod (slot c i) ps = Some p" "\<not> isPodInFailureState p"
    and strategy: "upgrade_strategy (Some u) = Inr strategy"
  shows "returns (\<lambda>h. pods h = ps) (maybeUpgradePodWithIndex E c cm i u) (\<lambda>_ h. ensured E c (upgraded c) i ps (pods h))"
proof -
  let ?Q = "\<lambda>_ h. ensured E c (upgraded c) i ps (pods h)"
  have w: "wanted cm (upgraded c)" by (simp add: wanted_def)
  have p_in: "p \<in> set ps" and d: "distinct (map pod_key ps)" using find_pod_some [OF p(1)] assms(1) by (auto simp: wf_pods_def)
  let ?check = "\<lambda>newPod. bindE (getAerospikeServerVersionFromPod E newPod) (\<lambda>version.
           if version \<noteq> spec_Version (asc_Spec c)
           then do {
             Record EventTypeNormal ReasonNodeUpgradeFailed;
             fail (Errorf ''failed to upgrade pod %s to version %s''
               [AStr (Key E (pod_Meta newPod)), AStr (spec_Version (asc_Spec c))])
           }
           else do { Record EventTypeNormal ReasonNodeUpgradeFinished; ok (Some newPod) })"
  have restart: "returns (\<lambda>h. pods h = ps) (bindE (safeRestartPodWithIndex E c cm i (Some u)) ?check) ?Q"
    if no: "\<not> has_current c (upgraded c) i ps"
  proof (rule returns_bindE [OF returns_restart [OF p strategy]], rule returns_pre)
    fix q
    assume q: "new_pod cm i q"
    let ?ps = "drop_pod (slot c i) ps @ [q]"
    have "distinct (map pod_key ?ps)"
      using d q by (auto simp: drop_pod_def distinct_map_filter new_pod_def fresh_pod_def)
    moreover have "\<not> isPodInFailureState q" "server_version q = spec_Version (asc_Spec c)"
      using q by (auto simp: new_pod_def upgraded_def)
    moreover have "ensured E c (upgraded c) i ps ?ps" using no new_pod_wanted [OF w q] by (auto simp: ensured_def)
    ultimately show "returns (\<lambda>h. pods h = ?ps) (?check q) ?Q"
      by (intro returns_bindE [OF returns_version] returns_pre)
        (auto intro!: returns_bind [OF post_keep] emits_intro returns_ok)
  qed
  have "returns (\<lambda>h. pods h = ps) (if server_version p = spec_Version (asc_Spec c) then ok (Some p)
      else do { Record EventTypeNormal ReasonNodeUpgradeStarted;
                bindE (safeRestartPodWithIndex E c cm i (Some u)) ?check }) ?Q"
  proof (cases "upgraded c p")
    case True
    then have "ensured E c (upgraded c) i ps ps" using p by (simp add: ensured_def has_current_def)
    then show ?thesis using True by (simp add: upgraded_def returns_def)
  next
    case False
    then have no: "\<not> has_current c (upgraded c) i ps" using p by (simp add: has_current_def)
    have "returns (\<lambda>h. pods h = ps) (do { Record EventTypeNormal ReasonNodeUpgradeStarted;
        bindE (safeRestartPodWithIndex E c cm i (Some u)) ?check }) ?Q"
      by (rule returns_bind [OF post_keep restart [OF no]]) (simp add: emits_call)
    then show ?thesis using False p(2) by (simp add: upgraded_def)
  qed
  then have "returns (\<lambda>h. pods h = ps) (bindE (getAerospikeServerVersionFromPod E p) (\<lambda>version.
      if version = spec_Version (asc_Spec c) then ok (Some p)
      else do { Record EventTypeNormal ReasonNodeUpgradeStarted;
                bindE (safeRestartPodWithIndex E c cm i (Some u)) ?check })) ?Q"
    by (intro returns_bindE [OF returns_version [OF p_in p(2) d]] returns_pre) simp
  then show ?thesis
    unfolding maybeUpgradePodWithIndex_def
    by (intro returns_bindE [OF returns_getPod]) (use p(1) in \<open>auto simp: returns_def\<close>)
qed

lemma returns_upgrade_round:
  assumes "wf_pods c ps" and "upgrade_strategy (Some u) = Inr strategy"
  shows "returns (\<lambda>h. pods h = ps) (ensure_pod E c cm (Some u) i) (\<lambda>_ h. ensured E c (upgraded c) i ps (pods h))"
  unfolding ensure_pod_def option.case
  by (rule returns_round, simp add: wanted_def)
    (rule returns_bindE [OF returns_upgrade_pod [OF assms(1) _ _ assms(2)] returns_ok])

subsection \<open>A pass over the pods\<close>

lemma returns_scale_down:
  assumes "\<And>i p. i \<in> set xs \<Longrightarrow> find_pod (slot c i) ps = Some p \<Longrightarrow> \<not> isPodInFailureState p"
  shows "returns (\<lambda>h. pods h = ps) (forE xs (\<lambda>i. safeDeletePodWithIndex E c i))
     (\<lambda>_ h. pods h = filter (\<lambda>p. pod_key p \<notin> slot c ` set xs) ps)"
proof -
  let ?up = "\<lambda>s. \<forall>i \<in> set xs. \<forall>p. find_pod (slot c i) s = Some p \<longrightarrow> \<not> isPodInFailureState p"
  have "returns (\<lambda>h. ?up ps \<and> pods h = ps) (forE xs (safeDeletePodWithIndex E c))
      (\<lambda>_ h. ?up (fold (\<lambda>i. drop_pod (slot c i)) xs ps) \<and> pods h = fold (\<lambda>i. drop_pod (slot c i)) xs ps)"
  proof (rule returns_forE_fold [where I = "\<lambda>s h. ?up s \<and> pods h = s"])
    fix i s
    assume i: "i \<in> set xs"
    show "returns (\<lambda>h. ?up s \<and> pods h = s) (safeDeletePodWithIndex E c i)
        (\<lambda>_ h. ?up (drop_pod (slot c i) s) \<and> pods h = drop_pod (slot c i) s)"
      by (rule returns_pre, rule returns_weaken [OF returns_safeDelete]) (use i in \<open>auto simp: find_drop\<close>)
  qed
  then show ?thesis by (rule returns_weaken) (use assms in \<open>auto simp: fold_drop\<close>)
qed

lemma returns_rounds:
  assumes wf: "wf_pods c ps" and surplus_up: "surplus_up c ps"
    and n: "0 \<le> spec_NodeCount (asc_Spec c)" "spec_NodeCount (asc_Spec c) < 2 ^ 31"
    and round: "\<And>i ps. wf_pods c ps \<Longrightarrow> returns (\<lambda>h. pods h = ps) (ensure_pod E c cm u i) (\<lambda>_ h. ensured E c G i ps (pods h))"
  shows "returns (\<lambda>h. pods h = ps) (ensurePods E c cm u)
     (\<lambda>_ h. brought c G ps (pods h))"
proof -
  let ?n = "spec_NodeCount (asc_Spec c)" and ?m = "int (length (cluster_pods c ps))"
  let ?qs = "filter (\<lambda>p. pod_key p \<notin> slot c ` {?n..?m - 1}) ps"
  have surplus: "\<not> isPodInFailureState p" if i: "i \<in> {?n..?m - 1}" and p: "find_pod (slot c i) ps = Some p" for i p
  proof -
    have "0 \<le> i" "i < 2 ^ 31" using i n(1) cluster_pods_bound [OF wf] by auto
    from slot_cluster_pod [OF wf p this] surplus_up i show ?thesis by (auto simp: surplus_up_def)
  qed
  have down: "returns (\<lambda>h. pods h = ps) (forE (rev [?n..?m - 1]) (\<lambda>i. safeDeletePodWithIndex E c i))
      (\<lambda>_ h. pods h = ?qs)"
    using returns_scale_down [of "rev [?n..?m - 1]" ps] surplus by simp
  have up: "returns (\<lambda>h. pods h = ?qs) (forE [0..?n - 1] (ensure_pod E c cm u))
      (\<lambda>_ h. steps (ensured E c G) [0..?n - 1] ?qs (pods h))"
  proof (rule returns_forE_steps [where I = "wf_pods c"])
    show "wf_pods c rs'" if "i \<in> set [0..?n - 1]" "wf_pods c rs" "ensured E c G i rs rs'" for i rs rs'
      using ensured_wf [OF that(3,2)] that(1) n(2) by simp
  qed (auto intro: round wf_pods_drop wf)
  have result: "brought c G ps rs"
    if "steps (ensured E c G) [0..?n - 1] ?qs rs" for rs
  proof -
    from n have range: "set [0..?n - 1] \<subseteq> {0 ..< 2 ^ 31}" by auto
    note all = ensured_all [OF that wf_pods_drop [OF wf] range]
    have find: "find_pod (slot c j) ?qs = (if j \<in> {?n..?m - 1} then None else find_pod (slot c j) ps)" for j
      by (auto simp: find_filter_key dest: pod_name_inj)
    have "find_pod (slot c j) rs = (if j < ?m then None else find_pod (slot c j) ps)" if "?n \<le> j" for j
      using that all find by auto
    moreover have "undisturbed c G ps rs"
      unfolding undisturbed_def
    proof (intro conjI ballI impI)
      fix i
      assume i: "i \<in> {0 ..< ?n}" and cur: "has_current c G i ps"
      from i have eq: "find_pod (slot c i) ?qs = find_pod (slot c i) ps" by (simp add: find)
      with cur have "has_current c G i ?qs" by (simp only: has_current_def)
      then have "find_pod (slot c i) rs = find_pod (slot c i) ?qs" using all by blast
      then show "find_pod (slot c i) rs = find_pod (slot c i) ps" by (simp only: eq)
    next
      have "pod_key p \<notin> slot c ` {?n..?m - 1}" if p: "p \<in> set ps" "\<not> ours c p" for p
      proof
        assume "pod_key p \<in> slot c ` {?n..?m - 1}"
        then obtain i where "pod_key p = slot c i" "?n \<le> i" "i \<le> ?m - 1" by auto
        moreover from this have "0 \<le> i" "i < 2 ^ 31" using n(1) cluster_pods_bound [OF wf] by auto
        ultimately show False using wf p unfolding wf_pods_def by blast
      qed
      then show "filter (\<lambda>p. \<not> ours c p) rs = filter (\<lambda>p. \<not> ours c p) ps"
        using all by (auto simp: filter_filter intro!: filter_cong)
    qed
    moreover have "renewed c G ps rs"
      unfolding renewed_def
    proof (intro ballI impI)
      fix i
      assume i: "i \<in> {0 ..< ?n}" and no: "\<not> has_current c G i ps"
      from i have "find_pod (slot c i) ?qs = find_pod (slot c i) ps" by (simp add: find)
      with no have "\<not> has_current c G i ?qs" by (simp only: has_current_def not_False_eq_True)
      with all i show "has_current c (upgraded c) i rs" by simp
    qed
    ultimately show ?thesis using all by (auto simp: brought_def)
  qed
  let ?rounds = "\<lambda>l. bindE (forE (rev [?n..int (length l) - 1]) (\<lambda>i. safeDeletePodWithIndex E c i))
     (\<lambda>_. forE [0..?n - 1] (\<lambda>i. ensure_pod E c cm u i))"
  have "returns (\<lambda>h. pods h = ps) (?rounds (byIndex (filter (ours c) ps)))
     (\<lambda>_ h. brought c G ps (pods h))"
    using returns_bindE [OF down returns_weaken [OF up]] result by (simp add: byIndex_def cluster_pods_def)
  then have "returns (\<lambda>h. pods h = ps \<and> l = byIndex (filter (ours c) ps)) (?rounds l)
     (\<lambda>_ h. brought c G ps (pods h))" for l
    by (cases "l = byIndex (filter (ours c) ps)") (simp_all add: returns_def)
  then show ?thesis
    unfolding ensurePods_def Let_def by (rule returns_bindE [OF returns_list])
qed

lemma returns_ensurePods:
  assumes wf: "wf_pods c ps" and scalable: "scalable c ps"
    and n: "0 \<le> spec_NodeCount (asc_Spec c)" "spec_NodeCount (asc_Spec c) < 2 ^ 31"
    and round: "\<And>i ps. wf_pods c ps \<Longrightarrow> returns (\<lambda>h. pods h = ps) (ensure_pod E c cm u i) (\<lambda>_ h. ensured E c G i ps (pods h))"
  shows "returns (\<lambda>h. pods h = ps) (ensurePods E c cm u)
     (\<lambda>_ h. wf_pods c (pods h) \<and> converged c G (pods h) \<and> undisturbed c G ps (pods h) \<and> renewed c G ps (pods h))"
proof (rule returns_weaken)
  show "returns (\<lambda>h. pods h = ps) (ensurePods E c cm u) (\<lambda>_ h. brought c G ps (pods h))"
    by (rule returns_rounds [OF wf scalable_up [OF scalable] n round])
  show "wf_pods c (pods h) \<and> converged c G (pods h) \<and> undisturbed c G ps (pods h) \<and> renewed c G ps (pods h)"
    if "brought c G ps (pods h)" for h
    using brought_converged [OF wf scalable n(2) that] that by (simp add: brought_def)
qed

end

end
