(* ===== verification/ApiServer.thy ===== *)
theory ApiServer
  imports WorkingNodes
begin

text \<open>
  A cluster on an API server that works: its config map, service and network policy are those the
  history has left. A pass outside an upgrade succeeds and reaches the desired pods, once they are
  reached a further pass changes nothing, and a pass of an upgrade finishes the upgrade.
\<close>

section \<open>The other objects of a cluster\<close>

text \<open>The config map, the service and the network policy a history leaves for a cluster.\<close>

abbreviation cluster_key :: "AerospikeCluster \<Rightarrow> string \<times> string" where
  "cluster_key c \<equiv> (asc_Namespace c, asc_Name c)"

abbreviation meta_key :: "ObjectMeta \<Rightarrow> string \<times> string" where
  "meta_key m \<equiv> (om_Namespace m, om_Name m)"

lemma resource_keys:
  "meta_key (svc_Meta (cluster_service c)) = cluster_key c" "meta_key (np_Meta (cluster_policy c)) = cluster_key c"
  by (simp_all add: cluster_service_def cluster_policy_def zero_meta_def)

fun store_config_map :: "string \<times> string \<Rightarrow> event \<Rightarrow> ConfigMap option \<Rightarrow> ConfigMap option" where
  "store_config_map k (EvCreateConfigMap x True) m = (if meta_key (cm_Meta x) = k then Some x else m)"
| "store_config_map k (EvUpdateConfigMap x True) m = (if meta_key (cm_Meta x) = k then Some x else m)"
| "store_config_map k e m = m"

definition config_map_at :: "string \<times> string \<Rightarrow> ConfigMap option \<Rightarrow> history \<Rightarrow> ConfigMap option" where
  "config_map_at k m h = fold (store_config_map k) h m"

fun creates_service :: "string \<times> string \<Rightarrow> event \<Rightarrow> bool" where
  "creates_service k (EvCreateService x r) = (r \<and> meta_key (svc_Meta x) = k)"
| "creates_service k _ = False"

fun creates_policy :: "string \<times> string \<Rightarrow> event \<Rightarrow> bool" where
  "creates_policy k (EvCreateNetworkPolicy x r) = (r \<and> meta_key (np_Meta x) = k)"
| "creates_policy k _ = False"

definition service_at :: "string \<times> string \<Rightarrow> bool \<Rightarrow> history \<Rightarrow> bool" where
  "service_at k b h \<longleftrightarrow> b \<or> list_ex (creates_service k) h"

definition policy_at :: "string \<times> string \<Rightarrow> bool \<Rightarrow> history \<Rightarrow> bool" where
  "policy_at k b h \<longleftrightarrow> b \<or> list_ex (creates_policy k) h"

text \<open>A config map that \<open>updateConfigMap\<close> takes for current.\<close>

definition config_current :: "env \<Rightarrow> AerospikeCluster \<Rightarrow> ConfigMap option \<Rightarrow> bool" where
  "config_current E c m \<longleftrightarrow> (\<exists>x. m = Some x \<and> config_hash x = Hash E (buildConfig c) \<and>
     Hash E (str_at (cm_Data x) configFileName) = config_hash x)"

lemma objects_append [simp]:
  "config_map_at k m (h @ es) = fold (store_config_map k) es (config_map_at k m h)"
  "service_at k b (h @ es) \<longleftrightarrow> service_at k b h \<or> list_ex (creates_service k) es"
  "policy_at k b (h @ es) \<longleftrightarrow> policy_at k b h \<or> list_ex (creates_policy k) es"
  by (auto simp: config_map_at_def service_at_def policy_at_def)

lemma store_config_map_other: "pod_calls e \<or> signals_cluster e \<Longrightarrow> store_config_map k e m = m"
  by (cases e) auto

text \<open>What is left in place by the calls on pods and on the cluster object.\<close>

definition in_place :: "env \<Rightarrow> AerospikeCluster \<Rightarrow> ConfigMap option \<Rightarrow> bool \<Rightarrow> bool \<Rightarrow> history \<Rightarrow> bool" where
  "in_place E c cm0 svc0 np0 h \<longleftrightarrow> config_current E c (config_map_at (cluster_key c) cm0 h) \<and>
     service_at (cluster_key c) svc0 h \<and> policy_at (cluster_key c) np0 h"

lemma in_place_append:
  assumes "in_place E c cm0 svc0 np0 h" and "list_all (\<lambda>e. pod_calls e \<or> signals_cluster e) es"
  shows "in_place E c cm0 svc0 np0 (h @ es)"
proof -
  have "fold (store_config_map k) es m = m" for k m
    using assms(2) by (induction es) (simp_all add: store_config_map_other)
  then show ?thesis using assms(1) by (simp add: in_place_def)
qed

text \<open>
  A call that changes something: a write other than the creation of an object that already exists,
  which the server refuses.
\<close>

fun refused :: "event \<Rightarrow> bool" where
  "refused (EvCreateConfigMap _ r) = (\<not> r)"
| "refused (EvCreateService _ r) = (\<not> r)"
| "refused (EvCreateNetworkPolicy _ r) = (\<not> r)"
| "refused _ = False"

definition changes :: "event \<Rightarrow> bool" where
  "changes e \<longleftrightarrow> writes e \<and> \<not> refused e"

lemma changes_pods: "touches_pods e \<Longrightarrow> changes e"
  by (cases e) (simp_all add: changes_def)

lemma changes_config: "\<not> changes e \<Longrightarrow> store_config_map k e m = m"
  by (cases e) (auto simp: changes_def)

text \<open>The pods a cluster is meant to have: named in its own order, with the current configuration.\<close>

definition desired_pods :: "env \<Rightarrow> AerospikeCluster \<Rightarrow> Pod list \<Rightarrow> bool" where
  "desired_pods E c ps \<longleftrightarrow> wf_pods c ps \<and> converged c (up_to_date (buildConfigMap E c)) ps"

text \<open>The same cluster, whatever its annotations and its status.\<close>

definition same_cluster :: "AerospikeCluster \<Rightarrow> AerospikeCluster \<Rightarrow> bool" where
  "same_cluster c c' \<longleftrightarrow> asc_Spec c' = asc_Spec c \<and> cluster_key c' = cluster_key c"

lemma same_cluster_remove:
  "same_cluster c (removeAerospikeClusterAnnotation k (appendCondition x c))"
  by (simp add: same_cluster_def removeAerospikeClusterAnnotation_def)

text \<open>Nothing of this depends on the annotations and the status of the cluster.\<close>

lemma same_cluster_eqs:
  assumes "same_cluster c c'"
  shows "asc_Spec c' = asc_Spec c" "pod_name c' = pod_name c" "cluster_pods c' = cluster_pods c" "slot c' = slot c"
    "buildConfig c' = buildConfig c" "wf_pods c' = wf_pods c" "scalable c' = scalable c" "upgraded c' = upgraded c"
    "has_current c' = has_current c" "converged c' = converged c" "desired_pods E c' = desired_pods E c"
    "in_place E c' = in_place E c"
proof -
  from assms have s: "asc_Spec c' = asc_Spec c" "asc_Namespace c' = asc_Namespace c" "asc_Name c' = asc_Name c"
    by (simp_all add: same_cluster_def)
  show n: "asc_Spec c' = asc_Spec c" "pod_name c' = pod_name c" "cluster_pods c' = cluster_pods c" "slot c' = slot c"
    by (auto simp: fun_eq_iff s pod_name_def cluster_pods_def)
  show b: "buildConfig c' = buildConfig c"
    by (simp add: buildConfig_def getNamespaceProps_def getClusterProps_def s)
  show w: "wf_pods c' = wf_pods c" "scalable c' = scalable c" "upgraded c' = upgraded c"
    "has_current c' = has_current c" "converged c' = converged c"
    by (simp_all add: fun_eq_iff wf_pods_def scalable_def upgraded_def has_current_def converged_def n s)
  show "desired_pods E c' = desired_pods E c"
    by (simp add: fun_eq_iff desired_pods_def w converged_def up_to_date_def b n)
  show "in_place E c' = in_place E c" by (simp add: fun_eq_iff in_place_def config_current_def b s)
qed

lemma same_cluster_updateStatus [simp]: "same_cluster c (updateStatus c)"
  by (simp add: same_cluster_def)

lemma same_cluster_trans: "same_cluster c d \<Longrightarrow> same_cluster d e \<Longrightarrow> same_cluster c e"
  by (simp add: same_cluster_def)

lemma updateStatus_idem [simp]: "updateStatus (updateStatus c) = updateStatus c"
  by (simp add: updateStatus_def)

text \<open>The patch that finishes an upgrade: the cluster it was computed from and the one it sends.\<close>

definition finished :: "AerospikeCluster \<Rightarrow> AerospikeCluster \<Rightarrow> history \<Rightarrow> bool" where
  "finished c new h \<longleftrightarrow> EvPatchCluster (updateStatus c) new True \<in> set h \<and> upgrade_status new = None \<and>
     status_Spec (asc_Status new) = status_Spec (asc_Status (updateStatus c)) \<and> same_cluster c new"

text \<open>The backups taken before the upgrade, whenever they are read, have finished.\<close>

definition backed_up :: "env \<Rightarrow> AerospikeCluster \<Rightarrow> bool" where
  "backed_up E c \<longleftrightarrow> (\<forall>nspec \<in> set (spec_Namespaces (asc_Spec c)). \<forall>h. \<exists>b.
     env_get_backup E h (asc_Namespace c) (upgrade_backup_name c (ns_Name nspec)) = Inr b \<and>
     has_condition ConditionBackupFinished (bks_Conditions (asnb_Status b)) \<and>
     \<not> has_condition ConditionBackupFailed (bks_Conditions (asnb_Status b)))"

lemma run_backups_finished:
  assumes "backed_up E c"
  shows "\<exists>h'. run_state (isClusterBackupFinished E c) h = (Inr True, h')"
proof -
  have "\<exists>h'. run_state (backups_finished E c nss) h = (Inr True, h')"
    if "set nss \<subseteq> set (spec_Namespaces (asc_Spec c))" for nss h
    using that
  proof (induction nss arbitrary: h)
    case (Cons x nss)
    let ?name = "upgrade_backup_name c (ns_Name x)"
    let ?h = "h @ [EvGet KBackup (asc_Namespace c) ?name]"
    have "x \<in> set (spec_Namespaces (asc_Spec c))" using Cons.prems by simp
    then obtain b where "env_get_backup E h (asc_Namespace c) ?name = Inr b"
      "backup_completed (bks_Conditions (asnb_Status b)) = Inr True"
      using assms backup_completed_finished unfolding backed_up_def by blast
    moreover obtain h' where "run_state (backups_finished E c nss) ?h = (Inr True, h')"
      using Cons.IH [of ?h] Cons.prems by auto
    ultimately show ?case by (simp add: isBackupCompleted_def)
  qed simp
  then show ?thesis unfolding isClusterBackupFinished_def by blast
qed

locale api_server = working_nodes +
  fixes cm0 :: "ConfigMap option" and svc0 np0 :: bool
  assumes config_create: "meta_key (cm_Meta x) = cluster_key c \<Longrightarrow>
      env_create_configmap E h x =
        (if config_map_at (cluster_key c) cm0 h = None then Inr x else Inl AlreadyExists)"
    and config_get: "config_map_at (cluster_key c) cm0 h = Some x \<Longrightarrow>
      env_get_configmap E h (asc_Namespace c) (asc_Name c) = Inr x"
    and config_update: "meta_key (cm_Meta x) = cluster_key c \<Longrightarrow> env_update_configmap E h x = Inr x"
    and service_create: "meta_key (svc_Meta svc) = cluster_key c \<Longrightarrow>
      env_create_service E h svc = (if service_at (cluster_key c) svc0 h then Inl AlreadyExists else Inr svc)"
    and policy_create: "meta_key (np_Meta np) = cluster_key c \<Longrightarrow>
      env_create_networkpolicy E h np = (if policy_at (cluster_key c) np0 h then Inl AlreadyExists else Inr np)"
    and storage_class: "nspec \<in> set (spec_Namespaces (asc_Spec c)) \<Longrightarrow>
      st_StorageClassName (ns_Storage nspec) = Some sc \<Longrightarrow> sc \<noteq> [] \<Longrightarrow> env_get_storageclass E h sc = Inr ()"
    and replication: "nspec \<in> set (spec_Namespaces (asc_Spec c)) \<Longrightarrow>
      ns_ReplicationFactor nspec = Some rf \<Longrightarrow> rf \<le> spec_NodeCount (asc_Spec c)"
    and size: "0 \<le> spec_NodeCount (asc_Spec c)" "spec_NodeCount (asc_Spec c) < 2 ^ 31"
    and cluster_patch: "\<exists>b. env_cluster_patch E c1 c2 = Inr b" "\<exists>c'. env_patch_cluster E h ns n b = Inr c'"
    and cluster_status: "\<exists>c'. env_update_cluster_status E h c1 = Inr c'"
begin

abbreviation placed :: "history \<Rightarrow> bool" where
  "placed \<equiv> in_place E c cm0 svc0 np0"

lemma returns_validate:
  assumes R: "\<And>h es. R h \<Longrightarrow> list_all (\<lambda>e. \<not> writes e) es \<Longrightarrow> R (h @ es)"
  shows "returns R (validate E c) (\<lambda>r h. r = True \<and> R h)"
proof -
  have rf: "run_state (replication_factors_valid c nss) h = (True, h)"
    if "set nss \<subseteq> set (spec_Namespaces (asc_Spec c))" for nss h
    using that by (induction nss) (auto dest: replication split: option.splits)
  have sc: "fst (run_state (storage_classes_valid E nss) h) = True"
    if "set nss \<subseteq> set (spec_Namespaces (asc_Spec c))" for nss h
    using that
  proof (induction nss arbitrary: h)
    case (Cons x nss)
    then show ?case using storage_class [of x] by (auto split: option.split)
  qed simp
  have "\<exists>h'. run_state (validate E c) h = (Inr True, h')" for h
    using sc [OF subset_refl, of h]
    by (auto simp: validate_def validateReplicationFactor_def validateStorageClass_def rf split: prod.split)
  then have "returns (\<lambda>_. True) (validate E c) (\<lambda>r _. r = True)" unfolding returns_def by blast
  moreover have "emits (\<lambda>e. \<not> writes e) (validate E c)" by (auto intro: emits_intro)
  ultimately have "returns (\<lambda>h. True \<and> R h) (validate E c) (\<lambda>r h. r = True \<and> R h)"
    using R by (rule returns_frame)
  then show ?thesis by simp
qed

text \<open>The service and the network policy are there afterwards.\<close>

lemma returns_ensureService:
  "returns (\<lambda>h. True) (ensureService E c) (\<lambda>_. service_at (cluster_key c) svc0)"
  by (simp add: returns_def ensureService_def service_create resource_keys)

lemma returns_ensurePolicy:
  "returns (\<lambda>h. True) (ensureNetworkPolicy E c) (\<lambda>_. policy_at (cluster_key c) np0)"
  by (simp add: returns_def ensureNetworkPolicy_def policy_create resource_keys)

lemma returns_ensureConfigMap:
  "returns (\<lambda>h. True) (ensureConfigMap E c) (\<lambda>cm h. config_hash cm = Hash E (buildConfig c) \<and>
     config_current E c (config_map_at (cluster_key c) cm0 h))"
  unfolding returns_def
proof (intro allI impI)
  fix h
  let ?x = "buildConfigMap E c" and ?at = "config_map_at (cluster_key c) cm0"
  have x: "meta_key (cm_Meta ?x) = cluster_key c" "config_current E c (Some ?x)"
    by (simp_all add: config_current_def)
  show "\<exists>cm h'. run_state (ensureConfigMap E c) h = (Inr cm, h') \<and> config_hash cm = Hash E (buildConfig c) \<and>
      config_current E c (?at h')"
  proof (cases "?at h")
    case None
    then have "run_state (ensureConfigMap E c) h = (Inr ?x, h @ [EvCreateConfigMap ?x True])"
      using config_create [OF x(1)] by (simp add: ensureConfigMap_def Let_def)
    then show ?thesis using x by simp
  next
    case (Some y)
    let ?h = "h @ [EvCreateConfigMap ?x False]"
    have get: "env_get_configmap E ?h (asc_Namespace c) (asc_Name c) = Inr y"
      using Some by (intro config_get) simp
    have run: "run_state (ensureConfigMap E c) h = run_state (updateConfigMap E c ?x) ?h"
      using config_create [OF x(1)] Some by (simp add: ensureConfigMap_def Let_def)
    show ?thesis
    proof (cases "Hash E (str_at (cm_Data y) configFileName) = config_hash y \<and> config_hash y = Hash E (buildConfig c)")
      case True
      then show ?thesis using Some get by (simp add: run updateConfigMap_def Let_def config_current_def)
    next
      case False
      then have "run_state (updateConfigMap E c ?x) ?h =
          (Inr ?x, ?h @ [EvGet KConfigMap (asc_Namespace c) (asc_Name c), EvUpdateConfigMap ?x True])"
        using get config_update [OF x(1)] by (auto simp: updateConfigMap_def Let_def)
      then show ?thesis using x by (simp add: run)
    qed
  qed
qed

text \<open>A pass outside an upgrade.\<close>

lemma up_to_date_hash: "config_hash cm = config_hash cm' \<Longrightarrow> up_to_date cm = up_to_date cm'"
  by (simp add: fun_eq_iff up_to_date_def)

lemma returns_patchCluster:
  "returns (\<lambda>_. True) (patchCluster E c1 c2) (\<lambda>_ h. c1 \<noteq> c2 \<longrightarrow> EvPatchCluster c1 c2 True \<in> set h)"
proof (cases "c1 = c2")
  case False
  let ?sent = "\<lambda>h. EvPatchCluster c1 c2 True \<in> set h"
  obtain b where "env_cluster_patch E c1 c2 = Inr b" using cluster_patch(1) by blast
  moreover have "\<exists>c'. of_api (env_patch_cluster E h ns n b) = Inr c'" for h ns n b using cluster_patch(2) by (metis map_sum.simps(2))
  moreover have "\<exists>c'. of_api (env_update_cluster_status E h x) = Inr c'" for h x using cluster_status by (metis map_sum.simps(2))
  ultimately show ?thesis
    using False unfolding patchCluster_def Let_def
    by (auto intro!: returns_liftE returns_bindE [where B = "\<lambda>_. ?sent"] returns_call returns_ok)
qed (simp add: patchCluster_def returns_def)

lemma fold_store_pod: "list_all (\<lambda>e. \<not> touches_pods e) es \<Longrightarrow> fold (store_pod start) es s = s"
  by (induction es arbitrary: s) auto

lemma returns_objects:
  "returns (\<lambda>h. pods h = ps) (ensureService E c) (\<lambda>_ h. service_at (cluster_key c) svc0 h \<and> pods h = ps)"
  "returns (\<lambda>h. service_at (cluster_key c) svc0 h \<and> pods h = ps) (ensureConfigMap E c)
     (\<lambda>cm h. config_hash cm = Hash E (buildConfig c) \<and> config_current E c (config_map_at (cluster_key c) cm0 h) \<and>
        service_at (cluster_key c) svc0 h \<and> pods h = ps)"
  "returns (\<lambda>h. config_current E c (config_map_at (cluster_key c) cm0 h) \<and> service_at (cluster_key c) svc0 h \<and> pods h = ps)
     (ensureNetworkPolicy E c) (\<lambda>_ h. placed h \<and> pods h = ps)"
proof -
  have quiet: "emits (\<lambda>e. \<not> touches_pods e) (ensureService E c)" "emits (\<lambda>e. \<not> touches_pods e) (ensureConfigMap E c)"
    by (auto intro!: emits_intro)
  have policy: "emits (\<lambda>e. \<exists>x r. e = EvCreateNetworkPolicy x r) (ensureNetworkPolicy E c)" by (auto intro!: emits_intro)
  have others: "fold (store_config_map k) es m = m" "list_all (\<lambda>e. \<not> touches_pods e) es"
    if "list_all (\<lambda>e. \<exists>x r. e = EvCreateNetworkPolicy x r) es" for k es m
    using that by (induction es) auto
  show "returns (\<lambda>h. pods h = ps) (ensureService E c) (\<lambda>_ h. service_at (cluster_key c) svc0 h \<and> pods h = ps)"
    using returns_frame [OF returns_ensureService quiet(1), where R = "\<lambda>h. pods h = ps"] fold_store_pod by simp
  show "returns (\<lambda>h. service_at (cluster_key c) svc0 h \<and> pods h = ps) (ensureConfigMap E c)
     (\<lambda>cm h. config_hash cm = Hash E (buildConfig c) \<and> config_current E c (config_map_at (cluster_key c) cm0 h) \<and>
        service_at (cluster_key c) svc0 h \<and> pods h = ps)"
    by (rule returns_weaken [OF returns_frame [OF returns_ensureConfigMap quiet(2),
        where R = "\<lambda>h. service_at (cluster_key c) svc0 h \<and> pods h = ps"]]) (simp_all add: fold_store_pod)
  show "returns (\<lambda>h. config_current E c (config_map_at (cluster_key c) cm0 h) \<and> service_at (cluster_key c) svc0 h \<and> pods h = ps)
     (ensureNetworkPolicy E c) (\<lambda>_ h. placed h \<and> pods h = ps)"
    by (rule returns_weaken [OF returns_frame [OF returns_ensurePolicy policy,
        where R = "\<lambda>h. config_current E c (config_map_at (cluster_key c) cm0 h) \<and> service_at (cluster_key c) svc0 h \<and> pods h = ps"]])
      (auto simp: others fold_store_pod in_place_def)
qed

text \<open>What a pass that wants \<open>G\<close> of the pods has reached, from the pods \<open>ps\<close>.\<close>

definition reached :: "(Pod \<Rightarrow> bool) \<Rightarrow> Pod list \<Rightarrow> history \<Rightarrow> bool" where
  "reached G ps h \<longleftrightarrow> placed h \<and> wf_pods c (pods h) \<and> converged c G (pods h) \<and>
     undisturbed c G ps (pods h) \<and> renewed c G ps (pods h)"

lemma reached_append:
  "reached G ps h \<Longrightarrow> list_all (\<lambda>e. \<not> touches_pods e \<and> signals_cluster e) es \<Longrightarrow> reached G ps (h @ es)"
  using in_place_append [of E c cm0 svc0 np0 h es] fold_store_pod [of es "pods h"]
  by (auto simp: reached_def list_all_iff)

lemma returns_reconcile:
  assumes ps: "wf_pods c ps" "scalable c ps"
    and round: "\<And>cm i ps. config_hash cm = Hash E (buildConfig c) \<Longrightarrow> wf_pods c ps \<Longrightarrow>
      returns (\<lambda>h. pods h = ps) (ensure_pod E c cm u i) (\<lambda>_ h. ensured E c G i ps (pods h))"
    and finish: "returns (reached G ps) (bindE (patchCluster E c (updateStatus c)) (\<lambda>_. case u of None \<Rightarrow> ok ()
      | Some u \<Rightarrow> do { s \<leftarrow> signalUpgradeFinished E (updateStatus c) u;
                       case snd s of Inl err \<Rightarrow> fail err | Inr _ \<Rightarrow> ok () })) (\<lambda>_. Q)"
  shows "returns (\<lambda>h. pods h = ps) (reconcile E c u) (\<lambda>_. Q)"
proof -
  let ?pods = "\<lambda>cm. do {
       r \<leftarrow> ensurePods E c cm u;
       case r of
         Inl err \<Rightarrow> if err = PodUpgradeFailed
           then (case u of Some u \<Rightarrow> do { _ \<leftarrow> signalUpgradeFailed E c u; fail err } | None \<Rightarrow> fail NilPanic)
           else fail err
       | Inr _ \<Rightarrow> bindE (patchCluster E c (updateStatus c)) (\<lambda>_. case u of None \<Rightarrow> ok ()
          | Some u \<Rightarrow> do { s \<leftarrow> signalUpgradeFinished E (updateStatus c) u;
                           case snd s of Inl err \<Rightarrow> fail err | Inr _ \<Rightarrow> ok () }) }"
  have "returns (\<lambda>h. placed h \<and> pods h = ps) (?pods cm) (\<lambda>_. Q)" if hash: "config_hash cm = Hash E (buildConfig c)" for cm
  proof -
    have "returns (\<lambda>h. pods h = ps \<and> placed h) (ensurePods E c cm u)
      (\<lambda>_ h. (wf_pods c (pods h) \<and> converged c G (pods h) \<and> undisturbed c G ps (pods h) \<and>
        renewed c G ps (pods h)) \<and> placed h)"
      by (rule returns_frame [OF returns_ensurePods [OF ps size round [OF hash]] emits_ensurePods])
        (auto intro: in_place_append list.pred_mono_strong)
    then have "returns (\<lambda>h. placed h \<and> pods h = ps) (ensurePods E c cm u) (\<lambda>_. reached G ps)"
      by (rule returns_weaken) (auto simp: reached_def)
    then show ?thesis by (rule returns_bind_ok) (use finish in simp)
  qed
  then have "returns (\<lambda>h. config_hash cm = Hash E (buildConfig c) \<and>
        config_current E c (config_map_at (cluster_key c) cm0 h) \<and> service_at (cluster_key c) svc0 h \<and> pods h = ps)
      (bindE (ensureNetworkPolicy E c) (\<lambda>_. ?pods cm)) (\<lambda>_. Q)" for cm
    by (intro returns_pre returns_bindE [OF returns_objects(3)])
  then have objects: "returns (\<lambda>h. pods h = ps) (bindE (ensureService E c) (\<lambda>_. bindE (ensureConfigMap E c) (\<lambda>cm.
       bindE (ensureNetworkPolicy E c) (\<lambda>_. ?pods cm)))) (\<lambda>_. Q)"
    by (intro returns_bindE [OF returns_objects(1)] returns_bindE [OF returns_objects(2)])
  have valid: "returns (\<lambda>h. pods h = ps) (validate E c) (\<lambda>r h. r = True \<and> pods h = ps)"
    by (rule returns_validate) (auto intro!: fold_store_pod elim: list.pred_mono_strong)
  show ?thesis
    unfolding reconcile_def Let_def
    by (rule returns_bindE [OF valid], rule returns_pre) (use objects in simp)
qed

text \<open>What the calls that write the cluster leave true.\<close>

definition kept :: "(history \<Rightarrow> bool) \<Rightarrow> bool" where
  "kept R \<longleftrightarrow> (\<forall>h es. R h \<longrightarrow> list_all (\<lambda>e. \<not> touches_pods e \<and> signals_cluster e) es \<longrightarrow> R (h @ es))"

lemma keptD: "kept R \<Longrightarrow> R h \<Longrightarrow> list_all (\<lambda>e. \<not> touches_pods e \<and> signals_cluster e) es \<Longrightarrow> R (h @ es)"
  by (simp add: kept_def)

lemma kept_reached: "kept (reached G ps)" "kept (\<lambda>h. pods h = ps)"
  by (auto simp: kept_def list_all_iff fold_store_pod intro: reached_append)

lemma returns_patch:
  assumes "kept R"
  shows "returns R (patchCluster E c1 c2) (\<lambda>_ h. (c1 \<noteq> c2 \<longrightarrow> EvPatchCluster c1 c2 True \<in> set h) \<and> R h)"
proof -
  have "emits (\<lambda>e. \<not> touches_pods e \<and> signals_cluster e) (patchCluster E c1 c2)"
    by (rule emits_patchCluster) simp_all
  from returns_frame [OF returns_patchCluster this, where R = R] keptD [OF assms] show ?thesis by simp
qed

lemma returns_finish: "returns (reached G ps) (patchCluster E c1 c2) (\<lambda>_. reached G ps)"
  by (rule returns_weaken [OF returns_patch [OF kept_reached(1)]]) auto

text \<open>The signals succeed, and the cluster each returns has been sent.\<close>

lemma run_patch_and_record:
  assumes "kept R" and "R h"
  shows "\<exists>h'. run_state (patch_and_record E old etype reason new) h = ((new, Inr ()), h') \<and> R h' \<and>
     (old \<noteq> new \<longrightarrow> EvPatchCluster old new True \<in> set h')"
proof -
  obtain x h' where run: "run_state (patchCluster E old new) h = (Inr x, h')"
    and h': "old \<noteq> new \<longrightarrow> EvPatchCluster old new True \<in> set h'" "R h'"
    by (rule returnsD [OF returns_patch [OF assms(1)] assms(2)]) auto
  moreover have "R (h' @ [EvRecord etype reason])" using keptD [OF assms(1) h'(2)] by simp
  ultimately show ?thesis by (auto simp: patch_and_record_def)
qed

lemma run_signal:
  assumes "kept R" and "R h" and "\<And>t. Q (f t)"
  shows "\<exists>new h'. run_state (do { t \<leftarrow> Now E; patch_and_record E d etype reason (f t) }) h = ((new, Inr ()), h') \<and>
     R h' \<and> (d \<noteq> new \<longrightarrow> EvPatchCluster d new True \<in> set h') \<and> Q new"
proof -
  let ?new = "f (env_now E h)"
  have "R (h @ [EvNow])" using keptD [OF assms(1,2)] by simp
  from run_patch_and_record [OF assms(1) this, of d etype reason ?new] assms(3) [of "env_now E h"] show ?thesis by auto
qed

lemma run_signals:
  assumes "kept R" and "R h"
  shows "\<exists>new h'. run_state (signalUpgradeFinished E d u) h = ((new, Inr ()), h') \<and> R h' \<and>
      (d \<noteq> new \<longrightarrow> EvPatchCluster d new True \<in> set h') \<and> d \<noteq> new \<and> upgrade_status new = None \<and>
      status_Spec (asc_Status new) = status_Spec (asc_Status d) \<and> same_cluster d new"
    and "\<exists>new h'. run_state (signalBackupFinished E d) h = ((new, Inr ()), h') \<and> R h' \<and>
      (d \<noteq> new \<longrightarrow> EvPatchCluster d new True \<in> set h') \<and> same_cluster d new"
    and "\<exists>new h'. run_state (signalUpgradeStarted E d u) h = ((new, Inr ()), h') \<and> R h' \<and>
      (d \<noteq> new \<longrightarrow> EvPatchCluster d new True \<in> set h') \<and> same_cluster d new"
proof -
  have "d \<noteq> removeAerospikeClusterAnnotation k (appendCondition x d)" for k x
    by (rule notI, drule arg_cong [where f = "\<lambda>c. length (status_Conditions (asc_Status c))"]) simp
  then show "\<exists>new h'. run_state (signalUpgradeFinished E d u) h = ((new, Inr ()), h') \<and> R h' \<and>
      (d \<noteq> new \<longrightarrow> EvPatchCluster d new True \<in> set h') \<and> d \<noteq> new \<and> upgrade_status new = None \<and>
      status_Spec (asc_Status new) = status_Spec (asc_Status d) \<and> same_cluster d new"
    unfolding signalUpgradeFinished_def Let_def
    by (intro run_signal [OF assms]) (simp add: same_cluster_remove)
qed (unfold signalBackupFinished_def signalUpgradeStarted_def Let_def,
    (rule run_signal [OF assms], simp add: same_cluster_def)+)

lemma settle_round:
  assumes "config_hash cm = Hash E (buildConfig c)" and "wf_pods c qs"
  shows "returns (\<lambda>h. pods h = qs) (ensure_pod E c cm None i)
    (\<lambda>_ h. ensured E c (up_to_date (buildConfigMap E c)) i qs (pods h))"
  using returns_ensure_pod [OF assms(2), of cm i] up_to_date_hash [of cm "buildConfigMap E c"] assms(1) by simp

lemma rounds_settle:
  assumes "wf_pods c ps" and "surplus_up c ps" and "config_hash cm = Hash E (buildConfig c)"
  shows "returns (\<lambda>h. pods h = ps) (ensurePods E c cm None) (\<lambda>_ h. brought c (up_to_date (buildConfigMap E c)) ps (pods h))"
  by (rule returns_rounds [OF assms(1,2) size settle_round [OF assms(3)]])

lemma returns_settle:
  assumes "wf_pods c ps" and "scalable c ps"
  shows "returns (\<lambda>h. pods h = ps) (reconcile E c None) (\<lambda>_. reached (up_to_date (buildConfigMap E c)) ps)"
  by (rule returns_reconcile [OF assms settle_round]) (auto intro: returns_bindE returns_finish returns_ok)

lemma returns_upgrade_finish:
  "returns (reached G ps) (do { s \<leftarrow> signalUpgradeFinished E (updateStatus c) u;
     case snd s of Inl err \<Rightarrow> fail err | Inr _ \<Rightarrow> ok () })
     (\<lambda>_ h. reached G ps h \<and> (\<exists>new. finished c new h))"
  unfolding returns_def
proof (intro allI impI)
  fix h
  assume "reached G ps h"
  from run_signals(1) [OF kept_reached(1) this, of "updateStatus c" u] obtain new h' where
    "run_state (signalUpgradeFinished E (updateStatus c) u) h = ((new, Inr ()), h')" "reached G ps h'" "finished c new h'"
    by (auto simp: finished_def same_cluster_def)
  then show "\<exists>x h'. run_state (do { s \<leftarrow> signalUpgradeFinished E (updateStatus c) u;
      case snd s of Inl err \<Rightarrow> fail err | Inr _ \<Rightarrow> ok () }) h = (Inr x, h') \<and>
      reached G ps h' \<and> (\<exists>new. finished c new h')"
    by auto
qed

lemma returns_upgrade:
  assumes "wf_pods c ps" and "scalable c ps" and "upgrade_strategy (Some u) = Inr strategy"
  shows "returns (\<lambda>h. pods h = ps) (reconcile E c (Some u))
     (\<lambda>_ h. reached (upgraded c) ps h \<and> (\<exists>new. finished c new h))"
proof (rule returns_reconcile [OF assms(1,2)])
  show "returns (\<lambda>h. pods h = qs) (ensure_pod E c cm (Some u) i) (\<lambda>_ h. ensured E c (upgraded c) i qs (pods h))"
    if "wf_pods c qs" for cm i qs
    using that assms(3) by (rule returns_upgrade_round)
  show "returns (reached (upgraded c) ps) (bindE (patchCluster E c (updateStatus c)) (\<lambda>_. case Some u of None \<Rightarrow> ok ()
      | Some u \<Rightarrow> do { s \<leftarrow> signalUpgradeFinished E (updateStatus c) u;
                       case snd s of Inl err \<Rightarrow> fail err | Inr _ \<Rightarrow> ok () }))
     (\<lambda>_ h. reached (upgraded c) ps h \<and> (\<exists>new. finished c new h))"
    unfolding option.case by (rule returns_bindE [OF returns_finish returns_upgrade_finish])
qed

subsection \<open>A pass that has nothing to do\<close>

lemma fold_config_quiet: "list_all (\<lambda>e. \<not> changes e) es \<Longrightarrow> fold (store_config_map k) es m = m"
  by (induction es arbitrary: m) (auto simp: changes_config)

lemma fold_pods_quiet: "list_all (\<lambda>e. \<not> changes e) es \<Longrightarrow> fold (store_pod start) es ps = ps"
  by (rule fold_store_pod) (auto simp: list_all_iff dest: changes_pods)

text \<open>Since \<open>h0\<close> nothing has changed and all is in place.\<close>

definition idle :: "history \<Rightarrow> Pod list \<Rightarrow> history \<Rightarrow> bool" where
  "idle h0 ps h \<longleftrightarrow> pods h = ps \<and> placed h \<and> (\<exists>es. h = h0 @ es \<and> list_all (\<lambda>e. \<not> changes e) es)"

lemma idle_append: "idle h0 ps h \<Longrightarrow> list_all (\<lambda>e. \<not> changes e) es \<Longrightarrow> idle h0 ps (h @ es)"
  by (auto simp: idle_def in_place_def fold_pods_quiet fold_config_quiet)

lemma returns_idle:
  assumes "\<And>h. idle h0 ps h \<Longrightarrow> \<exists>x es. run_state m h = (Inr x, h @ es) \<and> list_all (\<lambda>e. \<not> changes e) es \<and> Q x"
  shows "returns (idle h0 ps) m (\<lambda>x h. Q x \<and> idle h0 ps h)"
  unfolding returns_def using assms idle_append by blast

lemma returns_idle_only:
  assumes "\<And>h. idle h0 ps h \<Longrightarrow> \<exists>x es. run_state m h = (Inr x, h @ es) \<and> list_all (\<lambda>e. \<not> changes e) es"
  shows "returns (idle h0 ps) m (\<lambda>_. idle h0 ps)"
  unfolding returns_def using assms idle_append by blast

lemma idle_objects:
  "returns (idle h0 ps) (ensureService E c) (\<lambda>_. idle h0 ps)"
  "returns (idle h0 ps) (ensureNetworkPolicy E c) (\<lambda>_. idle h0 ps)"
  "returns (idle h0 ps) (ensureConfigMap E c) (\<lambda>cm h. config_hash cm = Hash E (buildConfig c) \<and> idle h0 ps h)"
proof -
  show "returns (idle h0 ps) (ensureService E c) (\<lambda>_. idle h0 ps)"
    by (rule returns_idle_only) (simp add: idle_def in_place_def ensureService_def service_create resource_keys changes_def)
  show "returns (idle h0 ps) (ensureNetworkPolicy E c) (\<lambda>_. idle h0 ps)"
    by (rule returns_idle_only) (simp add: idle_def in_place_def ensureNetworkPolicy_def policy_create resource_keys changes_def)
  show "returns (idle h0 ps) (ensureConfigMap E c) (\<lambda>cm h. config_hash cm = Hash E (buildConfig c) \<and> idle h0 ps h)"
  proof (rule returns_idle)
    fix h
    assume "idle h0 ps h"
    then obtain y where y: "config_map_at (cluster_key c) cm0 h = Some y" "config_hash y = Hash E (buildConfig c)"
      "Hash E (str_at (cm_Data y) configFileName) = config_hash y"
      by (auto simp: idle_def in_place_def config_current_def)
    let ?h = "h @ [EvCreateConfigMap (buildConfigMap E c) False]"
    have "env_get_configmap E ?h (asc_Namespace c) (asc_Name c) = Inr y" using y(1) by (intro config_get) simp
    then have "run_state (ensureConfigMap E c) h = (Inr y, ?h @ [EvGet KConfigMap (asc_Namespace c) (asc_Name c)])"
      using y config_create [of "buildConfigMap E c" h] by (simp add: ensureConfigMap_def updateConfigMap_def Let_def)
    then show "\<exists>cm es. run_state (ensureConfigMap E c) h = (Inr cm, h @ es) \<and> list_all (\<lambda>e. \<not> changes e) es \<and>
        config_hash cm = Hash E (buildConfig c)"
      using y(2) by (simp add: changes_def)
  qed
qed

lemma idle_pods:
  assumes "wf_pods c ps" and "converged c (up_to_date (buildConfigMap E c)) ps" and "config_hash cm = Hash E (buildConfig c)"
  shows "returns (idle h0 ps) (ensurePods E c cm None) (\<lambda>_. idle h0 ps)"
proof -
  let ?n = "spec_NodeCount (asc_Spec c)"
  have conv: "converged c (up_to_date cm) ps" using assms(2,3) up_to_date_hash [of cm "buildConfigMap E c"] by simp
  have current: "has_current c (up_to_date cm) i ps" if "i \<in> set [0..?n - 1]" for i
    using converged_current [OF assms(1) conv] that by simp
  have "returns (idle h0 ps) (ensure_pod E c cm None i) (\<lambda>_. idle h0 ps)" if "i \<in> set [0..?n - 1]" for i
  proof (rule returns_idle_only)
    fix h
    assume "idle h0 ps h"
    then have "has_current c (up_to_date cm) i (pods h)" "wf_pods c (pods h)" using current [OF that] assms(1) by (simp_all add: idle_def)
    from run_ensure_current [OF this]
    show "\<exists>x es. run_state (ensure_pod E c cm None i) h = (Inr x, h @ es) \<and> list_all (\<lambda>e. \<not> changes e) es"
      by (fastforce simp: changes_def list_all_iff)
  qed
  then have rounds: "returns (idle h0 ps) (forE [0..?n - 1] (ensure_pod E c cm None)) (\<lambda>_. idle h0 ps)"
    by (rule returns_forE)
  have list: "returns (idle h0 ps) (listClusterPods E c) (\<lambda>l h. int (length l) = ?n \<and> idle h0 ps h)"
  proof (rule returns_idle)
    fix h
    assume "idle h0 ps h"
    then show "\<exists>l es. run_state (listClusterPods E c) h = (Inr l, h @ es) \<and> list_all (\<lambda>e. \<not> changes e) es \<and>
        int (length l) = ?n"
      using converged_length [OF conv] size
      by (simp add: idle_def listClusterPods_def list_pods changes_def cluster_pods_def byIndex_def)
  qed
  show ?thesis
    unfolding ensurePods_def Let_def
    by (rule returns_bindE [OF list], rule returns_pre) (use rounds in \<open>simp add: bindE_def\<close>)
qed

lemma idle_reconcile:
  assumes "desired_pods E c ps" and "updateStatus c = c"
  shows "returns (idle h0 ps) (reconcile E c None) (\<lambda>_. idle h0 ps)"
proof -
  let ?pods = "\<lambda>cm. do {
       r \<leftarrow> ensurePods E c cm None;
       case r of
         Inl err \<Rightarrow> if err = PodUpgradeFailed then fail NilPanic else fail err
       | Inr _ \<Rightarrow> bindE (patchCluster E c (updateStatus c)) (\<lambda>_. ok ()) }"
  have "returns (idle h0 ps) (?pods cm) (\<lambda>_. idle h0 ps)" if "config_hash cm = Hash E (buildConfig c)" for cm
    by (rule returns_bind_ok [OF idle_pods [OF _ _ that]])
      (use assms in \<open>auto simp: desired_pods_def patchCluster_def returns_def bindE_def\<close>)
  then have objects: "returns (idle h0 ps) (bindE (ensureService E c) (\<lambda>_. bindE (ensureConfigMap E c) (\<lambda>cm.
       bindE (ensureNetworkPolicy E c) (\<lambda>_. ?pods cm)))) (\<lambda>_. idle h0 ps)"
    by (intro returns_bindE [OF idle_objects(1)] returns_bindE [OF idle_objects(3)] returns_pre
        returns_bindE [OF idle_objects(2)])
  have valid: "returns (idle h0 ps) (validate E c) (\<lambda>r h. r = True \<and> idle h0 ps h)"
    by (rule returns_validate, rule idle_append) (auto simp: changes_def elim: list.pred_mono_strong)
  show ?thesis
    unfolding reconcile_def Let_def option.case
    by (rule returns_bindE [OF valid], rule returns_pre) (use objects in simp)
qed

text \<open>Whole passes.\<close>

lemma pass_reaches:
  assumes "wf_pods c (pods h)" and "scalable c (pods h)"
    and "upgrade_of c = Inr None" and "upgrade_status c \<noteq> Some UpgradeStatusFailedAnnotationValue"
  obtains h' where "run_state (MaybeReconcile E c) h = (Inr (), h')"
    and "reached (up_to_date (buildConfigMap E c)) (pods h) h'"
proof (rule returnsD [OF returns_settle [OF assms(1,2)] refl])
  fix u h'
  assume "run_state (reconcile E c None) h = (Inr u, h')" and "reached (up_to_date (buildConfigMap E c)) (pods h) h'"
  then show ?thesis using that assms(3,4) by (simp add: MaybeReconcile_def upgrade_status_def)
qed

lemma idle_pass:
  assumes "placed h" and "desired_pods E c (pods h)" and "updateStatus c = c"
  shows "\<exists>es. run_state (MaybeReconcile E c) h = (Inr (), h @ es) \<and> list_all (\<lambda>e. \<not> changes e) es"
proof -
  have "spec_Version (status_Spec (asc_Status c)) = spec_Version (asc_Spec c)"
    using updateStatus_simps(1) [of c] assms(3) by simp
  then have up: "upgrade_of c = Inr None" by (simp add: upgrade_of_def Let_def)
  have "idle h (pods h) h" using assms(1) by (simp add: idle_def)
  then obtain u h' where "run_state (reconcile E c None) h = (Inr u, h')" "idle h (pods h) h'"
    by (rule returnsD [OF idle_reconcile [OF assms(2,3)]])
  then show ?thesis by (auto simp: MaybeReconcile_def up idle_def)
qed

text \<open>The same server serves the cluster whatever its annotations and its status.\<close>

lemma other_status:
  assumes "same_cluster c c'"
  shows "api_server E start P c' cm0 svc0 np0"
proof -
  from assms have s: "asc_Spec c' = asc_Spec c" "asc_Namespace c' = asc_Namespace c" "asc_Name c' = asc_Name c"
    by (simp_all add: same_cluster_def)
  have "api_server_axioms E c' cm0 svc0 np0 = api_server_axioms E c cm0 svc0 np0"
    and "working_nodes_axioms E start P c' = working_nodes_axioms E start P c"
    by (simp_all add: api_server_axioms_def working_nodes_axioms_def sees_cluster_def same_cluster_eqs [OF assms] s)
  then show ?thesis
    using api_server_axioms unfolding api_server_def working_nodes_def by simp
qed

lemma other_reached:
  assumes "same_cluster c c'" and "api_server.reached E start P c' cm0 svc0 np0 G ps h"
  shows "reached G ps h"
proof -
  from assms(1) have "ours c' = ours c" "asc_Namespace c' = asc_Namespace c" by (simp_all add: same_cluster_def)
  then show ?thesis
    using assms(2) unfolding api_server.reached_def [OF other_status [OF assms(1)]] reached_def
      undisturbed_def renewed_def same_cluster_eqs [OF assms(1)] by simp
qed

text \<open>The first pass of an upgrade that has begun, or whose backups have finished.\<close>

lemma upgrade_begun:
  assumes ps: "wf_pods c (pods h)" "scalable c (pods h)" and strategy: "GetStrategy u = Inr strategy"
    and c': "same_cluster c c'"
  obtains new h' where "run_state (reconcile E c' (Some u)) h = (Inr (), h')"
    and "reached (upgraded c) (pods h) h'" and "finished c' new h'"
proof -
  note live = other_status [OF c']
  have "upgrade_strategy (Some u) = Inr (Some strategy)" using strategy by (simp add: upgrade_strategy_def)
  from api_server.returns_upgrade [OF live _ _ this, of "pods h"] ps
  have "returns (\<lambda>g. pods g = pods h) (reconcile E c' (Some u))
     (\<lambda>_ g. api_server.reached E start P c' cm0 svc0 np0 (upgraded c) (pods h) g \<and> (\<exists>new. finished c' new g))"
    by (simp add: same_cluster_eqs [OF c'])
  from returnsD [OF this refl] obtain h' where "run_state (reconcile E c' (Some u)) h = (Inr (), h')"
    "api_server.reached E start P c' cm0 svc0 np0 (upgraded c) (pods h) h'" "\<exists>new. finished c' new h'"
    by (metis (full_types) unit.exhaust)
  with other_reached [OF c'] that show ?thesis by blast
qed

lemma upgrade_pass:
  assumes ps: "wf_pods c (pods h)" "scalable c (pods h)"
    and up: "upgrade_of c = Inr (Some u)" "GetStrategy u = Inr strategy"
    and status: "upgrade_status c = Some UpgradeStatusStartedAnnotationValue \<or>
      upgrade_status c = Some UpgradeStatusBackupAnnotationValue \<and> backed_up E c"
  obtains c' new h' where "run_state (MaybeReconcile E c) h = (Inr (), h')"
    and "reached (upgraded c) (pods h) h'" and "same_cluster c c'" and "finished c' new h'"
  using status
proof (elim disjE conjE)
  assume "upgrade_status c = Some UpgradeStatusStartedAnnotationValue"
  then have "MaybeReconcile E c = reconcile E c (Some u)"
    using up(1) by (simp add: MaybeReconcile_def liftE_def before_upgrade_def upgrade_status_def upgrade_annotation_values)
  then show ?thesis using upgrade_begun [OF ps up(2), of c] that same_cluster_def by metis
next
  assume status: "upgrade_status c = Some UpgradeStatusBackupAnnotationValue" and "backed_up E c"
  then obtain h1 where 1: "run_state (isClusterBackupFinished E c) h = (Inr True, h1)"
    using run_backups_finished by blast
  have "emits (\<lambda>e. \<not> touches_pods e) (isClusterBackupFinished E c)" by (auto intro!: emits_intro)
  from pods_at_quiet [OF this 1] have "pods h1 = pods h" .
  from run_signals(2) [OF kept_reached(2) this, of c] obtain c1 h2 where
    2: "run_state (signalBackupFinished E c) h1 = ((c1, Inr ()), h2)" "pods h2 = pods h" "same_cluster c c1" by blast
  from run_signals(3) [OF kept_reached(2) 2(2), of c1 u] obtain c2 h3 where
    3: "run_state (signalUpgradeStarted E c1 u) h2 = ((c2, Inr ()), h3)" "pods h3 = pods h" "same_cluster c1 c2" by blast
  have c2: "same_cluster c c2" using same_cluster_trans 2(3) 3(3) by blast
  have "wf_pods c (pods h3)" "scalable c (pods h3)" using ps by (simp_all add: 3(2))
  then obtain new h' where "run_state (reconcile E c2 (Some u)) h3 = (Inr (), h')"
    "reached (upgraded c) (pods h3) h'" "finished c2 new h'"
    using upgrade_begun [OF _ _ up(2) c2] by blast
  moreover have "run_state (MaybeReconcile E c) h = run_state (reconcile E c2 (Some u)) h3"
    using status up(1) 1 2(1) 3(1)
    by (simp add: MaybeReconcile_def before_upgrade_def upgrade_status_def upgrade_annotation_values)
  ultimately show ?thesis using that c2 3(2) by simp
qed

end

end
