(* ===== verification/LiveServer.thy ===== *)
theory LiveServer
  imports ApiServer Examples
begin

text \<open>
  A concrete API server that answers from the history. It obeys the laws of the locales \<open>pod_store\<close>,
  \<open>working_nodes\<close> and \<open>api_server\<close>, which are interpreted on it.
\<close>

section \<open>A server that answers from the history\<close>

text \<open>
  The cluster is read with its status recorded. Pods run as soon as they are created, each under an address of its own, which tells where the
  namespace ends and the name begins. The node at an address reports the version of the pod there
  and as many nodes as the cluster has pods.
\<close>

definition address :: "string \<times> string \<Rightarrow> string" where
  "address k = replicate (length (fst k)) (CHR ''n'') @ CHR ''.'' # fst k @ snd k"

lemma address_inj: "address k = address k' \<longleftrightarrow> k = k'"
proof
  assume eq: "address k = address k'"
  have "length (fst k) = length (takeWhile ((=) (CHR ''n'')) (address k))" for k
    by (simp add: address_def takeWhile_append)
  with eq have "length (fst k) = length (fst k')" by metis
  with eq show "k = k'" by (auto simp: address_def intro: prod_eqI)
qed simp

definition addressed :: "Pod \<Rightarrow> Pod" where
  "addressed p = p\<lparr>pod_Status := (pod_Status p)\<lparr>pt_PodIP := address (pod_key p)\<rparr>\<rparr>"

definition started :: "Pod \<Rightarrow> Pod" where
  "started p = addressed (p\<lparr>pod_Status := zero_status\<lparr>pt_Phase := ''Running''\<rparr>\<rparr>)"

lemma addressed_simps [simp]:
  "pod_Meta (addressed p) = pod_Meta p" "pod_Spec (addressed p) = pod_Spec p"
  "pt_PodIP (pod_Status (addressed p)) = address (pod_key p)"
  "isPodInFailureState (addressed p) = isPodInFailureState p"
  "isPodRunningAndReady E (addressed p) \<longleftrightarrow> pt_Phase (pod_Status p) = ''Running'' \<and> env_pod_ready E (addressed p)"
  by (simp_all add: addressed_def isPodInFailureState_def isPodRunningAndReady_def)

lemma started_simps [simp]:
  "pod_Meta (started p) = pod_Meta p" "pod_Spec (started p) = pod_Spec p"
  "\<not> isPodInFailureState (started p)" "isPodRunningAndReady E (started p) \<longleftrightarrow> env_pod_ready E (started p)"
  by (simp_all add: started_def) (simp add: isPodInFailureState_def zero_status_def)

text \<open>Every pod has its own address, when those the server starts with have.\<close>

lemma pods_addressed:
  "p \<in> set (pods_at started (map addressed P) h) \<Longrightarrow> pt_PodIP (pod_Status p) = address (pod_key p)"
proof -
  have step: "(\<forall>p \<in> set ps. pt_PodIP (pod_Status p) = address (pod_key p)) \<Longrightarrow>
      p \<in> set (store_pod started e ps) \<Longrightarrow> pt_PodIP (pod_Status p) = address (pod_key p)" for p e ps
    by (induction started e ps rule: store_pod.induct) (auto simp: started_def)
  have "\<forall>p \<in> set (pods_at started (map addressed P) h). pt_PodIP (pod_Status p) = address (pod_key p)"
    by (induction h rule: rev_induct) (auto simp: intro: step)
  then show "p \<in> set (pods_at started (map addressed P) h) \<Longrightarrow> pt_PodIP (pod_Status p) = address (pod_key p)" by blast
qed

text \<open>The pod at an address.\<close>

lemma find_addressed:
  assumes "p \<in> set ps" and "distinct (map pod_key ps)" and "\<And>q. q \<in> set ps \<Longrightarrow> pt_PodIP (pod_Status q) = address (pod_key q)"
  shows "find (\<lambda>q. pt_PodIP (pod_Status q) = pt_PodIP (pod_Status p)) ps = Some p"
proof -
  have "find (\<lambda>q. pt_PodIP (pod_Status q) = pt_PodIP (pod_Status p)) ps = find (\<lambda>q. pod_key q = pod_key p) ps"
    by (rule find_cong) (use assms(1,3) address_inj in auto)
  then show ?thesis using find_pod_eq [OF assms(2,1)] by (simp add: find_pod_def)
qed

definition server_env :: "AerospikeCluster \<Rightarrow> Pod list \<Rightarrow> env" where
  "server_env c P = (let k = cluster_key c in env0\<lparr>
     env_get_cluster := (\<lambda>h ns n. Inr (updateStatus c)),
     env_list_pods := (\<lambda>h ns sel. Inr (filter (pod_selected ns sel) (pods_at started P h))),
     env_get_pod := (\<lambda>h ns n. case find_pod (ns, n) (pods_at started P h) of None \<Rightarrow> Inl NotFound | Some p \<Rightarrow> Inr p),
     env_create_pod := (\<lambda>h p. if find_pod (pod_key p) (pods_at started P h) = None then Inr p else Inl AlreadyExists),
     env_delete_pod := (\<lambda>h ns n. if find_pod (ns, n) (pods_at started P h) = None then Inl NotFound else Inr ()),
     env_watch_pod := (\<lambda>h ns n t.
       (case find_pod (ns, n) (pods_at started P h) of
          None \<Rightarrow> [WatchDeleted (running_pod n)] | Some p \<Rightarrow> [WatchModified p], ''timed out'')),
     env_create_configmap := (\<lambda>h x. if config_map_at k None h = None then Inr x else Inl AlreadyExists),
     env_get_configmap := (\<lambda>h ns n. case config_map_at k None h of None \<Rightarrow> Inl NotFound | Some x \<Rightarrow> Inr x),
     env_create_service := (\<lambda>h x. if service_at k False h then Inl AlreadyExists else Inr x),
     env_create_networkpolicy := (\<lambda>h x. if policy_at k False h then Inl AlreadyExists else Inr x),
     env_nodes := (\<lambda>h ip. map (\<lambda>p. str_at (om_Annotations (pod_Meta p)) nodeIdAnnotation) (pods_at started P h)),
     env_info := (\<lambda>h ip cmd. Inr (map_lit [(''build'',
         case find (\<lambda>p. pt_PodIP (pod_Status p) = ip) (pods_at started P h) of None \<Rightarrow> [] | Some p \<Rightarrow> server_version p),
       (''statistics'', ''cluster_size='' @ itoa (int (length (cluster_pods c (pods_at started P h)))))]))\<rparr>)"

lemma trim_space_digits: "trim_space (nat_digits n) = nat_digits n"
proof -
  have no: "\<not> is_space x" if "x \<in> set (nat_digits n)" for x
    using set_nat_digits [OF that] by (auto simp: is_digit_def is_space_def)
  then have "dropWhile is_space (nat_digits n) = nat_digits n" "dropWhile is_space (rev (nat_digits n)) = rev (nat_digits n)"
    using no [OF hd_in_set [of "nat_digits n"]] no [OF last_in_set [of "nat_digits n"]]
    by (simp_all add: dropWhile_eq_self_iff hd_rev)
  then show ?thesis by (simp add: trim_space_def)
qed

lemma cluster_size_statistics:
  "fmlookup (ParseStatistics (''cluster_size='' @ itoa (int n))) ''cluster_size'' = Some (itoa (int n))"
proof -
  let ?s = "''cluster_size=''" and ?k = "''cluster_size''"
  have "c \<notin> set (nat_digits n)" if "\<not> is_digit c" for c using set_nat_digits that by blast
  then have no: "CHR ''='' \<notin> set (nat_digits n)" "CHR '';'' \<notin> set (nat_digits n)" by (simp_all add: is_digit_def)
  then have "split_on (CHR '';'') (?s @ nat_digits n) = [?s @ nat_digits n]" by (intro split_on_no_sep) auto
  moreover have "split_on (CHR ''='') (?s @ nat_digits n) = [?k, nat_digits n]"
    using split_on_append [of "CHR ''=''" ?k "nat_digits n"] split_on_no_sep [OF no(1)] by simp
  moreover have "trim_space ?k = ?k" by code_simp
  ultimately show ?thesis
    by (simp add: ParseStatistics_def itoa_def trim_space_digits)
qed

lemma server_env_simps [simp]:
  "env_get_cluster (server_env c P) h ns n = Inr (updateStatus c)"
  "env_list_pods (server_env c P) h ns sel = Inr (filter (pod_selected ns sel) (pods_at started P h))"
  "env_get_pod (server_env c P) h ns n =
     (case find_pod (ns, n) (pods_at started P h) of None \<Rightarrow> Inl NotFound | Some p \<Rightarrow> Inr p)"
  "env_create_pod (server_env c P) h p =
     (if find_pod (pod_key p) (pods_at started P h) = None then Inr p else Inl AlreadyExists)"
  "env_delete_pod (server_env c P) h ns n =
     (if find_pod (ns, n) (pods_at started P h) = None then Inl NotFound else Inr ())"
  "env_watch_pod (server_env c P) h ns n t = (case find_pod (ns, n) (pods_at started P h) of
     None \<Rightarrow> [WatchDeleted (running_pod n)] | Some p \<Rightarrow> [WatchModified p], ''timed out'')"
  "env_create_configmap (server_env c P) h x = (if config_map_at (cluster_key c) None h = None then Inr x else Inl AlreadyExists)"
  "env_get_configmap (server_env c P) h ns n = (case config_map_at (cluster_key c) None h of None \<Rightarrow> Inl NotFound | Some x \<Rightarrow> Inr x)"
  "env_create_service (server_env c P) h s = (if service_at (cluster_key c) False h then Inl AlreadyExists else Inr s)"
  "env_create_networkpolicy (server_env c P) h np = (if policy_at (cluster_key c) False h then Inl AlreadyExists else Inr np)"
  "env_nodes (server_env c P) h ip = map (\<lambda>p. str_at (om_Annotations (pod_Meta p)) nodeIdAnnotation) (pods_at started P h)"
  "env_info (server_env c P) h ip cmd = Inr (map_lit [(''build'',
     case find (\<lambda>p. pt_PodIP (pod_Status p) = ip) (pods_at started P h) of None \<Rightarrow> [] | Some p \<Rightarrow> server_version p),
     (''statistics'', ''cluster_size='' @ itoa (int (length (cluster_pods c (pods_at started P h)))))])"
  by (simp_all add: server_env_def Let_def)

lemma server_env_base [simp]:
  "env_update_configmap (server_env c P) h m = Inr m"
  "env_pod_ready (server_env c P) p" "env_connect (server_env c P) h ip port = Inr ()"
  "env_migrating (server_env c P) h n = Inr False" "env_wait_migrations (server_env c P) h n t = Inr ()"
  "env_ticks (server_env c P) h = 1" "env_get_pvc (server_env c P) h ns n = Inr claim0"
  "env_list_pvcs (server_env c P) h ns sel = Inr []" "env_pvc_patch (server_env c P) v w = Inr ''{}''"
  "env_patch_pvc (server_env c P) h ns n b = Inr ()" "env_create_pvc (server_env c P) h v = Inr v"
  "env_parse_quantity (server_env c P) q = Inr 1000" "env_get_storageclass (server_env c P) h sc = Inr ()"
  "env_cluster_patch (server_env c P) c1 c2 = Inr ''{}''" "env_patch_cluster (server_env c P) h ns n b = Inr cluster0"
  "env_update_cluster_status (server_env c P) h c1 = Inr c1"
  by (simp_all add: server_env_def env0_def Let_def)

lemma server_env_backup [simp]: "env_get_backup (server_env c P) h ns n = Inr finished_backup"
  by (simp add: server_env_def env0_def Let_def)

interpretation live_pods: pod_store "server_env c P" started P for c P
  by unfold_locales
    (auto intro!: exI [of _ "[]"] split: option.split)

lemma cluster0_simps [simp]:
  "asc_Namespace cluster0 = ''k''" "asc_Name cluster0 = ''c0''" "asc_Spec cluster0 = spec0"
  by (simp_all add: cluster0_def zero_meta_def)

abbreviation cluster_env :: "Pod list \<Rightarrow> env" where
  "cluster_env P \<equiv> server_env cluster0 (map addressed P)"

abbreviation pods_after :: "Pod list \<Rightarrow> history \<Rightarrow> Pod list" where
  "pods_after P \<equiv> pods_at started (map addressed P)"

interpretation live_nodes: working_nodes "cluster_env P" started "map addressed P" cluster0 for P
proof
  fix p h
  let ?n = "length (cluster_pods cluster0 (pods_after P h))"
  assume "int ?n < 2 ^ 63"
  moreover have "length (filter (\<lambda>q. \<not> isPodInFailureState q) (cluster_pods cluster0 (pods_after P h))) \<le> ?n"
    by (rule length_filter_le)
  ultimately show "sees_cluster (cluster_env P) cluster0 (pods_after P h) h p"
    using cluster_size_statistics [of ?n] by (simp add: sees_cluster_def str_at_def atoi_itoa)
next
  fix p h
  assume "p \<in> set (pods_after P h)" "distinct (map pod_key (pods_after P h))"
  from find_addressed [OF this pods_addressed]
  show "\<exists>r. env_info (cluster_env P) h (pt_PodIP (pod_Status p)) ''build'' = Inr r \<and> fmlookup r ''build'' = Some (server_version p)"
    by simp
qed (auto simp: spec0_def ns0_def storage_ok_def StorageTypeFile_def equal_fold_def)

interpretation live: api_server "cluster_env P" started "map addressed P" cluster0 None False False for P
  by unfold_locales (auto simp: spec0_def ns0_def)

end
