(* ===== verification/SteadyState.thy ===== *)
theory SteadyState
  imports LiveServer ClusterBackups
begin

text \<open>
  What the reconciler reaches on a server that works: outside an upgrade the desired pods, from
  whatever pods it finds and without touching those that are as they should be, after which a pass
  changes nothing; in an upgrade its end. And what keeps it from there: a surplus pod whose node
  cannot be reached.
\<close>

section \<open>The desired state is reached and kept\<close>



text \<open>
  A failed pod, an outdated one and a surplus one, of a cluster of two. Their configuration is that
  of nobody, and they run the version before.
\<close>

definition old_pod :: "int \<Rightarrow> Pod" where
  "old_pod i = (build_pod env0 (cluster0\<lparr>asc_Spec := spec0\<lparr>spec_Version := ''4.1.0.1''\<rparr>\<rparr>)
     \<lparr>cm_Meta = zero_meta, cm_Data = None\<rparr> i [])
     \<lparr>pod_Status := zero_status\<lparr>pt_Phase := if i = 0 then ''Failed'' else ''Running''\<rparr>\<rparr>"

lemma old_pod_simps:
  "pod_key (old_pod i) = slot cluster0 i" "ours cluster0 (old_pod i)"
  "isPodInFailureState (old_pod i) \<longleftrightarrow> i = 0"
  by (auto simp: old_pod_def build_pod_def Let_def zero_meta_def zero_status_def isPodInFailureState_def pod_selected_def
      selects_def ResourcesByClusterName_def gm_make_def label_keys cluster0_def pod_name_def intro!: fmpredI split: if_splits)

definition old_pods :: "int list \<Rightarrow> Pod list" where
  "old_pods is = map (addressed \<circ> old_pod) is"

lemma old_pods_simps:
  "cluster_pods cluster0 (old_pods is) = old_pods is" "length (old_pods is) = length is"
  "p \<in> set (old_pods is) \<longleftrightarrow> (\<exists>i \<in> set is. p = addressed (old_pod i))" "map addressed (old_pods is) = old_pods is"
  "0 \<le> i \<Longrightarrow> i < 2 ^ 31 \<Longrightarrow> podIndex (addressed (old_pod i)) = i"
  "distinct is \<Longrightarrow> set is \<subseteq> {0 ..< 2 ^ 31} \<Longrightarrow> wf_pods cluster0 (old_pods is)"
proof -
  have ours: "ours cluster0 (addressed (old_pod i))" for i using old_pod_simps(2) [of i] by (simp add: pod_selected_def)
  then show "cluster_pods cluster0 (old_pods is) = old_pods is"
    by (induction "is") (simp_all add: cluster_pods_def old_pods_def)
  show "length (old_pods is) = length is" "p \<in> set (old_pods is) \<longleftrightarrow> (\<exists>i \<in> set is. p = addressed (old_pod i))"
    "map addressed (old_pods is) = old_pods is"
    by (auto simp: old_pods_def) (simp add: addressed_def)
  show "0 \<le> i \<Longrightarrow> i < 2 ^ 31 \<Longrightarrow> podIndex (addressed (old_pod i)) = i"
    using old_pod_simps(1) [of i] by (intro ours_index [OF ours]) simp_all
  show "distinct is \<Longrightarrow> set is \<subseteq> {0 ..< 2 ^ 31} \<Longrightarrow> wf_pods cluster0 (old_pods is)"
    unfolding old_pods_def by (rule wf_pods_map) (use ours old_pod_simps(1) in auto)
qed

lemma old_pods_keys:
  "pod_key (addressed (old_pod i)) = slot cluster0 i" "pod_key ` set (old_pods is) = slot cluster0 ` set is"
proof -
  show key: "pod_key (addressed (old_pod i)) = slot cluster0 i" for i using old_pod_simps(1) [of i] by simp
  show "pod_key ` set (old_pods is) = slot cluster0 ` set is"
    unfolding old_pods_def set_map image_image comp_def key ..
qed






section \<open>What keeps a pass from its goal\<close>

text \<open>
  C37: a surplus pod whose node cannot be reached stops the whole pass. Scaling down asks the node for
  its migrations first, and unlike the rounds below the desired size it does not look whether the pod
  has failed: the error of the connection is returned, no pod is created, deleted or restarted, and
  the next pass finds the same pods.
\<close>

theorem unreachable_surplus_pod_blocks:
  assumes "env_list_pods E h (asc_Namespace c) (ResourcesByClusterName (asc_Name c)) = Inr pods"
    and "spec_NodeCount (asc_Spec c) < int (length pods)"
    and "\<forall>h. env_get_pod E h (asc_Namespace c) (pod_name c (int (length pods) - 1)) = Inr p"
    and "\<forall>h. env_connect E h (pt_PodIP (pod_Status p)) cServicePort = Inl err"
  shows "run_state (ensurePods E c cm u) h = (Inl (ClientErr err),
    h @ [EvList KPod (asc_Namespace c) (ResourcesByClusterName (asc_Name c)),
         EvGet KPod (asc_Namespace c) (pod_name c (int (length pods) - 1)),
         EvConnect (pt_PodIP (pod_Status p)) cServicePort])"
proof -
  let ?n = "spec_NodeCount (asc_Spec c)" and ?m = "int (length pods)"
  have "[?n..?m - 1] = [?n..?m - 2] @ [?m - 1]" using assms(2) upto_rec2 [of ?n "?m - 1"] by simp
  then have "rev [?n..?m - 1] = (?m - 1) # rev [?n..?m - 2]" by simp
  then show ?thesis
    using assms(1,3,4)
    by (simp add: ensurePods_def Let_def listClusterPods_def byIndex_def safeDeletePodWithIndex_def
        getPodWithIndex_def podHasMigrationsInProgress_def on_own_node_def)
qed

theorem unreachable_surplus_pod_blocks_witness:
  "fst (run_state (ensurePods (env_running\<lparr>env_connect := \<lambda>h ip p. Inl ''connection refused''\<rparr>)
     (cluster0\<lparr>asc_Spec := spec0\<lparr>spec_NodeCount := 1\<rparr>\<rparr>) (buildConfigMap env0 cluster0) None) []) =
     Inl (ClientErr ''connection refused'')"
  using unreachable_surplus_pod_blocks [of "env_running\<lparr>env_connect := \<lambda>h ip p. Inl ''connection refused''\<rparr>" "[]"
      "cluster0\<lparr>asc_Spec := spec0\<lparr>spec_NodeCount := 1\<rparr>\<rparr>" "[running_pod ''c0-0'', running_pod ''c0-1'']"
      "running_pod (pod_name (cluster0\<lparr>asc_Spec := spec0\<lparr>spec_NodeCount := 1\<rparr>\<rparr>) 1)" "''connection refused''"
      "buildConfigMap env0 cluster0" None]
  by (simp add: env_running_def)

text \<open>
  C38: a surplus pod above a gap in the indices is never deleted. Scaling down starts at the number of
  pods less one, not at the highest index, so with a pod missing below it the pod of the highest
  index is not looked at: on a server and nodes that work the rounds of the pass succeed, the
  desired size is then recorded in the status, and the pod is still there, still above the gap.
\<close>

theorem pod_above_gap_remains:
  assumes "api_server E start P c cm0 svc0 np0"
    and "wf_pods c (pods_at start P h)" and "surplus_up c (pods_at start P h)"
    and "above_gap c g i p (pods_at start P h)" and "config_hash cm = Hash E (buildConfig c)"
  shows "\<exists>h'. run_state (ensurePods E c cm None) h = (Inr (), h') \<and> above_gap c g i p (pods_at start P h')"
proof -
  from returnsD [OF api_server.rounds_settle [OF assms(1-3,5)] refl] obtain h' where
    "run_state (ensurePods E c cm None) h = (Inr (), h')"
    and "brought c (up_to_date (buildConfigMap E c)) (pods_at start P h) (pods_at start P h')" by (metis (full_types) unit.exhaust)
  with brought_above_gap [OF assms(2) api_server.size(1) [OF assms(1)] assms(4)] show ?thesis by blast
qed

theorem pod_above_gap_remains_witness:
  "\<exists>h'. fst (run_state (ensurePods (cluster_env (old_pods [0, 1, 3])) cluster0
       (buildConfigMap (cluster_env (old_pods [0, 1, 3])) cluster0) None) []) = Inr () \<and>
     above_gap cluster0 2 3 (addressed (old_pod 3)) (pods_after (old_pods [0, 1, 3]) h')"
proof -
  let ?ps = "old_pods [0, 1, 3]"
  have wf: "wf_pods cluster0 ?ps" by (rule old_pods_simps) auto
  have up: "surplus_up cluster0 ?ps"
    by (auto simp: surplus_up_def old_pods_simps old_pod_simps spec0_def)
  have gap: "above_gap cluster0 2 3 (addressed (old_pod 3)) ?ps"
  proof -
    have "find_pod (slot cluster0 3) ?ps = Some (addressed (old_pod 3))"
      using find_pod_eq [of ?ps "addressed (old_pod 3)"] wf by (simp only: old_pods_keys) (simp add: wf_pods_def old_pods_simps)
    moreover have "find_pod (slot cluster0 2) ?ps = None"
      unfolding find_pod_none old_pods_keys by (auto dest: pod_name_inj)
    ultimately show ?thesis by (auto simp: above_gap_def old_pods_simps spec0_def)
  qed
  show ?thesis
    using pod_above_gap_remains [OF live.api_server_axioms, of ?ps "[]" 2 3 "addressed (old_pod 3)"
        "buildConfigMap (cluster_env ?ps) cluster0"] wf up gap by (auto simp: old_pods_simps)
qed

end
