(* ===== verification/ClusterLife.thy ===== *)
theory ClusterLife
  imports AdmissionProperties Reconciler
begin

text \<open>
  The life of a cluster object: created and updated through the webhook, its status written by the
  operator, which may be working on any of the objects the cluster has been so far. Whatever the
  order of these, the reconciler never meets an upgrade it cannot carry out.
\<close>

section \<open>What the operator writes\<close>

abbreviation wanted_version :: "AerospikeCluster \<Rightarrow> string" where
  "wanted_version c \<equiv> spec_Version (asc_Spec c)"

abbreviation recorded_version :: "AerospikeCluster \<Rightarrow> string" where
  "recorded_version c \<equiv> spec_Version (status_Spec (asc_Status c))"

abbreviation parses :: "string \<Rightarrow> Version \<Rightarrow> bool" where
  "parses s v \<equiv> NewVersionFromString s = Inr v \<and> IsSupported v"

text \<open>A signal leaves the recorded version alone, in what it sends and in what it returns.\<close>

abbreviation writes_versions :: "string set \<Rightarrow> event \<Rightarrow> bool" where
  "writes_versions V e \<equiv> \<forall>new. writes_cluster e = Some new \<longrightarrow> recorded_version new \<in> V"

lemma signals_write:
  assumes "recorded_version c \<in> V"
  shows "emits (writes_versions V) (signalBackupStarted E c)" "emits (writes_versions V) (signalBackupFinished E c)"
    "emits (writes_versions V) (signalBackupFailed E c)" "emits (writes_versions V) (signalUpgradeStarted E c u)"
    "emits (writes_versions V) (signalUpgradeFailed E c u)"
  unfolding signal_defs patch_and_record_def
  using assms by (auto intro!: emits_intro emits_patchCluster_status)

lemma signal_versions:
  "run_state (signalBackupFinished E c) h = ((c', r), h') \<Longrightarrow> recorded_version c' = recorded_version c"
  "run_state (signalBackupFailed E c) h = ((c', r), h') \<Longrightarrow> recorded_version c' = recorded_version c"
  "run_state (signalUpgradeStarted E c u) h = ((c', r), h') \<Longrightarrow> recorded_version c' = recorded_version c"
  unfolding signal_defs by (auto dest!: patch_and_record_result)

lemma operator_writes:
  "emits (writes_versions {recorded_version c, wanted_version c}) (MaybeReconcile E c)"
proof -
  define V where "V = {recorded_version c, wanted_version c}"
  have in_V: "recorded_version c \<in> V" by (simp add: V_def)
  have go_on: "emits (writes_versions V) (reconcile E c' u)" if "wanted_version c' = wanted_version c" for c' u
    by (rule emits_weaken [OF reconcile_writes]) (simp add: that V_def)
  have quiet: "emits (writes_versions V) (isClusterBackupFinished E c)" "emits (writes_versions V) (backupCluster E d)" for d
    by (auto intro!: emits_intro)
  have failed: "emits (writes_versions V) (do { s \<leftarrow> signalBackupFailed E c; _ \<leftarrow> signalUpgradeFailed E (fst s) u; fail err })"
    for u :: VersionUpgrade and err :: gerr
  proof (rule emits_bind_run [OF signals_write(3)])
    fix s h h'
    assume "run_state (signalBackupFailed E c) h = (s, h')"
    then have "recorded_version (fst s) \<in> V" using signal_versions(2) in_V by (cases s) auto
    then show "emits (writes_versions V) (do { _ \<leftarrow> signalUpgradeFailed E (fst s) u; fail err })"
      by (intro emits_bind [OF signals_write(5)] emits_return)
  qed (rule in_V)
  let ?roll = "\<lambda>u s. case s of (c1, r) \<Rightarrow> (case r of Inl err \<Rightarrow> fail err | Inr _ \<Rightarrow>
     do { s \<leftarrow> signalUpgradeStarted E c1 u; case s of (c2, r) \<Rightarrow>
       (case r of Inl err \<Rightarrow> fail err | Inr _ \<Rightarrow> reconcile E c2 (Some u)) })"
  have roll: "emits (writes_versions V) (?roll u (c1, r))"
    if "recorded_version c1 = recorded_version c" "wanted_version c1 = wanted_version c" for u c1 r
  proof -
    have "emits (writes_versions V) (do { s \<leftarrow> signalUpgradeStarted E c1 u; case s of (c2, r) \<Rightarrow>
       (case r of Inl err \<Rightarrow> fail err | Inr _ \<Rightarrow> reconcile E c2 (Some u)) })"
    proof (rule emits_bind_run [OF signals_write(4)])
      fix s h h'
      assume "run_state (signalUpgradeStarted E c1 u) h = (s, h')"
      then have "wanted_version (fst s) = wanted_version c" using signal_spec(4) that(2) by (cases s) auto
      then show "emits (writes_versions V) (case s of (c2, r) \<Rightarrow>
          (case r of Inl err \<Rightarrow> fail err | Inr _ \<Rightarrow> reconcile E c2 (Some u)))"
        by (auto intro!: emits_sum emits_return go_on split: prod.split)
    qed (use that in_V in simp)
    then show ?thesis by (auto intro!: emits_sum emits_return split: prod.split)
  qed
  have finished: "emits (writes_versions V) (State_Monad.bind (signalBackupFinished E c) (?roll u))" for u
  proof (rule emits_bind_run [OF signals_write(2)])
    fix s h h'
    assume "run_state (signalBackupFinished E c) h = (s, h')"
    then have "recorded_version (fst s) = recorded_version c" "wanted_version (fst s) = wanted_version c"
      using signal_versions(1) signal_spec(2) by (cases s; fastforce)+
    from roll [OF this, of u "snd s"] show "emits (writes_versions V) (?roll u s)" by simp
  qed (rule in_V)
  have started: "emits (writes_versions V) (do { s \<leftarrow> signalBackupStarted E c; case s of (c1, r) \<Rightarrow>
       (case r of Inl err \<Rightarrow> fail err | Inr _ \<Rightarrow> backupCluster E c1) })"
    by (auto intro!: emits_intro signals_write(1) [OF in_V] quiet)
  have "emits (writes_versions V) (before_upgrade E c u (\<lambda>c'. reconcile E c' (Some u)))" for u
    unfolding before_upgrade_def
    by (auto intro!: started quiet failed finished go_on emits_bind [OF quiet(1)] emits_intro split: sum.split option.split)
  then show ?thesis
    unfolding MaybeReconcile_def V_def [symmetric] by (auto intro!: emits_intro go_on)
qed

section \<open>The life of a cluster\<close>

text \<open>
  The objects a cluster has been, the latest first. A user creates and updates it through the
  webhook, with the status the server keeps (the resource has a status subresource: a status sent
  along is dropped). The operator writes while it works on an object the cluster is or has been: the
  latest object then has the recorded version it had, or the one that was sent.
\<close>

inductive life :: "AerospikeCluster list \<Rightarrow> bool" where
  created: "resp_Allowed (fst (run_state (admitAerospikeCluster E D ar) h)) \<Longrightarrow> req_Operation ar = Create \<Longrightarrow>
     decodeAerospikeCluster D (req_Object ar) = Inr c \<Longrightarrow> life [c\<lparr>asc_Status := asc_Status zero_cluster\<rparr>]"
| updated: "life (c # past) \<Longrightarrow>
     resp_Allowed (fst (run_state (admitAerospikeCluster E D ar) h)) \<Longrightarrow> req_Operation ar = Update \<Longrightarrow>
     decodeAerospikeCluster D (req_OldObject ar) = Inr c \<Longrightarrow> decodeAerospikeCluster D (req_Object ar) = Inr new \<Longrightarrow>
     life (new\<lparr>asc_Status := asc_Status c\<rparr> # c # past)"
| written: "life (c # past) \<Longrightarrow> d \<in> set (c # past) \<Longrightarrow> e \<in> set (new_calls (MaybeReconcile E d) h) \<Longrightarrow>
     writes_cluster e = Some new \<Longrightarrow> recorded_version c' \<in> {recorded_version c, recorded_version new} \<Longrightarrow>
     asc_Spec c' = asc_Spec c \<Longrightarrow> asc_Name c' = asc_Name c \<Longrightarrow> asc_Namespace c' = asc_Namespace c \<Longrightarrow>
     life (c' # c # past)"

text \<open>From one version to another without going back: the same, or a valid upgrade.\<close>

definition upgrades_to :: "string \<Rightarrow> string \<Rightarrow> bool" where
  "upgrades_to v w \<longleftrightarrow> v = w \<or> (\<exists>s t. parses v s \<and> parses w t \<and> s < t)"

lemma upgrades_to_refl [simp]: "upgrades_to v v"
  by (simp add: upgrades_to_def)

lemma upgrades_to_trans: "upgrades_to u v \<Longrightarrow> upgrades_to v w \<Longrightarrow> upgrades_to u w"
  by (auto simp: upgrades_to_def)

text \<open>
  What holds of every object of a life whose latest wants the version \<open>w\<close>: the webhook would accept
  it, its recorded version leads up to the one it wants, and that one to \<open>w\<close>.
\<close>

definition sound :: "string \<Rightarrow> AerospikeCluster \<Rightarrow> bool" where
  "sound w c \<longleftrightarrow> wf_cluster c \<and> upgrades_to (wanted_version c) w \<and>
     (recorded_version c = [] \<or> upgrades_to (recorded_version c) (wanted_version c))"

lemma sound_weaken: "sound v c \<Longrightarrow> upgrades_to v w \<Longrightarrow> sound w c"
  by (auto simp: sound_def intro: upgrades_to_trans)

lemma wf_cluster_cong:
  "asc_Spec c' = asc_Spec c \<Longrightarrow> asc_Name c' = asc_Name c \<Longrightarrow> asc_Namespace c' = asc_Namespace c \<Longrightarrow>
     wf_cluster c' \<longleftrightarrow> wf_cluster c"
  by (simp add: wf_cluster_def)

lemma admitted:
  assumes "resp_Allowed (fst (run_state (admitAerospikeCluster E D ar) h))"
    and "decodeAerospikeCluster D (req_Object ar) = Inr new" and "decodeAerospikeCluster D (req_OldObject ar) = Inr old"
  shows "wf_cluster new \<and> (req_Operation ar = Update \<longrightarrow> upgrades_to (wanted_version old) (wanted_version new))"
proof -
  have run: "run_state (admitAerospikeCluster E D ar) h =
      (fst (run_state (admitAerospikeCluster E D ar) h), snd (run_state (admitAerospikeCluster E D ar) h))" by simp
  show ?thesis
  proof (rule admitAerospikeCluster_allowed [OF run assms(1)])
    fix old' new'
    assume "decodeAerospikeCluster D (req_Object ar) = Inr new'" "decodeAerospikeCluster D (req_OldObject ar) = Inr old'"
      and valid: "run_state (validateAerospikeCluster E new') h = (Inr (), snd (run_state (admitAerospikeCluster E D ar) h))"
      and update: "req_Operation ar = Update \<longrightarrow> validateAerospikeClusterUpdate old' new' = Inr ()"
    then have eqs: "new' = new" "old' = old" using assms(2,3) by simp_all
    have "upgrades_to (wanted_version old) (wanted_version new)" if "req_Operation ar = Update"
      using update that IsValid_supported IsValid_less
      by (fastforce simp: eqs validateUpdate_iff validateVersion_iff upgrades_to_def)
    then show ?thesis using validateAerospikeCluster_wf [OF valid] by (simp add: eqs)
  qed
qed

lemma life_sound: "life cs \<Longrightarrow> \<forall>c \<in> set cs. sound (wanted_version (hd cs)) c"
proof (induction rule: life.induct)
  case (created E D ar h c)
  obtain old where "decodeAerospikeCluster D (req_OldObject ar) = Inr old"
    using created(1) unfolding admitAerospikeCluster_def by (auto split: sum.splits)
  from admitted [OF created(1,3) this] have "wf_cluster c" by blast
  then show ?case using wf_cluster_cong [of "c\<lparr>asc_Status := asc_Status zero_cluster\<rparr>" c]
    by (simp add: sound_def zero_cluster_def zero_spec_def)
next
  case (updated c past E D ar h new)
  from admitted [OF updated(2,5,4)] updated(3)
  have new: "wf_cluster new" "upgrades_to (wanted_version c) (wanted_version new)" by simp_all
  moreover from updated.IH have "sound (wanted_version c) c" by simp
  then have "recorded_version c = [] \<or> upgrades_to (recorded_version c) (wanted_version c)" by (simp add: sound_def)
  then have "recorded_version c = [] \<or> upgrades_to (recorded_version c) (wanted_version new)"
    using new(2) upgrades_to_trans by blast
  ultimately have "sound (wanted_version new) (new\<lparr>asc_Status := asc_Status c\<rparr>)"
    using wf_cluster_cong [of "new\<lparr>asc_Status := asc_Status c\<rparr>" new] by (simp add: sound_def)
  then show ?case using updated.IH sound_weaken [OF _ new(2)] by simp
next
  case (written c past d e E h new c')
  from written.IH written(2) have d: "sound (wanted_version c) d" by auto
  have "recorded_version new \<in> {recorded_version d, wanted_version d}"
    using emits_new_calls [OF operator_writes [of d E], of h] written(3,4) by (auto simp: list_all_iff)
  then have "recorded_version new = [] \<or> upgrades_to (recorded_version new) (wanted_version c)"
    using d upgrades_to_trans by (auto simp: sound_def)
  moreover from written.IH have "sound (wanted_version c) c" by simp
  ultimately have "sound (wanted_version c) c'"
    using written(5-8) wf_cluster_cong [of c' c] by (auto simp: sound_def)
  then show ?case using written.IH written(6) by simp
qed

text \<open>
  C8: whatever users ask for and the webhook admits, and whichever object of the past the operator was
  working on when it wrote, every object the cluster has been is well-formed, its version leads up to
  the latest, and the upgrade that the reconciler reads off it, if any, parses, is valid and has a
  strategy; the replication factor it checks is accepted.
\<close>

theorem upgrades_always_possible:
  assumes "life (c # past)" and "d \<in> set (c # past)"
  shows "wf_cluster d \<and> upgrades_to (wanted_version d) (wanted_version c) \<and>
    (upgrade_of d = Inr None \<or> (\<exists>u s. upgrade_of d = Inr (Some u) \<and> IsValid u \<and> GetStrategy u = Inr s)) \<and>
    fst (run_state (validateReplicationFactor d) h)"
proof -
  from life_sound [OF assms(1)] assms(2) have s: "sound (wanted_version c) d" by auto
  then have wf: "wf_cluster d" by (simp add: sound_def)
  have "upgrade_of d = Inr None \<or> (\<exists>u s. upgrade_of d = Inr (Some u) \<and> IsValid u \<and> GetStrategy u = Inr s)"
  proof (cases "recorded_version d = [] \<or> recorded_version d = wanted_version d")
    case True
    then show ?thesis by (auto simp: upgrade_of_def Let_def)
  next
    case False
    then obtain v w where "parses (recorded_version d) v" "parses (wanted_version d) w" "v < w"
      using s by (auto simp: sound_def upgrades_to_def)
    moreover from this have "IsValid \<lparr>Source = v, Target = w\<rparr>" by (simp add: IsValid_iff_less)
    ultimately show ?thesis using False
      by (auto simp: upgrade_of_def Let_def GetStrategy_cases)
  qed
  moreover have "fst (run_state (validateReplicationFactor d) h)"
    using wf by (auto simp: wf_cluster_def validateReplicationFactor_def split: option.splits)
  ultimately show ?thesis using s by (simp add: sound_def)
qed

text \<open>A cluster of version 4.1.0.1 that the operator has set up, and whose user then asks for 4.2.0.3.\<close>

definition life0 :: AerospikeCluster where
  "life0 = cluster0\<lparr>asc_Spec := spec0\<lparr>spec_Version := ''4.1.0.1''\<rparr>, asc_Status := asc_Status zero_cluster\<rparr>"

definition life_decoders :: decoders where
  "life_decoders = decoders0\<lparr>dec_cluster := (\<lambda>raw. Inr (if raw = ''created'' then life0
     else if raw = ''old'' then updateStatus life0 else cluster0))\<rparr>"

lemma life_upgraded: "life [cluster0\<lparr>asc_Status := asc_Status (updateStatus life0)\<rparr>, updateStatus life0, life0]"
proof -
  let ?create = "\<lparr>req_UID = ''u'', req_Operation = Create, req_Object = ''created'', req_OldObject = []\<rparr>"
  have "life [life0\<lparr>asc_Status := asc_Status zero_cluster\<rparr>]"
  proof (rule life.created)
    show "resp_Allowed (fst (run_state (admitAerospikeCluster env0 life_decoders ?create) []))" by code_simp
  qed (simp_all add: decodeAerospikeCluster_def life_decoders_def)
  then have 1: "life [life0]" by (simp add: life0_def)
  have "list_ex (\<lambda>e. case writes_cluster e of None \<Rightarrow> False | Some new \<Rightarrow> recorded_version new = ''4.1.0.1'')
      (new_calls (MaybeReconcile env0 life0) [])" by code_simp
  then obtain e new where "e \<in> set (new_calls (MaybeReconcile env0 life0) [])" "writes_cluster e = Some new"
    "recorded_version new = ''4.1.0.1''" by (auto simp: list_ex_iff split: option.splits)
  from life.written [OF 1 _ this(1,2), of "updateStatus life0"] this(3) have 2: "life [updateStatus life0, life0]"
    by (simp add: life0_def)
  show ?thesis
  proof (rule life.updated [OF 2])
    show "resp_Allowed (fst (run_state (admitAerospikeCluster env0 life_decoders request0) []))" by code_simp
  qed (simp_all add: decodeAerospikeCluster_def life_decoders_def request0_def)
qed

theorem upgrades_always_possible_witness:
  "\<exists>u s. upgrade_of (cluster0\<lparr>asc_Status := asc_Status (updateStatus life0)\<rparr>) = Inr (Some u) \<and> GetStrategy u = Inr s"
proof -
  let ?c = "cluster0\<lparr>asc_Status := asc_Status (updateStatus life0)\<rparr>"
  have "upgrade_of ?c \<noteq> Inr None"
    by (simp add: upgrade_of_def Let_def life0_def cluster0_def spec0_def split: sum.split)
  with upgrades_always_possible [OF life_upgraded, of ?c "[]"] show ?thesis by auto
qed

end
