(* ===== verification/Shutdown.thy ===== *)
theory Shutdown
  imports ControllerRun
begin

text \<open>
  How the operator process ends: \<^verbatim>\<open>pkg/signals/signal.go\<close>, the shutdown of the webhook's server in
  \<^verbatim>\<open>pkg/admission/webhook.go\<close> and the callbacks of the leader election in
  \<^verbatim>\<open>cmd/operator/main.go\<close>, put around the machine of the controllers. The election, the server and the
  delivery of signals are left open as far as their documentation leaves them open.
\<close>

section \<open>Signals\<close>

text \<open>
  The channel the signals are sent to holds two and further ones are dropped; the goroutine receives
  twice, closes the stop channel after the first and exits after the second. \<open>None\<close> is the panic of
  closing \<open>onlyOneSignalHandler\<close> twice.
\<close>

record signal_handler =
  sh_pending :: nat
  sh_received :: nat

datatype signal_action = CloseStop | ExitProcess int

definition SetupSignalHandler :: "bool \<Rightarrow> (bool \<times> signal_handler) option" where
  "SetupSignalHandler onlyOneSignalHandler =
     (if onlyOneSignalHandler then None else Some (True, \<lparr>sh_pending = 0, sh_received = 0\<rparr>))"



section \<open>The process\<close>

text \<open>
  What \<open>main\<close> is doing: waiting to be elected, in \<open>run\<close> before the controllers are started, or waiting
  for the controllers.
\<close>

datatype role = Candidate | Starting | Controlling operator_state

text \<open>
  The channels that have been closed, whether the server of the webhook is up, whether the lease is
  still held once it has been won, the exit code, and how many signals have arrived.
\<close>

record proc_state =
  pr_handler :: signal_handler
  pr_shCh :: bool
  pr_stopCh :: bool
  pr_serving :: bool
  pr_leading :: bool
  pr_role :: role
  pr_exit :: "int option"
  pr_delivered :: nat

definition initial_proc :: proc_state where
  "initial_proc = \<lparr>pr_handler = \<lparr>sh_pending = 0, sh_received = 0\<rparr>, pr_shCh = False, pr_stopCh = False,
     pr_serving = True, pr_leading = True, pr_role = Candidate, pr_exit = None, pr_delivered = 0\<rparr>"

text \<open>The first call of \<open>SetupSignalHandler\<close> is the one of \<open>main\<close>, another would panic.\<close>

lemma initial_handler: "SetupSignalHandler False = Some (True, pr_handler initial_proc)" "SetupSignalHandler True = None"
  by (simp_all add: SetupSignalHandler_def initial_proc_def)

text \<open>
  The steps: a signal arrives, the goroutine receives one; the server is shut down, or fails, which is
  only logged; the election is won, \<open>run\<close> fails or starts the controllers, the lease is lost and found
  to be lost, the stop channel is closed, the controllers do something, all of them have returned.
\<close>

definition do_signal_action :: "signal_action \<Rightarrow> proc_state \<Rightarrow> proc_state" where
  "do_signal_action a p = (case a of CloseStop \<Rightarrow> p\<lparr>pr_shCh := True\<rparr> | ExitProcess n \<Rightarrow> p\<lparr>pr_exit := Some n\<rparr>)"



section \<open>Invariants\<close>





lemma do_signal_action_simps [simp]:
  "pr_handler (do_signal_action a p) = pr_handler p" "pr_stopCh (do_signal_action a p) = pr_stopCh p"
  "pr_serving (do_signal_action a p) = pr_serving p" "pr_leading (do_signal_action a p) = pr_leading p"
  "pr_role (do_signal_action a p) = pr_role p" "pr_delivered (do_signal_action a p) = pr_delivered p"
  by (cases a; simp add: do_signal_action_def)+



lemma initial_operator_simps [simp]:
  "\<not> os_stopped (initial_operator Cs)" "operator_reach Cs (initial_operator Cs)"
  by (simp add: initial_operator_def) (rule operator_reach.init)














end
