(* ===== verification/NodeConfig.thy ===== *)
theory NodeConfig
  imports BackupTool Examples
begin

text \<open>
  \<^verbatim>\<open>cmd/asinit/main.go\<close>, the program of the init container, and the configuration that the
  server of a pod starts with: what the operator builds from the spec, the pod it builds to carry it
  and the substitutions of the init container, taken together, give the file described line by line.
\<close>

section \<open>Model\<close>

record asinit_flags =
  ai_nodeId :: string
  ai_peerList :: string
  ai_sourceCfg :: string
  ai_targetCfg :: string

definition asinit_flag_set :: "(string \<times> flag_kind) list" where
  "asinit_flag_set = [(''node-id'', FlagString), (''peer-list'', FlagString), (''source-config'', FlagString),
     (''target-config'', FlagString)]"

definition set_asinit_flag :: "string \<times> string \<Rightarrow> asinit_flags \<Rightarrow> asinit_flags" where
  "set_asinit_flag a p = (case a of (name, v) \<Rightarrow>
     if name = ''node-id'' then p\<lparr>ai_nodeId := v\<rparr>
     else if name = ''peer-list'' then p\<lparr>ai_peerList := v\<rparr>
     else if name = ''source-config'' then p\<lparr>ai_sourceCfg := v\<rparr>
     else if name = ''target-config'' then p\<lparr>ai_targetCfg := v\<rparr>
     else p)"

text \<open>
  The exit code and the file written. The file system is two functions: the content at a path, and
  whether a content can be written there; the first argument is the name of the program.
\<close>

definition asinit_main ::
    "(string \<Rightarrow> string + string) \<Rightarrow> (string \<Rightarrow> string \<Rightarrow> string + unit) \<Rightarrow> string list \<Rightarrow> int \<times> (string \<times> string) option" where
  "asinit_main ReadFile WriteFile args =
     (case parse_flags asinit_flag_set (\<lambda>_ _. True) (drop 1 args) of
        Inl FlagHelp \<Rightarrow> (0, None)
      | Inl (FlagError _ _) \<Rightarrow> (2, None)
      | Inr (assigned, left) \<Rightarrow>
          let p = fold set_asinit_flag assigned
                \<lparr>ai_nodeId = [], ai_peerList = [], ai_sourceCfg = [], ai_targetCfg = []\<rparr> in
          (case ReadFile (ai_sourceCfg p) of
             Inl err \<Rightarrow> (1, None)
           | Inr input \<Rightarrow>
               let cfg = asinit (ai_nodeId p) (ai_peerList p) input in
               (case WriteFile (ai_targetCfg p) cfg of
                  Inl err \<Rightarrow> (1, None)
                | Inr _ \<Rightarrow> (0, Some (ai_targetCfg p, cfg)))))"

section \<open>Placeholders\<close>

text \<open>
  Both placeholders begin with two underscores, so they do not begin in a text that has no two in a
  row and does not end with one.
\<close>

fun no_double :: "string \<Rightarrow> bool" where
  "no_double [] = True"
| "no_double [x] = True"
| "no_double (x # y # s) = (\<not> (x = CHR ''_'' \<and> y = CHR ''_'') \<and> no_double (y # s))"

lemma no_double_cons: "x \<noteq> CHR ''_'' \<Longrightarrow> no_double (x # s) = no_double s"
  by (cases s) auto

lemma no_double_append: "x \<noteq> CHR ''_'' \<Longrightarrow> no_double (s @ x # t) \<longleftrightarrow> no_double s \<and> no_double t"
  by (induction s rule: no_double.induct) (auto simp: no_double_cons)

abbreviation ends_plain :: "string \<Rightarrow> bool" where
  "ends_plain s \<equiv> s = [] \<or> last s \<noteq> CHR ''_''"

lemma replace_all_skip:
  assumes "no_double s" and "ends_plain s" and "old = CHR ''_'' # CHR ''_'' # rest"
  shows "replace_all old new (s @ t) = s @ replace_all old new t"
  using assms(1,2)
proof (induction s rule: no_double.induct)
  case (2 x)
  then show ?case by (subst replace_all.simps) (simp add: assms(3))
next
  case (3 x y s)
  then have "replace_all old new ((y # s) @ t) = (y # s) @ replace_all old new t" by auto
  moreover have "strip_prefix old ((x # y # s) @ t) = None" using 3(2) by (auto simp: assms(3))
  ultimately show ?case by (subst replace_all.simps) simp
qed simp

lemma replace_all_none:
  "no_double s \<Longrightarrow> replace_all (CHR ''_'' # CHR ''_'' # rest) new s = s"
proof (induction s rule: no_double.induct)
  case (2 x)
  then show ?case by (subst replace_all.simps) simp
next
  case (3 x y s)
  then show ?case by (subst replace_all.simps) auto
qed simp

lemma replace_all_here: "old \<noteq> [] \<Longrightarrow> replace_all old new (old @ t) = new @ replace_all old new t"
proof -
  assume "old \<noteq> []"
  then obtain x xs where old: "old = x # xs" by (cases old) auto
  have "strip_prefix old (old @ t) = Some t" by (simp add: strip_prefix_Some)
  then show ?thesis by (subst replace_all.simps) (simp add: old)
qed

text \<open>The first substitution leaves the second placeholder alone.\<close>

lemma replace_all_other:
  "replace_all ServiceNodeIdValue new (HeartbeatAddressesValue @ nl n @ t) =
     HeartbeatAddressesValue @ replace_all ServiceNodeIdValue new (nl n @ t)"
  unfolding HeartbeatAddressesValue_def ServiceNodeIdValue_def
  by (simp add: replace_all.simps [of _ _ "_ # _"] nl_def)

section \<open>The configuration, line by line\<close>

text \<open>Lines with their indentation; each begins with a line break.\<close>

definition text_lines :: "(nat \<times> string) list \<Rightarrow> string" where
  "text_lines ls = concat (map (\<lambda>(n, s). nl n @ s) ls)"

definition config_head :: string where
  "config_head = text_lines [(0, ''service {''), (1, ''user root''), (1, ''group root''),
     (1, ''paxos-single-replica-limit 1''), (1, ''pidfile /var/run/aerospike/asd.pid''), (1, ''service-threads 4''),
     (1, ''transaction-queues 4''), (1, ''transaction-threads-per-queue 4''), (1, ''proto-fd-max 15000''), (1, ''node-id '')]"

definition config_network :: string where
  "config_network = text_lines [(0, ''}''), (0, []),
     (0, ''logging {''), (1, ''file /var/log/aerospike/aerospike.log {''), (2, ''context any info''), (1, ''}''), (0, []),
     (1, ''console {''), (2, ''context any info ''), (1, ''}''), (0, ''}''), (0, []),
     (0, ''network {''), (1, ''service {''), (2, ''address any''), (2, ''port 3000''), (1, ''}''), (0, []),
     (1, ''heartbeat {''), (2, ''mode mesh''), (2, ''port 3002''), (0, []), (2, [])]"

definition config_tail :: string where
  "config_tail = text_lines [(0, []), (2, ''interval 100''), (2, ''timeout 10''), (1, ''}''), (0, []),
     (1, ''fabric {''), (2, ''port 3001''), (1, ''}''), (0, []), (1, ''info {''), (2, ''port 3003''), (1, ''}''), (0, ''}''),
     (0, []), (0, [])]"

definition namespace_blocks :: "AerospikeCluster \<Rightarrow> string" where
  "namespace_blocks c = concat (map (\<lambda>(i, ns). nl 1 @ render_namespace c i ns @ nl 0)
     (enumerate 0 (spec_Namespaces (asc_Spec c)))) @ nl 0"

definition node_config :: "string \<Rightarrow> string \<Rightarrow> AerospikeCluster \<Rightarrow> string" where
  "node_config nodeId seeds c = config_head @ nodeId @ config_network @ seeds @ config_tail @ namespace_blocks c"

lemma config_rendered: "buildConfig c = node_config ServiceNodeIdValue HeartbeatAddressesValue c"
proof -
  let ?ns = "map (\<lambda>(i, ns). render_namespace c i ns) (enumerate 0 (spec_Namespaces (asc_Spec c)))"
  have "buildConfig c = Execute asConfigTemplate (getClusterProps c ?ns)"
    by (simp add: buildConfig_def namespace_config case_prod_unfold)
  also have "\<dots> = config_head @ ServiceNodeIdValue @ config_network @ HeartbeatAddressesValue @ config_tail @
      concat (map (\<lambda>x. nl 1 @ x @ nl 0) ?ns) @ nl 0"
    unfolding Execute_def asConfigTemplate_def getClusterProps_def prop_keys config_head_def config_network_def
      config_tail_def text_lines_def
    by simp
  finally show ?thesis by (simp add: node_config_def namespace_blocks_def case_prod_unfold comp_def)
qed

text \<open>What a user writes into a namespace has no two underscores in a row.\<close>

definition plain_namespace :: "AerospikeNamespaceSpec \<Rightarrow> bool" where
  "plain_namespace ns \<longleftrightarrow> no_double (ns_Name ns) \<and> no_double (st_Size (ns_Storage ns)) \<and>
     (case ns_MemorySize ns of None \<Rightarrow> True | Some m \<Rightarrow> no_double m)"

lemma no_double_plain: "CHR ''_'' \<notin> set s \<Longrightarrow> no_double s"
  by (induction s rule: no_double.induct) auto

lemma no_double_nl [simp]: "no_double (nl n @ s) = no_double s"
proof -
  have "no_double (replicate n (CHR 0x09) @ s) = no_double s" for n by (induction n) (simp_all add: no_double_cons)
  then show ?thesis by (simp add: nl_def no_double_cons)
qed

lemma no_double_nl_only [simp]: "no_double (nl n)"
  using no_double_nl [of n "[]"] by simp

lemma no_double_before_nl: "no_double (s @ nl n @ t) \<longleftrightarrow> no_double s \<and> no_double t"
  using no_double_nl [of n t] by (simp add: nl_def no_double_append no_double_cons)

lemma no_double_itoa [simp]: "no_double (itoa v)"
proof (rule no_double_plain)
  have "\<not> is_digit (CHR ''_'')" by (simp add: is_digit_def)
  then show "CHR ''_'' \<notin> set (itoa v)" using set_nat_digits by (auto simp: itoa_def split: if_splits)
qed

lemma no_double_setting:
  assumes "CHR ''_'' \<notin> set name"
  shows "no_double (setting n name v @ s) \<longleftrightarrow> (\<forall>x. v = Some x \<longrightarrow> no_double x) \<and> no_double s"
  using no_double_plain [OF assms]
  by (cases v) (simp_all add: setting_def no_double_append no_double_before_nl)

lemma no_double_namespace:
  assumes "plain_namespace ns"
  shows "no_double (render_namespace c i ns)"
proof -
  have memory: "no_double (case ns_MemorySize ns of Some (x # m) \<Rightarrow> x # m | _ \<Rightarrow> ''4G'')"
    using assms by (auto simp: plain_namespace_def split: option.split list.split)
  have ends: "no_double (nl 1 @ ''}'' @ nl 0 @ ''}'')" by (simp add: no_double_cons)
  have name: "no_double (''/opt/aerospike/data/'' @ ns_Name ns @ ''/'' @ ns_Name ns @ ''.dat'')"
    "no_double (''/dev/xvd'' @ itoa (97 + int i))"
    using assms by (simp_all add: plain_namespace_def no_double_cons no_double_append)
  show ?thesis
    unfolding render_namespace_def
    using assms memory ends name
    by (auto simp: plain_namespace_def no_double_setting no_double_cons no_double_append
        split: option.split sum.split)
qed

lemma no_double_blocks:
  assumes "list_all plain_namespace (spec_Namespaces (asc_Spec c))"
  shows "no_double (config_tail @ namespace_blocks c)"
proof -
  have "no_double (concat (map (\<lambda>(i, ns). nl 1 @ render_namespace c i ns @ nl 0) xs) @ nl 0)"
    if "\<forall>(i, ns) \<in> set xs. plain_namespace ns" for xs
    using that
  proof (induction xs)
    case Nil
    then show ?case using no_double_nl [of 0 "[]"] by simp
  next
    case (Cons x xs)
    then show ?case by (cases x) (simp add: no_double_before_nl no_double_namespace)
  qed
  moreover have "\<forall>(i, ns) \<in> set (enumerate 0 (spec_Namespaces (asc_Spec c))). plain_namespace ns"
    using assms by (auto simp: list_all_iff in_set_enumerate_eq)
  ultimately show ?thesis
    by (simp add: namespace_blocks_def config_tail_def text_lines_def no_double_cons)
qed

lemma config_parts:
  "no_double config_head" "ends_plain config_head" "no_double config_network" "ends_plain config_network"
  "\<exists>t. config_tail = nl 0 @ t"
proof -
  show "no_double config_head" "no_double config_network"
    by (simp_all add: config_head_def config_network_def text_lines_def no_double_cons)
  show "ends_plain config_head" "ends_plain config_network"
    by (simp_all add: config_head_def config_network_def text_lines_def nl_def)
  show "\<exists>t. config_tail = nl 0 @ t" by (simp add: config_tail_def text_lines_def)
qed

text \<open>The substitutions on the rendered file give the file rendered with the node's own values.\<close>

lemma asinit_config:
  assumes "list_all plain_namespace (spec_Namespaces (asc_Spec c))" and "CHR ''_'' \<notin> set nodeId"
  shows "asinit nodeId peerList (buildConfig c) = node_config nodeId (seed_lines peerList) c"
proof -
  let ?rest = "config_tail @ namespace_blocks c"
  obtain t where t: "config_tail = nl 0 @ t" using config_parts(5) by blast
  have id: "ServiceNodeIdValue = CHR ''_'' # CHR ''_'' # ''SERVICE__NODE_ID__''"
    and hb: "HeartbeatAddressesValue = CHR ''_'' # CHR ''_'' # ''NETWORK__HEARTBEAT__MESH_SEED_ADDRESS_PORT__''"
    by (simp_all add: ServiceNodeIdValue_def HeartbeatAddressesValue_def)
  have rest: "replace_all ServiceNodeIdValue x ?rest = ?rest" "replace_all HeartbeatAddressesValue x ?rest = ?rest" for x
    using replace_all_none [OF no_double_blocks [OF assms(1)]] unfolding id hb by blast+
  have ends: "no_double nodeId" "ends_plain nodeId"
    using assms(2) no_double_plain by (auto dest: last_in_set)
  have filled: "ServiceNodeIdValue \<noteq> []" "HeartbeatAddressesValue \<noteq> []" by (simp_all add: id hb)
  have *: "replace_all ServiceNodeIdValue nodeId (HeartbeatAddressesValue @ ?rest) = HeartbeatAddressesValue @ ?rest"
    using replace_all_other [of nodeId 0 "t @ namespace_blocks c"] rest(1) [of nodeId] by (simp add: t)
  have 1: "replace_all ServiceNodeIdValue nodeId (buildConfig c) = node_config nodeId HeartbeatAddressesValue c"
    unfolding config_rendered node_config_def
    by (simp add: replace_all_skip [OF config_parts(1,2) id] replace_all_skip [OF config_parts(3,4) id]
      replace_all_here [OF filled(1)] *)
  show ?thesis
    unfolding asinit_def 1 unfolding node_config_def
    by (simp add: replace_all_skip [OF config_parts(1,2) hb] replace_all_skip [OF config_parts(3,4) hb]
      replace_all_skip [OF ends hb] replace_all_here [OF filled(2)] rest(2))
qed

section \<open>The pod that carries it\<close>

text \<open>
  What the kubelet shows to a container: a volume that is a config map, mounted at a directory, has
  one file for each key of the config map.
\<close>

definition shows_config_map :: "(string \<Rightarrow> string + string) \<Rightarrow> ConfigMap \<Rightarrow> Pod \<Rightarrow> Container \<Rightarrow> bool" where
  "shows_config_map ReadFile cm pod ct \<longleftrightarrow>
     (\<forall>mount \<in> set (ct_VolumeMounts ct). \<forall>volume \<in> set (ps_Volumes (pod_Spec pod)).
        vol_Name volume = vm_Name mount \<and> vol_Source volume = ConfigMapVolume (om_Name (cm_Meta cm)) \<and>
        om_Namespace (cm_Meta cm) = pod_Namespace pod \<longrightarrow>
        (\<forall>k content. gm_get (cm_Data cm) k = Some content \<longrightarrow>
           ReadFile (path_join (vm_MountPath mount) k) = Inr content))"

abbreviation init_of :: "Pod \<Rightarrow> Container" where
  "init_of pod \<equiv> hd (ps_InitContainers (pod_Spec pod))"

abbreviation server_of :: "Pod \<Rightarrow> Container" where
  "server_of pod \<equiv> hd (ps_Containers (pod_Spec pod))"

text \<open>Attaching the volumes of the namespaces changes neither program that is started.\<close>

definition same_programs :: "Pod \<Rightarrow> Pod \<Rightarrow> bool" where
  "same_programs pod pod' \<longleftrightarrow> pod_Meta pod' = pod_Meta pod \<and>
     ps_InitContainers (pod_Spec pod') = ps_InitContainers (pod_Spec pod) \<and>
     ct_Command (server_of pod') = ct_Command (server_of pod) \<and>
     set (ps_Volumes (pod_Spec pod)) \<subseteq> set (ps_Volumes (pod_Spec pod'))"

lemma attach_volume_programs: "attach_volume i ns pvc pod = Inr pod' \<Longrightarrow> same_programs pod pod'"
  by (auto simp: attach_volume_def same_programs_def Let_def split: if_splits)

lemma attach_volumes_programs:
  "run_state (attach_volumes E c s i nss pod) h = (Inr pod', h') \<Longrightarrow> same_programs pod pod'"
proof (induction nss arbitrary: i pod h)
  case Nil
  then show ?case by (simp add: same_programs_def)
next
  case (Cons ns nss)
  from Cons.prems obtain pvc h1 pod1 where
    "attach_volume i ns pvc pod = Inr pod1"
    and "run_state (attach_volumes E c s (Suc i) nss pod1) h1 = (Inr pod', h')"
    by (auto split: prod.splits sum.splits)
  from attach_volume_programs [OF this(1)] Cons.IH [OF this(2)] show ?case by (auto simp: same_programs_def)
qed

text \<open>The one request for a pod in \<open>createPodWithIndex\<close>.\<close>

abbreviation asks_only_for :: "Pod set \<Rightarrow> event \<Rightarrow> bool" where
  "asks_only_for S e \<equiv> (\<forall>pod b. e = EvCreatePod pod b \<longrightarrow> pod \<in> S)"

lemma emits_start_request: "emits (asks_only_for {pod}) (start_pod E c pod)"
proof -
  have "emits (asks_only_for {pod}) (pod_started E c p e)" for p e by (cases e) (auto intro!: emits_intro)
  then show ?thesis unfolding start_pod_def by (auto intro!: emits_intro)
qed

lemma createPod_request:
  assumes "run_state (createPodWithIndex E c cm i u) h = (r, h')" and "EvCreatePod req b \<in> set (drop (length h) h')"
    and "run_state (listClusterPods E c) h = (Inr pods, h1)"
  obtains s h2 where "run_state (attach_volumes E c s 0 (spec_Namespaces (asc_Spec c)) (build_pod E c cm i pods)) h1 = (Inr req, h2)"
proof -
  have "emits (asks_only_for {}) (listClusterPods E c)" by (auto intro!: emits_intro)
  from emits_extends [OF this assms(3)] obtain es1 where 1: "h1 = h @ es1" "EvCreatePod req b \<notin> set es1"
    by (auto simp: list_all_iff)
  obtain s where s: "upgrade_strategy u = Inr s"
    using assms 1 by (cases "upgrade_strategy u") (auto simp: createPodWithIndex_def)
  obtain r2 h2 where 2: "run_state (attach_volumes E c s 0 (spec_Namespaces (asc_Spec c)) (build_pod E c cm i pods)) h1 = (r2, h2)"
    by (meson prod.exhaust)
  have "emits (asks_only_for {}) (attach_volumes E c s 0 (spec_Namespaces (asc_Spec c)) (build_pod E c cm i pods))"
    by (auto intro!: emits_attach_volumes)
  from emits_extends [OF this 2] obtain es2 where 3: "h2 = h1 @ es2" "EvCreatePod req b \<notin> set es2"
    by (auto simp: list_all_iff)
  obtain pod where pod: "r2 = Inr pod"
    using assms 1 2 3 s by (cases r2) (auto simp: createPodWithIndex_def Let_def)
  then have 4: "run_state (start_pod E c pod) h2 = (r, h')"
    using assms(1,3) 2 s by (simp add: createPodWithIndex_def Let_def)
  from emits_extends [OF emits_start_request this] have "req = pod"
    using assms(2) 1 3 by (auto simp: list_all_iff)
  with 2 pod that show thesis by blast
qed

text \<open>The arguments of the init container are read back as they were built.\<close>

lemma parse_flags_next:
  assumes "map_of formal name = Some kind" and "kind \<noteq> FlagBool" and "CHR ''='' \<notin> set name" and "name \<noteq> []"
    and "hd name \<noteq> CHR ''-''" and "valid kind v"
  shows "parse_flags formal valid ((''--'' @ name) # v # args) =
    (case parse_flags formal valid args of Inl e \<Rightarrow> Inl e | Inr (assigned, left) \<Rightarrow> Inr ((name, v) # assigned, left))"
proof -
  have "takeWhile (\<lambda>c. c \<noteq> CHR ''='') name = name"
    by (rule takeWhile_eq_all_conv [THEN iffD2]) (use assms(3) in blast)
  then have "split_eq name = (name, None)" unfolding split_eq_def Let_def by (simp only: drop_all) simp
  moreover have "hd name \<noteq> CHR ''=''" using assms(3,4) by (cases name) auto
  ultimately show ?thesis using assms by (simp add: Let_def)
qed

lemma asinit_flags_read:
  "parse_flags asinit_flag_set (\<lambda>_ _. True)
     [''--node-id'', n, ''--peer-list'', p, ''--source-config'', s, ''--target-config'', t] =
   Inr ([(''node-id'', n), (''peer-list'', p), (''source-config'', s), (''target-config'', t)], [])"
  using parse_flags_next [of asinit_flag_set "''node-id''" FlagString "\<lambda>_ _. True" n]
    parse_flags_next [of asinit_flag_set "''peer-list''" FlagString "\<lambda>_ _. True" p]
    parse_flags_next [of asinit_flag_set "''source-config''" FlagString "\<lambda>_ _. True" s]
    parse_flags_next [of asinit_flag_set "''target-config''" FlagString "\<lambda>_ _. True" t "[]"]
  by (simp add: asinit_flag_set_def del: parse_flags.simps(2))

lemma asinit_arguments:
  "asinit_main ReadFile WriteFile (ct_Command (init_container E nodeId peerList)) =
     (let target = path_join finalConfigMountPath configFileName in
      case ReadFile (path_join initialConfigMountPath configFileName) of
        Inl err \<Rightarrow> (1, None)
      | Inr input \<Rightarrow>
          (case WriteFile target (asinit nodeId peerList input) of
             Inl err \<Rightarrow> (1, None)
           | Inr _ \<Rightarrow> (0, Some (target, asinit nodeId peerList input))))"
  by (simp add: asinit_main_def init_container_def Let_def zero_container_def asinit_flags_read set_asinit_flag_def
      del: parse_flags.simps split: sum.split)

section \<open>The property\<close>

text \<open>
  C14: the node configuration, end to end. Of every pod that \<open>createPodWithIndex\<close> asks for with the config map of
  its cluster: when the kubelet shows the config map to the init container, the
  program of that container succeeds and writes, at the path that the Aerospike server of the pod reads
  its configuration from, the file that has the node id of the pod, one mesh seed line for each other
  pod of the cluster and the namespaces of the spec, with nothing of the placeholders left.
\<close>

theorem node_configuration:
  assumes created: "run_state (createPodWithIndex E c (buildConfigMap E c) i u) h = (r, h')"
      "EvCreatePod req b \<in> set (drop (length h) h')"
    and listed: "run_state (listClusterPods E c) h = (Inr pods, h1)"
    and shown: "shows_config_map ReadFile (buildConfigMap E c) req (init_of req)"
    and written: "\<And>path content. WriteFile path content = Inr ()"
    and plain: "list_all plain_namespace (spec_Namespaces (asc_Spec c))" "CHR ''_'' \<notin> set (env_md5 E (pod_name c i))"
    and names: "CHR '','' \<notin> set (asc_Name c)" "CHR '','' \<notin> set (asc_Namespace c)"
      "list_all (\<lambda>p. CHR '','' \<notin> set (pod_Name p)) pods"
  shows "\<exists>target.
    asinit_main ReadFile WriteFile (ct_Command (init_of req)) =
      (0, Some (target, node_config (computeNodeId E (pod_name c i))
        (concat (map (\<lambda>p. ''mesh-seed-address-port '' @ pod_host c p @ '' 3002'' @ [CHR 0x0A])
          (filter (\<lambda>p. pod_Name p \<noteq> pod_name c i) pods))) c)) \<and>
    ct_Command (server_of req) = [''/usr/bin/asd'', ''--foreground'', ''--config-file'', target]"
proof -
  let ?pod = "build_pod E c (buildConfigMap E c) i pods" and ?id = "computeNodeId E (pod_name c i)"
  let ?peers = "peer_list c (pod_name c i) pods"
  from created listed obtain s h2 where
    "run_state (attach_volumes E c s 0 (spec_Namespaces (asc_Spec c)) ?pod) h1 = (Inr req, h2)"
    by (rule createPod_request)
  then have same: "same_programs ?pod req" by (rule attach_volumes_programs)
  then have init: "init_of req = init_container E ?id ?peers"
    and server: "ct_Command (server_of req) =
      [''/usr/bin/asd'', ''--foreground'', ''--config-file'', path_join finalConfigMountPath configFileName]"
    by (simp_all add: same_programs_def build_pod_def Let_def server_container_def zero_container_def)
  have read: "ReadFile (path_join initialConfigMountPath configFileName) = Inr (buildConfig c)"
  proof -
    let ?mount = "\<lparr>vm_Name = initialConfigVolumeName, vm_MountPath = initialConfigMountPath, vm_ReadOnly = False\<rparr>"
    let ?volume = "\<lparr>vol_Name = initialConfigVolumeName, vol_Source = ConfigMapVolume (asc_Name c)\<rparr>"
    have "?mount \<in> set (ct_VolumeMounts (init_of req))"
      unfolding init by (simp add: init_container_def Let_def zero_container_def)
    moreover have "?volume \<in> set (ps_Volumes (pod_Spec req))" and "pod_Namespace req = asc_Namespace c"
      using same by (simp_all add: same_programs_def build_pod_def Let_def zero_meta_def)
    ultimately show ?thesis
      using shown unfolding shows_config_map_def
      by (elim ballE [of _ _ ?mount] ballE [of _ _ ?volume]) simp_all
  qed
  have "CHR ''_'' \<notin> set ?id"
    using plain(2) by (auto simp: computeNodeId_def nodeIdPrefix_def dest: in_set_takeD)
  note config = asinit_config [OF plain(1) this, of ?peers]
  have "fields_func (CHR '','') ?peers = map (pod_host c) (filter (\<lambda>p. pod_name c i \<noteq> pod_Name p) pods)"
    using names by (intro peers_recovered) (auto simp: list_all_iff)
  moreover have "itoa HeartbeatPort = ''3002''" by code_simp
  moreover have "(\<lambda>p. pod_Name p \<noteq> pod_name c i) = (\<lambda>p. pod_name c i \<noteq> pod_Name p)" by auto
  ultimately show ?thesis
    unfolding init asinit_arguments server using config by (simp add: read written seed_lines_def o_def)
qed

theorem node_configuration_witness:
  "\<exists>pod target.
    asinit_main (\<lambda>path. Inr (buildConfig cluster0)) (\<lambda>path content. Inr ()) (ct_Command (init_of pod)) =
      (0, Some (target, node_config ''a0123456789abcde'' (''mesh-seed-address-port c0-0.c0.k 3002'' @ [CHR 0x0A]) cluster0)) \<and>
    ct_Command (server_of pod) = [''/usr/bin/asd'', ''--foreground'', ''--config-file'', target]"
proof -
  let ?run = "run_state (createPodWithIndex env_running cluster0 (buildConfigMap env_running cluster0) 1 None) []"
  have "list_ex (\<lambda>e. case e of EvCreatePod pod b \<Rightarrow> True | _ \<Rightarrow> False) (snd ?run)" by code_simp
  then obtain e where e: "e \<in> set (snd ?run)" "case e of EvCreatePod pod b \<Rightarrow> True | _ \<Rightarrow> False"
    by (auto simp only: list_ex_iff)
  from e(2) obtain pod b where "e = EvCreatePod pod b" by (cases e) auto
  with e(1) have created: "EvCreatePod pod b \<in> set (drop (length []) (snd ?run))" by simp
  have name: "pod_name cluster0 1 = ''c0-1''" by code_simp
  have listed: "run_state (listClusterPods env_running cluster0) [] =
      (Inr [running_pod ''c0-0'', running_pod ''c0-1''], snd (run_state (listClusterPods env_running cluster0) []))"
  proof -
    have "podIndex (running_pod ''c0-0'') = podIndex (running_pod ''c0-1'')" by code_simp
    then show ?thesis
      by (simp add: listClusterPods_def byIndex_def env_running_def)
  qed
  have shown: "shows_config_map (\<lambda>path. Inr (buildConfig cluster0)) (buildConfigMap env_running cluster0) pod (init_of pod)"
    by (auto simp: shows_config_map_def split: if_splits)
  have "list_all plain_namespace (spec_Namespaces (asc_Spec cluster0))"
    by (simp add: cluster0_def spec0_def ns0_def plain_namespace_def)
  note * = node_configuration [OF surjective_pairing created listed shown refl this]
  have node: "computeNodeId env_running ''c0-1'' = ''a0123456789abcde''" "CHR ''_'' \<notin> set (env_md5 env_running ''c0-1'')"
    by (simp_all add: computeNodeId_def nodeIdPrefix_def env_running_def env0_def)
  have names: "asc_Name cluster0 = ''c0''" "asc_Namespace cluster0 = ''k''" "pod_Name (running_pod n) = n" for n
    by (simp_all add: cluster0_def running_pod_def zero_meta_def)
  show ?thesis
    using * by (simp add: name node names pod_host_def) blast
qed

end
