(* ===== verification/RollingRestart.thy ===== *)
theory RollingRestart
  imports LiveServer
begin

text \<open>
  Restarts and upgrades are rolling: the reconciler takes down one pod at a time, and the next only
  after the one before was created again and has started. Stated as a monitor that is run over the
  calls of a pass.
\<close>

section \<open>The monitor\<close>

text \<open>
  \<open>Gone n\<close>: the pod \<open>n\<close> was deleted. \<open>Coming n\<close>: it was created again, but has not been seen running
  and ready, which is when \<open>ReasonNodeStarted\<close> is recorded. \<open>K\<close> are the names of the pods that count;
  surplus pods do not.
\<close>

datatype pod_phase = AllUp | Gone string | Coming string

fun after_call :: "string set \<Rightarrow> event \<Rightarrow> pod_phase \<Rightarrow> pod_phase" where
  "after_call K (EvDeletePod ns n g r) d = (if n \<in> K then Gone n else d)"
| "after_call K (EvCreatePod p r) d = (if r \<and> d = Gone (pod_Name p) then Coming (pod_Name p) else d)"
| "after_call K (EvRecord t reason) d =
     (if reason = ReasonNodeStarted then (case d of Coming n \<Rightarrow> AllUp | _ \<Rightarrow> d) else d)"
| "after_call K e d = d"

fun allowed_call :: "string set \<Rightarrow> pod_phase \<Rightarrow> event \<Rightarrow> bool" where
  "allowed_call K d (EvDeletePod ns n g r) \<longleftrightarrow> (n \<in> K \<longrightarrow> d \<in> {AllUp, Gone n, Coming n})"
| "allowed_call K d e \<longleftrightarrow> True"

fun one_at_a_time :: "string set \<Rightarrow> pod_phase \<Rightarrow> event list \<Rightarrow> bool" where
  "one_at_a_time K d [] \<longleftrightarrow> True"
| "one_at_a_time K d (e # es) \<longleftrightarrow> allowed_call K d e \<and> one_at_a_time K (after_call K e d) es"

lemma one_at_a_time_snoc:
  "one_at_a_time K d (es @ [e]) \<longleftrightarrow> one_at_a_time K d es \<and> allowed_call K (fold (after_call K) es d) e"
  by (induction es arbitrary: d) auto





section \<open>Rules\<close>

text \<open>The monitor has accepted the calls since \<open>h0\<close> and is in a phase of \<open>S\<close>.\<close>

definition rolls :: "string set \<Rightarrow> history \<Rightarrow> pod_phase set \<Rightarrow> history \<Rightarrow> bool" where
  "rolls K h0 S h \<longleftrightarrow> (\<exists>es. h = h0 @ es \<and> one_at_a_time K AllUp es \<and> fold (after_call K) es AllUp \<in> S)"

lemma rolls_weaken: "rolls K h0 S h \<Longrightarrow> S \<subseteq> T \<Longrightarrow> rolls K h0 T h"
  by (auto simp: rolls_def)

lemma rolls_any: "rolls K h0 S h \<Longrightarrow> rolls K h0 UNIV h"
  by (rule rolls_weaken) simp_all

lemma rolls_snoc:
  assumes "rolls K h0 S h" and "\<And>d. d \<in> S \<Longrightarrow> allowed_call K d e \<and> after_call K e d \<in> T"
  shows "rolls K h0 T (h @ [e])"
proof -
  from assms(1) obtain es where "h = h0 @ es" "one_at_a_time K AllUp es" "fold (after_call K) es AllUp \<in> S"
    by (auto simp: rolls_def)
  with assms(2) show ?thesis
    unfolding rolls_def by (intro exI [of _ "es @ [e]"]) (simp add: one_at_a_time_snoc)
qed

text \<open>From a phase in \<open>A\<close> to one in \<open>B\<close>, unless an error ends it.\<close>

definition rolling :: "string set \<Rightarrow> history \<Rightarrow> pod_phase set \<Rightarrow> 'a acte \<Rightarrow> pod_phase set \<Rightarrow> bool" where
  "rolling K h0 A m B \<longleftrightarrow> post (rolls K h0 A) m (\<lambda>r. case r of Inl _ \<Rightarrow> rolls K h0 UNIV | Inr _ \<Rightarrow> rolls K h0 B)"

lemma rolling_weaken: "rolling K h0 A m B \<Longrightarrow> A' \<subseteq> A \<Longrightarrow> B \<subseteq> B' \<Longrightarrow> rolling K h0 A' m B'"
  unfolding rolling_def by (erule post_weaken) (auto intro: rolls_weaken split: sum.splits)

lemma rolling_ok: "A \<subseteq> B \<Longrightarrow> rolling K h0 A (ok x) B"
  unfolding rolling_def by (rule post_return) (auto intro: rolls_weaken)

lemma rolling_fail: "rolling K h0 A (fail err) B"
  unfolding rolling_def by (rule post_return) (auto intro: rolls_any)

lemma rolling_bindE: "rolling K h0 A m B \<Longrightarrow> (\<And>x. rolling K h0 B (f x) C) \<Longrightarrow> rolling K h0 A (bindE m f) C"
  unfolding rolling_def
  by (rule post_bindE [where B = "\<lambda>r. case r of Inl _ \<Rightarrow> rolls K h0 UNIV | Inr _ \<Rightarrow> rolls K h0 B"]) simp_all

lemma rolling_liftE: "(\<And>x. r = Inr x \<Longrightarrow> rolling K h0 A (f x) B) \<Longrightarrow> rolling K h0 A (liftE r f) B"
  unfolding rolling_def by (rule post_liftE) (auto intro: rolls_any)

lemma rolling_forE: "(\<And>x. x \<in> set xs \<Longrightarrow> rolling K h0 A (f x) A) \<Longrightarrow> rolling K h0 A (forE xs f) A"
  by (induction xs) (auto intro: rolling_ok rolling_bindE)

lemma rolling_bindE_run:
  assumes m: "rolling K h0 A m B" and f: "\<And>x h h'. run_state m h = (Inr x, h') \<Longrightarrow> rolling K h0 B (f x) C"
  shows "rolling K h0 A (bindE m f) C"
  unfolding rolling_def
proof (rule postI)
  fix h r h'
  assume A: "rolls K h0 A h" and run: "run_state (bindE m f) h = (r, h')"
  obtain r1 h1 where 1: "run_state m h = (r1, h1)" by fastforce
  note B = postD [OF m [unfolded rolling_def] A 1]
  show "(case r of Inl _ \<Rightarrow> rolls K h0 UNIV | Inr _ \<Rightarrow> rolls K h0 C) h'"
  proof (cases r1)
    case (Inl err)
    then show ?thesis using B run 1 by auto
  next
    case (Inr x)
    then show ?thesis using B run 1 postD [OF f [OF 1 [unfolded Inr], unfolded rolling_def]] by auto
  qed
qed

lemma rolling_bind_run:
  assumes m: "post (rolls K h0 A) m (\<lambda>_. rolls K h0 A)"
    and f: "\<And>x h h'. run_state m h = (x, h') \<Longrightarrow> rolling K h0 A (f x) B"
  shows "rolling K h0 A (State_Monad.bind m f) B"
  unfolding rolling_def
proof (rule postI)
  fix h r h'
  assume A: "rolls K h0 A h" and run: "run_state (State_Monad.bind m f) h = (r, h')"
  obtain x h1 where 1: "run_state m h = (x, h1)" by fastforce
  show "(case r of Inl _ \<Rightarrow> rolls K h0 UNIV | Inr _ \<Rightarrow> rolls K h0 B) h'"
    using postD [OF f [OF 1, unfolded rolling_def] postD [OF m A 1]] run 1 by simp
qed

text \<open>Calls that neither create pods nor delete one that counts.\<close>

definition quiet :: "string set \<Rightarrow> event \<Rightarrow> bool" where
  "quiet K e \<longleftrightarrow> (case e of EvCreatePod _ _ \<Rightarrow> False | EvDeletePod _ n _ _ \<Rightarrow> n \<notin> K | _ \<Rightarrow> True)"

lemma quiet_simps [simp]: "\<not> touches_pods e \<Longrightarrow> quiet K e"
  by (cases e) (simp_all add: quiet_def)

lemma quiet_delete [simp]: "quiet K (EvDeletePod ns n g r) \<longleftrightarrow> n \<notin> K"
  by (simp add: quiet_def)

lemma quiet_signals [simp]: "signals_cluster e \<Longrightarrow> quiet K e"
  by (cases e) simp_all

lemma quiet_reads [simp]: "\<not> writes e \<Longrightarrow> quiet K e"
  by (cases e) (simp_all add: quiet_def)

abbreviation stable :: "pod_phase set \<Rightarrow> bool" where
  "stable S \<equiv> (\<forall>n. Coming n \<in> S \<longrightarrow> AllUp \<in> S)"

lemma quiet_call: "quiet K e \<Longrightarrow> stable S \<Longrightarrow> d \<in> S \<Longrightarrow> allowed_call K d e \<and> after_call K e d \<in> S"
  by (cases e) (auto simp: quiet_def split: pod_phase.split)

lemma post_quiet: "emits (quiet K) m \<Longrightarrow> stable S \<Longrightarrow> post (rolls K h0 S) m (\<lambda>_. rolls K h0 S)"
  by (erule post_emits) (erule rolls_snoc, erule (2) quiet_call)

lemma rolling_quiet: "emits (quiet K) m \<Longrightarrow> stable S \<Longrightarrow> rolling K h0 S m S"
  unfolding rolling_def by (rule post_weaken [OF post_quiet]) (auto intro: rolls_any split: sum.split)

lemma rolling_quiet_bindE:
  "emits (quiet K) m \<Longrightarrow> stable S \<Longrightarrow> (\<And>x. rolling K h0 S (f x) B) \<Longrightarrow> rolling K h0 S (bindE m f) B"
  by (rule rolling_bindE [OF rolling_quiet])

lemma rolling_bind_quiet:
  "emits (quiet K) m \<Longrightarrow> stable S \<Longrightarrow> (\<And>x. rolling K h0 S (f x) B) \<Longrightarrow> rolling K h0 S (State_Monad.bind m f) B"
  unfolding rolling_def by (rule post_bind [OF post_quiet])

section \<open>The operations on pods\<close>

text \<open>
  What the API server is relied on for: a pod that is read, created or watched under a name has
  that name.
\<close>

locale named_pods =
  fixes E :: env
  assumes get_name: "env_get_pod E h ns n = Inr p \<Longrightarrow> pod_Name p = n"
    and create_name: "env_create_pod E h p = Inr q \<Longrightarrow> pod_Name q = pod_Name p"
    and watch_name: "e \<in> set (fst (env_watch_pod E h ns n t)) \<Longrightarrow> e = WatchAdded p \<or> e = WatchModified p \<Longrightarrow> pod_Name p = n"
begin

abbreviation down :: "string \<Rightarrow> pod_phase set" where
  "down n \<equiv> {AllUp, Gone n}"

lemma rolling_deletePod:
  assumes "A \<subseteq> {AllUp, Gone (pod_Name pod), Coming (pod_Name pod)}" and "stable A"
  shows "rolling K h0 A (deletePod E c pod) (insert (Gone (pod_Name pod)) A)"
proof -
  have gone: "rolling K h0 A (Pods_Delete E ns (pod_Name pod) g) (insert (Gone (pod_Name pod)) A)" for ns g
    unfolding rolling_def using assms(1)
    by (intro post_call) (auto simp: map_sum_def intro!: rolls_snoc split: sum.split if_splits)
  have "stable (insert (Gone (pod_Name pod)) A)" using assms(2) by auto
  then show ?thesis
    unfolding deletePod_def
    by (intro rolling_bindE [OF rolling_quiet] rolling_bindE [OF gone] rolling_quiet)
      (auto intro!: emits_intro assms(2))
qed

lemma rolling_deletePod_other: "pod_Name pod \<notin> K \<Longrightarrow> stable A \<Longrightarrow> rolling K h0 A (deletePod E c pod) A"
  unfolding deletePod_def by (rule rolling_quiet) (auto intro!: emits_intro)

text \<open>Waiting for a pod: the condition either fails or leaves the phase where it may be.\<close>

abbreviation unless_error :: "string set \<Rightarrow> history \<Rightarrow> pod_phase set \<Rightarrow> 's \<times> (gerr + 'a) \<Rightarrow> history \<Rightarrow> bool" where
  "unless_error K h0 S \<equiv> \<lambda>w. case snd w of Inl _ \<Rightarrow> rolls K h0 UNIV | Inr _ \<Rightarrow> rolls K h0 S"

lemma post_until:
  "(\<And>s e. e \<in> set es \<Longrightarrow> post (rolls K h0 S) (fn s e) (unless_error K h0 S)) \<Longrightarrow>
     post (rolls K h0 S) (UntilWithSync fn end_err s es) (unless_error K h0 S)"
proof (induction es arbitrary: s)
  case Nil
  show ?case by (simp add: post_def rolls_any)
next
  case (Cons e es)
  have "post (unless_error K h0 S w) (case w of (s', d) \<Rightarrow> (case d of Inl err \<Rightarrow> ret (s', Inl err)
      | Inr done' \<Rightarrow> if done' then ret (s', Inr (Some e)) else UntilWithSync fn end_err s' es)) (unless_error K h0 S)" for w
    using Cons by (cases w) (auto simp: post_def split: sum.split prod.splits)
  then show ?case using Cons.prems [of e s] by (auto intro: post_bind)
qed

lemma post_wait:
  assumes "\<And>h s e. e \<in> set (fst (env_watch_pod E h (pod_Namespace pod) (pod_Name pod) t)) \<Longrightarrow>
      post (rolls K h0 S) (fn s e) (unless_error K h0 S)" and "stable S"
  shows "post (rolls K h0 S) (waitForPodCondition E pod fn s t) (unless_error K h0 S)"
proof -
  let ?finish = "\<lambda>r. case r of (s', l) \<Rightarrow>
       (case l of
          Inl err \<Rightarrow> ret (s', Inl err)
        | Inr last_ev \<Rightarrow>
            if last_ev = None then ret (s', Inl (Errorf ''no events received for pod %s'' [AStr (Key E (pod_Meta pod))]))
            else ret (s', Inr ()))"
  let ?B = "\<lambda>w h. rolls K h0 S h \<and> (\<exists>h1. w = env_watch_pod E h1 (pod_Namespace pod) (pod_Name pod) t)"
  have "post (rolls K h0 S) (Pods_Watch E (pod_Namespace pod) (pod_Name pod) t) ?B"
    using assms(2) by (auto intro!: post_call rolls_snoc)
  moreover have "post (?B w) (case w of (evs, end_err) \<Rightarrow> do { r \<leftarrow> UntilWithSync fn end_err s evs; ?finish r })
      (unless_error K h0 S)" for w
  proof (rule postI)
    fix h r h'
    assume B: "?B w h"
    then have "post (rolls K h0 S) (UntilWithSync fn (snd w) s (fst w)) (unless_error K h0 S)"
      using assms(1) by (intro post_until) blast
    moreover have "post (unless_error K h0 S r) (?finish r) (unless_error K h0 S)" for r
      by (cases r) (auto simp: post_def rolls_any split: sum.split)
    ultimately have "post (rolls K h0 S) (do { r \<leftarrow> UntilWithSync fn (snd w) s (fst w); ?finish r }) (unless_error K h0 S)"
      by (rule post_bind)
    moreover assume "run_state (case w of (evs, end_err) \<Rightarrow> do { r \<leftarrow> UntilWithSync fn end_err s evs; ?finish r }) h = (r, h')"
    ultimately show "unless_error K h0 S r h'" using B by (cases w) (auto elim: postD)
  qed
  ultimately show ?thesis unfolding waitForPodCondition_def by (rule post_bind)
qed

text \<open>The pod that is created is the one that was deleted, if any was.\<close>

lemma post_pod_started:
  assumes "\<And>p. e = WatchAdded p \<or> e = WatchModified p \<Longrightarrow> pod_Name p = n"
  shows "post (rolls K h0 {AllUp, Coming n}) (pod_started E c s e) (unless_error K h0 {AllUp, Coming n})"
proof -
  have del: "post (rolls K h0 {AllUp, Coming n}) (deletePod E c p) (\<lambda>_. rolls K h0 UNIV)" if "pod_Name p = n" for p
  proof -
    have "rolling K h0 {AllUp, Coming n} (deletePod E c p) (insert (Gone n) {AllUp, Coming n})"
      using rolling_deletePod [of "{AllUp, Coming n}" p K h0 c] that by simp
    then show ?thesis
      unfolding rolling_def by (rule post_weaken) (auto intro: rolls_any split: sum.splits)
  qed
  have failed: "post (rolls K h0 {AllUp, Coming n}) (do { r \<leftarrow> deletePod E c p; 
      ret (p, case r of Inl err \<Rightarrow> Inl err :: gerr + bool
      | Inr _ \<Rightarrow> Inl (Errorf ''pod %s in a failure state has been deleted'' [AStr (Key E (pod_Meta p))])) })
      (unless_error K h0 {AllUp, Coming n})" if "pod_Name p = n" for p
    by (rule post_bind [OF del [OF that]]) (auto simp: post_def rolls_any split: sum.split)
  have stays: "post (rolls K h0 {AllUp, Coming n}) (ret (p, Inl err)) (unless_error K h0 {AllUp, Coming n})"
    "post (rolls K h0 {AllUp, Coming n}) (ret (p, Inr b)) (unless_error K h0 {AllUp, Coming n})"
    for p :: Pod and err :: gerr and b :: bool
    by (simp_all add: post_def rolls_any)
  show ?thesis
    using assms stays failed by (cases e) (auto intro!: post_if)
qed

lemma rolling_start_pod: "rolling K h0 (down (pod_Name pod)) (start_pod E c pod) {AllUp}"
proof -
  let ?S = "{AllUp, Coming (pod_Name pod)}"
  have create: "rolling K h0 (down (pod_Name pod)) (Pods_Create E pod) ?S"
    unfolding rolling_def by (intro post_call) (auto simp: map_sum_def intro!: rolls_snoc split: sum.split)
  have wait: "post (rolls K h0 ?S) (waitForPodCondition E res (pod_started E c) res watchCreatePodTimeout)
      (unless_error K h0 ?S)" if "pod_Name res = pod_Name pod" for res
  proof (rule post_wait)
    fix h s e
    assume "e \<in> set (fst (env_watch_pod E h (pod_Namespace res) (pod_Name res) watchCreatePodTimeout))"
    then show "post (rolls K h0 ?S) (pod_started E c s e) (unless_error K h0 ?S)"
      using watch_name that by (intro post_pod_started) metis
  qed simp
  have "rolling K h0 ?S (do {
       w \<leftarrow> waitForPodCondition E res (pod_started E c) res watchCreatePodTimeout;
       case w of (currentPod, r) \<Rightarrow>
         (case r of
            Inl err \<Rightarrow> do { Record EventTypeWarning ReasonNodeStartedFailed; fail err }
          | Inr _ \<Rightarrow> do { Record EventTypeNormal ReasonNodeStarted; ok currentPod })
     }) {AllUp}" if "pod_Name res = pod_Name pod" for res
    unfolding rolling_def
    by (rule post_bind [OF wait [OF that]])
      (auto simp: post_def intro!: rolls_snoc split: sum.split)
  with create show ?thesis
    unfolding start_pod_def
    by (rule rolling_bindE_run) (auto simp: map_sum_def dest: create_name split: sum.splits)
qed

lemma rolling_create: "rolling K h0 (down (pod_name c i)) (createPodWithIndex E c cm i u) {AllUp}"
proof -
  let ?pod = "build_pod E c cm i"
  have *: "rolling K h0 (down (pod_name c i)) (bindE (attach_volumes E c s 0 nss (?pod pods)) (start_pod E c)) {AllUp}" for s nss pods
  proof (rule rolling_bindE_run)
    show "rolling K h0 (down (pod_name c i)) (attach_volumes E c s 0 nss (?pod pods)) (down (pod_name c i))"
      by (rule rolling_quiet) (auto intro!: emits_attach_volumes)
    fix pod h h'
    assume "run_state (attach_volumes E c s 0 nss (?pod pods)) h = (Inr pod, h')"
    then have "pod_Name pod = pod_name c i" using attach_volumes_meta by fastforce
    then show "rolling K h0 (down (pod_name c i)) (start_pod E c pod) {AllUp}" using rolling_start_pod [of K h0 pod] by simp
  qed
  show ?thesis
    unfolding createPodWithIndex_def Let_def
    by (rule rolling_quiet_bindE) (auto intro!: emits_intro rolling_liftE *)
qed

lemma rolling_get:
  assumes "stable A" and "\<And>p. (\<And>q. p = Some q \<Longrightarrow> pod_Name q = pod_name c i) \<Longrightarrow> rolling K h0 A (f p) B"
  shows "rolling K h0 A (bindE (getPodWithIndex E c i) f) B"
proof (rule rolling_bindE_run)
  show "rolling K h0 A (getPodWithIndex E c i) A" using assms(1) by (intro rolling_quiet) (auto intro!: emits_intro)
  fix p h h'
  assume "run_state (getPodWithIndex E c i) h = (Inr p, h')"
  then show "rolling K h0 A (f p) B" using getPod_some get_name by (intro assms(2)) blast
qed

lemma rolling_delete_after:
  assumes "rolling K h0 A (deletePod E c q) B" and "stable A" and "stable B"
  shows "rolling K h0 A (bindE (podHasMigrationsInProgress E q) (\<lambda>migrations.
         bindE (if migrations then wait_migrations E q else ok ()) (\<lambda>_.
         bindE (deletePod E c q) (\<lambda>_.
         bindE (listClusterPods E c) (\<lambda>pods. do { forget_pod E (pod_host c q) pods; ok () }))))) B"
proof -
  have "rolling K h0 B (bindE (listClusterPods E c) (\<lambda>pods. do { forget_pod E (pod_host c q) pods; ok () })) B"
    using assms(3) by (intro rolling_quiet) (auto intro!: emits_intro)
  note deleted = rolling_bindE [OF assms(1) this]
  have waited: "rolling K h0 A (bindE (if b then wait_migrations E q else ok ()) (\<lambda>_. bindE (deletePod E c q)
      (\<lambda>_. bindE (listClusterPods E c) (\<lambda>pods. do { forget_pod E (pod_host c q) pods; ok () })))) B" for b
    by (rule rolling_quiet_bindE) (use assms(2) deleted in \<open>auto intro!: emits_intro\<close>)
  show ?thesis by (rule rolling_quiet_bindE) (use assms(2) waited in \<open>auto intro!: emits_intro\<close>)
qed

lemma rolling_safeDelete: "rolling K h0 {AllUp} (safeDeletePodWithIndex E c i) (down (pod_name c i))"
  unfolding safeDeletePodWithIndex_def
proof (rule rolling_get)
  fix p
  assume name: "\<And>q. p = Some q \<Longrightarrow> pod_Name q = pod_name c i"
  have "rolling K h0 {AllUp} (deletePod E c q) (down (pod_name c i))" if "p = Some q" for q
    using rolling_deletePod [of "{AllUp}" q K h0 c] name [OF that] by (simp add: insert_commute)
  then show "rolling K h0 {AllUp} (case p of None \<Rightarrow> ok () | Some pod \<Rightarrow>
         bindE (podHasMigrationsInProgress E pod) (\<lambda>migrations.
         bindE (if migrations then wait_migrations E pod else ok ()) (\<lambda>_.
         bindE (deletePod E c pod) (\<lambda>_.
         bindE (listClusterPods E c) (\<lambda>pods. do { forget_pod E (pod_host c pod) pods; ok () })))))
       (down (pod_name c i))"
    by (cases p) (simp_all add: rolling_ok rolling_delete_after)
qed simp

text \<open>A surplus pod.\<close>

lemma rolling_safeDelete_other:
  assumes "pod_name c i \<notin> K" and "stable A"
  shows "rolling K h0 A (safeDeletePodWithIndex E c i) A"
  unfolding safeDeletePodWithIndex_def
proof (rule rolling_get)
  fix p
  assume "\<And>q. p = Some q \<Longrightarrow> pod_Name q = pod_name c i"
  then have "rolling K h0 A (deletePod E c q) A" if "p = Some q" for q
    using rolling_deletePod_other assms that by simp
  then show "rolling K h0 A (case p of None \<Rightarrow> ok () | Some pod \<Rightarrow>
         bindE (podHasMigrationsInProgress E pod) (\<lambda>migrations.
         bindE (if migrations then wait_migrations E pod else ok ()) (\<lambda>_.
         bindE (deletePod E c pod) (\<lambda>_.
         bindE (listClusterPods E c) (\<lambda>pods. do { forget_pod E (pod_host c pod) pods; ok () }))))) A"
    by (cases p) (simp_all add: rolling_ok rolling_delete_after assms(2))
qed (rule assms)

lemma rolling_restart: "rolling K h0 {AllUp} (safeRestartPodWithIndex E c cm i u) {AllUp}"
  unfolding safeRestartPodWithIndex_def by (rule rolling_bindE [OF rolling_safeDelete rolling_create])

section \<open>A pass\<close>

lemma rolling_maybeUpgrade: "rolling K h0 {AllUp} (maybeUpgradePodWithIndex E c cm i u) {AllUp}"
proof -
  have end_of: "rolling K h0 {AllUp} (bindE (getAerospikeServerVersionFromPod E q) (\<lambda>version.
      if version \<noteq> spec_Version (asc_Spec c)
      then do {
        Record EventTypeNormal ReasonNodeUpgradeFailed;
        fail (Errorf ''failed to upgrade pod %s to version %s'' [AStr (Key E (pod_Meta q)), AStr (spec_Version (asc_Spec c))])
      }
      else do { Record EventTypeNormal ReasonNodeUpgradeFinished; ok (Some q) })) {AllUp}" for q
    by (rule rolling_quiet) (auto intro!: emits_intro)
  have "rolling K h0 {AllUp} (bindE (getAerospikeServerVersionFromPod E p) (\<lambda>version.
      if version = spec_Version (asc_Spec c) then ok (Some p)
      else do { Record EventTypeNormal ReasonNodeUpgradeStarted; m })) {AllUp}" if "rolling K h0 {AllUp} m {AllUp}" for p m
    using that by (intro rolling_quiet_bindE) (auto intro!: emits_intro rolling_ok rolling_bind_quiet)
  with rolling_bindE [OF rolling_restart end_of] show ?thesis
    unfolding maybeUpgradePodWithIndex_def
    by (intro rolling_quiet_bindE) (auto intro!: emits_intro rolling_ok split: option.split)
qed

lemma rolling_ensureClusterSize: "rolling K h0 {AllUp} (ensureClusterSize E c p) {AllUp}"
proof -
  have "rolling K h0 {AllUp} (cluster_size_loop E c p n) {AllUp}" for n
  proof (induction n)
    case 0
    show ?case by (simp, rule rolling_bindE [OF rolling_safeDelete rolling_fail])
  next
    case (Suc n)
    have sized: "rolling K h0 {AllUp} (bindE (GetClusterSize E ip port) (\<lambda>s. if s \<ge> k then ok () else cluster_size_loop E c p n)) {AllUp}" for ip port k
      by (rule rolling_quiet_bindE) (auto intro!: emits_intro rolling_ok Suc.IH)
    show ?case unfolding cluster_size_loop.simps by (rule rolling_quiet_bindE) (auto intro!: emits_intro sized)
  qed
  then show ?thesis unfolding ensureClusterSize_def by (intro rolling_bind_quiet) (auto intro!: emits_intro)
qed

lemma rolling_ensure_pod: "rolling K h0 {AllUp} (ensure_pod E c cm u i) {AllUp}"
  unfolding ensure_pod_def
proof (rule rolling_get)
  fix p
  assume name: "\<And>q. p = Some q \<Longrightarrow> pod_Name q = pod_name c i"
  let ?drop = "case p of None \<Rightarrow> ok None
    | Some q \<Rightarrow> if isPodInFailureState q then bindE (deletePod E c q) (\<lambda>_. ok None) else ok (Some q)"
  let ?rest = "\<lambda>p. case p of None \<Rightarrow> bindE (createPodWithIndex E c cm i None) (\<lambda>_. ok ())
     | Some p \<Rightarrow>
         (case u of
            Some u \<Rightarrow> bindE (maybeUpgradePodWithIndex E c cm i u) (\<lambda>_. ok ())
          | None \<Rightarrow>
              if str_at (om_Annotations (cm_Meta cm)) configMapHashAnnotation
                   \<noteq> str_at (om_Annotations (pod_Meta p)) configMapHashAnnotation
              then bindE (safeRestartPodWithIndex E c cm i u) (\<lambda>_. ok ())
              else ensureClusterSize E c p)"
  have ok_left: "bindE (ok x) ?rest = ?rest x" for x by (simp add: bindE_def)
  have create: "rolling K h0 (down (pod_name c i)) (?rest None) {AllUp}"
    unfolding option.case by (rule rolling_bindE [OF rolling_create rolling_ok]) simp
  have stay: "rolling K h0 {AllUp} (?rest (Some q)) {AllUp}" for q
    by (auto intro!: rolling_bindE [OF rolling_maybeUpgrade rolling_ok] rolling_bindE [OF rolling_restart rolling_ok]
        rolling_ensureClusterSize split: option.split)
  show "rolling K h0 {AllUp} (bindE ?drop ?rest) {AllUp}"
  proof (cases p)
    case None
    then show ?thesis using rolling_weaken [OF create, of "{AllUp}"] by (simp add: ok_left)
  next
    case (Some q)
    have "rolling K h0 {AllUp} (deletePod E c q) (down (pod_name c i))"
      using rolling_deletePod [of "{AllUp}" q K h0 c] name [OF Some] by (simp add: insert_commute)
    then have "rolling K h0 {AllUp} (bindE (deletePod E c q) (\<lambda>_. ok None)) (down (pod_name c i))"
      by (rule rolling_bindE) (rule rolling_ok, simp)
    then have "rolling K h0 {AllUp} (bindE (bindE (deletePod E c q) (\<lambda>_. ok None)) ?rest) {AllUp}"
    proof (rule rolling_bindE_run)
      fix x :: "Pod option" and h h'
      assume "run_state (bindE (deletePod E c q) (\<lambda>_. ok None)) h = (Inr x, h')"
      then have "x = None" by (auto split: prod.splits sum.splits)
      with create show "rolling K h0 (down (pod_name c i)) (?rest x) {AllUp}" by simp
    qed
    then show ?thesis using stay [of q] by (cases "isPodInFailureState q") (simp_all only: Some option.case if_True if_False ok_left)
  qed
qed simp

lemma rolling_ensurePods:
  "rolling (pod_name c ` {0..<spec_NodeCount (asc_Spec c)}) h0 {AllUp} (ensurePods E c cm u) {AllUp}"
proof -
  let ?K = "pod_name c ` {0..<spec_NodeCount (asc_Spec c)}"
  have surplus: "rolling ?K h0 {AllUp} (forE (rev [spec_NodeCount (asc_Spec c)..m]) (safeDeletePodWithIndex E c)) {AllUp}" for m
    by (rule rolling_forE, rule rolling_safeDelete_other) (auto dest: pod_name_inj)
  have rounds: "rolling ?K h0 {AllUp} (forE is (ensure_pod E c cm u)) {AllUp}" for "is"
    by (rule rolling_forE, rule rolling_ensure_pod)
  show ?thesis
    unfolding ensurePods_def Let_def
    by (rule rolling_quiet_bindE) (auto intro!: emits_intro rolling_bindE [OF surplus rounds])
qed

lemma rolling_reconcile:
  "rolling (pod_name c ` {0..<spec_NodeCount (asc_Spec c)}) h0 {AllUp} (reconcile E c u) {AllUp}"
proof -
  let ?K = "pod_name c ` {0..<spec_NodeCount (asc_Spec c)}"
  let ?finish = "\<lambda>r. case r of
         Inl err \<Rightarrow>
           if err = PodUpgradeFailed
           then (case u of
                   Some u \<Rightarrow> do { _ \<leftarrow> signalUpgradeFailed E c u; fail err }
                 | None \<Rightarrow> fail NilPanic)
           else fail err
       | Inr _ \<Rightarrow>
           (let c' = updateStatus c in
            bindE (patchCluster E c c') (\<lambda>_.
            case u of
              None \<Rightarrow> ok ()
            | Some u \<Rightarrow> do {
                s \<leftarrow> signalUpgradeFinished E c' u;
                case snd s of Inl err \<Rightarrow> fail err | Inr _ \<Rightarrow> ok ()
              }))"
  have quiet: "emits (quiet ?K) (?finish r)" for r
    by (auto intro!: emits_intro emits_patchCluster split: sum.split option.split)
  have pods: "rolling ?K h0 {AllUp} (do { r \<leftarrow> ensurePods E c cm u; ?finish r }) {AllUp}" for cm
  proof -
    have "post ((case r of Inl _ \<Rightarrow> rolls ?K h0 UNIV | Inr _ \<Rightarrow> rolls ?K h0 {AllUp})) (?finish r)
        (\<lambda>r. case r of Inl _ \<Rightarrow> rolls ?K h0 UNIV | Inr _ \<Rightarrow> rolls ?K h0 {AllUp})" for r
    proof (cases r)
      case (Inl err)
      have "post (rolls ?K h0 UNIV) (do { _ \<leftarrow> signalUpgradeFailed E c v; fail err })
          (\<lambda>r. case r of Inl _ \<Rightarrow> rolls ?K h0 UNIV | Inr _ \<Rightarrow> rolls ?K h0 {AllUp})" for v
        by (rule post_bind [OF post_quiet]) (auto intro!: emits_intro simp: post_def)
      then show ?thesis unfolding Inl by (auto intro!: post_if post_return split: option.split)
    next
      case (Inr x)
      then show ?thesis using rolling_quiet [OF quiet [of r], of "{AllUp}"] by (simp add: rolling_def)
    qed
    with rolling_ensurePods show ?thesis unfolding rolling_def by (rule post_bind)
  qed
  have policy: "rolling ?K h0 {AllUp} (bindE (ensureNetworkPolicy E c) (\<lambda>_. do { r \<leftarrow> ensurePods E c cm u; ?finish r })) {AllUp}" for cm
    by (rule rolling_quiet_bindE [OF _ _ pods]) (auto intro!: emits_intro)
  have config: "rolling ?K h0 {AllUp} (bindE (ensureConfigMap E c) (\<lambda>cm. bindE (ensureNetworkPolicy E c)
      (\<lambda>_. do { r \<leftarrow> ensurePods E c cm u; ?finish r }))) {AllUp}"
    by (rule rolling_quiet_bindE [OF _ _ policy]) (auto intro!: emits_intro)
  have service: "rolling ?K h0 {AllUp} (bindE (ensureService E c) (\<lambda>_. bindE (ensureConfigMap E c) (\<lambda>cm.
      bindE (ensureNetworkPolicy E c) (\<lambda>_. do { r \<leftarrow> ensurePods E c cm u; ?finish r })))) {AllUp}"
    by (rule rolling_quiet_bindE [OF _ _ config]) (auto intro!: emits_intro)
  show ?thesis
    unfolding reconcile_def
    by (rule rolling_quiet_bindE) (auto intro!: emits_intro rolling_ok service)
qed

lemma signal_same:
  "run_state (signalUpgradeStarted E c u) h = (s, h') \<Longrightarrow> asc_Spec (fst s) = asc_Spec c \<and> asc_Name (fst s) = asc_Name c"
  "run_state (signalBackupFinished E c) h = (s, h') \<Longrightarrow> asc_Spec (fst s) = asc_Spec c \<and> asc_Name (fst s) = asc_Name c"
  unfolding signal_defs by (cases s; auto dest!: patch_and_record_result)+

lemma rolling_MaybeReconcile:
  "rolling (pod_name c ` {0..<spec_NodeCount (asc_Spec c)}) h0 {AllUp} (MaybeReconcile E c) {AllUp}"
proof -
  let ?K = "pod_name c ` {0..<spec_NodeCount (asc_Spec c)}"
  have go_on: "rolling ?K h0 {AllUp} (reconcile E c' u) {AllUp}" if "asc_Spec c' = asc_Spec c" "asc_Name c' = asc_Name c" for c' u
    using rolling_reconcile [of c' h0 u] that by (simp add: pod_name_def)
  have upgrade: "rolling ?K h0 {AllUp} (do {
       s \<leftarrow> signalUpgradeStarted E c1 u;
       case s of (c2, r) \<Rightarrow> (case r of Inl err \<Rightarrow> fail err | Inr _ \<Rightarrow> reconcile E c2 (Some u)) }) {AllUp}"
    if "asc_Spec c1 = asc_Spec c" "asc_Name c1 = asc_Name c" for c1 u
  proof (rule rolling_bind_run [OF post_quiet])
    fix s h h'
    assume "run_state (signalUpgradeStarted E c1 u) h = (s, h')"
    then have "asc_Spec (fst s) = asc_Spec c" "asc_Name (fst s) = asc_Name c"
      using that signal_same(1) by auto
    then show "rolling ?K h0 {AllUp} (case s of (c2, r) \<Rightarrow>
        (case r of Inl err \<Rightarrow> fail err | Inr _ \<Rightarrow> reconcile E c2 (Some u))) {AllUp}"
      by (auto intro: go_on rolling_fail split: prod.split sum.split)
  qed (auto intro!: emits_intro)
  have finished: "rolling ?K h0 {AllUp} (do {
       s \<leftarrow> signalBackupFinished E c;
       case s of (c1, r) \<Rightarrow> (case r of Inl err \<Rightarrow> fail err | Inr _ \<Rightarrow> do {
         s \<leftarrow> signalUpgradeStarted E c1 u;
         case s of (c2, r) \<Rightarrow> (case r of Inl err \<Rightarrow> fail err | Inr _ \<Rightarrow> reconcile E c2 (Some u)) }) }) {AllUp}" for u
  proof (rule rolling_bind_run [OF post_quiet])
    fix s h h'
    assume "run_state (signalBackupFinished E c) h = (s, h')"
    then have "asc_Spec (fst s) = asc_Spec c" "asc_Name (fst s) = asc_Name c"
      using signal_same(2) by auto
    then show "rolling ?K h0 {AllUp} (case s of (c1, r) \<Rightarrow> (case r of Inl err \<Rightarrow> fail err | Inr _ \<Rightarrow> do {
         s \<leftarrow> signalUpgradeStarted E c1 u;
         case s of (c2, r) \<Rightarrow> (case r of Inl err \<Rightarrow> fail err | Inr _ \<Rightarrow> reconcile E c2 (Some u)) })) {AllUp}"
      by (auto intro: upgrade rolling_fail split: prod.split sum.split)
  qed (auto intro!: emits_intro)
  have "rolling ?K h0 {AllUp} (before_upgrade E c u (\<lambda>c'. reconcile E c' (Some u))) {AllUp}" for u
  proof -
    have begun: "rolling ?K h0 {AllUp} (do { s \<leftarrow> signalBackupStarted E c; case s of (c1, r) \<Rightarrow>
        (case r of Inl err \<Rightarrow> fail err | Inr _ \<Rightarrow> backupCluster E c1) }) {AllUp}"
      by (rule rolling_quiet) (auto intro!: emits_intro)
    have failed: "rolling ?K h0 {AllUp} (do { s \<leftarrow> signalBackupFailed E c; _ \<leftarrow> signalUpgradeFailed E (fst s) u; fail err }) {AllUp}"
      for err :: gerr by (rule rolling_quiet) (auto intro!: emits_intro)
    show ?thesis
      unfolding before_upgrade_def
      by (auto intro!: begun go_on rolling_bind_quiet [of ?K "isClusterBackupFinished E c"] emits_intro failed finished
          rolling_fail rolling_ok split: option.split sum.split)
  qed
  then show ?thesis
    unfolding MaybeReconcile_def
    by (auto intro!: rolling_liftE rolling_ok go_on split: option.split)
qed

end

section \<open>The property\<close>



interpretation live_names: named_pods "server_env c P" for c P
  by unfold_locales (auto dest: find_pod_some split: option.splits if_splits)




section \<open>A pod that is missing already\<close>

text \<open>
  The property counts what a pass takes down. That a pod of the cluster is missing when the pass
  starts does not hold back the restart of another: with the pod of index 1 gone and that of index 0
  on an old configuration, the running one is deleted before the missing one is created.
\<close>

fun pod_change :: "event \<Rightarrow> (bool \<times> string) option" where
  "pod_change (EvDeletePod ns n g r) = Some (False, n)"
| "pod_change (EvCreatePod p r) = Some (True, pod_Name p)"
| "pod_change e = None"

theorem restart_while_another_is_missing:
  "List.map_filter pod_change (new_calls (MaybeReconcile
      (env_running\<lparr>env_list_pods := (\<lambda>h ns l. Inr [running_pod ''c0-0'']),
         env_get_pod := (\<lambda>h ns n. if n = ''c0-1'' then Inl NotFound else Inr (running_pod n))\<rparr>)
      (updateStatus cluster0)) []) =
    [(False, ''c0-0''), (True, ''c0-0''), (True, ''c0-1'')]"
  by code_simp

end
