(* ===== verification/Spec2Isabelle.thy ===== *)
theory Spec2Isabelle
  imports AdmissionProperties PodProperties UpgradeProtocol SchemaProperties ToolProperties StartupProperties
    ControllerRun SteadyState ClusterLife Shutdown NodeConfig SelfHealing RollingRestart
begin

text \<open>
  A verification development for aerospike-operator, a Kubernetes operator written in Go that creates,
  scales, upgrades, backs up and restores Aerospike clusters.

  \<^bold>\<open>The program.\<close> Users write three kinds of resources: \<open>AerospikeCluster\<close>,
  \<open>AerospikeNamespaceBackup\<close> and \<open>AerospikeNamespaceRestore\<close>. An admission webhook
  (\<^verbatim>\<open>pkg/admission\<close>) decides which of them the API server may store. Controllers
  (\<^verbatim>\<open>pkg/controller\<close>) watch them and the objects they own, put their keys into work queues and
  hand each key to a handler: the reconciler (\<^verbatim>\<open>pkg/reconciler\<close>) for clusters, the handler of
  \<^verbatim>\<open>pkg/backuprestore\<close> for backups and restores, and that of \<^verbatim>\<open>pkg/garbagecollector\<close>
  for expired backups and claims. The reconciler turns a cluster into a service, a config map, a network
  policy, one pod per node and one persistent volume claim per pod and namespace; an upgrade is preceded by
  a backup of every namespace and its progress is kept in an annotation of the cluster.

  \<^bold>\<open>The model.\<close> The operator keeps no state of its own between two runs of a handler: everything
  is read from and written to the API server, the nodes and cloud storage. A handler is therefore a function
  that is given an environment, the record \<open>env\<close> of \<^verbatim>\<open>KubeEnv\<close>, and runs in the state monad over
  the history of the calls made so far. Each field of \<open>env\<close> is a parameter that stands for code outside the
  repository (clientsets, listers, the Aerospike client, the cloud storage client, the clock, hashes,
  quantities, keys); its answer may depend on the whole history, so a theorem for every environment covers
  every interleaving with other writers, stale listers and failures of any call. A property of what a run does
  is a property of the events it appends: \<open>emits P m\<close> (every call of \<open>m\<close> satisfies \<open>P\<close>), \<open>guarded_run\<close>
  (every call of one sort is preceded by an answer of another), \<open>avoids\<close> (an error is never returned). Errors
  are values of \<open>gerr\<close> in a sum type; a nil dereference that the code can reach is the error \<open>NilPanic\<close>. A
  nilable pointer is an option, a nilable map a \<open>gomap\<close>.

  \<^bold>\<open>The theories\<close>, and what they model:
  \<^item> \<^verbatim>\<open>Prelude\<close>: errors, the monad, loops, \<open>emits\<close>, \<open>guarded_run\<close>, \<open>avoids\<close> and the
    collection \<open>emits_intro\<close> by which the component proofs are carried.
  \<^item> \<^verbatim>\<open>GoStd\<close>: what is used of Go's strings and strconv. \<^verbatim>\<open>KubeTypes\<close>, \<^verbatim>\<open>KubeEnv\<close>: the shape
    of Kubernetes objects, the events and the environment.
  \<^item> \<^verbatim>\<open>Versioning\<close>: \<^verbatim>\<open>pkg/versioning\<close>, with the order on versions. \<^verbatim>\<open>ApiTypes\<close>:
    \<^verbatim>\<open>pkg/apis/aerospike/common\<close> and \<^verbatim>\<open>v1alpha2\<close>; the Go interface \<open>BackupRestoreObject\<close> is a record
    of methods and the locale \<open>backup_restore_object\<close> its laws, interpreted for backups and for restores.
  \<^item> \<^verbatim>\<open>Admission\<close>: \<^verbatim>\<open>pkg/admission/cluster.go\<close> and \<^verbatim>\<open>backups.go\<close>.
  \<^item> \<^verbatim>\<open>Constants\<close>, \<^verbatim>\<open>Status\<close>, \<^verbatim>\<open>Pvcs\<close>, \<^verbatim>\<open>ConfigMaps\<close>, \<^verbatim>\<open>Resources\<close>, \<^verbatim>\<open>PodUtils\<close>,
    \<^verbatim>\<open>PodSpecs\<close>, \<^verbatim>\<open>Pods\<close>, \<^verbatim>\<open>ClusterBackups\<close>, \<^verbatim>\<open>Reconciler\<close>: the files of
    \<^verbatim>\<open>pkg/reconciler\<close> (constants.go; status.go and the signals of upgrades.go; pvc.go; configmap.go and
    the two templates; service.go and networkpolicy.go; podutils.go; pod.go; backups.go; validation.go and
    cluster.go), with \<^verbatim>\<open>pkg/asutils\<close>, \<^verbatim>\<open>pkg/utils\<close> and \<^verbatim>\<open>cmd/asinit\<close>.
  \<^item> \<^verbatim>\<open>BackupRestore\<close>: \<^verbatim>\<open>pkg/backuprestore\<close>. \<^verbatim>\<open>GarbageCollector\<close>:
    \<^verbatim>\<open>pkg/garbagecollector\<close>. \<^verbatim>\<open>Controllers\<close>: the queue items, event handlers and
    dispatch of \<^verbatim>\<open>pkg/controller\<close>. \<^verbatim>\<open>ControllerRun\<close>: its constructors and \<open>Run\<close>, and the four
    controllers with their workers as one transition system \<open>operator_step\<close>.
  \<^item> \<^verbatim>\<open>Json\<close>, \<^verbatim>\<open>ApiJson\<close>, \<^verbatim>\<open>Schemas\<close>: JSON values and the OpenAPI schemas that are used; the
    types of \<^verbatim>\<open>v1alpha1\<close> and the JSON form of both versions after the struct tags; the resource
    definitions of \<^verbatim>\<open>pkg/crd/crds.go\<close>.
  \<^item> \<^verbatim>\<open>SetupEnv\<close>, \<^verbatim>\<open>Registry\<close>, \<^verbatim>\<open>WebhookServer\<close>, \<^verbatim>\<open>Operator\<close>: the environment of the start of
    the operator, as the record \<open>setup_env\<close>; \<^verbatim>\<open>pkg/crd/registry.go\<close> and the converters, which are one
    function over three types of objects, with the locale \<open>stored_objects\<close> for what they rely on;
    \<^verbatim>\<open>pkg/admission/webhook.go\<close>; \<^verbatim>\<open>cmd/operator/main.go\<close>.
  \<^item> \<^verbatim>\<open>BackupTool\<close>: \<^verbatim>\<open>cmd/backup/main.go\<close> with the transfers of
    \<^verbatim>\<open>pkg/backuprestore/gcs\<close>, \<^verbatim>\<open>pkg/utils/flags\<close> and the parsing of flags.
  \<^item> \<^verbatim>\<open>PodFacts\<close>: lemmas on the effects of \<^verbatim>\<open>Pods\<close>. \<^verbatim>\<open>UpgradeProtocol\<close>: the abstract machine of
    upgrades \<open>upgrade_step\<close>, and the refinement. \<^verbatim>\<open>Examples\<close>: concrete environments and objects on
    which witnesses run the model.
  \<^item> \<^verbatim>\<open>PodStore\<close>, \<^verbatim>\<open>WorkingNodes\<close>, \<^verbatim>\<open>ApiServer\<close>: a server and nodes that work, as three locales
    over the environment. The laws of the first are those of a store of pods that is the history of calls
    played back (a listing is complete, a created pod is there and becomes ready, a deleted one is gone); of the
    second, those of the nodes of these pods (they can be asked, migrations end, the version is that of the
    image); of the third, those of the other objects. \<^verbatim>\<open>LiveServer\<close> interprets them on an environment that
    is computed from the history. \<^verbatim>\<open>SteadyState\<close>: what the reconciler reaches there.
    \<^verbatim>\<open>SelfHealing\<close>: the controllers put together with it, from the event of a pod to the pods the spec asks
    for. \<^verbatim>\<open>RollingRestart\<close>: a monitor over the calls of a pass, \<open>one_at_a_time\<close>, its rules for the
    operations on pods, and the locale \<open>named_pods\<close> for what they rely on.
  \<^item> \<^verbatim>\<open>ClusterLife\<close>: the objects a cluster is, one after the other, under what the webhook admits and the
    operator writes. \<^verbatim>\<open>NodeConfig\<close>: the program of \<^verbatim>\<open>cmd/asinit\<close> and the configuration of a node from
    the spec to the file. \<^verbatim>\<open>Shutdown\<close>: \<^verbatim>\<open>pkg/signals\<close>, and the process with its signals, its leader
    election and its controllers as one transition system \<open>proc_step\<close>.
  \<^item> \<^verbatim>\<open>AdmissionProperties\<close>, \<^verbatim>\<open>PodProperties\<close>, \<^verbatim>\<open>SchemaProperties\<close>, \<^verbatim>\<open>ToolProperties\<close>,
    \<^verbatim>\<open>StartupProperties\<close>, \<^verbatim>\<open>UpgradeProtocol\<close>, \<^verbatim>\<open>ControllerRun\<close>, \<^verbatim>\<open>SteadyState\<close>, \<^verbatim>\<open>ClusterLife\<close>,
    \<^verbatim>\<open>NodeConfig\<close>, \<^verbatim>\<open>Shutdown\<close>, \<^verbatim>\<open>SelfHealing\<close>, \<^verbatim>\<open>RollingRestart\<close> and this theory: the properties, numbered by importance from C1 on.

  \<^bold>\<open>What is shown.\<close> Of the whole: from whatever pods it finds, a pass of the reconciler
  on a server and nodes that work reaches the state the spec asks for and stays there (C4), a change of a
  pod sets off such a pass (C9), an upgrade completes (C5), whatever users and operator write no cluster
  gets an upgrade that cannot be carried out (C8), a node starts with the configuration described line by
  line (C14), and a restore gets what was backed up (C12). Of upgrades, in any environment: no pod or claim
  is touched before all backups are finished (C1), every reconciliation follows the abstract protocol (C3),
  the recorded version never runs ahead of the pods (C10), the first pass creates the backups (C15), a
  failed one stops the upgrade (C16), an upgraded pod's claims are recreated when they must be (C27). Of the
  process: what its history may contain (C2), its workers (C20), the order of the start (C17) and how it
  ends (C21). Of pods: they go down one at a time (C7), deletion only after migrations (C6) and after
  unmounting (C13). Of claims: C24, C25. Of backups and restores: the handler (C11, C26) and the tool that
  its jobs run (C23). Of admission: C19, C30, C32. Of schemas, conversion and the webhook: C18, C22, C28,
  C29, C31. Some properties record behaviour that is not what the code means to do: C33, C34, C35, C36, C37,
  C38, C39 and C40. Further theorems, on rollout, the version of upgraded pods, creation, the config map,
  the network policy and the backups of upgrades, stand beside them.

  \<^bold>\<open>Bounds and fuel.\<close> The loops of the model are structural, over the lists the environment answers with, but
  for \<open>WaitReady\<close>, which gets a number of ticks: C29 shows that one more than the number of readings it takes
  for the endpoints to appear is enough, and lemma \<open>wait_ready_never_times_out\<close> that no number is enough
  when they never do. Two loops of the code wait for the outside: the watch of \<open>waitForPodCondition\<close> gets the
  finite list of events that arrive before the watch ends, and \<open>ensureClusterSize\<close> the number of ticks before
  its timer fires; both are answers of the environment, of any length. Go's \<open>int\<close> is kept in its 64-bit range
  where it is computed with (\<open>wrap64\<close>, \<open>atoi\<close>), \<open>int32\<close> where it is decoded; quantities are thousandths of a
  unit.

  \<^bold>\<open>Simplifications.\<close> The goroutines that report progress are reduced to their first and last event; the info
  commands sent to all pods at once after a deletion are sent one after the other. In \<open>operator_step\<close> a
  handler runs in one step; its calls can be told anything in between, since the answers of the environment
  are arbitrary. A Go map is ranged over in the order of the list it was made from, where the order only
  decides which of several errors is reported. Sorting is stable, where \<open>sort.Sort\<close> promises nothing on equal
  keys. Log lines are dropped and events keep their type and reason. The library loop \<open>UntilWithSync\<close> is
  written out as documented: it gives the events to the condition one by one until it is satisfied or fails.
  The work queue, the informers and leader election are steps or answers that are left as open as their
  documentation leaves them. Regular expressions are a parameter of \<open>conforms\<close>.

  \<^bold>\<open>Not modelled.\<close> List types and the registration of types with a scheme, the TCP listener of the webhook,
  the broadcasters of events, log fields, the constructors that only store their arguments, helpers that make a
  pointer or a field selector, the generator of the OpenAPI document, and the tests.
\<close>

section \<open>Reconciliation and upgrades\<close>

text \<open>
  A cluster whose last upgrade has failed is left alone: reconciling it makes no call at all and
  succeeds.
\<close>

theorem failed_upgrade_frozen:
  assumes "upgrade_status c = Some UpgradeStatusFailedAnnotationValue"
  shows "run_state (MaybeReconcile E c) h = (Inr (), h)"
  using assms by (simp add: MaybeReconcile_def upgrade_status_def)

theorem failed_upgrade_frozen_witness:
  "run_state (MaybeReconcile env0 (in_upgrade ''failed'')) [EvNow] = (Inr (), [EvNow])"
  by (rule failed_upgrade_frozen)
    (simp add: in_upgrade_def UpgradeStatusFailedAnnotationValue_def)

definition backed_up_first :: "env \<Rightarrow> AerospikeCluster \<Rightarrow> event \<Rightarrow> bool" where
  "backed_up_first E c e \<longleftrightarrow> (touches_nodes e \<longrightarrow> upgrade_status c \<noteq> None \<and> backups_complete E c)"

text \<open>
  C1: while an upgrade has not got past its backup phase, reconciliation creates or deletes no pod and
  no claim unless every namespace's backup for this very upgrade has been read as finished; on the first
  pass, before the phase is even recorded, it touches none at all.
\<close>

theorem nodes_untouched_before_backup:
  assumes "upgrade_of c = Inr (Some u)"
    and "upgrade_status c = None \<or> upgrade_status c = Some UpgradeStatusBackupAnnotationValue"
  shows "emits (backed_up_first E c) (MaybeReconcile E c)"
proof -
  have "upgrade_status c \<noteq> Some UpgradeStatusFailedAnnotationValue"
    using assms(2) by (auto simp: upgrade_annotation_values)
  moreover have "emits (backed_up_first E c) (before_upgrade E c u (\<lambda>c'. reconcile E c' (Some u)))"
    unfolding backed_up_first_def by (rule before_upgrade_gate [OF emits_any_reconcile assms(2)])
  ultimately show ?thesis
    using assms(1) by (simp add: MaybeReconcile_def upgrade_status_def liftE_def)
qed

theorem nodes_untouched_before_backup_witness: "emits (backed_up_first env0 cluster0) (MaybeReconcile env0 cluster0)"
proof (rule nodes_untouched_before_backup)
  show "upgrade_of cluster0 = Inr (Some \<lparr>Source = Version 4 1 0 1, Target = Version 4 2 0 3\<rparr>)"
    by code_simp
  show "upgrade_status cluster0 = None \<or> upgrade_status cluster0 = Some UpgradeStatusBackupAnnotationValue"
    by code_simp
qed

definition backups_requested :: "AerospikeCluster \<Rightarrow> event list \<Rightarrow> bool" where
  "backups_requested c es \<longleftrightarrow>
     (\<forall>ns \<in> set (spec_Namespaces (asc_Spec c)). \<exists>b.
        EvCreateBackup b True \<in> set es \<and> om_Name (asnb_Meta b) = upgrade_backup_name c (ns_Name ns) \<and>
        om_Namespace (asnb_Meta b) = asc_Namespace c \<and>
        bk_Target (asnb_Spec b) = \<lparr>tn_Cluster = asc_Name c, tn_Namespace = ns_Name ns\<rparr>)"

lemma createNamespaceBackup_ok:
  "run_state (createNamespaceBackup E c ns) h = (Inr x, h') \<Longrightarrow>
     \<exists>spec. h' = h @ [EvCreateBackup (namespace_backup c ns spec) True]"
  by (auto simp: createNamespaceBackup_def map_sum_def split: option.splits sum.splits)

lemma backupCluster_ok:
  assumes "run_state (backupCluster E c) h = (Inr x, h')"
  shows "backups_requested c (drop (length h) h')"
  unfolding backups_requested_def
proof
  fix ns
  assume ns: "ns \<in> set (spec_Namespaces (asc_Spec c))"
  have "emits (\<lambda>_. True) (createNamespaceBackup E c (ns_Name n))" for n
    unfolding createNamespaceBackup_def by (auto intro!: emits_intro)
  from forE_ok [OF this assms [unfolded backupCluster_def] ns] obtain es es1 es2 where
    run: "run_state (createNamespaceBackup E c (ns_Name ns)) (h @ es) = (Inr (), h @ es @ es1)"
    and h': "h' = h @ es @ es1 @ es2" by blast
  from createNamespaceBackup_ok [OF run] obtain spec where
    "es1 = [EvCreateBackup (namespace_backup c (ns_Name ns) spec) True]" by auto
  then show "\<exists>b. EvCreateBackup b True \<in> set (drop (length h) h') \<and>
      om_Name (asnb_Meta b) = upgrade_backup_name c (ns_Name ns) \<and>
      om_Namespace (asnb_Meta b) = asc_Namespace c \<and>
      bk_Target (asnb_Spec b) = \<lparr>tn_Cluster = asc_Name c, tn_Namespace = ns_Name ns\<rparr>"
    by (intro exI [of _ "namespace_backup c (ns_Name ns) spec"])
      (simp add: h' namespace_backup_def Let_def zero_meta_def)
qed

lemma backups_requested_mono:
  "backups_requested c es \<Longrightarrow> set es \<subseteq> set es' \<Longrightarrow> backups_requested c es'"
  unfolding backups_requested_def by blast

lemma signalBackupStarted_keeps:
  assumes "run_state (signalBackupStarted E c) h = ((c', r), h')"
  shows "asc_Name c' = asc_Name c \<and> asc_Namespace c' = asc_Namespace c \<and> asc_Spec c' = asc_Spec c \<and>
    status_Spec (asc_Status c') = status_Spec (asc_Status c)"
  using assms unfolding signal_defs by (auto dest!: patch_and_record_result)

text \<open>
  C15: the first pass of an upgrade, when it succeeds, has created a backup of every namespace, under the
  name by which the later passes look for it, targeting that namespace of this cluster.
\<close>

theorem upgrade_starts_with_backups:
  assumes "upgrade_of c = Inr (Some u)" and "upgrade_status c = None"
    and "run_state (MaybeReconcile E c) h = (Inr x, h')"
  shows "backups_requested c (drop (length h) h')"
proof -
  obtain c1 r h1 where sig: "run_state (signalBackupStarted E c) h = ((c1, r), h1)" by (metis prod.exhaust)
  then have "run_state (backupCluster E c1) h1 = (Inr x, h')"
    using assms
    by (auto simp: MaybeReconcile_def upgrade_status_def before_upgrade_def split: sum.splits)
  then have requested: "backups_requested c1 (drop (length h1) h')" by (rule backupCluster_ok)
  have "emits (\<lambda>_. True) (signalBackupStarted E c)" by (auto intro!: emits_intro)
  from emits_extends [OF this sig] obtain es where h1: "h1 = h @ es" by blast
  have "set (drop (length h1) h') \<subseteq> set (drop (length h) h')" by (rule subsetI, rule drop_prefix [OF h1])
  with requested have "backups_requested c1 (drop (length h) h')" by (rule backups_requested_mono)
  then show ?thesis using signalBackupStarted_keeps [OF sig] by (simp add: backups_requested_def)
qed

theorem upgrade_starts_with_backups_witness: "\<exists>es. backups_requested cluster0 es"
proof -
  let ?run = "run_state (MaybeReconcile env0 cluster0) []"
  have "is_ok (fst ?run)" by code_simp
  then have "?run = (Inr (), snd ?run)" by (cases "fst ?run") (auto simp: prod_eq_iff)
  moreover have "upgrade_of cluster0 = Inr (Some \<lparr>Source = Version 4 1 0 1, Target = Version 4 2 0 3\<rparr>)"
    "upgrade_status cluster0 = None" by code_simp+
  ultimately show ?thesis using upgrade_starts_with_backups by blast
qed






section \<open>Backups and restores\<close>



lemma Backup_methods_simps [simp]:
  "GetOperationType Backup_methods = OperationTypeBackup"
  "GetObjectMeta Backup_methods = asnb_Meta"
  "GetStorage Backup_methods b = bk_Storage (asnb_Spec b)"
  "GetConditions Backup_methods b = bks_Conditions (asnb_Status b)"
  "GetFinishedConditionType Backup_methods = ConditionBackupFinished"
  "assert_backup Backup_methods b = Some b"
  by (simp_all add: Backup_methods_def)




section \<open>Garbage collection\<close>

definition only_if_expired :: "env \<Rightarrow> AerospikeNamespaceBackup \<Rightarrow> event \<Rightarrow> bool" where
  "only_if_expired E b e \<longleftrightarrow> (writes e \<longrightarrow> backup_expired E b)"

text \<open>
  The garbage collector changes something on account of a backup only when that backup has expired:
  a non-zero time to live, its own or its cluster's, has run out since its creation at a reading of the
  clock.
\<close>

theorem backups_collected_after_expiry: "emits (only_if_expired E b) (Backup_Handle E b)"
  unfolding only_if_expired_def by (rule Backup_Handle_expired)

definition env_no_bucket :: env where
  "env_no_bucket = env0\<lparr>env_bucket_attrs := (\<lambda>h b. Inl ''no access'')\<rparr>"

text \<open>
  The backup resource is deleted even when its data could not be: with a bucket that cannot be read,
  the collector succeeds, deletes the resource and leaves the objects in cloud storage behind, and nothing
  refers to them any more.
\<close>

theorem backup_data_can_leak:
  "is_ok (fst (run_state (Backup_Handle env_no_bucket backup0) [])) \<and>
   list_ex (\<lambda>e. case e of EvDeleteBackup ns n b \<Rightarrow> ns = ''k'' \<and> n = ''b0'' \<and> b | _ \<Rightarrow> False)
     (snd (run_state (Backup_Handle env_no_bucket backup0) [])) \<and>
   \<not> list_ex (\<lambda>e. case e of EvDeleteObject _ _ _ \<Rightarrow> True | _ \<Rightarrow> False)
     (snd (run_state (Backup_Handle env_no_bucket backup0) []))"
  by code_simp

fun deletes_claim :: "event \<Rightarrow> bool" where
  "deletes_claim (EvDeletePVC _ _ _) = True"
| "deletes_claim _ = False"

definition collectable :: "env \<Rightarrow> PersistentVolumeClaim \<Rightarrow> int \<Rightarrow> bool" where
  "collectable E pvc now \<longleftrightarrow>
     lease_over E pvc now \<and> \<not> reusable E now pvc \<and>
     (\<exists>podName h. pvc_Annotation pvc PodAnnotation = Some podName \<and>
        (env_get_pod E h (om_Namespace (pvc_Meta pvc)) podName = Inl NotFound \<or>
         (\<exists>pod. env_get_pod E h (om_Namespace (pvc_Meta pvc)) podName = Inr pod \<and>
            \<not> mounts_claim pod (pvc_Name pvc))))"

text \<open>
  C25: the garbage collector deletes a claim only when the claim was unmounted, its time to live has run
  out, and its pod is gone or does not mount it; at the reading of the clock on which the collector decides,
  the reconciler would not reuse the claim.
\<close>

theorem claims_collected_after_lease:
  assumes "run_state (PVC_Handle E pvc) h = (r, h')" and "EvDeletePVC ns n b \<in> set (drop (length h) h')"
  shows "ns = om_Namespace (pvc_Meta pvc) \<and> n = pvc_Name pvc \<and> collectable E pvc (env_now E h)"
  using PVC_Handle_deletes [OF assms] lease_over_not_reusable unfolding collectable_def by blast

theorem claims_collected_after_lease_witness: "collectable env0 claim0 9"
proof -
  let ?run = "run_state (PVC_Handle env0 claim0) []"
  have "list_ex deletes_claim (snd ?run)" by code_simp
  then obtain e where e: "e \<in> set (snd ?run)" "deletes_claim e" unfolding list_ex_iff by blast
  from e(2) obtain ns n b where "e = EvDeletePVC ns n b" by (cases e) simp_all
  with e(1) have "EvDeletePVC ns n b \<in> set (drop (length []) (snd ?run))" by simp
  moreover have "?run = (fst ?run, snd ?run)" by simp
  ultimately have "collectable env0 claim0 (env_now env0 [])"
    using claims_collected_after_lease by blast
  then show ?thesis by (simp add: env0_def)
qed

section \<open>Controllers\<close>

definition queue_protocol :: "(string \<Rightarrow> unit acte) \<Rightarrow> string \<Rightarrow> history \<Rightarrow> bool" where
  "queue_protocol handler key h \<longleftrightarrow>
     (let calls = fst (run_state (processNextWorkItem handler (StringItem key)) h) in
      (QForget (StringItem key) \<in> set calls \<longleftrightarrow> is_ok (fst (run_state (handler key) h))) \<and>
      last calls = QDone (StringItem key) \<and> (\<forall>k. QAddRateLimited k \<notin> set calls))"

text \<open>
  What happens to an item of a work queue. Exactly the items whose handler succeeded are forgotten,
  every item is marked done, and the loop itself never puts an item back, so that after an error only a
  later event or resync brings the key again.
\<close>

theorem queue_items_not_requeued: "queue_protocol handler key h"
  by (auto simp: queue_protocol_def processNextWorkItem_def Let_def is_ok_def split: prod.splits sum.splits)

text \<open>What the garbage collector does with the object that a key names.\<close>

definition collects :: "env \<Rightarrow> string \<Rightarrow> ObjectMeta \<Rightarrow> bool" where
  "collects E key m \<longleftrightarrow>
     GC_processQueueItem E (asnbPrefix @ '':'' @ key) = do {
       r \<leftarrow> Backups_Get E (om_Namespace m) (om_Name m);
       case r of Inl err \<Rightarrow> if IsNotFound err then ok () else fail err | Inr b \<Rightarrow> Backup_Handle E b
     } \<and>
     GC_processQueueItem E (pvcPrefix @ '':'' @ key) = do {
       r \<leftarrow> PVCs_Get E (om_Namespace m) (om_Name m);
       case r of Inl err \<Rightarrow> if IsNotFound err then ok () else fail err | Inr pvc \<Rightarrow> PVC_Handle E pvc
     }"

text \<open>
  The key the garbage collector enqueues for an object is taken apart again into the handler for its
  kind and that very object: a backup's key runs the collection of the backup that is read under its
  namespace and name, a claim's key that of the claim.
\<close>

theorem collector_keys_route:
  assumes "keys_roundtrip E m key"
  shows "enqueueWithPrefix E m asnbPrefix = [QAddRateLimited (asnbPrefix @ '':'' @ key)] \<and>
    enqueueWithPrefix E m pvcPrefix = [QAddRateLimited (pvcPrefix @ '':'' @ key)] \<and> collects E key m"
proof -
  have "CHR '':'' \<notin> set asnbPrefix" "CHR '':'' \<notin> set pvcPrefix" "pvcPrefix \<noteq> asnbPrefix"
    by (simp_all add: asnbPrefix_def pvcPrefix_def)
  then show ?thesis
    using assms
    by (simp add: collects_def GC_processQueueItem_def enqueueWithPrefix_def keys_roundtrip_def
        split_prefixed del: append.simps)
qed

theorem collector_keys_route_witness: "collects env0 ''k/claim'' (pvc_Meta claim0)"
proof -
  have "keys_roundtrip env0 (pvc_Meta claim0) ''k/claim''"
    by (simp add: keys_roundtrip_def claim0_def zero_meta_def env0_def)
  from collector_keys_route [OF this] show ?thesis by blast
qed

end
